(* ===== verification/Prelude.thy ===== *)
theory Prelude
  imports Main "HOL-Library.Word" "HOL-Library.Sublist"
begin

text \<open>
  The prelude of the development: Go's error values, results and nilable slices, the
  collections of facts the component theories fill (\<open>go_defs\<close> for definitions that are
  always unfolded, \<open>go_const\<close> for the string constants of the source), and the generic list
  lemmas the components share.

  A Go \<open>string\<close> or \<open>[]byte\<close> is an Isabelle \<^typ>\<open>string\<close>: both are sequences of bytes, since a
  \<^typ>\<open>char\<close> is eight bits.  A Go \<open>int\<close> (64 bits) is an \<^typ>\<open>int\<close> whose range is written out
  wherever the code can leave it.
\<close>

unbundle bit_operations_syntax

named_theorems go_defs
named_theorems go_const

section \<open>Errors and results\<close>

text \<open>
  An \<open>error\<close> value of the program: a \<open>*config.ValidationError\<close> with its reasons, an operating
  system error that satisfies \<open>errors.Is(err, os.ErrNotExist)\<close>, any other error by its text,
  or the result of \<open>fmt.Errorf("pre%wpost", err)\<close>.
\<close>

datatype goerr =
    ValidationError "string list"
  | NotExist string
  | ErrorString string
  | WrapError string goerr string

type_synonym 'a res = "goerr + 'a"

text \<open>A nilable slice: \<^term>\<open>None\<close> is Go's \<open>nil\<close>, which encodes to JSON \<open>null\<close>.\<close>

type_synonym 'a slice = "'a list option"

definition elems :: "'a slice \<Rightarrow> 'a list" where
  "elems s = (case s of None \<Rightarrow> [] | Some xs \<Rightarrow> xs)"

lemma elems_simps [simp]: "elems None = []" "elems (Some xs) = xs"
  by (simp_all add: elems_def)

text \<open>\<open>append([]T(nil), s...)\<close>: a copy that is nil when there is nothing to copy.\<close>

definition copy_slice :: "'a slice \<Rightarrow> 'a slice" where
  "copy_slice s = (if elems s = [] then None else Some (elems s))"

lemma elems_copy_slice [simp]: "elems (copy_slice s) = elems s"
  by (simp add: copy_slice_def)

lemma copy_slice_idem [simp]: "copy_slice (copy_slice s) = copy_slice s"
  by (simp add: copy_slice_def)

text \<open>\<open>if s == nil { s = []T{} }\<close>.\<close>

definition non_nil :: "'a slice \<Rightarrow> 'a slice" where
  "non_nil s = Some (elems s)"

lemma non_nil_simps [simp]:
  "elems (non_nil s) = elems s" "non_nil (non_nil s) = non_nil s"
  "non_nil (copy_slice s) = non_nil s" "non_nil (Some xs) = Some xs" "non_nil None = Some []"
  by (simp_all add: non_nil_def)

section \<open>Lists\<close>

definition containsString :: "string list \<Rightarrow> string \<Rightarrow> bool" where
  "containsString values target = list_ex (\<lambda>value. value = target) values"

lemma containsString_iff [simp]: "containsString values target \<longleftrightarrow> target \<in> set values"
  by (induction "values") (auto simp: containsString_def)

text \<open>Appending each element that is not there yet, in order.\<close>

fun append_new :: "'a list \<Rightarrow> 'a list \<Rightarrow> 'a list" where
  "append_new acc [] = acc"
| "append_new acc (x # xs) = append_new (if x \<in> set acc then acc else acc @ [x]) xs"

lemma set_append_new [simp]: "set (append_new acc xs) = set acc \<union> set xs"
  by (induction acc xs rule: append_new.induct) auto

lemma distinct_append_new [simp]: "distinct (append_new acc xs) = distinct acc"
  by (induction acc xs rule: append_new.induct) auto

lemma append_new_prefix: "\<exists>ys. append_new acc xs = acc @ ys"
proof (induction acc xs rule: append_new.induct)
  case (1 acc)
  show ?case by simp
next
  case (2 acc x xs)
  then show ?case by (auto split: if_splits)
qed

lemma append_new_eq_Nil [simp]: "append_new acc xs = [] \<longleftrightarrow> acc = [] \<and> xs = []"
  by (induction acc xs rule: append_new.induct) auto

lemma find_append:
  "find P (xs @ ys) = (case find P xs of None \<Rightarrow> find P ys | Some x \<Rightarrow> Some x)"
  by (induction xs) auto

lemma find_SomeD: "find P xs = Some x \<Longrightarrow> x \<in> set xs \<and> P x"
  by (induction xs) (auto split: if_splits)

lemma distinct_map_eqD:
  "distinct (map f xs) \<Longrightarrow> x \<in> set xs \<Longrightarrow> y \<in> set xs \<Longrightarrow> f x = f y \<Longrightarrow> x = y"
  by (auto simp: distinct_map inj_on_def)

lemma length_drop_less: "s \<noteq> [] \<Longrightarrow> 0 < n \<Longrightarrow> length (drop n s) < length s"
  by (cases s) auto

end
