(* ===== verification/GoStrings.thy ===== *)
theory GoStrings
  imports Prelude
begin

text \<open>
  The functions of Go's \<open>strings\<close>, \<open>strconv\<close>, \<open>errors\<close> and \<open>fmt\<close> packages that the program
  calls, on byte strings: trimming and splitting, decimal conversion, quoting, error texts.
\<close>

section \<open>White space\<close>

text \<open>
  The UTF-8 encodings of the runes for which \<open>unicode.IsSpace\<close> holds.  The lead byte of
  an encoding never continues another one, so a scan that looks for these byte sequences finds
  exactly the runes that Go's rune-wise scan finds, in malformed input as well.
\<close>

definition ascii_spaces :: "char list" where
  "ascii_spaces = [CHR 0x09, CHR 0x0A, CHR 0x0B, CHR 0x0C, CHR 0x0D, CHR 0x20]"

definition wide_spaces :: "string list" where
  "wide_spaces =
     [[CHR 0xC2, CHR 0x85], [CHR 0xC2, CHR 0xA0], [CHR 0xE1, CHR 0x9A, CHR 0x80]]
     @ map (\<lambda>c. [CHR 0xE2, CHR 0x80, c])
         [CHR 0x80, CHR 0x81, CHR 0x82, CHR 0x83, CHR 0x84, CHR 0x85, CHR 0x86, CHR 0x87,
          CHR 0x88, CHR 0x89, CHR 0x8A, CHR 0xA8, CHR 0xA9, CHR 0xAF]
     @ [[CHR 0xE2, CHR 0x81, CHR 0x9F], [CHR 0xE3, CHR 0x80, CHR 0x80]]"

text \<open>The length of the white space rune at the start (at the end) of a string, or 0.\<close>

definition space_prefix :: "string \<Rightarrow> nat" where
  "space_prefix s =
     (case s of [] \<Rightarrow> 0
      | c # _ \<Rightarrow> if c \<in> set ascii_spaces then 1
                 else (case find (\<lambda>w. prefix w s) wide_spaces of None \<Rightarrow> 0 | Some w \<Rightarrow> length w))"

definition space_suffix :: "string \<Rightarrow> nat" where
  "space_suffix s =
     (case rev s of [] \<Rightarrow> 0
      | c # _ \<Rightarrow> if c \<in> set ascii_spaces then 1
                 else (case find (\<lambda>w. prefix (rev w) (rev s)) wide_spaces of
                         None \<Rightarrow> 0 | Some w \<Rightarrow> length w))"

lemma space_prefix_pos: "0 < space_prefix s \<Longrightarrow> s \<noteq> []"
  by (auto simp: space_prefix_def)

lemma space_suffix_pos: "0 < space_suffix s \<Longrightarrow> s \<noteq> []"
  by (auto simp: space_suffix_def)

text \<open>\<open>strings.TrimSpace\<close>.\<close>

function TrimLeftSpace :: "string \<Rightarrow> string" where
  "TrimLeftSpace s =
     (if space_prefix s = 0 then s else TrimLeftSpace (drop (space_prefix s) s))"
  by pat_completeness auto
termination
  by (relation "measure length") (auto dest: space_prefix_pos intro: diff_less)

function TrimRightSpace :: "string \<Rightarrow> string" where
  "TrimRightSpace s =
     (if space_suffix s = 0 then s else TrimRightSpace (take (length s - space_suffix s) s))"
  by pat_completeness auto
termination
proof (relation "measure length")
  fix s :: string
  assume "space_suffix s \<noteq> 0"
  then have "0 < length s" and "0 < space_suffix s"
    using space_suffix_pos [of s] by auto
  then show "(take (length s - space_suffix s) s, s) \<in> measure length"
    by simp
qed simp

declare TrimLeftSpace.simps [simp del] TrimRightSpace.simps [simp del]

definition TrimSpace :: "string \<Rightarrow> string" where
  "TrimSpace s = TrimRightSpace (TrimLeftSpace s)"

text \<open>The test that the program writes as \<open>strings.TrimSpace(s) == ""\<close>.\<close>

definition blank :: "string \<Rightarrow> bool" where
  "blank s \<longleftrightarrow> TrimSpace s = []"

lemma TrimLeftSpace_stop: "space_prefix s = 0 \<Longrightarrow> TrimLeftSpace s = s"
  by (simp add: TrimLeftSpace.simps)

lemma TrimRightSpace_stop: "space_suffix s = 0 \<Longrightarrow> TrimRightSpace s = s"
  by (simp add: TrimRightSpace.simps)

lemma TrimLeftSpace_no_space: "space_prefix (TrimLeftSpace s) = 0"
proof (induction s rule: TrimLeftSpace.induct)
  case (1 s)
  then show ?case by (simp add: TrimLeftSpace.simps [of s])
qed

lemma TrimRightSpace_no_space: "space_suffix (TrimRightSpace s) = 0"
proof (induction s rule: TrimRightSpace.induct)
  case (1 s)
  then show ?case by (simp add: TrimRightSpace.simps [of s])
qed

lemma TrimSpace_Nil [simp]: "TrimSpace [] = []"
  by (simp add: TrimSpace_def TrimLeftSpace.simps TrimRightSpace.simps space_prefix_def
      space_suffix_def)

lemma blank_Nil [simp]: "blank []"
  by (simp add: blank_def)

text \<open>A string of graphic ASCII characters is not changed by trimming.\<close>

definition graphic :: "char \<Rightarrow> bool" where
  "graphic c \<longleftrightarrow> 0x20 < (of_char c :: nat) \<and> (of_char c :: nat) < 0x7F"

lemma graphic_not_ascii_space: "graphic c \<Longrightarrow> c \<notin> set ascii_spaces"
  by (auto simp: graphic_def ascii_spaces_def)

lemma wide_spaces_ends:
  "w \<in> set wide_spaces \<Longrightarrow> w \<noteq> [] \<and> \<not> graphic (hd w) \<and> \<not> graphic (last w)"
  by (auto simp: wide_spaces_def graphic_def)

lemma space_prefix_graphic:
  assumes "graphic c" shows "space_prefix (c # s) = 0"
proof -
  have "\<not> prefix w (c # s)" if "w \<in> set wide_spaces" for w
    using wide_spaces_ends [OF that] assms by (cases w) auto
  then have "find (\<lambda>w. prefix w (c # s)) wide_spaces = None"
    by (simp add: find_None_iff)
  with graphic_not_ascii_space [OF assms] show ?thesis
    by (simp add: space_prefix_def)
qed

lemma space_suffix_graphic:
  assumes "graphic c" shows "space_suffix (s @ [c]) = 0"
proof -
  have "\<not> prefix (rev w) (c # rev s)" if "w \<in> set wide_spaces" for w
    using wide_spaces_ends [OF that] assms by (cases w rule: rev_cases) auto
  then have "find (\<lambda>w. prefix (rev w) (c # rev s)) wide_spaces = None"
    by (simp add: find_None_iff)
  with graphic_not_ascii_space [OF assms] show ?thesis
    by (simp add: space_suffix_def)
qed

lemma TrimSpace_graphic:
  assumes "list_all graphic s" shows "TrimSpace s = s"
proof (cases s rule: rev_cases)
  case Nil
  then show ?thesis by simp
next
  case (snoc t c)
  then have c: "graphic c" using assms by simp
  have "space_prefix s = 0"
    using assms snoc by (cases t) (auto intro!: space_prefix_graphic)
  then show ?thesis
    by (simp add: TrimSpace_def TrimLeftSpace_stop TrimRightSpace_stop snoc
        space_suffix_graphic [OF c])
qed

lemma blank_graphic: "list_all graphic s \<Longrightarrow> blank s \<longleftrightarrow> s = []"
  by (simp add: blank_def TrimSpace_graphic)

lemmas trim_eval = TrimSpace_graphic blank_graphic graphic_def

section \<open>Splitting and joining\<close>

text \<open>\<open>strings.Split(s, "c")\<close> for a separator of one byte.\<close>

fun SplitChar :: "char \<Rightarrow> string \<Rightarrow> string list" where
  "SplitChar sep [] = [[]]"
| "SplitChar sep (c # s) =
     (if c = sep then [] # SplitChar sep s
      else (case SplitChar sep s of [] \<Rightarrow> [[c]] | l # ls \<Rightarrow> (c # l) # ls))"

lemma SplitChar_not_Nil [simp]: "SplitChar sep s \<noteq> []"
  by (cases s) (auto split: list.splits)

lemma SplitChar_no_sep: "sep \<notin> set s \<Longrightarrow> SplitChar sep s = [s]"
  by (induction s) auto

lemma SplitChar_append:
  "sep \<notin> set l \<Longrightarrow> SplitChar sep (l @ sep # s) = l # SplitChar sep s"
  by (induction l) auto

lemma SplitChar_no_sep_in: "l \<in> set (SplitChar sep s) \<Longrightarrow> sep \<notin> set l"
  by (induction s arbitrary: l) (auto split: if_splits list.splits)

text \<open>\<open>strings.Fields\<close>: the runs between white space runes.\<close>

function fields_from :: "string \<Rightarrow> string \<Rightarrow> string list" where
  "fields_from [] s =
     (if s = [] then []
      else if space_prefix s = 0 then fields_from [hd s] (tl s)
      else fields_from [] (drop (space_prefix s) s))"
| "fields_from (c # w) s =
     (if s = [] then [c # w]
      else if space_prefix s = 0 then fields_from (c # w @ [hd s]) (tl s)
      else (c # w) # fields_from [] (drop (space_prefix s) s))"
  by pat_completeness auto
termination
  by (relation "measure (\<lambda>(w, s). length s)") auto

declare fields_from.simps [simp del]

definition Fields :: "string \<Rightarrow> string list" where
  "Fields s = fields_from [] s"

text \<open>\<open>strings.Join\<close>.\<close>

fun Join :: "string list \<Rightarrow> string \<Rightarrow> string" where
  "Join [] sep = []"
| "Join [x] sep = x"
| "Join (x # y # xs) sep = x @ sep @ Join (y # xs) sep"

lemma Join_SplitChar: "Join (SplitChar sep s) [sep] = s"
proof (induction s)
  case Nil
  show ?case by simp
next
  case (Cons c s)
  then show ?case by (cases "SplitChar sep s"; cases "tl (SplitChar sep s)") auto
qed

section \<open>Decimal conversion\<close>

text \<open>\<open>strconv.Itoa\<close> and \<open>%d\<close>.\<close>

definition digit_char :: "nat \<Rightarrow> char" where
  "digit_char d = char_of (48 + d)"

fun nat_dec :: "nat \<Rightarrow> string" where
  "nat_dec n = (if n < 10 then [digit_char n] else nat_dec (n div 10) @ [digit_char (n mod 10)])"

declare nat_dec.simps [simp del]

definition Itoa :: "int \<Rightarrow> string" where
  "Itoa i = (if i < 0 then CHR ''-'' # nat_dec (nat (- i)) else nat_dec (nat i))"

definition is_digit :: "char \<Rightarrow> bool" where
  "is_digit c \<longleftrightarrow> 48 \<le> (of_char c :: nat) \<and> (of_char c :: nat) \<le> 57"

definition digit_val :: "char \<Rightarrow> nat" where
  "digit_val c = of_char c - 48"

definition dec_val :: "string \<Rightarrow> nat" where
  "dec_val s = foldl (\<lambda>n c. 10 * n + digit_val c) 0 s"

text \<open>The range of a 64-bit \<open>int\<close>.\<close>

definition int64_min :: int where "int64_min = - (2 ^ 63)"
definition int64_max :: int where "int64_max = 2 ^ 63 - 1"

definition in_int64 :: "int \<Rightarrow> bool" where
  "in_int64 i \<longleftrightarrow> int64_min \<le> i \<and> i \<le> int64_max"

text \<open>\<open>strconv.Atoi\<close>: an optional sign, then decimal digits, in the range of \<open>int\<close>.\<close>

definition Atoi :: "string \<Rightarrow> int option" where
  "Atoi s =
     (let (neg, ds) =
        (case s of [] \<Rightarrow> (False, [])
         | c # t \<Rightarrow> if c = CHR ''-'' then (True, t)
                    else if c = CHR ''+'' then (False, t) else (False, s))
      in if ds = [] \<or> \<not> list_all is_digit ds then None
         else let v = (if neg then - int (dec_val ds) else int (dec_val ds))
              in if in_int64 v then Some v else None)"

lemma of_char_digit_char: "d < 10 \<Longrightarrow> (of_char (digit_char d) :: nat) = 48 + d"
  by (simp add: digit_char_def)

lemma is_digit_digit_char: "d < 10 \<Longrightarrow> is_digit (digit_char d)"
  by (simp add: is_digit_def of_char_digit_char)

lemma digit_val_digit_char: "d < 10 \<Longrightarrow> digit_val (digit_char d) = d"
  by (simp add: digit_val_def of_char_digit_char)

lemma dec_val_snoc [simp]: "dec_val (s @ [c]) = 10 * dec_val s + digit_val c"
  by (simp add: dec_val_def)

lemma nat_dec_not_Nil [simp]: "nat_dec n \<noteq> []"
  by (subst nat_dec.simps) simp

lemma nat_dec_digits: "list_all is_digit (nat_dec n)"
proof (induction n rule: nat_dec.induct)
  case (1 n)
  then show ?case by (simp add: nat_dec.simps [of n] is_digit_digit_char)
qed

lemma dec_val_nat_dec [simp]: "dec_val (nat_dec n) = n"
proof (induction n rule: nat_dec.induct)
  case (1 n)
  show ?case
  proof (cases "n < 10")
    case True
    then show ?thesis
      by (simp add: nat_dec.simps [of n] dec_val_def digit_val_digit_char)
  next
    case False
    with 1 show ?thesis
      by (simp add: nat_dec.simps [of n] digit_val_digit_char)
  qed
qed

lemma nat_dec_inj [simp]: "nat_dec m = nat_dec n \<longleftrightarrow> m = n"
  by (metis dec_val_nat_dec)

lemma is_digit_graphic: "is_digit c \<Longrightarrow> graphic c"
  by (simp add: is_digit_def graphic_def)

lemma is_digit_not_sign: "is_digit c \<Longrightarrow> c \<noteq> CHR ''-'' \<and> c \<noteq> CHR ''+''"
  by (auto simp: is_digit_def)

lemma Atoi_nat_dec: "in_int64 (int n) \<Longrightarrow> Atoi (nat_dec n) = Some (int n)"
  using nat_dec_digits [of n] nat_dec_not_Nil [of n] dec_val_nat_dec [of n]
  by (cases "nat_dec n") (auto simp: Atoi_def dest: is_digit_not_sign simp del: nat_dec_not_Nil)

lemma Atoi_Itoa:
  assumes "in_int64 i" shows "Atoi (Itoa i) = Some i"
proof (cases "i < 0")
  case True
  then show ?thesis
    using assms nat_dec_digits [of "nat (- i)"] by (simp add: Itoa_def Atoi_def)
next
  case False
  then show ?thesis
    using assms Atoi_nat_dec [of "nat i"] by (simp add: Itoa_def)
qed

lemma Atoi_range: "Atoi s = Some i \<Longrightarrow> in_int64 i"
  by (auto simp: Atoi_def Let_def split: prod.splits if_splits)

section \<open>Quoting\<close>

text \<open>
  \<open>strconv.Quote\<close> and \<open>%q\<close> on ASCII: graphic characters and the blank as they are, the
  quote and the backslash escaped, the control characters by their escapes.  Bytes above 0x7F
  are copied, which is what Go does with the printable runes; its table of unprintable runes
  is not modelled.
\<close>

definition hex_digit :: "nat \<Rightarrow> char" where
  "hex_digit d = (if d < 10 then char_of (48 + d) else char_of (87 + d))"

definition quote_char :: "char \<Rightarrow> string" where
  "quote_char c =
     (let n = (of_char c :: nat)
      in if c = CHR 0x22 \<or> c = CHR 0x5C then [CHR 0x5C, c]
         else if n = 7 then [CHR 0x5C, CHR ''a''] else if n = 8 then [CHR 0x5C, CHR ''b'']
         else if n = 12 then [CHR 0x5C, CHR ''f''] else if n = 10 then [CHR 0x5C, CHR ''n'']
         else if n = 13 then [CHR 0x5C, CHR ''r''] else if n = 9 then [CHR 0x5C, CHR ''t'']
         else if n = 11 then [CHR 0x5C, CHR ''v'']
         else if n < 0x20 \<or> n = 0x7F
              then [CHR 0x5C, CHR ''x'', hex_digit (n div 16), hex_digit (n mod 16)]
         else [c])"

definition Quote :: "string \<Rightarrow> string" where
  "Quote s = CHR 0x22 # concat (map quote_char s) @ [CHR 0x22]"

section \<open>Error values\<close>

text \<open>\<open>err.Error()\<close>.\<close>

fun Error :: "goerr \<Rightarrow> string" where
  "Error (ValidationError reasons) = Join reasons ''; ''"
| "Error (NotExist msg) = msg"
| "Error (ErrorString msg) = msg"
| "Error (WrapError pre e post) = pre @ Error e @ post"

text \<open>\<open>errors.As(err, &validationErr)\<close> and \<open>errors.Is(err, os.ErrNotExist)\<close>.\<close>

fun as_validation_error :: "goerr \<Rightarrow> string list option" where
  "as_validation_error (ValidationError reasons) = Some reasons"
| "as_validation_error (WrapError pre e post) = as_validation_error e"
| "as_validation_error _ = None"

fun is_not_exist :: "goerr \<Rightarrow> bool" where
  "is_not_exist (NotExist msg) = True"
| "is_not_exist (WrapError pre e post) = is_not_exist e"
| "is_not_exist _ = False"

end
