(* ===== verification/Netip.thy ===== *)
theory Netip
  imports GoStrings
begin

text \<open>
  Go's \<open>net/netip\<close> as far as the program calls it: addresses and prefixes, \<open>ParseAddr\<close> and
  \<open>ParsePrefix\<close> with their errors, \<open>String\<close>, \<open>Masked\<close>, \<open>Next\<close> and the address classes; and
  \<open>net.ParseIP\<close>, which calls \<open>ParseAddr\<close>.
\<close>

section \<open>Addresses and prefixes\<close>

datatype Addr = AddrZero | Addr4 "32 word" | Addr6 "128 word" string

datatype Prefix = Prefix (prefix_addr: Addr) (prefix_bits: nat)

fun Is6 :: "Addr \<Rightarrow> bool" where
  "Is6 (Addr6 a z) = True"
| "Is6 _ = False"

fun Zone :: "Addr \<Rightarrow> string" where
  "Zone (Addr6 a z) = z"
| "Zone _ = []"

definition is_4in6 :: "128 word \<Rightarrow> bool" where
  "is_4in6 a \<longleftrightarrow> drop_bit 32 a = 0xFFFF"

text \<open>\<open>Unmap\<close>, which the class predicates apply to IPv4-mapped addresses first.\<close>

fun Unmap :: "Addr \<Rightarrow> Addr" where
  "Unmap (Addr6 a z) = (if is_4in6 a then Addr4 (ucast a) else Addr6 a z)"
| "Unmap a = a"

definition byte4 :: "32 word \<Rightarrow> nat \<Rightarrow> nat" where
  "byte4 a i = unat a div 256 ^ (3 - i) mod 256"

definition byte6 :: "128 word \<Rightarrow> nat \<Rightarrow> nat" where
  "byte6 a i = unat a div 256 ^ (15 - i) mod 256"

fun IsLinkLocalUnicast :: "Addr \<Rightarrow> bool" where
  "IsLinkLocalUnicast ip =
     (case Unmap ip of
        Addr4 a \<Rightarrow> byte4 a 0 = 169 \<and> byte4 a 1 = 254
      | Addr6 a z \<Rightarrow> byte6 a 0 = 0xFE \<and> byte6 a 1 div 64 = 2
      | AddrZero \<Rightarrow> False)"

fun IsLoopback :: "Addr \<Rightarrow> bool" where
  "IsLoopback ip =
     (case Unmap ip of
        Addr4 a \<Rightarrow> byte4 a 0 = 127 | Addr6 a z \<Rightarrow> a = 1 | AddrZero \<Rightarrow> False)"

fun IsMulticast :: "Addr \<Rightarrow> bool" where
  "IsMulticast ip =
     (case Unmap ip of
        Addr4 a \<Rightarrow> byte4 a 0 div 16 = 14 | Addr6 a z \<Rightarrow> byte6 a 0 = 0xFF | AddrZero \<Rightarrow> False)"

definition IsGlobalUnicast :: "Addr \<Rightarrow> bool" where
  "IsGlobalUnicast ip =
     (case Unmap ip of
        AddrZero \<Rightarrow> False
      | Addr4 a \<Rightarrow> a \<noteq> 0 \<and> a \<noteq> 0xFFFFFFFF \<and> \<not> IsLoopback (Addr4 a)
                  \<and> \<not> IsMulticast (Addr4 a) \<and> \<not> IsLinkLocalUnicast (Addr4 a)
      | Addr6 a z \<Rightarrow> \<not> (a = 0 \<and> z = []) \<and> \<not> IsLoopback (Addr6 a z)
                  \<and> \<not> IsMulticast (Addr6 a z) \<and> \<not> IsLinkLocalUnicast (Addr6 a z))"

definition IsPrivate :: "Addr \<Rightarrow> bool" where
  "IsPrivate ip =
     (case Unmap ip of
        AddrZero \<Rightarrow> False
      | Addr4 a \<Rightarrow> byte4 a 0 = 10 \<or> byte4 a 0 = 172 \<and> byte4 a 1 div 16 = 1
                  \<or> byte4 a 0 = 192 \<and> byte4 a 1 = 168
      | Addr6 a z \<Rightarrow> byte6 a 0 div 2 = 0x7E)"

fun Next :: "Addr \<Rightarrow> Addr" where
  "Next AddrZero = AddrZero"
| "Next (Addr4 a) = (if a + 1 = 0 then AddrZero else Addr4 (a + 1))"
| "Next (Addr6 a z) = (if a + 1 = 0 then AddrZero else Addr6 (a + 1) z)"

fun Masked :: "Prefix \<Rightarrow> Prefix" where
  "Masked (Prefix (Addr4 a) b) = Prefix (Addr4 (a AND NOT (mask (32 - b)))) b"
| "Masked (Prefix (Addr6 a z) b) = Prefix (Addr6 (a AND NOT (mask (128 - b))) []) b"
| "Masked (Prefix AddrZero b) = Prefix AddrZero 0"

section \<open>Parsing\<close>

definition parse_addr_error :: "string \<Rightarrow> string \<Rightarrow> string \<Rightarrow> goerr" where
  "parse_addr_error inp msg at =
     ErrorString (''ParseAddr('' @ Quote inp @ ''): '' @ msg
       @ (if at = [] then [] else '' (at '' @ Quote at @ '')''))"

text \<open>\<open>parseIPv4Fields\<close>; \<open>prev\<close> is the byte before the current one, \<open>dl\<close> the digits of the octet.\<close>

fun v4_loop :: "string \<Rightarrow> char option \<Rightarrow> nat list \<Rightarrow> nat \<Rightarrow> nat \<Rightarrow> string \<Rightarrow> nat list res" where
  "v4_loop inp prev fs v dl [] =
     (if length fs < 3 then Inl (parse_addr_error inp ''IPv4 address too short'' [])
      else Inr (fs @ [v]))"
| "v4_loop inp prev fs v dl (c # s) =
     (if is_digit c then
        if dl = 1 \<and> v = 0
        then Inl (parse_addr_error inp ''IPv4 field has octet with leading zero'' [])
        else if 255 < 10 * v + digit_val c
        then Inl (parse_addr_error inp ''IPv4 field has value >255'' [])
        else v4_loop inp (Some c) fs (10 * v + digit_val c) (dl + 1) s
      else if c = CHR ''.'' then
        if prev = None \<or> s = [] \<or> prev = Some (CHR ''.'')
        then Inl (parse_addr_error inp ''IPv4 field must have at least one digit'' (c # s))
        else if length fs = 3 then Inl (parse_addr_error inp ''IPv4 address too long'' [])
        else v4_loop inp (Some c) (fs @ [v]) 0 0 s
      else Inl (parse_addr_error inp ''unexpected character'' (c # s)))"

definition parseIPv4Fields :: "string \<Rightarrow> string \<Rightarrow> nat list res" where
  "parseIPv4Fields inp s = v4_loop inp None [] 0 0 s"

definition fields_val :: "nat \<Rightarrow> nat list \<Rightarrow> nat" where
  "fields_val base fs = foldl (\<lambda>n f. base * n + f) 0 fs"

definition parseIPv4 :: "string \<Rightarrow> Addr res" where
  "parseIPv4 s = (case parseIPv4Fields s s of
                    Inl e \<Rightarrow> Inl e | Inr fs \<Rightarrow> Inr (Addr4 (of_nat (fields_val 256 fs))))"

definition hex_val :: "char \<Rightarrow> nat option" where
  "hex_val c =
     (let n = (of_char c :: nat)
      in if 48 \<le> n \<and> n \<le> 57 then Some (n - 48)
         else if 97 \<le> n \<and> n \<le> 102 then Some (n - 87)
         else if 65 \<le> n \<and> n \<le> 70 then Some (n - 55) else None)"

text \<open>One hexadecimal group: the digits read, their value and the rest, or the error message.\<close>

fun hex_group :: "nat \<Rightarrow> nat \<Rightarrow> string \<Rightarrow> string + nat \<times> nat \<times> string" where
  "hex_group off acc [] = Inr (off, acc, [])"
| "hex_group off acc (c # s) =
     (case hex_val c of
        None \<Rightarrow> Inr (off, acc, c # s)
      | Some d \<Rightarrow>
          if 3 < off then Inl ''each group must have 4 or less digits''
          else if 0xFFFF < 16 * acc + d then Inl ''IPv6 field has value >=2^16''
          else hex_group (Suc off) (16 * acc + d) s)"

text \<open>The end of \<open>parseIPv6\<close>: the whole string must be used, and the ellipsis expanded.\<close>

definition parse6_finish :: "string \<Rightarrow> nat list \<Rightarrow> nat option \<Rightarrow> string \<Rightarrow> nat list res" where
  "parse6_finish inp ip ell s =
     (if s \<noteq> [] then Inl (parse_addr_error inp ''trailing garbage after address'' s)
      else if length ip < 8 then
        (case ell of
           None \<Rightarrow> Inl (parse_addr_error inp ''address string too short'' [])
         | Some e \<Rightarrow> Inr (take e ip @ replicate (8 - length ip) 0 @ drop e ip))
      else if ell \<noteq> None
        then Inl (parse_addr_error inp ''the :: must expand to at least one field of zeros'' [])
      else Inr ip)"

text \<open>The loop of \<open>parseIPv6\<close>, over the groups of 16 bits read so far.\<close>

function parse6_loop :: "string \<Rightarrow> nat list \<Rightarrow> nat option \<Rightarrow> string \<Rightarrow> nat list res" where
  "parse6_loop inp ip ell s =
     (if 8 \<le> length ip then parse6_finish inp ip ell s
      else case hex_group 0 0 s of
        Inl msg \<Rightarrow> Inl (parse_addr_error inp msg s)
      | Inr (off, acc, r) \<Rightarrow>
          if off = 0
          then Inl (parse_addr_error inp
                 ''each colon-separated field must have at least one digit'' s)
          else (case r of
            [] \<Rightarrow> parse6_finish inp (ip @ [acc]) ell []
          | c # t \<Rightarrow>
              if c = CHR ''.'' then
                if ell = None \<and> length ip \<noteq> 6
                then Inl (parse_addr_error inp
                  ''embedded IPv4 address must replace the final 2 fields of the address'' s)
                else if 8 < length ip + 2
                then Inl (parse_addr_error inp
                  ''too many hex fields to fit an embedded IPv4 at the end of the address'' s)
                else (case parseIPv4Fields inp s of
                        Inl e \<Rightarrow> Inl e
                      | Inr fs \<Rightarrow> parse6_finish inp
                          (ip @ [fields_val 256 (take 2 fs), fields_val 256 (drop 2 fs)]) ell [])
              else if c \<noteq> CHR '':''
              then Inl (parse_addr_error inp ''unexpected character, want colon'' r)
              else (case t of
                [] \<Rightarrow> Inl (parse_addr_error inp ''colon must be followed by more characters'' r)
              | d # u \<Rightarrow>
                  if d = CHR '':'' then
                    if ell \<noteq> None
                    then Inl (parse_addr_error inp ''multiple :: in address'' t)
                    else if u = [] then parse6_finish inp (ip @ [acc]) (Some (length ip + 1)) []
                    else parse6_loop inp (ip @ [acc]) (Some (length ip + 1)) u
                  else parse6_loop inp (ip @ [acc]) ell t)))"
  by pat_completeness auto
termination
  by (relation "measure (\<lambda>(inp, ip, ell, s). 8 - length ip)") auto

declare parse6_loop.simps [simp del]

definition addr6_of_groups :: "nat list \<Rightarrow> string \<Rightarrow> Addr" where
  "addr6_of_groups gs z = Addr6 (of_nat (fields_val 65536 gs)) z"

definition parseIPv6 :: "string \<Rightarrow> Addr res" where
  "parseIPv6 inp =
     (let s = takeWhile (\<lambda>c. c \<noteq> CHR ''%'') inp;
          zone = drop (length s + 1) inp
      in if CHR ''%'' \<in> set inp \<and> zone = []
         then Inl (parse_addr_error inp ''zone must be a non-empty string'' [])
         else if s = ''::'' then Inr (Addr6 0 zone)
         else (case (if take 2 s = ''::'' then parse6_loop inp [] (Some 0) (drop 2 s)
                     else parse6_loop inp [] None s) of
                 Inl e \<Rightarrow> Inl e
               | Inr gs \<Rightarrow> Inr (addr6_of_groups gs zone)))"

definition ParseAddr :: "string \<Rightarrow> Addr res" where
  "ParseAddr s =
     (case find (\<lambda>c. c \<in> {CHR ''.'', CHR '':'', CHR ''%''}) s of
        None \<Rightarrow> Inl (parse_addr_error s ''unable to parse IP'' [])
      | Some c \<Rightarrow>
          if c = CHR ''.'' then parseIPv4 s
          else if c = CHR '':'' then parseIPv6 s
          else Inl (parse_addr_error s ''missing IPv6 address'' []))"

definition parse_prefix_error :: "string \<Rightarrow> string \<Rightarrow> goerr" where
  "parse_prefix_error inp msg =
     ErrorString (''netip.ParsePrefix('' @ Quote inp @ ''): '' @ msg)"

text \<open>\<open>ParsePrefix\<close> splits at the last slash; the length is decimal without sign or leading zero.\<close>

definition before_last :: "char \<Rightarrow> string \<Rightarrow> string" where
  "before_last c s = rev (tl (dropWhile (\<lambda>x. x \<noteq> c) (rev s)))"

definition after_last :: "char \<Rightarrow> string \<Rightarrow> string" where
  "after_last c s = rev (takeWhile (\<lambda>x. x \<noteq> c) (rev s))"

definition ParsePrefix :: "string \<Rightarrow> Prefix res" where
  "ParsePrefix s =
     (if CHR ''/'' \<notin> set s
      then Inl (parse_prefix_error s (''no '' @ [CHR 0x27, CHR ''/'', CHR 0x27]))
      else let bitsStr = after_last (CHR ''/'') s in
        case ParseAddr (before_last (CHR ''/'') s) of
          Inl e \<Rightarrow> Inl (parse_prefix_error s (Error e))
        | Inr ip \<Rightarrow>
            if Is6 ip \<and> Zone ip \<noteq> []
            then Inl (parse_prefix_error s ''IPv6 zones cannot be present in a prefix'')
            else if 1 < length bitsStr \<and> (\<not> is_digit (hd bitsStr) \<or> hd bitsStr = CHR ''0'')
            then Inl (parse_prefix_error s (''bad bits after slash: '' @ Quote bitsStr))
            else (case Atoi bitsStr of
                    None \<Rightarrow> Inl (parse_prefix_error s (''bad bits after slash: '' @ Quote bitsStr))
                  | Some bits \<Rightarrow>
                      if bits < 0 \<or> (if Is6 ip then 128 else 32) < bits
                      then Inl (parse_prefix_error s ''prefix length out of range'')
                      else Inr (Prefix ip (nat bits))))"

text \<open>\<open>net.ParseIP\<close>: an address without zone, of either family; \<^term>\<open>None\<close> is \<open>nil\<close>.\<close>

definition ParseIP :: "string \<Rightarrow> Addr option" where
  "ParseIP s = (case ParseAddr s of
                  Inl e \<Rightarrow> None | Inr ip \<Rightarrow> if Zone ip \<noteq> [] then None else Some ip)"

section \<open>Printing\<close>

fun nat_hex :: "nat \<Rightarrow> string" where
  "nat_hex n = (if n < 16 then [hex_digit n] else nat_hex (n div 16) @ [hex_digit (n mod 16)])"

declare nat_hex.simps [simp del]

definition string4 :: "32 word \<Rightarrow> string" where
  "string4 a = Join (map (\<lambda>i. nat_dec (byte4 a i)) [0, 1, 2, 3]) ''.''"

definition groups6 :: "128 word \<Rightarrow> nat list" where
  "groups6 a = map (\<lambda>i. unat a div 65536 ^ (7 - i) mod 65536) [0, 1, 2, 3, 4, 5, 6, 7]"

text \<open>The first longest run of at least two zero groups, from \<open>i\<close>; the scan of \<open>appendTo6\<close>.\<close>

fun zero_run :: "nat list \<Rightarrow> nat list \<Rightarrow> nat \<times> nat \<Rightarrow> nat \<times> nat" where
  "zero_run gs [] best = best"
| "zero_run gs (i # is) best =
     (let l = length (takeWhile (\<lambda>g. g = 0) (drop i gs))
      in zero_run gs is
           (if 2 \<le> l \<and> snd best - fst best < l then (i, i + l) else best))"

text \<open>The second loop of \<open>appendTo6\<close>: the groups joined by colons, the run replaced by \<open>::\<close>.\<close>

definition string6 :: "128 word \<Rightarrow> string" where
  "string6 a =
     (let gs = groups6 a; (zs, ze) = zero_run gs [0, 1, 2, 3, 4, 5, 6, 7] (255, 255)
      in if 8 \<le> zs then Join (map nat_hex gs) '':''
         else Join (map nat_hex (take zs gs)) '':'' @ ''::'' @ Join (map nat_hex (drop ze gs)) '':'')"

fun AddrString :: "Addr \<Rightarrow> string" where
  "AddrString AddrZero = ''invalid IP''"
| "AddrString (Addr4 a) = string4 a"
| "AddrString (Addr6 a z) =
     (if is_4in6 a then ''::ffff:'' @ string4 (ucast a) else string6 a)
     @ (if z = [] then [] else CHR ''%'' # z)"

end
