(* ===== verification/NetipFacts.thy ===== *)
theory NetipFacts
  imports Netip
begin

text \<open>
  What the program relies on from \<open>net/netip\<close>: parsing the printed form of an address or a
  prefix gives it back (RFC 5952 printing against the parser's ellipsis handling), and masking
  is idempotent.
\<close>

section \<open>Hexadecimal groups\<close>

lemma hex_val_hex_digit: "d < 16 \<Longrightarrow> hex_val (hex_digit d) = Some d"
  by (simp add: hex_val_def hex_digit_def)

lemma hex_val_not_special:
  "hex_val c = Some d \<Longrightarrow> c \<noteq> CHR '':'' \<and> c \<noteq> CHR ''.'' \<and> c \<noteq> CHR ''%'' \<and> c \<noteq> CHR ''/'' \<and> graphic c"
  by (auto simp: hex_val_def graphic_def Let_def split: if_splits)

lemma nat_hex_not_Nil [simp]: "nat_hex n \<noteq> []"
  by (subst nat_hex.simps) simp

lemma nat_hex_chars: "c \<in> set (nat_hex n) \<Longrightarrow> \<exists>d. hex_val c = Some d"
proof (induction n rule: nat_hex.induct)
  case (1 n)
  then show ?case
    by (cases "n < 16") (auto simp: nat_hex.simps [of n] hex_val_hex_digit)
qed

lemma nat_hex_not_special:
  "c \<in> set (nat_hex n) \<Longrightarrow> c \<noteq> CHR '':'' \<and> c \<noteq> CHR ''.'' \<and> c \<noteq> CHR ''%'' \<and> c \<noteq> CHR ''/'' \<and> graphic c"
  using nat_hex_chars hex_val_not_special by blast

lemma length_nat_hex: "n < 16 ^ k \<Longrightarrow> 0 < k \<Longrightarrow> length (nat_hex n) \<le> k"
proof (induction n arbitrary: k rule: nat_hex.induct)
  case (1 n)
  show ?case
  proof (cases "n < 16")
    case True
    then show ?thesis using 1 by (simp add: nat_hex.simps [of n])
  next
    case False
    with 1 obtain j where k: "k = Suc j" "0 < j"
      by (cases k; cases "k - 1") auto
    have "n div 16 < 16 ^ j" using 1(2) k by (simp add: div_less_iff_less_mult mult.commute)
    with 1(1) [OF False this] k False show ?thesis by (simp add: nat_hex.simps [of n])
  qed
qed

lemma hex_group_nat_hex:
  "\<lbrakk>off + length (nat_hex n) \<le> 4; acc * 16 ^ length (nat_hex n) + n \<le> 0xFFFF\<rbrakk>
   \<Longrightarrow> hex_group off acc (nat_hex n @ r)
       = hex_group (off + length (nat_hex n)) (acc * 16 ^ length (nat_hex n) + n) r"
proof (induction n arbitrary: r rule: nat_hex.induct)
  case (1 n)
  show ?case
  proof (cases "n < 16")
    case True
    with 1 show ?thesis
      by (simp add: nat_hex.simps [of n] hex_val_hex_digit mult.commute)
  next
    case False
    let ?h = "nat_hex (n div 16)"
    have len: "length (nat_hex n) = Suc (length ?h)"
      using False by (simp add: nat_hex.simps [of n])
    have n: "n = 16 * (n div 16) + n mod 16" by simp
    have step: "16 * (acc * 16 ^ length ?h + n div 16) + n mod 16 = acc * 16 ^ length (nat_hex n) + n"
      using len n by (simp add: algebra_simps)
    have le: "16 * x + m \<le> y \<Longrightarrow> x \<le> y" for x m y :: nat by arith
    have "acc * 16 ^ length ?h + n div 16 \<le> 0xFFFF"
      by (rule le [of _ "n mod 16"]) (use step 1(3) in presburger)
    then have "hex_group off acc (?h @ (hex_digit (n mod 16) # r))
        = hex_group (off + length ?h) (acc * 16 ^ length ?h + n div 16) (hex_digit (n mod 16) # r)"
      using 1 False len by simp
    also have "\<dots> = hex_group (off + length (nat_hex n)) (acc * 16 ^ length (nat_hex n) + n) r"
      using step 1(2,3) len by (simp add: hex_val_hex_digit ac_simps)
    finally show ?thesis
      using False by (simp add: nat_hex.simps [of n])
  qed
qed

definition no_hex_head :: "string \<Rightarrow> bool" where
  "no_hex_head r \<longleftrightarrow> (case r of [] \<Rightarrow> True | c # _ \<Rightarrow> hex_val c = None)"

lemma hex_group_stop: "no_hex_head r \<Longrightarrow> hex_group off acc r = Inr (off, acc, r)"
  by (cases r) (auto simp: no_hex_head_def)

lemma hex_group_group:
  assumes "g < 65536" and "no_hex_head r"
  shows "hex_group 0 0 (nat_hex g @ r) = Inr (length (nat_hex g), g, r)"
proof -
  have "length (nat_hex g) \<le> 4" using length_nat_hex [of g 4] assms by simp
  then show ?thesis using assms hex_group_nat_hex [of 0 g 0 r] by (simp add: hex_group_stop)
qed

lemma colon_no_hex: "no_hex_head (CHR '':'' # r)" "no_hex_head []" "no_hex_head (CHR ''.'' # r)"
  by (simp_all add: no_hex_head_def hex_val_def)

section \<open>The parser on colon-separated groups\<close>

abbreviation colons :: "nat list \<Rightarrow> string" where
  "colons gs \<equiv> Join (map nat_hex gs) '':''"

abbreviation groups_ok :: "nat list \<Rightarrow> bool" where
  "groups_ok gs \<equiv> \<forall>g \<in> set gs. g < 65536"

lemma Join_Cons: "xs \<noteq> [] \<Longrightarrow> Join (x # xs) sep = x @ sep @ Join xs sep"
  by (cases xs) auto

lemma colons_head:
  assumes "gs \<noteq> []"
  obtains c s where "colons gs @ r = c # s" "c \<noteq> CHR '':''" "hex_val c \<noteq> None"
proof -
  obtain g gs' where gs: "gs = g # gs'" using assms by (cases gs) auto
  obtain c h where h: "nat_hex g = c # h" by (cases "nat_hex g") auto
  have "\<exists>d. hex_val c = Some d" using nat_hex_chars [of c g] h by simp
  moreover have "\<exists>s. colons gs @ r = c # s" using gs h by (cases gs') auto
  ultimately show ?thesis using that hex_val_not_special by blast
qed

lemma colons_eq_Nil [simp]: "colons gs = [] \<longleftrightarrow> gs = []"
  by (cases gs rule: list.exhaust; cases "tl gs") auto

lemma colons_hd: "gs \<noteq> [] \<Longrightarrow> hd (colons gs @ r) \<noteq> CHR '':''"
  using colons_head [of gs r] by (metis list.sel(1))

lemma colons_chars: "c \<in> set (colons gs) \<Longrightarrow> c = CHR '':'' \<or> (\<exists>d. hex_val c = Some d)"
proof (induction gs)
  case Nil
  then show ?case by simp
next
  case (Cons g gs)
  then show ?case
    using nat_hex_chars by (cases "gs = []") (auto simp: Join_Cons)
qed

lemma parse6_loop_colons:
  "\<lbrakk>gs \<noteq> []; groups_ok gs; length ip + length gs \<le> 8\<rbrakk>
   \<Longrightarrow> parse6_loop inp ip ell (colons gs) = parse6_finish inp (ip @ gs) ell []"
proof (induction gs arbitrary: ip)
  case Nil
  then show ?case by simp
next
  case (Cons g gs)
  show ?case
  proof (cases "gs = []")
    case True
    with Cons.prems show ?thesis
      using hex_group_group [of g "[]"]
      by (simp add: parse6_loop.simps [of inp ip] colon_no_hex)
  next
    case False
    obtain c s where cs: "colons gs = c # s" "c \<noteq> CHR '':''"
      using colons_head [OF False, of "[]" thesis] by simp
    have "hex_group 0 0 (nat_hex g @ CHR '':'' # colons gs)
          = Inr (length (nat_hex g), g, CHR '':'' # colons gs)"
      using Cons.prems by (simp add: hex_group_group colon_no_hex)
    then have "parse6_loop inp ip ell (colons (g # gs)) = parse6_loop inp (ip @ [g]) ell (colons gs)"
      using Cons.prems cs False by (simp add: Join_Cons parse6_loop.simps [of inp ip])
    then show ?thesis using Cons False by simp
  qed
qed

lemma parse6_loop_ellipsis:
  "\<lbrakk>gs \<noteq> []; groups_ok gs; length ip + length gs \<le> 8\<rbrakk>
   \<Longrightarrow> parse6_loop inp ip None (colons gs @ CHR '':'' # CHR '':'' # u)
     = (if u = [] then parse6_finish inp (ip @ gs) (Some (length (ip @ gs))) []
        else parse6_loop inp (ip @ gs) (Some (length (ip @ gs))) u)"
proof (induction gs arbitrary: ip)
  case Nil
  then show ?case by simp
next
  case (Cons g gs)
  show ?case
  proof (cases "gs = []")
    case True
    with Cons.prems show ?thesis
      using hex_group_group [of g "CHR '':'' # CHR '':'' # u"]
      by (simp add: parse6_loop.simps [of inp ip] colon_no_hex)
  next
    case False
    obtain c s where cs: "colons gs @ CHR '':'' # CHR '':'' # u = c # s" "c \<noteq> CHR '':''"
      using colons_head [OF False] by blast
    have "hex_group 0 0 (nat_hex g @ CHR '':'' # colons gs @ CHR '':'' # CHR '':'' # u)
          = Inr (length (nat_hex g), g, CHR '':'' # colons gs @ CHR '':'' # CHR '':'' # u)"
      using Cons.prems by (simp add: hex_group_group colon_no_hex)
    then have "parse6_loop inp ip None (colons (g # gs) @ CHR '':'' # CHR '':'' # u)
        = parse6_loop inp (ip @ [g]) None (colons gs @ CHR '':'' # CHR '':'' # u)"
      using Cons.prems cs False by (simp add: Join_Cons parse6_loop.simps [of inp ip])
    then show ?thesis using Cons False by simp
  qed
qed

section \<open>The zero run\<close>

declare zero_run.simps [simp del]

definition run_ok :: "nat list \<Rightarrow> nat \<times> nat \<Rightarrow> bool" where
  "run_ok gs best \<longleftrightarrow> best = (255, 255) \<or>
     fst best + 2 \<le> snd best \<and> snd best \<le> length gs
     \<and> take (snd best - fst best) (drop (fst best) gs) = replicate (snd best - fst best) 0"

lemma takeWhile_zero_replicate:
  "takeWhile (\<lambda>g. g = (0::nat)) xs = replicate (length (takeWhile (\<lambda>g. g = 0) xs)) 0"
  by (induction xs) auto

lemma zero_run_ok: "run_ok gs best \<Longrightarrow> \<forall>i \<in> set is. i \<le> length gs \<Longrightarrow> run_ok gs (zero_run gs is best)"
proof (induction gs "is" best rule: zero_run.induct)
  case (1 gs best)
  then show ?case by (simp add: zero_run.simps)
next
  case (2 gs i "is" best)
  let ?w = "takeWhile (\<lambda>g. g = 0) (drop i gs)"
  have "take (length ?w) (drop i gs) = replicate (length ?w) 0"
    by (metis takeWhile_eq_take takeWhile_zero_replicate)
  moreover have "length ?w \<le> length gs - i"
    by (metis length_drop length_takeWhile_le)
  ultimately have "run_ok gs (i, i + length ?w)" if "2 \<le> length ?w"
    using that 2(3) by (auto simp: run_ok_def)
  with 2 show ?case by (auto simp: Let_def zero_run.simps)
qed

lemma length_groups6 [simp]: "length (groups6 a) = 8"
  by (simp add: groups6_def)

lemma groups6_ok: "groups_ok (groups6 a)"
  by (auto simp: groups6_def)

text \<open>The digits of a number, most significant first, and the number they spell.\<close>

fun digits_of :: "nat \<Rightarrow> nat \<Rightarrow> nat \<Rightarrow> nat list" where
  "digits_of base 0 n = []"
| "digits_of base (Suc k) n = digits_of base k (n div base) @ [n mod base]"

lemma fields_val_digits_of: "fields_val base (digits_of base k n) = n mod base ^ k"
  by (induction k arbitrary: n) (simp_all add: fields_val_def mod_mult2_eq)

lemma digits_of_8:
  "digits_of b 8 n = map (\<lambda>i. n div b ^ (7 - i) mod b) [0, 1, 2, 3, 4, 5, 6, 7]"
  by (simp add: numeral_eq_Suc div_mult2_eq)

lemma digits_of_4: "digits_of b 4 n = map (\<lambda>i. n div b ^ (3 - i) mod b) [0, 1, 2, 3]"
  by (simp add: numeral_eq_Suc div_mult2_eq)

lemma fields_val_zeros: "fields_val base (replicate k 0) = 0"
proof -
  have "foldl (\<lambda>n f. base * n + f) 0 (replicate k 0) = 0"
    by (induction k) auto
  then show ?thesis by (simp add: fields_val_def)
qed

lemma groups6_digits: "groups6 a = digits_of 65536 8 (unat a)"
  unfolding groups6_def digits_of_8 ..

lemma fields_val_groups6: "fields_val 65536 (groups6 a) = unat a"
proof -
  have "unat a < 2 ^ LENGTH(128)" by (rule unsigned_less)
  then show ?thesis by (simp add: groups6_digits fields_val_digits_of)
qed

text \<open>The printed form: all eight groups, or two blocks around a run of zeros.\<close>

lemma string6_cases:
  obtains (plain) "string6 a = colons (groups6 a)"
  | (run) xs ys where "string6 a = colons xs @ CHR '':'' # CHR '':'' # colons ys"
      "length xs + length ys \<le> 6" "groups_ok xs" "groups_ok ys"
      "groups6 a = xs @ replicate (8 - length (xs @ ys)) 0 @ ys"
proof -
  let ?gs = "groups6 a"
  obtain zs ze where r: "zero_run ?gs [0, 1, 2, 3, 4, 5, 6, 7] (255, 255) = (zs, ze)"
    by (rule prod.exhaust)
  have ok: "run_ok ?gs (zs, ze)"
    using zero_run_ok [of ?gs "(255, 255)" "[0, 1, 2, 3, 4, 5, 6, 7]"] r by (simp add: run_ok_def)
  show ?thesis
  proof (cases "8 \<le> zs")
    case True
    then show ?thesis using r by (intro plain) (simp add: string6_def)
  next
    case False
    then have b: "zs + 2 \<le> ze" "ze \<le> 8" "take (ze - zs) (drop zs ?gs) = replicate (ze - zs) 0"
      using ok by (auto simp: run_ok_def)
    have "drop zs ?gs = take (ze - zs) (drop zs ?gs) @ drop (ze - zs) (drop zs ?gs)"
      by (rule append_take_drop_id [symmetric])
    then have "drop zs ?gs = replicate (ze - zs) 0 @ drop ze ?gs"
      using b by simp
    then have split: "?gs = take zs ?gs @ replicate (ze - zs) 0 @ drop ze ?gs"
      by (metis append_take_drop_id)
    have "string6 a = colons (take zs ?gs) @ CHR '':'' # CHR '':'' # colons (drop ze ?gs)"
      using False r by (simp add: string6_def Let_def)
    moreover have "8 - length (take zs ?gs @ drop ze ?gs) = ze - zs" using b False by simp
    ultimately show ?thesis
      using b split groups6_ok [of a]
      by (intro run [of "take zs ?gs" "drop ze ?gs"]) (auto dest: in_set_takeD in_set_dropD)
  qed
qed

section \<open>Printed addresses are read back\<close>

lemma parse6_run_tail:
  assumes "length xs + length ys \<le> 6" and "groups_ok ys" and "ys \<noteq> []"
  shows "parse6_loop inp xs (Some (length xs)) (colons ys)
         = Inr (xs @ replicate (8 - length (xs @ ys)) 0 @ ys)"
  using assms by (simp add: parse6_loop_colons parse6_finish_def)

lemma string6_chars: "c \<in> set (string6 a) \<Longrightarrow> c = CHR '':'' \<or> (\<exists>d. hex_val c = Some d)"
  by (cases a rule: string6_cases) (auto dest: colons_chars)

lemma colons_no_ellipsis_head:
  assumes "gs \<noteq> []" shows "take 2 (colons gs @ r) \<noteq> ''::''"
  using colons_head [OF assms, of r] by (metis list.inject take_Suc_Cons numeral_2_eq_2)

lemma parseIPv6_no_zone:
  "CHR ''%'' \<notin> set s \<Longrightarrow> s \<noteq> ''::'' \<Longrightarrow>
   (if take 2 s = ''::'' then parse6_loop s [] (Some 0) (drop 2 s) else parse6_loop s [] None s)
     = Inr gs \<Longrightarrow> parseIPv6 s = Inr (addr6_of_groups gs [])"
proof -
  assume h: "CHR ''%'' \<notin> set s" "s \<noteq> ''::''"
    "(if take 2 s = ''::'' then parse6_loop s [] (Some 0) (drop 2 s) else parse6_loop s [] None s)
       = Inr gs"
  have tw: "takeWhile (\<lambda>c. c \<noteq> CHR ''%'') s = s"
    using h(1) by (auto simp: takeWhile_eq_all_conv)
  show "parseIPv6 s = Inr (addr6_of_groups gs [])"
    unfolding parseIPv6_def Let_def tw using h by (simp split: if_splits)
qed

lemma addr6_of_groups6: "addr6_of_groups (groups6 a) [] = Addr6 a []"
  by (simp add: addr6_of_groups_def fields_val_groups6)

lemma string6_no_percent: "CHR ''%'' \<notin> set (string6 a)"
  using string6_chars hex_val_not_special by fastforce

lemma parse6_string6:
  assumes "string6 a \<noteq> ''::''"
  shows "(if take 2 (string6 a) = ''::'' then parse6_loop inp [] (Some 0) (drop 2 (string6 a))
          else parse6_loop inp [] None (string6 a)) = Inr (groups6 a)"
proof (cases a rule: string6_cases)
  case plain
  have ne: "groups6 a \<noteq> []" using length_groups6 [of a] by fastforce
  have "parse6_loop inp [] None (colons (groups6 a)) = Inr (groups6 a)"
    using ne groups6_ok [of a] by (simp add: parse6_loop_colons parse6_finish_def)
  then show ?thesis using colons_no_ellipsis_head [OF ne, of "[]"] plain by simp
next
  case (run xs ys)
  show ?thesis
  proof (cases "xs = []")
    case True
    then have "ys \<noteq> []" using run assms by auto
    then have "parse6_loop inp [] (Some 0) (colons ys) = Inr (groups6 a)"
      using run True parse6_run_tail [of "[]" ys inp] by simp
    then show ?thesis using run True by simp
  next
    case False
    have "parse6_loop inp [] None (colons xs @ CHR '':'' # CHR '':'' # colons ys) = Inr (groups6 a)"
      using run False parse6_run_tail [of xs ys inp]
      by (cases "ys = []") (simp_all add: parse6_loop_ellipsis parse6_finish_def)
    then show ?thesis using colons_no_ellipsis_head [OF False] run by simp
  qed
qed

lemma string6_zero: "string6 a = ''::'' \<Longrightarrow> a = 0"
proof (cases a rule: string6_cases)
  case plain
  assume "string6 a = ''::''"
  with plain have "colons (groups6 a) = ''::''" by (rule trans [OF sym])
  then have "hd (colons (groups6 a) @ []) = CHR '':''" by simp
  moreover have "groups6 a \<noteq> []" using length_groups6 [of a] by fastforce
  ultimately show ?thesis using colons_hd by blast
next
  case (run xs ys)
  assume eq: "string6 a = ''::''"
  have "hd (string6 a) \<noteq> CHR '':''" if "xs \<noteq> []"
    using run(1) colons_hd [OF that] by simp
  then have xs: "xs = []" using eq by auto
  moreover have "ys = []" using eq run(1) xs by simp
  ultimately have "fields_val 65536 (groups6 a) = 0"
    using run by (simp add: fields_val_zeros)
  then show "a = 0" by (simp add: fields_val_groups6 unsigned_eq_0_iff)
qed

lemma parseIPv6_string6: "parseIPv6 (string6 a) = Inr (Addr6 a [])"
proof (cases "string6 a = ''::''")
  case True
  then show ?thesis using string6_zero [OF True] by (simp add: parseIPv6_def)
next
  case False
  show ?thesis
    using parseIPv6_no_zone [OF string6_no_percent False parse6_string6 [OF False]]
    by (simp add: addr6_of_groups6)
qed

section \<open>Dotted quads\<close>

lemma fields_val_bytes4: "fields_val 256 (map (byte4 a) [0, 1, 2, 3]) = unat a"
proof -
  have "unat a < 2 ^ LENGTH(32)" by (rule unsigned_less)
  then have "fields_val 256 (digits_of 256 4 (unat a)) = unat a"
    by (simp add: fields_val_digits_of)
  then show ?thesis by (simp add: digits_of_4 byte4_def)
qed

lemma byte4_less: "byte4 a i < 256"
  by (simp add: byte4_def)

text \<open>One octet: \<open>prev\<close> becomes a digit, the value is read, no leading zero is met.\<close>

lemma v4_loop_octet:
  "n < 256 \<Longrightarrow> \<exists>d k. is_digit d \<and> 0 < k \<and>
     v4_loop inp prev fs 0 0 (nat_dec n @ r) = v4_loop inp (Some d) fs n k r"
proof (induction n arbitrary: r rule: nat_dec.induct)
  case (1 n)
  show ?case
  proof (cases "n < 10")
    case True
    have "v4_loop inp prev fs 0 0 (nat_dec n @ r) = v4_loop inp (Some (digit_char n)) fs n 1 r"
      using True 1(2) by (simp add: nat_dec.simps [of n] is_digit_digit_char digit_val_digit_char)
    then show ?thesis using True is_digit_digit_char by blast
  next
    case False
    let ?c = "digit_char (n mod 10)"
    have "n div 10 < 256" using 1(2) by simp
    then obtain d k where d: "is_digit d" "0 < k"
      "v4_loop inp prev fs 0 0 (nat_dec (n div 10) @ ?c # r) = v4_loop inp (Some d) fs (n div 10) k (?c # r)"
      using 1(1) [OF False] by blast
    have pos: "0 < n div 10" using False by simp
    have "v4_loop inp (Some d) fs (n div 10) k (?c # r) = v4_loop inp (Some ?c) fs n (Suc k) r"
      using 1(2) pos by (simp add: is_digit_digit_char digit_val_digit_char)
    with d False have "v4_loop inp prev fs 0 0 (nat_dec n @ r) = v4_loop inp (Some ?c) fs n (Suc k) r"
      by (simp add: nat_dec.simps [of n])
    then show ?thesis using is_digit_digit_char [of "n mod 10"] by fastforce
  qed
qed

lemma dot_not_digit: "\<not> is_digit (CHR ''.'')"
  by (simp add: is_digit_def)

lemma v4_loop_octet_dot:
  assumes "n < 256" "length fs < 3" "r \<noteq> []"
  shows "v4_loop inp prev fs 0 0 (nat_dec n @ CHR ''.'' # r) = v4_loop inp (Some (CHR ''.'')) (fs @ [n]) 0 0 r"
proof -
  obtain d k where "is_digit d"
    "v4_loop inp prev fs 0 0 (nat_dec n @ CHR ''.'' # r) = v4_loop inp (Some d) fs n k (CHR ''.'' # r)"
    using v4_loop_octet [OF assms(1)] by blast
  with assms show ?thesis by (auto simp: dot_not_digit)
qed

lemma v4_loop_octet_end:
  assumes "n < 256" "length fs = 3"
  shows "v4_loop inp prev fs 0 0 (nat_dec n) = Inr (fs @ [n])"
  using v4_loop_octet [OF assms(1), of inp prev fs "[]"] assms(2) by auto

lemma parseIPv4Fields_quad:
  assumes "n0 < 256" "n1 < 256" "n2 < 256" "n3 < 256"
  shows "parseIPv4Fields inp (nat_dec n0 @ CHR ''.'' # nat_dec n1 @ CHR ''.'' # nat_dec n2 @ CHR ''.'' # nat_dec n3)
         = Inr [n0, n1, n2, n3]"
  using assms by (simp add: parseIPv4Fields_def v4_loop_octet_dot v4_loop_octet_end)

lemma string4_quad:
  "string4 a = nat_dec (byte4 a 0) @ CHR ''.'' # nat_dec (byte4 a 1) @ CHR ''.''
     # nat_dec (byte4 a 2) @ CHR ''.'' # nat_dec (byte4 a 3)"
  by (simp add: string4_def)

lemma parseIPv4Fields_string4:
  "parseIPv4Fields inp (string4 a) = Inr [byte4 a 0, byte4 a 1, byte4 a 2, byte4 a 3]"
  by (simp only: string4_quad parseIPv4Fields_quad byte4_less)

lemma ParseAddr_string4: "ParseAddr (string4 a) = Inr (Addr4 a)"
proof -
  have "c \<notin> {CHR ''.'', CHR '':'', CHR ''%''}" if "is_digit c" for c
    using that by (auto simp: is_digit_def)
  then have "\<forall>c \<in> set (nat_dec n). c \<notin> {CHR ''.'', CHR '':'', CHR ''%''}" for n
    using nat_dec_digits [of n] by (auto simp: list_all_iff)
  then have "find (\<lambda>c. c \<in> {CHR ''.'', CHR '':'', CHR ''%''}) (nat_dec n) = None" for n
    by (simp add: find_None_iff)
  then have "find (\<lambda>c. c \<in> {CHR ''.'', CHR '':'', CHR ''%''}) (string4 a) = Some (CHR ''.'')"
    by (simp add: string4_quad find_append)
  then show ?thesis
    using fields_val_bytes4 [of a] by (simp add: ParseAddr_def parseIPv4_def parseIPv4Fields_string4)
qed

section \<open>Whole addresses\<close>

lemma hex_group_digits:
  "list_all is_digit ds \<Longrightarrow> off + length ds \<le> 4 \<Longrightarrow> acc < 16 ^ off \<Longrightarrow> no_hex_head r
   \<Longrightarrow> \<exists>v. hex_group off acc (ds @ r) = Inr (off + length ds, v, r)"
proof (induction ds arbitrary: off acc)
  case Nil
  then show ?case by (simp add: hex_group_stop)
next
  case (Cons c ds)
  have v: "hex_val c = Some (digit_val c)" "digit_val c < 16"
    using Cons.prems by (auto simp: hex_val_def digit_val_def is_digit_def)
  have "16 * acc + digit_val c < 16 * 16 ^ off" using Cons.prems(3) v(2) by linarith
  moreover have "(16::nat) * 16 ^ off \<le> 16 * 16 ^ 3"
    using Cons.prems(2) by (intro mult_le_mono2 power_increasing) auto
  ultimately have "16 * acc + digit_val c \<le> 0xFFFF" by simp
  moreover obtain v where
    "hex_group (Suc off) (16 * acc + digit_val c) (ds @ r) = Inr (Suc off + length ds, v, r)"
    using Cons.IH [of "Suc off" "16 * acc + digit_val c"] Cons.prems
      \<open>16 * acc + digit_val c < 16 * 16 ^ off\<close> by auto
  ultimately show ?case using v Cons.prems(2) by auto
qed

lemma length_nat_dec: "n < 10 ^ k \<Longrightarrow> 0 < k \<Longrightarrow> length (nat_dec n) \<le> k"
proof (induction n arbitrary: k rule: nat_dec.induct)
  case (1 n)
  show ?case
  proof (cases "n < 10")
    case True
    then show ?thesis using 1 by (simp add: nat_dec.simps [of n])
  next
    case False
    with 1 obtain j where k: "k = Suc j" "0 < j"
      by (cases k; cases "k - 1") auto
    have "n div 10 < 10 ^ j" using 1(2) k by (simp add: div_less_iff_less_mult mult.commute)
    with 1(1) [OF False this] k False show ?thesis by (simp add: nat_dec.simps [of n])
  qed
qed

lemma string4_head:
  obtains t where "string4 a = nat_dec (byte4 a 0) @ CHR ''.'' # t"
  by (simp add: string4_quad)

lemma replicate_5: "replicate 5 x = [x, x, x, x, x]"
  by (simp add: numeral_eq_Suc)

lemma parse6_loop_quad:
  obtains x y where
    "\<And>inp. parse6_loop inp [0xFFFF] (Some 0) (string4 a) = Inr [0, 0, 0, 0, 0, 0xFFFF, x, y]"
    "65536 * x + y = unat a"
proof -
  obtain t where t: "string4 a = nat_dec (byte4 a 0) @ CHR ''.'' # t" by (rule string4_head)
  have "length (nat_dec (byte4 a 0)) \<le> 3"
    using byte4_less [of a 0] by (intro length_nat_dec) auto
  then obtain v where v: "hex_group 0 0 (string4 a)
      = Inr (length (nat_dec (byte4 a 0)), v, CHR ''.'' # t)"
    using hex_group_digits [of "nat_dec (byte4 a 0)" 0 0 "CHR ''.'' # t"] nat_dec_digits t
    by (auto simp: colon_no_hex)
  let ?x = "fields_val 256 [byte4 a 0, byte4 a 1]" and ?y = "fields_val 256 [byte4 a 2, byte4 a 3]"
  have "parse6_loop inp [0xFFFF] (Some 0) (string4 a) = Inr [0, 0, 0, 0, 0, 0xFFFF, ?x, ?y]" for inp
    using v by (simp add: parse6_loop.simps [of inp "[0xFFFF]"] parseIPv4Fields_string4
        parse6_finish_def replicate_5)
  moreover have "65536 * ?x + ?y = unat a"
    using fields_val_bytes4 [of a] by (simp add: fields_val_def)
  ultimately show ?thesis by (rule that)
qed

lemma unat_4in6:
  assumes "is_4in6 a" shows "unat a = 0xFFFF * 2 ^ 32 + unat (ucast a :: 32 word)"
proof -
  have "unat (drop_bit 32 a) = unat a div 2 ^ 32"
    unfolding unat_drop_bit_eq by (rule drop_bit_eq_div)
  with assms have "unat a div 2 ^ 32 = 0xFFFF" by (simp add: is_4in6_def)
  moreover have "unat (ucast a :: 32 word) = unat a mod 2 ^ 32"
    by (simp add: unsigned_ucast_eq take_bit_eq_mod)
  ultimately show ?thesis by (metis div_mult_mod_eq)
qed

lemma parse6_4in6:
  assumes "is_4in6 a"
  obtains gs where "\<And>inp. parse6_loop inp [] (Some 0) (''ffff:'' @ string4 (ucast a)) = Inr gs"
    "addr6_of_groups gs z = Addr6 a z"
proof -
  let ?q = "string4 (ucast a :: 32 word)"
  obtain t where t: "?q = nat_dec (byte4 (ucast a) 0) @ CHR ''.'' # t" by (rule string4_head)
  obtain c s where cs: "?q = c # s" "is_digit c"
    using t nat_dec_digits [of "byte4 (ucast a) 0"]
    by (cases "nat_dec (byte4 (ucast a) 0)") auto
  have "hex_group 0 0 (''ffff'' @ CHR '':'' # ?q) = Inr (4, 0xFFFF, CHR '':'' # ?q)"
    by (simp add: hex_val_def)
  then have "parse6_loop inp [] (Some 0) (''ffff:'' @ ?q) = parse6_loop inp [0xFFFF] (Some 0) ?q" for inp
    using cs by (auto simp: parse6_loop.simps [of inp "[]"] is_digit_def)
  moreover obtain x y where xy:
    "\<And>inp. parse6_loop inp [0xFFFF] (Some 0) ?q = Inr [0, 0, 0, 0, 0, 0xFFFF, x, y]"
    "65536 * x + y = unat (ucast a :: 32 word)"
    using parse6_loop_quad [of "ucast a"] by blast
  moreover have "fields_val 65536 [0, 0, 0, 0, 0, 0xFFFF, x, y] = unat a"
    using unat_4in6 [OF assms] xy(2) by (simp add: fields_val_def)
  ultimately show ?thesis
    using that [of "[0, 0, 0, 0, 0, 0xFFFF, x, y]"] by (simp add: addr6_of_groups_def)
qed

lemma find_colon:
  assumes "\<forall>c \<in> set s. c = CHR '':'' \<or> (\<exists>d. hex_val c = Some d)" and "CHR '':'' \<in> set s"
  shows "find (\<lambda>c. c \<in> {CHR ''.'', CHR '':'', CHR ''%''}) (s @ t) = Some (CHR '':'')"
  using assms
proof (induction s)
  case Nil
  then show ?case by simp
next
  case (Cons c s)
  then show ?case
    using hex_val_not_special [of c] by (cases "c = CHR '':''") auto
qed

lemma string6_has_colon: "CHR '':'' \<in> set (string6 a)"
proof (cases a rule: string6_cases)
  case plain
  obtain g h gs where "groups6 a = g # h # gs"
    using length_groups6 [of a] by (cases "groups6 a"; cases "tl (groups6 a)") auto
  then show ?thesis using plain by simp
next
  case (run xs ys)
  then show ?thesis by simp
qed

lemma takeWhile_zone:
  "CHR ''%'' \<notin> set s \<Longrightarrow>
   takeWhile (\<lambda>c. c \<noteq> CHR ''%'') (s @ (if z = [] then [] else CHR ''%'' # z)) = s"
proof -
  assume h: "CHR ''%'' \<notin> set s"
  then have "takeWhile (\<lambda>c. c \<noteq> CHR ''%'') (s @ t) = s @ takeWhile (\<lambda>c. c \<noteq> CHR ''%'') t" for t
    by (intro takeWhile_append2) auto
  then show ?thesis by simp
qed

lemma parseIPv6_printed:
  assumes "CHR ''%'' \<notin> set s" and "s \<noteq> ''::''"
    and "\<And>inp. (if take 2 s = ''::'' then parse6_loop inp [] (Some 0) (drop 2 s)
                  else parse6_loop inp [] None s) = Inr gs"
  shows "parseIPv6 (s @ (if z = [] then [] else CHR ''%'' # z)) = Inr (addr6_of_groups gs z)"
  unfolding parseIPv6_def Let_def takeWhile_zone [OF assms(1)]
  using assms by (simp split: if_splits)

lemma string4_no_special: "c \<in> set (string4 a) \<Longrightarrow> is_digit c \<or> c = CHR ''.''"
  using nat_dec_digits by (auto simp: string4_quad list_all_iff)

text \<open>Every address but the zero one is read back from its printed form.\<close>

lemma ParseAddr_AddrString:
  assumes "ip \<noteq> AddrZero" shows "ParseAddr (AddrString ip) = Inr ip"
proof (cases ip)
  case AddrZero
  with assms show ?thesis by simp
next
  case (Addr4 a)
  then show ?thesis by (simp add: ParseAddr_string4)
next
  case (Addr6 a z)
  let ?z = "if z = [] then [] else CHR ''%'' # z"
  show ?thesis
  proof (cases "is_4in6 a")
    case True
    let ?s = "''::ffff:'' @ string4 (ucast a)"
    obtain gs where gs: "\<And>inp. parse6_loop inp [] (Some 0) (''ffff:'' @ string4 (ucast a)) = Inr gs"
      "addr6_of_groups gs z = Addr6 a z" using parse6_4in6 [OF True, of z] by blast
    have "CHR ''%'' \<notin> set ?s" using string4_no_special [of "CHR ''%''"] by (auto simp: is_digit_def)
    then have "parseIPv6 (?s @ ?z) = Inr (Addr6 a z)"
      using parseIPv6_printed [of ?s gs z] gs by simp
    moreover have "find (\<lambda>c. c \<in> {CHR ''.'', CHR '':'', CHR ''%''}) (?s @ ?z) = Some (CHR '':'')"
      by simp
    ultimately show ?thesis using Addr6 True by (simp add: ParseAddr_def)
  next
    case False
    have f: "find (\<lambda>c. c \<in> {CHR ''.'', CHR '':'', CHR ''%''}) (string6 a @ ?z) = Some (CHR '':'')"
      using string6_chars string6_has_colon by (intro find_colon) auto
    have "parseIPv6 (string6 a @ ?z) = Inr (Addr6 a z)"
    proof (cases "string6 a = ''::''")
      case True
      then show ?thesis using string6_zero [OF True] by (auto simp: parseIPv6_def)
    next
      case ne: False
      then show ?thesis
        using parseIPv6_printed [OF string6_no_percent ne parse6_string6 [OF ne]]
        by (simp add: addr6_of_groups_def fields_val_groups6)
    qed
    then show ?thesis using Addr6 False f by (simp add: ParseAddr_def)
  qed
qed

section \<open>Prefixes\<close>

text \<open>The prefixes \<open>ParsePrefix\<close> returns: an address without zone and a length it can have.\<close>

fun prefix_ok :: "Prefix \<Rightarrow> bool" where
  "prefix_ok (Prefix (Addr4 a) b) = (b \<le> 32)"
| "prefix_ok (Prefix (Addr6 a z) b) = (z = [] \<and> b \<le> 128)"
| "prefix_ok (Prefix AddrZero b) = False"

lemma ParseAddr_not_zero: "ParseAddr s = Inr ip \<Longrightarrow> ip \<noteq> AddrZero"
  by (auto simp: ParseAddr_def parseIPv4_def parseIPv6_def addr6_of_groups_def Let_def
      split: option.splits if_splits sum.splits)

lemma ParsePrefix_ok: "ParsePrefix s = Inr p \<Longrightarrow> prefix_ok p"
proof -
  assume "ParsePrefix s = Inr p"
  then obtain ip n where "ParseAddr (before_last (CHR ''/'') s) = Inr ip" "p = Prefix ip n"
    "Is6 ip \<longrightarrow> Zone ip = []" "n \<le> (if Is6 ip then 128 else 32)"
    by (auto simp: ParsePrefix_def Let_def split: if_splits sum.splits option.splits)
  then show "prefix_ok p" using ParseAddr_not_zero by (cases ip) auto
qed

lemma last_slash:
  assumes "CHR ''/'' \<notin> set t"
  shows "before_last (CHR ''/'') (s @ CHR ''/'' # t) = s" "after_last (CHR ''/'') (s @ CHR ''/'' # t) = t"
proof -
  have r: "x \<noteq> CHR ''/''" if "x \<in> set (rev t)" for x
    using assms that by auto
  have "dropWhile (\<lambda>x. x \<noteq> CHR ''/'') (rev t @ CHR ''/'' # rev s) = CHR ''/'' # rev s"
    by (subst dropWhile_append2) (use r in auto)
  moreover have "takeWhile (\<lambda>x. x \<noteq> CHR ''/'') (rev t @ CHR ''/'' # rev s) = rev t"
    by (subst takeWhile_append2) (use r in auto)
  ultimately show "before_last (CHR ''/'') (s @ CHR ''/'' # t) = s" "after_last (CHR ''/'') (s @ CHR ''/'' # t) = t"
    by (simp_all add: before_last_def after_last_def)
qed

lemma nat_dec_leading: "0 < n \<Longrightarrow> hd (nat_dec n) \<noteq> CHR ''0''"
proof (induction n rule: nat_dec.induct)
  case (1 n)
  show ?case
  proof (cases "n < 10")
    case True
    with 1(2) have "digit_val (digit_char n) \<noteq> digit_val (CHR ''0'')"
      using digit_val_digit_char [of n] by (simp add: digit_val_def)
    with True show ?thesis by (auto simp: nat_dec.simps [of n])
  next
    case False
    with 1 show ?thesis by (simp add: nat_dec.simps [of n])
  qed
qed

lemma nat_dec_head_digit: "is_digit (hd (nat_dec n))"
  using nat_dec_digits [of n] nat_dec_not_Nil [of n] by (metis list.set_sel(1) list_all_iff)

definition PrefixString :: "Prefix \<Rightarrow> string" where
  "PrefixString p = AddrString (prefix_addr p) @ CHR ''/'' # nat_dec (prefix_bits p)"

lemma ParsePrefix_PrefixString:
  assumes "prefix_ok p" shows "ParsePrefix (PrefixString p) = Inr p"
proof -
  obtain ip b where p: "p = Prefix ip b" by (cases p)
  have ip: "ip \<noteq> AddrZero" "Is6 ip \<longrightarrow> Zone ip = []" "b \<le> (if Is6 ip then 128 else 32)"
    using assms p by (cases ip; auto)+
  have ns: "CHR ''/'' \<notin> set (nat_dec b)"
    using nat_dec_digits [of b] by (auto simp: list_all_iff is_digit_def)
  have lead: "1 < length (nat_dec b) \<longrightarrow> hd (nat_dec b) \<noteq> CHR ''0''"
    using nat_dec_leading [of b] by (cases "b = 0") (auto simp: nat_dec.simps [of 0])
  have "in_int64 (int b)"
    using ip(3) by (simp add: in_int64_def int64_min_def int64_max_def split: if_splits)
  then have at: "Atoi (nat_dec b) = Some (int b)" by (rule Atoi_nat_dec)
  have sl: "CHR ''/'' \<in> set (AddrString ip @ CHR ''/'' # nat_dec b)" by simp
  show ?thesis
    using sl lead at ip nat_dec_head_digit [of b]
    by (simp add: p PrefixString_def ParsePrefix_def last_slash [OF ns] ParseAddr_AddrString Let_def
        split: if_splits)
qed

section \<open>Masking\<close>

lemma Masked_idem: "Masked (Masked p) = Masked p"
  by (cases p rule: Masked.cases) (simp_all add: and.assoc)

lemma prefix_ok_Masked: "prefix_ok p \<Longrightarrow> prefix_ok (Masked p)"
  by (cases p rule: Masked.cases) simp_all

lemma bits_Masked: "prefix_ok p \<Longrightarrow> prefix_bits (Masked p) = prefix_bits p"
  by (cases p rule: Masked.cases) simp_all

section \<open>Evaluating the parsers\<close>

lemma replicate_numeral [simp]: "replicate (numeral k) x = x # replicate (pred_numeral k) x"
  by (simp add: numeral_eq_Suc)

lemmas parse_eval = ParseAddr_def parseIPv4_def parseIPv4Fields_def is_digit_def digit_val_def
  fields_val_def parseIPv6_def parse6_loop.simps hex_val_def parse6_finish_def addr6_of_groups_def
  ParsePrefix_def before_last_def after_last_def Atoi_def dec_val_def in_int64_def int64_min_def
  int64_max_def

end
