(* ===== verification/Config.thy ===== *)
theory Config
  imports NetipFacts
begin

text \<open>
  The configuration model of \<open>internal/config/config.go\<close>: the structs, their defaults, deep
  copies, validation of configs and documents, and the document operations (active profile and
  config, replacing the active profile's config, wrapping a legacy config).
\<close>

section \<open>Constants\<close>

definition BrokerHE :: string where [go_const]: "BrokerHE = ''he''"
definition BrokerIP4Market :: string where [go_const]: "BrokerIP4Market = ''ip4market''"
definition Broker6in4ru :: string where [go_const]: "Broker6in4ru = ''6in4ru''"
definition BrokerCustom :: string where [go_const]: "BrokerCustom = ''custom''"

definition StorageFormatLegacy :: string where [go_const]: "StorageFormatLegacy = ''legacy''"
definition StorageFormatProfiles :: string where [go_const]: "StorageFormatProfiles = ''profiles''"

definition defaultTTL :: int where [go_const]: "defaultTTL = 255"
definition defaultMTU :: int where [go_const]: "defaultMTU = 0"
definition defaultPort :: int where [go_const]: "defaultPort = 9086"
definition defaultWANInterface :: string where [go_const]: "defaultWANInterface = ''ppp0''"
definition defaultHealthInterval :: int where [go_const]: "defaultHealthInterval = 30"
definition defaultHealthTarget :: string where [go_const]: "defaultHealthTarget = ''2001:4860:4860::8888''"
definition defaultLANMode :: string where [go_const]: "defaultLANMode = ''slaac''"
definition defaultBroker :: string where [go_const]: "defaultBroker = BrokerCustom"
definition defaultProfileID :: string where [go_const]: "defaultProfileID = ''default''"
definition defaultProfileName :: string where [go_const]: "defaultProfileName = ''Default''"

definition supportedBrokers :: "string list" where
  "supportedBrokers = [BrokerHE, BrokerIP4Market, Broker6in4ru, BrokerCustom]"

lemma default_brokers: "defaultBroker \<in> set supportedBrokers"
  by (simp add: supportedBrokers_def defaultBroker_def)

lemma storage_formats_differ [simp]: "StorageFormatLegacy \<noteq> StorageFormatProfiles"
  by (simp add: go_const)

lemma not_blank_constants [simp]:
  "\<not> blank defaultBroker" "\<not> blank defaultLANMode" "\<not> blank defaultHealthTarget"
  "\<not> blank defaultWANInterface" "\<not> blank defaultProfileID" "\<not> blank defaultProfileName"
  "\<not> blank StorageFormatProfiles" "\<not> blank StorageFormatLegacy"
  by (simp_all add: blank_graphic go_const graphic_def)

lemma default_numbers [simp]:
  "defaultTTL \<noteq> 0" "defaultPort \<noteq> 0" "defaultHealthInterval \<noteq> 0"
  "0 < defaultTTL" "0 < defaultPort" "0 < defaultHealthInterval" "defaultMTU = 0"
  by (simp_all add: go_const)

section \<open>The structs\<close>

record TunnelConfig =
  tc_Enabled :: bool
  tc_Broker :: string
  tc_RemoteEndpoint :: string
  tc_LocalIPv6 :: string
  tc_RemoteIPv6 :: string
  tc_TTL :: int
  tc_MTU :: int

record NetworkConfig =
  nc_Interface :: string
  nc_Prefix :: string
  nc_Comment :: string

record LANConfig =
  lan_Enabled :: bool
  lan_DNS :: "string slice"
  lan_Mode :: string
  lan_Networks :: "NetworkConfig slice"

record HealthConfig =
  hc_Enabled :: bool
  hc_IntervalSec :: int
  hc_Target :: string
  hc_AutoRestart :: bool

record ServerConfig =
  sc_Port :: int
  sc_WANInterface :: string
  sc_AuthToken :: string

text \<open>The effective configuration of the active profile.\<close>

record Config =
  cfg_Tunnel :: TunnelConfig
  cfg_LAN :: LANConfig
  cfg_Health :: HealthConfig
  cfg_Server :: ServerConfig

record ProfileConfig =
  pc_Tunnel :: TunnelConfig
  pc_LAN :: LANConfig
  pc_Health :: HealthConfig

record Profile =
  pr_ID :: string
  pr_Name :: string
  pr_Config :: ProfileConfig
  pr_IsValid :: bool
  pr_ValidationErrors :: "string slice"

text \<open>The persisted document.  \<open>doc_Profiles\<close> is never nil: every constructor allocates it.\<close>

record Document =
  doc_StorageFormat :: string
  doc_TunnelEnabled :: bool
  doc_ActiveProfileID :: string
  doc_Profiles :: "Profile list"
  doc_Server :: ServerConfig

text \<open>A pointer argument that the code compares with nil.\<close>

type_synonym 'a ptr = "'a option"

section \<open>Deep copies\<close>

text \<open>\<open>append([]T(nil), s...)\<close> copies the elements, and turns an empty slice into nil.\<close>

definition LAN_clone :: "LANConfig \<Rightarrow> LANConfig" where
  "LAN_clone l = l\<lparr>lan_DNS := copy_slice (lan_DNS l), lan_Networks := copy_slice (lan_Networks l)\<rparr>"

definition Config_Clone :: "Config \<Rightarrow> Config" where
  "Config_Clone c = c\<lparr>cfg_LAN := LAN_clone (cfg_LAN c)\<rparr>"

definition ProfileConfig_clone :: "ProfileConfig \<Rightarrow> ProfileConfig" where
  "ProfileConfig_clone c = c\<lparr>pc_LAN := LAN_clone (pc_LAN c)\<rparr>"

definition Profile_clone :: "Profile \<Rightarrow> Profile" where
  "Profile_clone p = p\<lparr>pr_Config := ProfileConfig_clone (pr_Config p),
                       pr_ValidationErrors := copy_slice (pr_ValidationErrors p)\<rparr>"

definition Document_Clone :: "Document \<Rightarrow> Document" where
  "Document_Clone d = d\<lparr>doc_Profiles := map Profile_clone (doc_Profiles d)\<rparr>"

section \<open>Defaults\<close>

definition normalizeBroker :: "string \<Rightarrow> string" where
  "normalizeBroker broker = (if blank broker then defaultBroker else broker)"

definition default_tunnel :: "TunnelConfig \<Rightarrow> TunnelConfig" where
  "default_tunnel t = t\<lparr>tc_Broker := normalizeBroker (tc_Broker t),
     tc_TTL := (if tc_TTL t = 0 then defaultTTL else tc_TTL t),
     tc_MTU := (if tc_MTU t = 0 then defaultMTU else tc_MTU t)\<rparr>"

definition default_lan :: "LANConfig \<Rightarrow> LANConfig" where
  "default_lan l = l\<lparr>lan_Mode := (if blank (lan_Mode l) then defaultLANMode else lan_Mode l),
     lan_DNS := non_nil (lan_DNS l), lan_Networks := non_nil (lan_Networks l)\<rparr>"

definition default_health :: "HealthConfig \<Rightarrow> HealthConfig" where
  "default_health h = h\<lparr>
     hc_IntervalSec := (if hc_IntervalSec h = 0 then defaultHealthInterval else hc_IntervalSec h),
     hc_Target := (if blank (hc_Target h) then defaultHealthTarget else hc_Target h)\<rparr>"

definition default_server :: "ServerConfig \<Rightarrow> ServerConfig" where
  "default_server s = s\<lparr>sc_Port := (if sc_Port s = 0 then defaultPort else sc_Port s),
     sc_WANInterface := (if blank (sc_WANInterface s) then defaultWANInterface else sc_WANInterface s)\<rparr>"

definition Config_applyDefaults :: "Config \<Rightarrow> Config" where
  "Config_applyDefaults c = c\<lparr>cfg_Tunnel := default_tunnel (cfg_Tunnel c),
     cfg_LAN := default_lan (cfg_LAN c), cfg_Health := default_health (cfg_Health c),
     cfg_Server := default_server (cfg_Server c)\<rparr>"

definition ProfileConfig_applyDefaults :: "ProfileConfig \<Rightarrow> ProfileConfig" where
  "ProfileConfig_applyDefaults c = c\<lparr>pc_Tunnel := default_tunnel (pc_Tunnel c),
     pc_LAN := default_lan (pc_LAN c), pc_Health := default_health (pc_Health c)\<rparr>"

definition Document_applyDefaults :: "Document \<Rightarrow> Document" where
  "Document_applyDefaults d = d\<lparr>
     doc_StorageFormat :=
       (if blank (doc_StorageFormat d) then StorageFormatProfiles else doc_StorageFormat d),
     doc_ActiveProfileID :=
       (if blank (doc_ActiveProfileID d) then defaultProfileID else doc_ActiveProfileID d),
     doc_Profiles :=
       map (\<lambda>p. p\<lparr>pr_Config := ProfileConfig_applyDefaults (pr_Config p)\<rparr>) (doc_Profiles d),
     doc_Server := default_server (doc_Server d)\<rparr>"

definition Defaults :: Config where
  "Defaults =
     \<lparr>cfg_Tunnel = \<lparr>tc_Enabled = False, tc_Broker = defaultBroker, tc_RemoteEndpoint = [],
        tc_LocalIPv6 = [], tc_RemoteIPv6 = [], tc_TTL = defaultTTL, tc_MTU = defaultMTU\<rparr>,
      cfg_LAN = \<lparr>lan_Enabled = False, lan_DNS = Some [], lan_Mode = defaultLANMode,
        lan_Networks = Some []\<rparr>,
      cfg_Health = \<lparr>hc_Enabled = True, hc_IntervalSec = defaultHealthInterval,
        hc_Target = defaultHealthTarget, hc_AutoRestart = True\<rparr>,
      cfg_Server = \<lparr>sc_Port = defaultPort, sc_WANInterface = defaultWANInterface,
        sc_AuthToken = []\<rparr>\<rparr>"

definition DefaultProfileConfig :: ProfileConfig where
  "DefaultProfileConfig =
     \<lparr>pc_Tunnel = (cfg_Tunnel Defaults)\<lparr>tc_Enabled := False\<rparr>, pc_LAN = cfg_LAN Defaults,
      pc_Health = cfg_Health Defaults\<rparr>"

section \<open>Validation\<close>

definition isSupportedBroker :: "string \<Rightarrow> bool" where
  "isSupportedBroker broker = list_ex (\<lambda>supported. broker = supported) supportedBrokers"

definition isValidIPv6Address :: "string \<Rightarrow> bool" where
  "isValidIPv6Address v = (case ParseAddr (TrimSpace v) of Inl e \<Rightarrow> False | Inr a \<Rightarrow> Is6 a)"

definition isValidIPv6Prefix :: "string \<Rightarrow> bool" where
  "isValidIPv6Prefix v =
     (case ParsePrefix (TrimSpace v) of Inl e \<Rightarrow> False | Inr p \<Rightarrow> Is6 (prefix_addr p))"

definition validateServerConfig :: "ServerConfig \<Rightarrow> string list" where
  "validateServerConfig s =
     (if sc_Port s \<le> 0 then [''server.port must be greater than zero''] else [])
     @ (if blank (sc_WANInterface s) then [''server.wan_interface is required''] else [])"

text \<open>The loops over \<open>cfg.LAN.Networks\<close> and \<open>cfg.LAN.DNS\<close>, from the given index.\<close>

fun network_reasons :: "nat \<Rightarrow> NetworkConfig list \<Rightarrow> string list" where
  "network_reasons i [] = []"
| "network_reasons i (network # networks) =
     (if blank (nc_Interface network)
      then [''lan.networks['' @ nat_dec i @ ''].interface is required''] else [])
     @ (if blank (nc_Prefix network)
        then [''lan.networks['' @ nat_dec i @ ''].prefix is required'']
        else (case ParsePrefix (nc_Prefix network) of
                Inl err \<Rightarrow> [''lan.networks['' @ nat_dec i @ ''].prefix must be a valid IPv6 prefix'']
              | Inr p \<Rightarrow> if \<not> Is6 (prefix_addr p)
                         then [''lan.networks['' @ nat_dec i @ ''].prefix must be IPv6''] else []))
     @ network_reasons (Suc i) networks"

fun dns_reasons :: "nat \<Rightarrow> string list \<Rightarrow> string list" where
  "dns_reasons i [] = []"
| "dns_reasons i (dnsServer # servers) =
     (if \<not> isValidIPv6Address dnsServer
      then [''lan.dns['' @ nat_dec i @ ''] must be a valid IPv6 address''] else [])
     @ dns_reasons (Suc i) servers"

definition health_reasons :: "HealthConfig \<Rightarrow> string list" where
  "health_reasons h =
     (if hc_Enabled h then
        (if hc_IntervalSec h \<le> 0 then [''health.interval_sec must be greater than zero''] else [])
        @ (if blank (hc_Target h)
           then [''health.target is required when health checks are enabled'']
           else if \<not> isValidIPv6Address (hc_Target h)
           then [''health.target must be a valid IPv6 address''] else [])
      else [])"

definition lan_reasons :: "LANConfig \<Rightarrow> string list" where
  "lan_reasons l =
     (if lan_Enabled l then
        (if elems (lan_Networks l) = []
         then [''lan.networks must contain at least one network when lan.enabled=true''] else [])
        @ network_reasons 0 (elems (lan_Networks l)) @ dns_reasons 0 (elems (lan_DNS l))
      else [])"

text \<open>The checks that apply only when the tunnel is (or would be) enabled.\<close>

definition endpoint_reasons :: "TunnelConfig \<Rightarrow> string list" where
  "endpoint_reasons t =
     (if blank (tc_RemoteEndpoint t)
      then [''tunnel.remote_endpoint is required when tunnel_enabled=true'']
      else if ParseIP (tc_RemoteEndpoint t) = None \<or> CHR '':'' \<in> set (tc_RemoteEndpoint t)
      then [''tunnel.remote_endpoint must be a valid IPv4 address''] else [])
     @ (if blank (tc_LocalIPv6 t)
        then [''tunnel.local_ipv6 is required when tunnel_enabled=true'']
        else if \<not> isValidIPv6Prefix (tc_LocalIPv6 t)
        then [''tunnel.local_ipv6 must be a valid IPv6 prefix''] else [])"

definition validateProfileConfig :: "ProfileConfig \<Rightarrow> bool \<Rightarrow> string list" where
  "validateProfileConfig config tunnelEnabled =
     (let c = ProfileConfig_applyDefaults config; t = pc_Tunnel c;
          reasons =
            (if \<not> isSupportedBroker (tc_Broker t)
             then [''tunnel.broker must be one of: '' @ Join supportedBrokers '', ''] else [])
            @ (if tc_TTL t \<le> 0 then [''tunnel.ttl must be greater than zero''] else [])
            @ (if tc_MTU t < 0 then [''tunnel.mtu must be zero (auto) or greater than zero''] else [])
            @ health_reasons (pc_Health c) @ lan_reasons (pc_LAN c)
      in if \<not> tunnelEnabled then reasons else reasons @ endpoint_reasons t)"

definition profile_part :: "Config \<Rightarrow> ProfileConfig" where
  "profile_part c = \<lparr>pc_Tunnel = cfg_Tunnel c, pc_LAN = cfg_LAN c, pc_Health = cfg_Health c\<rparr>"

definition validationReasonsForConfig :: "Config \<Rightarrow> string list" where
  "validationReasonsForConfig c =
     validateServerConfig (cfg_Server c)
     @ validateProfileConfig (profile_part c) (tc_Enabled (cfg_Tunnel c))"

fun Config_ValidationReasons :: "Config ptr \<Rightarrow> string list" where
  "Config_ValidationReasons None = [''config is required'']"
| "Config_ValidationReasons (Some c) = validationReasonsForConfig c"

definition Config_Validate :: "Config ptr \<Rightarrow> goerr option" where
  "Config_Validate c =
     (let reasons = Config_ValidationReasons c
      in if reasons = [] then None else Some (ValidationError reasons))"

section \<open>Documents\<close>

definition refresh_profile :: "Document \<Rightarrow> Profile \<Rightarrow> Profile" where
  "refresh_profile d p =
     (let tunnelEnabled =
            (if pr_ID p = doc_ActiveProfileID d then doc_TunnelEnabled d else True);
          reasons = validateProfileConfig (pr_Config p) tunnelEnabled
      in p\<lparr>pr_ValidationErrors := copy_slice (Some reasons), pr_IsValid := (reasons = [])\<rparr>)"

definition refreshProfileValidation :: "Document \<Rightarrow> Document" where
  "refreshProfileValidation d = d\<lparr>doc_Profiles := map (refresh_profile d) (doc_Profiles d)\<rparr>"

definition indexed :: "nat \<Rightarrow> string \<Rightarrow> string" where
  "indexed i what = ''profiles['' @ nat_dec i @ '']'' @ what"

text \<open>
  The loop of \<open>Document.ValidationReasons\<close> over the profiles: the maps of the IDs and names seen
  so far with their indices, the index of the active profile, and the reasons.
\<close>

fun profile_loop ::
  "string \<Rightarrow> nat \<Rightarrow> (string \<rightharpoonup> nat) \<Rightarrow> (string \<rightharpoonup> nat) \<Rightarrow> nat option \<Rightarrow> Profile list
   \<Rightarrow> string list \<times> nat option" where
  "profile_loop active i seenIDs seenNames activeIndex [] = ([], activeIndex)"
| "profile_loop active i seenIDs seenNames activeIndex (p # ps) =
     (let (idReasons, seenIDs') =
            (if blank (pr_ID p) then ([indexed i ''.id is required''], seenIDs)
             else (case seenIDs (pr_ID p) of
                     Some j \<Rightarrow> ([indexed i ''.id must be unique'',
                                indexed i ''.id conflicts with '' @ indexed j ''.id''], seenIDs)
                   | None \<Rightarrow> ([], seenIDs(pr_ID p \<mapsto> i))));
          (nameReasons, seenNames') =
            (if blank (pr_Name p) then ([indexed i ''.name is required''], seenNames)
             else (case seenNames (pr_Name p) of
                     Some j \<Rightarrow> ([indexed i ''.name must be unique'',
                                indexed i ''.name conflicts with '' @ indexed j ''.name''], seenNames)
                   | None \<Rightarrow> ([], seenNames(pr_Name p \<mapsto> i))));
          (rest, activeIndex') =
            profile_loop active (Suc i) seenIDs' seenNames'
              (if pr_ID p = active then Some i else activeIndex) ps
      in (idReasons @ nameReasons @ rest, activeIndex'))"

text \<open>The reasons of a document that has its defaults applied and its profiles refreshed.\<close>

definition document_reasons :: "Document \<Rightarrow> string list" where
  "document_reasons d =
     (let reasons = validateServerConfig (doc_Server d)
      in if doc_Profiles d = [] then reasons @ [''profiles must contain at least one profile'']
         else let (profileReasons, activeIndex) =
                    profile_loop (doc_ActiveProfileID d) 0 Map.empty Map.empty None (doc_Profiles d)
              in reasons @ profileReasons
                 @ (if blank (doc_ActiveProfileID d) then [''active_profile_id is required'']
                    else if activeIndex = None
                    then [''active_profile_id must reference an existing profile''] else [])
                 @ (case activeIndex of
                      None \<Rightarrow> []
                    | Some i \<Rightarrow> map (\<lambda>reason. indexed i (''.config.'' @ reason))
                                 (elems (pr_ValidationErrors (doc_Profiles d ! i)))))"

text \<open>
  \<open>Document.ValidationReasons\<close> and \<open>Document.Validate\<close> write the defaults and the refreshed
  validation results into the document they are called on.
\<close>

definition normalize :: "Document \<Rightarrow> Document" where
  "normalize d = refreshProfileValidation (Document_applyDefaults d)"

fun Document_ValidationReasons :: "Document ptr \<Rightarrow> Document ptr \<times> string list" where
  "Document_ValidationReasons None = (None, [''config document is required''])"
| "Document_ValidationReasons (Some d) = (Some (normalize d), document_reasons (normalize d))"

definition Document_Validate :: "Document ptr \<Rightarrow> Document ptr \<times> goerr option" where
  "Document_Validate d =
     (let (d', reasons) = Document_ValidationReasons d
      in (d', if reasons = [] then None else Some (ValidationError reasons)))"

definition profile_not_found :: "string \<Rightarrow> goerr" where
  "profile_not_found i = ErrorString (''active profile '' @ Quote i @ '' not found'')"

definition ActiveProfile :: "Document ptr \<Rightarrow> Profile res" where
  "ActiveProfile doc =
     (case doc of
        None \<Rightarrow> Inl (ErrorString ''config document is required'')
      | Some d \<Rightarrow>
          (case find (\<lambda>p. pr_ID p = doc_ActiveProfileID d) (doc_Profiles d) of
             None \<Rightarrow> Inl (profile_not_found (doc_ActiveProfileID d))
           | Some p \<Rightarrow> Inr (Profile_clone p)))"

definition ActiveConfig :: "Document ptr \<Rightarrow> Config res" where
  "ActiveConfig doc =
     (case doc of
        None \<Rightarrow> Inl (ErrorString ''config document is required'')
      | Some d \<Rightarrow>
          (case ActiveProfile (Some d) of
             Inl err \<Rightarrow> Inl err
           | Inr p \<Rightarrow>
               Inr (Config_applyDefaults
                 \<lparr>cfg_Tunnel = (pc_Tunnel (pr_Config p))\<lparr>tc_Enabled := doc_TunnelEnabled d\<rparr>,
                  cfg_LAN = pc_LAN (pr_Config p), cfg_Health = pc_Health (pr_Config p),
                  cfg_Server = doc_Server d\<rparr>)))"

text \<open>What a profile stores of a configuration: the tunnel's own flag stays off.\<close>

definition stored_config :: "Config \<Rightarrow> ProfileConfig" where
  "stored_config c =
     (profile_part c)\<lparr>pc_Tunnel := (cfg_Tunnel c)\<lparr>tc_Enabled := False\<rparr>\<rparr>"

fun replace_first :: "string \<Rightarrow> ProfileConfig \<Rightarrow> Profile list \<Rightarrow> Profile list option" where
  "replace_first active pc [] = None"
| "replace_first active pc (p # ps) =
     (if pr_ID p \<noteq> active then map_option (Cons p) (replace_first active pc ps)
      else Some (p\<lparr>pr_Config := pc\<rparr> # ps))"

definition replaceDocumentActiveProfileConfig :: "Document ptr \<Rightarrow> Config ptr \<Rightarrow> Document res" where
  "replaceDocumentActiveProfileConfig document cfg =
     (case document of
        None \<Rightarrow> Inl (ErrorString ''config document is required'')
      | Some d \<Rightarrow>
          (case cfg of
             None \<Rightarrow> Inl (ErrorString ''config is required'')
           | Some c \<Rightarrow>
               (case replace_first (doc_ActiveProfileID d) (stored_config c) (doc_Profiles d) of
                  None \<Rightarrow> Inl (profile_not_found (doc_ActiveProfileID d))
                | Some ps \<Rightarrow> Inr (d\<lparr>doc_Profiles := ps\<rparr>))))"

definition single_profile :: "ProfileConfig \<Rightarrow> Profile" where
  "single_profile pc = \<lparr>pr_ID = defaultProfileID, pr_Name = defaultProfileName, pr_Config = pc,
                        pr_IsValid = False, pr_ValidationErrors = None\<rparr>"

definition DefaultDocument :: Document where
  "DefaultDocument = refreshProfileValidation
     \<lparr>doc_StorageFormat = StorageFormatLegacy, doc_TunnelEnabled = False,
      doc_ActiveProfileID = defaultProfileID, doc_Profiles = [single_profile DefaultProfileConfig],
      doc_Server = \<lparr>sc_Port = defaultPort, sc_WANInterface = defaultWANInterface, sc_AuthToken = []\<rparr>\<rparr>"

fun DocumentFromConfig :: "Config ptr \<Rightarrow> string \<Rightarrow> Document" where
  "DocumentFromConfig None storageFormat = DefaultDocument"
| "DocumentFromConfig (Some cfg) storageFormat =
     (let c = Config_applyDefaults (Config_Clone cfg)
      in refreshProfileValidation
           \<lparr>doc_StorageFormat = storageFormat, doc_TunnelEnabled = tc_Enabled (cfg_Tunnel c),
            doc_ActiveProfileID = defaultProfileID, doc_Profiles = [single_profile (stored_config c)],
            doc_Server = cfg_Server c\<rparr>)"

definition shouldSaveLegacy :: "Document \<Rightarrow> bool" where
  "shouldSaveLegacy d =
     (if doc_StorageFormat d \<noteq> StorageFormatLegacy then False
      else case doc_Profiles d of
             [p] \<Rightarrow> doc_ActiveProfileID d = defaultProfileID \<and> pr_ID p = defaultProfileID
                    \<and> pr_Name p = defaultProfileName
           | _ \<Rightarrow> False)"

end
