(* ===== verification/ConfigFacts.thy ===== *)
theory ConfigFacts
  imports Config
begin

text \<open>
  What \<open>internal/config\<close> promises: defaults are stable, validation decides a declarative
  specification of well-formed profiles and documents, a valid document has a valid active
  configuration, and a configuration survives being wrapped into a document.
\<close>

section \<open>Defaults and copies\<close>

lemma normalizeBroker_idem [simp]: "normalizeBroker (normalizeBroker b) = normalizeBroker b"
  by (simp add: normalizeBroker_def)

lemma normalizeBroker_not_blank [simp]: "\<not> blank (normalizeBroker b)"
  by (simp add: normalizeBroker_def)

lemma default_idem [simp]:
  "default_tunnel (default_tunnel t) = default_tunnel t"
  "default_lan (default_lan l) = default_lan l"
  "default_health (default_health h) = default_health h"
  "default_server (default_server s) = default_server s"
  by (simp_all add: default_tunnel_def default_lan_def default_health_def default_server_def)

lemma default_lan_clone [simp]:
  "default_lan (LAN_clone l) = default_lan l" "LAN_clone (LAN_clone l) = LAN_clone l"
  by (simp_all add: default_lan_def LAN_clone_def)

lemma Clone_idem [simp]:
  "Config_Clone (Config_Clone c) = Config_Clone c"
  "ProfileConfig_clone (ProfileConfig_clone pc) = ProfileConfig_clone pc"
  "Profile_clone (Profile_clone p) = Profile_clone p"
  "Document_Clone (Document_Clone d) = Document_Clone d"
  by (simp_all add: Config_Clone_def ProfileConfig_clone_def Profile_clone_def Document_Clone_def)

lemma applyDefaults_Clone [simp]:
  "Config_applyDefaults (Config_Clone c) = Config_applyDefaults c"
  "ProfileConfig_applyDefaults (ProfileConfig_clone pc) = ProfileConfig_applyDefaults pc"
  by (simp_all add: Config_applyDefaults_def Config_Clone_def ProfileConfig_applyDefaults_def
      ProfileConfig_clone_def)

lemma applyDefaults_idem [simp]:
  "Config_applyDefaults (Config_applyDefaults c) = Config_applyDefaults c"
  "ProfileConfig_applyDefaults (ProfileConfig_applyDefaults pc) = ProfileConfig_applyDefaults pc"
  "Document_applyDefaults (Document_applyDefaults d) = Document_applyDefaults d"
  by (simp_all add: Config_applyDefaults_def ProfileConfig_applyDefaults_def
      Document_applyDefaults_def)

lemma Defaults_fixed [simp]: "Config_applyDefaults Defaults = Defaults"
  by (simp add: Config_applyDefaults_def Defaults_def default_tunnel_def default_lan_def
      default_health_def default_server_def normalizeBroker_def)

lemma validateProfileConfig_cong [simp]:
  "validateProfileConfig (ProfileConfig_applyDefaults c) en = validateProfileConfig c en"
  "validateProfileConfig (ProfileConfig_clone c) en = validateProfileConfig c en"
  by (simp_all add: validateProfileConfig_def)

lemma default_tunnel_Enabled:
  "default_tunnel (t\<lparr>tc_Enabled := b\<rparr>) = (default_tunnel t)\<lparr>tc_Enabled := b\<rparr>"
  by (simp add: default_tunnel_def)

text \<open>Validation never looks at the per-profile \<open>enabled\<close> flag.\<close>

lemma validateProfileConfig_Enabled [simp]:
  "validateProfileConfig (c\<lparr>pc_Tunnel := (pc_Tunnel c)\<lparr>tc_Enabled := b\<rparr>\<rparr>) en
   = validateProfileConfig c en"
  by (simp add: validateProfileConfig_def ProfileConfig_applyDefaults_def endpoint_reasons_def
      default_tunnel_Enabled Let_def)

lemma profile_part_applyDefaults [simp]:
  "profile_part (Config_applyDefaults c) = ProfileConfig_applyDefaults (profile_part c)"
  by (simp add: profile_part_def Config_applyDefaults_def ProfileConfig_applyDefaults_def)

lemma stored_config_alt:
  "stored_config c = (profile_part c)\<lparr>pc_Tunnel := (pc_Tunnel (profile_part c))\<lparr>tc_Enabled := False\<rparr>\<rparr>"
  by (simp add: stored_config_def profile_part_def)

section \<open>A valid profile\<close>

definition network_valid :: "NetworkConfig \<Rightarrow> bool" where
  "network_valid n \<longleftrightarrow> \<not> blank (nc_Interface n) \<and> \<not> blank (nc_Prefix n)
     \<and> (\<exists>a b. ParsePrefix (nc_Prefix n) = Inr (Prefix (Addr6 a []) b) \<and> b \<le> 128)"

definition health_valid :: "HealthConfig \<Rightarrow> bool" where
  "health_valid h \<longleftrightarrow> (hc_Enabled h \<longrightarrow>
     0 < hc_IntervalSec h \<and> (\<exists>a z. ParseAddr (TrimSpace (hc_Target h)) = Inr (Addr6 a z)))"

definition lan_valid :: "LANConfig \<Rightarrow> bool" where
  "lan_valid l \<longleftrightarrow> (lan_Enabled l \<longrightarrow>
     elems (lan_Networks l) \<noteq> [] \<and> (\<forall>n \<in> set (elems (lan_Networks l)). network_valid n)
     \<and> (\<forall>s \<in> set (elems (lan_DNS l)). \<exists>a z. ParseAddr (TrimSpace s) = Inr (Addr6 a z)))"

definition endpoint_valid :: "TunnelConfig \<Rightarrow> bool" where
  "endpoint_valid t \<longleftrightarrow> (\<exists>a. ParseAddr (tc_RemoteEndpoint t) = Inr (Addr4 a))
     \<and> (\<exists>a b. ParsePrefix (TrimSpace (tc_LocalIPv6 t)) = Inr (Prefix (Addr6 a []) b) \<and> b \<le> 128)"

text \<open>The specification: what an effective (default-filled) profile must satisfy.\<close>

definition profile_valid :: "ProfileConfig \<Rightarrow> bool \<Rightarrow> bool" where
  "profile_valid config tunnelEnabled \<longleftrightarrow>
     (let c = ProfileConfig_applyDefaults config; t = pc_Tunnel c
      in tc_Broker t \<in> set supportedBrokers \<and> 0 < tc_TTL t \<and> 0 \<le> tc_MTU t
         \<and> health_valid (pc_Health c) \<and> lan_valid (pc_LAN c)
         \<and> (tunnelEnabled \<longrightarrow> endpoint_valid t))"

lemma Is6_iff: "Is6 ip \<longleftrightarrow> (\<exists>a z. ip = Addr6 a z)"
  by (cases ip) auto

lemma isValidIPv6Address_iff:
  "isValidIPv6Address s \<longleftrightarrow> (\<exists>a z. ParseAddr (TrimSpace s) = Inr (Addr6 a z))"
  by (auto simp: isValidIPv6Address_def Is6_iff split: sum.splits)

lemma ParsePrefix_Is6:
  "ParsePrefix s = Inr p \<Longrightarrow> Is6 (prefix_addr p) \<Longrightarrow> \<exists>a b. p = Prefix (Addr6 a []) b \<and> b \<le> 128"
  using ParsePrefix_ok [of s p] by (cases p; cases "prefix_addr p") auto

lemma isValidIPv6Prefix_iff:
  "isValidIPv6Prefix s \<longleftrightarrow> (\<exists>a b. ParsePrefix (TrimSpace s) = Inr (Prefix (Addr6 a []) b) \<and> b \<le> 128)"
  by (auto simp: isValidIPv6Prefix_def dest: ParsePrefix_Is6 split: sum.splits)

lemma isSupportedBroker_iff: "isSupportedBroker b \<longleftrightarrow> b \<in> set supportedBrokers"
  by (auto simp: isSupportedBroker_def list_ex_iff)

lemma network_reasons_Nil: "network_reasons i ns = [] \<longleftrightarrow> (\<forall>n \<in> set ns. network_valid n)"
proof (induction ns arbitrary: i)
  case Nil
  show ?case by simp
next
  case (Cons n ns)
  show ?case
    by (auto simp: Cons network_valid_def dest: ParsePrefix_Is6 split: sum.splits)
qed

lemma dns_reasons_Nil: "dns_reasons i ss = [] \<longleftrightarrow> (\<forall>s \<in> set ss. isValidIPv6Address s)"
  by (induction ss arbitrary: i) auto

lemma v4_loop_chars: "v4_loop inp prev fs v dl s = Inr r \<Longrightarrow> \<forall>c \<in> set s. is_digit c \<or> c = CHR ''.''"
  by (induction inp prev fs v dl s rule: v4_loop.induct) (auto split: if_splits)

text \<open>A string that parses as IPv4 has only digits and dots, and conversely.\<close>

lemma ParseAddr_Addr4:
  "ParseAddr s = Inr (Addr4 a) \<Longrightarrow> (\<forall>c \<in> set s. is_digit c \<or> c = CHR ''.'') \<and> s \<noteq> []"
  by (auto simp: ParseAddr_def parseIPv4_def parseIPv6_def addr6_of_groups_def parseIPv4Fields_def Let_def
      dest: v4_loop_chars split: option.splits sum.splits if_splits)

lemma ParseAddr_no_colon:
  "ParseAddr s = Inr ip \<Longrightarrow> CHR '':'' \<notin> set s \<Longrightarrow> \<exists>a. ip = Addr4 a"
  by (auto simp: ParseAddr_def parseIPv4_def dest: find_SomeD split: option.splits sum.splits if_splits)

lemma endpoint_reasons_Nil: "endpoint_reasons t = [] \<longleftrightarrow> endpoint_valid t"
proof -
  let ?s = "tc_RemoteEndpoint t"
  have "\<not> blank ?s \<and> ParseIP ?s \<noteq> None \<and> CHR '':'' \<notin> set ?s \<longleftrightarrow> (\<exists>a. ParseAddr ?s = Inr (Addr4 a))"
  proof
    assume "\<not> blank ?s \<and> ParseIP ?s \<noteq> None \<and> CHR '':'' \<notin> set ?s"
    then show "\<exists>a. ParseAddr ?s = Inr (Addr4 a)"
      using ParseAddr_no_colon [of ?s] by (auto simp: ParseIP_def split: sum.splits if_splits)
  next
    assume "\<exists>a. ParseAddr ?s = Inr (Addr4 a)"
    then obtain a where a: "ParseAddr ?s = Inr (Addr4 a)" by blast
    note ch = ParseAddr_Addr4 [OF a]
    have "graphic (CHR ''.'')" by (simp add: graphic_def)
    then have "list_all graphic ?s"
      unfolding list_all_iff using ch is_digit_graphic by blast
    then have "\<not> blank ?s" using ch by (simp add: blank_graphic)
    moreover have "CHR '':'' \<notin> set ?s" using ch by (auto simp: is_digit_def)
    ultimately show "\<not> blank ?s \<and> ParseIP ?s \<noteq> None \<and> CHR '':'' \<notin> set ?s"
      using a by (simp add: ParseIP_def)
  qed
  moreover have "isValidIPv6Prefix s \<Longrightarrow> \<not> blank s" for s
    by (auto simp: isValidIPv6Prefix_def blank_def ParsePrefix_def)
  ultimately show ?thesis
    by (auto simp: endpoint_reasons_def endpoint_valid_def isValidIPv6Prefix_iff)
qed

lemma health_reasons_Nil: "health_reasons h = [] \<longleftrightarrow> health_valid h"
proof -
  have "isValidIPv6Address s \<Longrightarrow> \<not> blank s" for s
    by (auto simp: isValidIPv6Address_def blank_def ParseAddr_def)
  then show ?thesis
    by (auto simp: health_reasons_def health_valid_def isValidIPv6Address_iff)
qed

lemma lan_reasons_Nil: "lan_reasons l = [] \<longleftrightarrow> lan_valid l"
  by (auto simp: lan_reasons_def lan_valid_def network_reasons_Nil dns_reasons_Nil
      isValidIPv6Address_iff)

lemma profile_reasons_Nil: "validateProfileConfig c en = [] \<longleftrightarrow> profile_valid c en"
  by (auto simp: validateProfileConfig_def profile_valid_def Let_def isSupportedBroker_iff
      health_reasons_Nil lan_reasons_Nil endpoint_reasons_Nil)

section \<open>A valid document\<close>

text \<open>One iteration on a profile whose ID and name are new.\<close>

lemma profile_loop_new:
  assumes "\<not> blank (pr_ID p)" "sI (pr_ID p) = None" "\<not> blank (pr_Name p)" "sN (pr_Name p) = None"
  shows "profile_loop active i sI sN ai (p # ps) =
     profile_loop active (Suc i) (sI(pr_ID p \<mapsto> i)) (sN(pr_Name p \<mapsto> i))
       (if pr_ID p = active then Some i else ai) ps"
  using assms by (simp add: case_prod_beta)

lemma profile_loop_old:
  "blank (pr_ID p) \<or> sI (pr_ID p) \<noteq> None \<or> blank (pr_Name p) \<or> sN (pr_Name p) \<noteq> None
   \<Longrightarrow> fst (profile_loop active i sI sN ai (p # ps)) \<noteq> []"
  by (auto simp: Let_def case_prod_beta split: option.splits)

lemma profile_loop_Nil_iff:
  "fst (profile_loop active i sI sN ai ps) = [] \<longleftrightarrow>
     (\<forall>p \<in> set ps. \<not> blank (pr_ID p) \<and> sI (pr_ID p) = None
                  \<and> \<not> blank (pr_Name p) \<and> sN (pr_Name p) = None)
     \<and> distinct (map pr_ID ps) \<and> distinct (map pr_Name ps)"
proof (induction ps arbitrary: i sI sN ai)
  case Nil
  show ?case by simp
next
  case (Cons p ps)
  show ?case
  proof (cases "blank (pr_ID p) \<or> sI (pr_ID p) \<noteq> None \<or> blank (pr_Name p) \<or> sN (pr_Name p) \<noteq> None")
    case True
    then show ?thesis using profile_loop_old [of p] by (auto simp del: profile_loop.simps)
  next
    case False
    then show ?thesis
      by (auto simp: profile_loop_new Cons image_iff simp del: profile_loop.simps split: if_splits)
  qed
qed

lemma snd_profile_loop_Cons:
  "\<exists>sI' sN'. snd (profile_loop active i sI sN ai (p # ps)) =
     snd (profile_loop active (Suc i) sI' sN' (if pr_ID p = active then Some i else ai) ps)"
  by (simp add: case_prod_beta) blast

lemma profile_loop_inactive:
  "active \<notin> pr_ID ` set ps \<Longrightarrow> snd (profile_loop active i sI sN ai ps) = ai"
proof (induction ps arbitrary: i sI sN ai)
  case Nil
  show ?case by simp
next
  case (Cons p ps)
  then show ?case using snd_profile_loop_Cons [of active i sI sN ai p ps] by auto
qed

lemma profile_loop_active:
  "distinct (map pr_ID ps) \<Longrightarrow> k < length ps \<Longrightarrow> pr_ID (ps ! k) = active
   \<Longrightarrow> snd (profile_loop active i sI sN ai ps) = Some (i + k)"
proof (induction ps arbitrary: i sI sN ai k)
  case Nil
  then show ?case by simp
next
  case (Cons p ps)
  obtain sI' sN' where step: "snd (profile_loop active i sI sN ai (p # ps)) =
     snd (profile_loop active (Suc i) sI' sN' (if pr_ID p = active then Some i else ai) ps)"
    using snd_profile_loop_Cons by blast
  show ?case
  proof (cases k)
    case 0
    then show ?thesis using Cons.prems step by (simp add: profile_loop_inactive)
  next
    case (Suc j)
    then show ?thesis using Cons.prems Cons.IH [of j "Suc i"] step by simp
  qed
qed

definition server_valid :: "ServerConfig \<Rightarrow> bool" where
  "server_valid s \<longleftrightarrow> 0 < sc_Port s \<and> \<not> blank (sc_WANInterface s)"

lemma server_reasons_Nil: "validateServerConfig s = [] \<longleftrightarrow> server_valid s"
  by (auto simp: validateServerConfig_def server_valid_def)

text \<open>
  The specification of a document, on its default-filled form: a valid server section, at
  least one profile, non-blank unique IDs and names, and an existing, valid active profile.
  The other profiles may be invalid drafts.
\<close>

definition document_valid :: "Document \<Rightarrow> bool" where
  "document_valid d \<longleftrightarrow>
     (let ps = doc_Profiles d; active = doc_ActiveProfileID d
      in server_valid (doc_Server d)
         \<and> (\<forall>p \<in> set ps. \<not> blank (pr_ID p) \<and> \<not> blank (pr_Name p))
         \<and> distinct (map pr_ID ps) \<and> distinct (map pr_Name ps)
         \<and> (\<exists>p \<in> set ps. pr_ID p = active \<and> profile_valid (pr_Config p) (doc_TunnelEnabled d)))"

lemma refresh_profile_simps [simp]:
  "pr_ID (refresh_profile d p) = pr_ID p" "pr_Name (refresh_profile d p) = pr_Name p"
  "pr_Config (refresh_profile d p) = pr_Config p"
  by (simp_all add: refresh_profile_def Let_def)

lemma refresh_simps [simp]:
  "doc_Server (refreshProfileValidation d) = doc_Server d"
  "doc_ActiveProfileID (refreshProfileValidation d) = doc_ActiveProfileID d"
  "doc_TunnelEnabled (refreshProfileValidation d) = doc_TunnelEnabled d"
  "doc_StorageFormat (refreshProfileValidation d) = doc_StorageFormat d"
  "doc_Profiles (refreshProfileValidation d) = map (refresh_profile d) (doc_Profiles d)"
  by (simp_all add: refreshProfileValidation_def)

lemma refresh_errors:
  "elems (pr_ValidationErrors (refresh_profile d p)) =
     validateProfileConfig (pr_Config p)
       (if pr_ID p = doc_ActiveProfileID d then doc_TunnelEnabled d else True)"
  by (simp add: refresh_profile_def Let_def)

lemma document_valid_refresh [simp]:
  "document_valid (refreshProfileValidation d) = document_valid d"
  by (simp add: document_valid_def Let_def comp_def)

lemma document_reasons_refresh:
  "document_reasons (refreshProfileValidation d) = [] \<longleftrightarrow>
     \<not> blank (doc_ActiveProfileID d) \<and> document_valid d"
  (is "?L \<longleftrightarrow> ?R")
proof -
  let ?d = "refreshProfileValidation d"
  let ?ps = "doc_Profiles ?d" and ?active = "doc_ActiveProfileID d"
  let ?loop = "profile_loop ?active 0 Map.empty Map.empty None ?ps"
  have errs: "document_reasons ?d = [] \<longleftrightarrow> server_valid (doc_Server d) \<and> ?ps \<noteq> [] \<and> fst ?loop = []
      \<and> \<not> blank ?active \<and> snd ?loop \<noteq> None
      \<and> elems (pr_ValidationErrors (?ps ! the (snd ?loop))) = []"
    by (auto simp: document_reasons_def Let_def case_prod_beta server_reasons_Nil
        simp del: refresh_simps(5) split: option.splits)
  show ?thesis
  proof (cases "distinct (map pr_ID ?ps) \<and> ?active \<in> pr_ID ` set ?ps")
    case True
    then obtain k where k: "k < length ?ps" "pr_ID (?ps ! k) = ?active"
      by (auto simp: in_set_conv_nth simp del: refresh_simps(5))
    have loop: "snd ?loop = Some k" using profile_loop_active [OF _ k] True by simp
    have uniq: "p = doc_Profiles d ! k" if "p \<in> set (doc_Profiles d)" "pr_ID p = ?active" for p
    proof (rule distinct_map_eqD [of pr_ID])
      show "distinct (map pr_ID (doc_Profiles d))" using True by (simp add: comp_def)
      show "doc_Profiles d ! k \<in> set (doc_Profiles d)" using k by simp
      show "pr_ID p = pr_ID (doc_Profiles d ! k)" using k that by simp
    qed (rule that)
    have "elems (pr_ValidationErrors (?ps ! k)) = [] \<longleftrightarrow>
        profile_valid (pr_Config (doc_Profiles d ! k)) (doc_TunnelEnabled d)"
      using k by (simp add: refresh_errors profile_reasons_Nil)
    then have "elems (pr_ValidationErrors (?ps ! k)) = [] \<longleftrightarrow> (\<exists>p \<in> set (doc_Profiles d).
        pr_ID p = ?active \<and> profile_valid (pr_Config p) (doc_TunnelEnabled d))"
      using uniq k by (metis length_map nth_map nth_mem refresh_profile_simps(1) refresh_simps(5))
    with errs loop k True show ?thesis
      by (auto simp: document_valid_def Let_def profile_loop_Nil_iff comp_def)
  next
    case False
    then have "fst ?loop \<noteq> [] \<or> snd ?loop = None"
      by (auto simp: profile_loop_Nil_iff profile_loop_inactive)
    moreover have "\<not> document_valid d"
      using False by (auto simp: document_valid_def Let_def comp_def image_iff)
    ultimately show ?thesis using errs by auto
  qed
qed

lemma applyDefaults_active_not_blank [simp]:
  "\<not> blank (doc_ActiveProfileID (Document_applyDefaults d))"
  by (simp add: Document_applyDefaults_def)

lemma Document_Validate_ok:
  "Document_Validate (Some d) = (Some d', None) \<longleftrightarrow>
     d' = normalize d \<and> document_valid (Document_applyDefaults d)"
  by (auto simp: Document_Validate_def normalize_def document_reasons_refresh)

lemma normalize_idem [simp]: "normalize (normalize d) = normalize d"
  by (simp add: normalize_def refreshProfileValidation_def Document_applyDefaults_def
      refresh_profile_def Let_def comp_def)

section \<open>The active configuration\<close>

lemma find_map: "find P (map f xs) = map_option f (find (P \<circ> f) xs)"
  by (induction xs) auto

lemma profile_valid_cong [simp]:
  "profile_valid (ProfileConfig_applyDefaults c) en = profile_valid c en"
  "profile_valid (ProfileConfig_clone c) en = profile_valid c en"
  "profile_valid (c\<lparr>pc_Tunnel := (pc_Tunnel c)\<lparr>tc_Enabled := b\<rparr>\<rparr>) en = profile_valid c en"
  by (simp_all add: profile_reasons_Nil [symmetric])

definition config_valid :: "Config \<Rightarrow> bool" where
  "config_valid c \<longleftrightarrow> server_valid (cfg_Server c) \<and> profile_valid (profile_part c) (tc_Enabled (cfg_Tunnel c))"

lemma Config_Validate_ok: "Config_Validate (Some c) = None \<longleftrightarrow> config_valid c"
  by (simp add: Config_Validate_def validationReasonsForConfig_def config_valid_def
      server_reasons_Nil profile_reasons_Nil)

lemma default_server_valid: "server_valid s \<Longrightarrow> default_server s = s"
  by (simp add: server_valid_def default_server_def)

lemma ActiveConfig_of_find:
  assumes "find (\<lambda>p. pr_ID p = doc_ActiveProfileID d) (doc_Profiles d) = Some p"
  shows "\<exists>c. ActiveConfig (Some d) = Inr c \<and> Config_applyDefaults c = c
    \<and> cfg_Server c = default_server (doc_Server d) \<and> tc_Enabled (cfg_Tunnel c) = doc_TunnelEnabled d
    \<and> (\<forall>en. profile_valid (profile_part c) en = profile_valid (pr_Config p) en)"
proof -
  let ?pc = "pr_Config (Profile_clone p)"
  let ?c = "\<lparr>cfg_Tunnel = (pc_Tunnel ?pc)\<lparr>tc_Enabled := doc_TunnelEnabled d\<rparr>, cfg_LAN = pc_LAN ?pc,
             cfg_Health = pc_Health ?pc, cfg_Server = doc_Server d\<rparr>"
  have "profile_part ?c = ?pc\<lparr>pc_Tunnel := (pc_Tunnel ?pc)\<lparr>tc_Enabled := doc_TunnelEnabled d\<rparr>\<rparr>"
    by (simp add: profile_part_def)
  then have "profile_valid (profile_part ?c) en = profile_valid (pr_Config p) en" for en
    by (simp add: Profile_clone_def)
  then have "profile_valid (profile_part (Config_applyDefaults ?c)) en = profile_valid (pr_Config p) en" for en
    by simp
  moreover have "ActiveConfig (Some d) = Inr (Config_applyDefaults ?c)"
    using assms by (simp add: ActiveConfig_def ActiveProfile_def)
  moreover have "cfg_Server (Config_applyDefaults ?c) = default_server (doc_Server d)"
    "tc_Enabled (cfg_Tunnel (Config_applyDefaults ?c)) = doc_TunnelEnabled d"
    by (simp_all add: Config_applyDefaults_def default_tunnel_def)
  ultimately show ?thesis by (intro exI [of _ "Config_applyDefaults ?c"]) simp
qed

text \<open>A document that validates has an active configuration, and that configuration validates.\<close>

lemma valid_document_config:
  assumes "document_valid d"
  shows "\<exists>c. ActiveConfig (Some d) = Inr c \<and> config_valid c
           \<and> tc_Enabled (cfg_Tunnel c) = doc_TunnelEnabled d \<and> Config_applyDefaults c = c"
proof -
  obtain p where p: "p \<in> set (doc_Profiles d)" "pr_ID p = doc_ActiveProfileID d"
    "profile_valid (pr_Config p) (doc_TunnelEnabled d)" "distinct (map pr_ID (doc_Profiles d))"
    "server_valid (doc_Server d)"
    using assms by (auto simp: document_valid_def Let_def)
  then obtain q where q: "find (\<lambda>p. pr_ID p = doc_ActiveProfileID d) (doc_Profiles d) = Some q"
    by (cases "find (\<lambda>p. pr_ID p = doc_ActiveProfileID d) (doc_Profiles d)") (auto simp: find_None_iff)
  then have "q \<in> set (doc_Profiles d)" "pr_ID q = doc_ActiveProfileID d"
    by (auto dest: find_SomeD)
  with p have "q = p" by (metis distinct_map_eqD)
  with ActiveConfig_of_find [OF q] p show ?thesis
    by (auto simp: config_valid_def default_server_valid)
qed

text \<open>Wrapping a configuration into a document and reading it back only fills in defaults.\<close>

lemma active_of_wrapped:
  "ActiveConfig (Some (DocumentFromConfig (Some c) f)) = Inr (Config_applyDefaults c)"
  by (simp add: ActiveConfig_def ActiveProfile_def Let_def single_profile_def refresh_profile_def Profile_clone_def
      ProfileConfig_clone_def stored_config_def profile_part_def Config_applyDefaults_def Config_Clone_def
      default_tunnel_def)

section \<open>Replacing the active profile's configuration\<close>

lemma replace_first_Some:
  "replace_first active pc ps = Some qs \<Longrightarrow>
     \<exists>xs p ys. ps = xs @ p # ys \<and> qs = xs @ p\<lparr>pr_Config := pc\<rparr> # ys
       \<and> pr_ID p = active \<and> active \<notin> pr_ID ` set xs"
proof (induction ps arbitrary: qs)
  case Nil
  then show ?case by simp
next
  case (Cons q ps)
  show ?case
  proof (cases "pr_ID q = active")
    case True
    then show ?thesis using Cons.prems by (intro exI [of _ "[]"]) auto
  next
    case False
    then obtain rs where rs: "replace_first active pc ps = Some rs" "qs = q # rs"
      using Cons.prems by auto
    from Cons.IH [OF rs(1)] obtain xs p ys where "ps = xs @ p # ys" "rs = xs @ p\<lparr>pr_Config := pc\<rparr> # ys"
      "pr_ID p = active" "active \<notin> pr_ID ` set xs" by blast
    then show ?thesis using rs False by (intro exI [of _ "q # xs"]) auto
  qed
qed

lemma replace_first_None: "replace_first active pc ps = None \<longleftrightarrow> active \<notin> pr_ID ` set ps"
  by (induction ps) auto

lemma replace_first_keeps:
  "replace_first active pc ps = Some qs \<Longrightarrow> map pr_ID qs = map pr_ID ps \<and> map pr_Name qs = map pr_Name ps
     \<and> filter (\<lambda>p. pr_ID p \<noteq> active) qs = filter (\<lambda>p. pr_ID p \<noteq> active) ps"
  by (drule replace_first_Some) auto

lemma find_append_skip: "(\<forall>x \<in> set xs. \<not> P x) \<Longrightarrow> find P (xs @ ys) = find P ys"
  by (induction xs) auto

lemma replaced_active_config:
  assumes "replaceDocumentActiveProfileConfig (Some d) (Some c) = Inr d'"
  shows "ActiveConfig (Some d') = Inr (Config_applyDefaults
    (c\<lparr>cfg_Tunnel := (cfg_Tunnel c)\<lparr>tc_Enabled := doc_TunnelEnabled d\<rparr>, cfg_Server := doc_Server d\<rparr>))"
proof -
  obtain qs where q: "replace_first (doc_ActiveProfileID d) (stored_config c) (doc_Profiles d) = Some qs"
    "d' = d\<lparr>doc_Profiles := qs\<rparr>"
    using assms by (auto simp: replaceDocumentActiveProfileConfig_def split: option.splits)
  from replace_first_Some [OF q(1)] obtain xs p ys where x: "qs = xs @ p\<lparr>pr_Config := stored_config c\<rparr> # ys"
    "pr_ID p = doc_ActiveProfileID d" "doc_ActiveProfileID d \<notin> pr_ID ` set xs" by blast
  have "\<forall>x \<in> set xs. pr_ID x \<noteq> doc_ActiveProfileID d" using x(3) by (auto simp: image_iff)
  then have "find (\<lambda>p. pr_ID p = doc_ActiveProfileID d) qs = Some (p\<lparr>pr_Config := stored_config c\<rparr>)"
    using x(1,2) find_append_skip [of xs "\<lambda>p. pr_ID p = doc_ActiveProfileID d"] by simp
  then show ?thesis
    by (simp add: q ActiveConfig_def ActiveProfile_def Profile_clone_def ProfileConfig_clone_def
        stored_config_def profile_part_def Config_applyDefaults_def default_tunnel_def)
qed

section \<open>A sample document\<close>

definition sample_tunnel :: TunnelConfig where
  "sample_tunnel = \<lparr>tc_Enabled = False, tc_Broker = ''he'', tc_RemoteEndpoint = ''216.66.80.30'',
     tc_LocalIPv6 = ''2001:470:1f0a::2/64'', tc_RemoteIPv6 = ''2001:470:1f0a::1'', tc_TTL = 255, tc_MTU = 1480\<rparr>"

definition sample_lan :: LANConfig where
  "sample_lan = \<lparr>lan_Enabled = True, lan_DNS = Some [''2001:4860:4860::8888''], lan_Mode = ''slaac'',
     lan_Networks = Some [\<lparr>nc_Interface = ''br0'', nc_Prefix = ''2001:470:1f0b::/64'', nc_Comment = ''LAN''\<rparr>]\<rparr>"

definition sample_profile :: Profile where
  "sample_profile = \<lparr>pr_ID = ''home'', pr_Name = ''Home'',
     pr_Config = \<lparr>pc_Tunnel = sample_tunnel, pc_LAN = sample_lan, pc_Health = cfg_Health Defaults\<rparr>,
     pr_IsValid = False, pr_ValidationErrors = None\<rparr>"

definition draft_profile :: Profile where
  "draft_profile = \<lparr>pr_ID = ''draft'', pr_Name = ''Draft'', pr_Config = DefaultProfileConfig,
     pr_IsValid = False, pr_ValidationErrors = None\<rparr>"

definition sample_document :: Document where
  "sample_document = \<lparr>doc_StorageFormat = StorageFormatProfiles, doc_TunnelEnabled = True,
     doc_ActiveProfileID = ''home'', doc_Profiles = [draft_profile, sample_profile],
     doc_Server = cfg_Server Defaults\<rparr>"

lemmas sample_defs = sample_document_def sample_profile_def sample_tunnel_def sample_lan_def draft_profile_def

lemma sample_defaults: "Document_applyDefaults sample_document = sample_document"
  by (simp add: Document_applyDefaults_def sample_defs DefaultProfileConfig_def Defaults_def default_server_def
      ProfileConfig_applyDefaults_def default_tunnel_def default_lan_def default_health_def
      normalizeBroker_def trim_eval)

lemma sample_profile_valid: "profile_valid (pr_Config sample_profile) True"
  by (simp add: profile_valid_def sample_defs ProfileConfig_applyDefaults_def default_tunnel_def
      default_lan_def default_health_def Defaults_def Let_def health_valid_def lan_valid_def
      endpoint_valid_def network_valid_def go_const supportedBrokers_def normalizeBroker_def
      trim_eval parse_eval)

lemma sample_valid: "document_valid sample_document"
  using sample_profile_valid
  by (simp add: document_valid_def sample_document_def draft_profile_def server_valid_def Defaults_def trim_eval)
     (simp add: sample_profile_def trim_eval)

section \<open>Properties\<close>

text \<open>
  C24: the validator of a document decides its specification: \<open>Document.Validate\<close> reports no error
  exactly when, after the defaults are filled in, the server section is valid, there is at least
  one profile, profile IDs and names are non-blank and unique, and the active profile exists and
  is valid for the tunnel's switch (inactive profiles may be drafts); and it leaves the
  normalized document behind.
\<close>

theorem document_validation:
  "Document_Validate (Some d) = (Some (normalize d), None) \<longleftrightarrow> document_valid (Document_applyDefaults d)"
  by (simp add: Document_Validate_ok)

text \<open>
  C25: the list of reasons of a profile is empty exactly when the profile, with its defaults,
  satisfies the declarative specification: supported broker, positive TTL, non-negative MTU, an
  IPv6 health target with a positive interval when health checks are on, valid IPv6 networks and
  DNS servers when the LAN is on, and an IPv4 endpoint with an IPv6 prefix when the tunnel is on.
\<close>

theorem profile_validation: "validateProfileConfig c tunnelEnabled = [] \<longleftrightarrow> profile_valid c tunnelEnabled"
  by (rule profile_reasons_Nil)

text \<open>
  C29: a document that validates has an active configuration, which itself validates, has all
  defaults filled in and carries the document's tunnel switch.
\<close>

theorem valid_document_has_valid_config:
  assumes "Document_Validate (Some d) = (Some d', None)"
  shows "\<exists>c. ActiveConfig (Some d') = Inr c \<and> Config_Validate (Some c) = None
    \<and> Config_applyDefaults c = c \<and> tc_Enabled (cfg_Tunnel c) = doc_TunnelEnabled d"
proof -
  have "document_valid d'" "doc_TunnelEnabled d' = doc_TunnelEnabled d"
    using assms by (auto simp: Document_Validate_ok normalize_def Document_applyDefaults_def)
  then show ?thesis using valid_document_config [of d'] by (auto simp: Config_Validate_ok)
qed

theorem valid_document_has_valid_config_witness:
  "\<exists>c. ActiveConfig (Some (normalize sample_document)) = Inr c \<and> Config_Validate (Some c) = None
    \<and> Config_applyDefaults c = c \<and> tc_Enabled (cfg_Tunnel c) = True"
  using valid_document_has_valid_config [of sample_document "normalize sample_document"] sample_valid
  by (simp add: Document_Validate_ok sample_defaults) (simp add: sample_document_def)

text \<open>
  A configuration survives being wrapped into a one-profile document: the active configuration
  of \<open>DocumentFromConfig\<close> is the configuration with its defaults, whatever the storage format.
\<close>

theorem wrapped_config: "ActiveConfig (Some (DocumentFromConfig (Some c) f)) = Inr (Config_applyDefaults c)"
  by (rule active_of_wrapped)

text \<open>
  \<open>replaceDocumentActiveProfileConfig\<close> fails exactly when the active profile does not exist;
  otherwise it keeps every profile's ID and name, the configurations of all other profiles and the
  document's other fields, and the new active configuration is the given one under the document's
  tunnel switch and server section.
\<close>

theorem replace_active_config:
  "case replaceDocumentActiveProfileConfig (Some d) (Some c) of
     Inl err \<Rightarrow> err = profile_not_found (doc_ActiveProfileID d) \<and> doc_ActiveProfileID d \<notin> pr_ID ` set (doc_Profiles d)
   | Inr d' \<Rightarrow> map pr_ID (doc_Profiles d') = map pr_ID (doc_Profiles d)
       \<and> map pr_Name (doc_Profiles d') = map pr_Name (doc_Profiles d)
       \<and> filter (\<lambda>p. pr_ID p \<noteq> doc_ActiveProfileID d) (doc_Profiles d') =
         filter (\<lambda>p. pr_ID p \<noteq> doc_ActiveProfileID d) (doc_Profiles d)
       \<and> d' = d\<lparr>doc_Profiles := doc_Profiles d'\<rparr>
       \<and> ActiveConfig (Some d') = Inr (Config_applyDefaults
           (c\<lparr>cfg_Tunnel := (cfg_Tunnel c)\<lparr>tc_Enabled := doc_TunnelEnabled d\<rparr>, cfg_Server := doc_Server d\<rparr>))"
proof (cases "replace_first (doc_ActiveProfileID d) (stored_config c) (doc_Profiles d)")
  case None
  then have "doc_ActiveProfileID d \<notin> pr_ID ` set (doc_Profiles d)"
    by (simp add: replace_first_None)
  then show ?thesis by (simp add: replaceDocumentActiveProfileConfig_def None)
next
  case (Some qs)
  have r: "replaceDocumentActiveProfileConfig (Some d) (Some c) = Inr (d\<lparr>doc_Profiles := qs\<rparr>)"
    by (simp add: replaceDocumentActiveProfileConfig_def Some)
  show ?thesis using replace_first_keeps [OF Some] replaced_active_config [OF r] by (simp add: r)
qed

end
