(* ===== verification/Json.thy ===== *)
theory Json
  imports GoStrings
begin

text \<open>
  \<open>encoding/json\<close> as the program uses it: JSON values, the text of \<open>MarshalIndent(v, "", "  ")\<close>,
  the parser of \<open>Unmarshal\<close>, and the rules by which an object is decoded into a struct
  (case-insensitive field names, unknown fields ignored, \<open>null\<close> leaving a field unchanged,
  64-bit integers).  The texts of the package's errors are not modelled: an error is the fixed
  value below.
\<close>

section \<open>Values\<close>

text \<open>A number is kept as its literal, as the decoder does until it knows the target type.\<close>

datatype json =
    JNull
  | JBool bool
  | JNum string
  | JStr string
  | JArr "json list"
  | JObj "(string \<times> json) list"

definition json_syntax_error :: goerr where
  "json_syntax_error = ErrorString ''json: syntax error''"

definition json_type_error :: goerr where
  "json_type_error = ErrorString ''json: cannot unmarshal''"

section \<open>Printing\<close>

text \<open>
  The length of the valid multi-byte UTF-8 sequence at the start of a string, or 0; the
  accepted ranges are those of \<open>utf8.DecodeRune\<close> (no overlong forms, no surrogates).
\<close>

definition is_cont :: "nat \<Rightarrow> char \<Rightarrow> nat \<Rightarrow> bool" where
  "is_cont lo c hi \<longleftrightarrow> lo \<le> (of_char c :: nat) \<and> (of_char c :: nat) \<le> hi"

definition seq2 :: "char \<Rightarrow> char \<Rightarrow> bool" where
  "seq2 c c1 \<longleftrightarrow> is_cont 0xC2 c 0xDF \<and> is_cont 0x80 c1 0xBF"

definition seq3 :: "char \<Rightarrow> char \<Rightarrow> char \<Rightarrow> bool" where
  "seq3 c c1 c2 \<longleftrightarrow> is_cont 0xE0 c 0xEF
     \<and> is_cont (if c = CHR 0xE0 then 0xA0 else 0x80) c1 (if c = CHR 0xED then 0x9F else 0xBF)
     \<and> is_cont 0x80 c2 0xBF"

definition seq4 :: "char \<Rightarrow> char \<Rightarrow> char \<Rightarrow> char \<Rightarrow> bool" where
  "seq4 c c1 c2 c3 \<longleftrightarrow> is_cont 0xF0 c 0xF4
     \<and> is_cont (if c = CHR 0xF0 then 0x90 else 0x80) c1 (if c = CHR 0xF4 then 0x8F else 0xBF)
     \<and> is_cont 0x80 c2 0xBF \<and> is_cont 0x80 c3 0xBF"

definition utf8_len :: "string \<Rightarrow> nat" where
  "utf8_len s =
     (case s of
        c # c1 # t \<Rightarrow>
          if seq2 c c1 then 2
          else (case t of
                  c2 # u \<Rightarrow>
                    if seq3 c c1 c2 then 3
                    else (case u of c3 # _ \<Rightarrow> if seq4 c c1 c2 c3 then 4 else 0 | [] \<Rightarrow> 0)
                | [] \<Rightarrow> 0)
      | _ \<Rightarrow> 0)"

definition hex4 :: "nat \<Rightarrow> string" where
  "hex4 n = [hex_digit (n div 4096 mod 16), hex_digit (n div 256 mod 16),
             hex_digit (n div 16 mod 16), hex_digit (n mod 16)]"

definition escape_u :: "nat \<Rightarrow> string" where
  "escape_u n = CHR 0x5C # CHR ''u'' # hex4 n"

text \<open>One ASCII byte, with the characters that HTML treats specially escaped.\<close>

definition escape_ascii :: "char \<Rightarrow> string" where
  "escape_ascii c =
     (if c = CHR 0x22 \<or> c = CHR 0x5C then [CHR 0x5C, c]
      else if c = CHR 0x08 then [CHR 0x5C, CHR ''b''] else if c = CHR 0x0C then [CHR 0x5C, CHR ''f'']
      else if c = CHR 0x0A then [CHR 0x5C, CHR ''n''] else if c = CHR 0x0D then [CHR 0x5C, CHR ''r'']
      else if c = CHR 0x09 then [CHR 0x5C, CHR ''t'']
      else if (of_char c :: nat) < 0x20 \<or> c = CHR ''<'' \<or> c = CHR ''>'' \<or> c = CHR ''&''
        then escape_u (of_char c)
      else [c])"

function escape_string :: "string \<Rightarrow> string" where
  "escape_string [] = []"
| "escape_string (c # s) =
     (if (of_char c :: nat) < 0x80 then escape_ascii c @ escape_string s
      else if utf8_len (c # s) = 0 then escape_u 0xFFFD @ escape_string s
      else if take 3 (c # s) = [CHR 0xE2, CHR 0x80, CHR 0xA8] then escape_u 0x2028 @ escape_string (drop 2 s)
      else if take 3 (c # s) = [CHR 0xE2, CHR 0x80, CHR 0xA9] then escape_u 0x2029 @ escape_string (drop 2 s)
      else take (utf8_len (c # s)) (c # s) @ escape_string (drop (utf8_len (c # s) - 1) s))"
  by pat_completeness auto
termination
  by (relation "measure length") auto

definition quote_json :: "string \<Rightarrow> string" where
  "quote_json s = CHR 0x22 # escape_string s @ [CHR 0x22]"

text \<open>
  \<open>Marshal\<close> and an \<open>Encoder\<close> print without white space; \<open>MarshalIndent\<close> with two blanks puts a new
  line and two blanks for each level before every element, and a blank after a colon.
\<close>

datatype layout = Compact | Indented nat

fun newline :: "layout \<Rightarrow> string" where
  "newline Compact = []"
| "newline (Indented depth) = CHR 0x0A # replicate (2 * depth) (CHR '' '')"

fun deeper :: "layout \<Rightarrow> layout" where
  "deeper Compact = Compact"
| "deeper (Indented depth) = Indented (Suc depth)"

fun after_colon :: "layout \<Rightarrow> string" where
  "after_colon Compact = []"
| "after_colon (Indented depth) = '' ''"

fun print_json :: "layout \<Rightarrow> json \<Rightarrow> string"
  and print_elems :: "layout \<Rightarrow> json list \<Rightarrow> string"
  and print_members :: "layout \<Rightarrow> (string \<times> json) list \<Rightarrow> string" where
  "print_json depth JNull = ''null''"
| "print_json depth (JBool b) = (if b then ''true'' else ''false'')"
| "print_json depth (JNum lit) = lit"
| "print_json depth (JStr s) = quote_json s"
| "print_json depth (JArr vs) =
     (if vs = [] then ''[]'' else ''['' @ print_elems (deeper depth) vs @ newline depth @ '']'')"
| "print_json depth (JObj ms) =
     (if ms = [] then ''{}'' else ''{'' @ print_members (deeper depth) ms @ newline depth @ ''}'')"
| "print_elems depth [] = []"
| "print_elems depth (v # vs) =
     newline depth @ print_json depth v @ (if vs = [] then [] else '','') @ print_elems depth vs"
| "print_members depth [] = []"
| "print_members depth ((k, v) # ms) =
     newline depth @ quote_json k @ CHR '':'' # after_colon depth @ print_json depth v
     @ (if ms = [] then [] else '','') @ print_members depth ms"

definition MarshalIndent :: "json \<Rightarrow> string" where
  "MarshalIndent v = print_json (Indented 0) v"

text \<open>\<open>json.NewEncoder(w).Encode(v)\<close>, without and with \<open>SetIndent("", "  ")\<close>.\<close>

definition Encode :: "json \<Rightarrow> string" where
  "Encode v = print_json Compact v @ [CHR 0x0A]"

definition EncodeIndent :: "json \<Rightarrow> string" where
  "EncodeIndent v = MarshalIndent v @ [CHR 0x0A]"

section \<open>Parsing\<close>

definition is_ws :: "char \<Rightarrow> bool" where
  "is_ws c \<longleftrightarrow> c \<in> {CHR '' '', CHR 0x09, CHR 0x0A, CHR 0x0D}"

definition skip_ws :: "string \<Rightarrow> string" where
  "skip_ws s = dropWhile is_ws s"

fun utf8_encode :: "nat \<Rightarrow> string" where
  "utf8_encode r =
     (if r < 0x80 then [char_of r]
      else if r < 0x800 then [char_of (0xC0 + r div 64), char_of (0x80 + r mod 64)]
      else if r < 0x10000
        then [char_of (0xE0 + r div 4096), char_of (0x80 + r div 64 mod 64), char_of (0x80 + r mod 64)]
      else [char_of (0xF0 + r div 262144), char_of (0x80 + r div 4096 mod 64),
            char_of (0x80 + r div 64 mod 64), char_of (0x80 + r mod 64)])"

text \<open>Four hexadecimal digits of either case.\<close>

definition hex_nibble :: "char \<Rightarrow> nat option" where
  "hex_nibble c =
     (let n = (of_char c :: nat)
      in if 48 \<le> n \<and> n \<le> 57 then Some (n - 48)
         else if 97 \<le> n \<and> n \<le> 102 then Some (n - 87)
         else if 65 \<le> n \<and> n \<le> 70 then Some (n - 55) else None)"

fun read_hex4 :: "string \<Rightarrow> nat option" where
  "read_hex4 (a # b # c # d # s) =
     (case (hex_nibble a, hex_nibble b, hex_nibble c, hex_nibble d) of
        (Some w, Some x, Some y, Some z) \<Rightarrow> Some (4096 * w + 256 * x + 16 * y + z)
      | _ \<Rightarrow> None)"
| "read_hex4 _ = None"

text \<open>The rest of a string literal after its opening quote: the decoded string and what follows.\<close>

definition simple_escape :: "char \<Rightarrow> char option" where
  "simple_escape c =
     (if c = CHR 0x22 \<or> c = CHR 0x5C \<or> c = CHR ''/'' then Some c
      else if c = CHR ''b'' then Some (CHR 0x08) else if c = CHR ''f'' then Some (CHR 0x0C)
      else if c = CHR ''n'' then Some (CHR 0x0A) else if c = CHR ''r'' then Some (CHR 0x0D)
      else if c = CHR ''t'' then Some (CHR 0x09) else None)"

definition prepend :: "string \<Rightarrow> (string \<times> string) option \<Rightarrow> (string \<times> string) option" where
  "prepend p r = map_option (\<lambda>(s, rest). (p @ s, rest)) r"

definition is_surrogate :: "nat \<Rightarrow> bool" where
  "is_surrogate r \<longleftrightarrow> 0xD800 \<le> r \<and> r < 0xE000"

text \<open>\<open>utf16.DecodeRune\<close>.\<close>

definition surrogate_pair :: "nat \<Rightarrow> nat \<Rightarrow> nat option" where
  "surrogate_pair r1 r2 =
     (if 0xD800 \<le> r1 \<and> r1 < 0xDC00 \<and> 0xDC00 \<le> r2 \<and> r2 < 0xE000
      then Some ((r1 - 0xD800) * 1024 + (r2 - 0xDC00) + 0x10000) else None)"

function read_string :: "string \<Rightarrow> (string \<times> string) option" where
  "read_string [] = None"
| "read_string (c # s) =
     (if c = CHR 0x22 then Some ([], s)
      else if (of_char c :: nat) < 0x20 then None
      else if c = CHR 0x5C then
        (case s of [] \<Rightarrow> None
         | e # t \<Rightarrow>
            if e = CHR ''u'' then
              (case read_hex4 t of
                 None \<Rightarrow> None
               | Some r \<Rightarrow>
                   if is_surrogate r then
                     (case (if take 2 (drop 4 t) = [CHR 0x5C, CHR ''u''] then read_hex4 (drop 6 t) else None) of
                        None \<Rightarrow> prepend (utf8_encode 0xFFFD) (read_string (drop 4 t))
                      | Some r2 \<Rightarrow>
                          (case surrogate_pair r r2 of
                             Some r' \<Rightarrow> prepend (utf8_encode r') (read_string (drop 10 t))
                           | None \<Rightarrow> prepend (utf8_encode 0xFFFD) (read_string (drop 4 t))))
                   else prepend (utf8_encode r) (read_string (drop 4 t)))
            else (case simple_escape e of
                    None \<Rightarrow> None
                  | Some x \<Rightarrow> prepend [x] (read_string t)))
      else if (of_char c :: nat) < 0x80 then prepend [c] (read_string s)
      else if utf8_len (c # s) = 0 then prepend (utf8_encode 0xFFFD) (read_string s)
      else prepend (take (utf8_len (c # s)) (c # s)) (read_string (drop (utf8_len (c # s) - 1) s)))"
  by pat_completeness auto
termination
  by (relation "measure length") auto

text \<open>The grammar of numbers: the longest literal at the start of the text.\<close>

definition read_digits :: "string \<Rightarrow> string \<times> string" where
  "read_digits s = (takeWhile is_digit s, dropWhile is_digit s)"

definition read_int_part :: "string \<Rightarrow> (string \<times> string) option" where
  "read_int_part s =
     (case s of [] \<Rightarrow> None
      | c # t \<Rightarrow> if c = CHR ''0'' then Some ([c], t)
                 else if is_digit c then Some (read_digits s) else None)"

definition read_frac :: "string \<Rightarrow> (string \<times> string) option" where
  "read_frac s =
     (case s of [] \<Rightarrow> Some ([], [])
      | c # t \<Rightarrow> if c \<noteq> CHR ''.'' then Some ([], s)
                 else let (ds, r) = read_digits t in if ds = [] then None else Some (c # ds, r))"

definition read_exp :: "string \<Rightarrow> (string \<times> string) option" where
  "read_exp s =
     (case s of [] \<Rightarrow> Some ([], [])
      | c # t \<Rightarrow>
          if c \<noteq> CHR ''e'' \<and> c \<noteq> CHR ''E'' then Some ([], s)
          else let (sign, u) =
                     (case t of [] \<Rightarrow> ([], [])
                      | d # v \<Rightarrow> if d = CHR ''+'' \<or> d = CHR ''-'' then ([d], v) else ([], t));
                   (ds, r) = read_digits u
               in if ds = [] then None else Some (c # sign @ ds, r))"

definition read_number :: "string \<Rightarrow> (string \<times> string) option" where
  "read_number s =
     (let (sign, t) = (case s of c # t \<Rightarrow> if c = CHR ''-'' then ([c], t) else ([], s) | [] \<Rightarrow> ([], s))
      in case read_int_part t of None \<Rightarrow> None
         | Some (i, t1) \<Rightarrow> (case read_frac t1 of None \<Rightarrow> None
         | Some (f, t2) \<Rightarrow> (case read_exp t2 of None \<Rightarrow> None
         | Some (e, t3) \<Rightarrow> Some (sign @ i @ f @ e, t3))))"

text \<open>
  The recursive-descent form of the scanner.  Each call spends one unit of fuel and consumes at
  least one byte before the next, so a text of length \<open>n\<close> needs at most \<open>2 * n + 2\<close> units; the
  decoder's nesting limit of 10000 levels is not modelled.
\<close>

fun read_value :: "nat \<Rightarrow> string \<Rightarrow> (json \<times> string) option"
  and read_elems :: "nat \<Rightarrow> string \<Rightarrow> (json list \<times> string) option"
  and read_members :: "nat \<Rightarrow> string \<Rightarrow> ((string \<times> json) list \<times> string) option" where
  "read_value 0 s = None"
| "read_value (Suc fuel) s =
     (case skip_ws s of
        [] \<Rightarrow> None
      | c # t \<Rightarrow>
          if c = CHR ''{'' then
            (case skip_ws t of
               [] \<Rightarrow> None
             | d # u \<Rightarrow> if d = CHR ''}'' then Some (JObj [], u)
                        else map_option (\<lambda>(ms, r). (JObj ms, r)) (read_members fuel (d # u)))
          else if c = CHR ''['' then
            (case skip_ws t of
               [] \<Rightarrow> None
             | d # u \<Rightarrow> if d = CHR '']'' then Some (JArr [], u)
                        else map_option (\<lambda>(vs, r). (JArr vs, r)) (read_elems fuel (d # u)))
          else if c = CHR 0x22 then map_option (\<lambda>(x, r). (JStr x, r)) (read_string t)
          else if prefix ''null'' (c # t) then Some (JNull, drop 4 (c # t))
          else if prefix ''true'' (c # t) then Some (JBool True, drop 4 (c # t))
          else if prefix ''false'' (c # t) then Some (JBool False, drop 5 (c # t))
          else map_option (\<lambda>(lit, r). (JNum lit, r)) (read_number (c # t)))"
| "read_elems 0 s = None"
| "read_elems (Suc fuel) s =
     (case read_value fuel s of
        None \<Rightarrow> None
      | Some (v, t) \<Rightarrow>
          (case skip_ws t of
             [] \<Rightarrow> None
           | c # u \<Rightarrow>
               if c = CHR '']'' then Some ([v], u)
               else if c = CHR '','' then map_option (\<lambda>(vs, r). (v # vs, r)) (read_elems fuel u)
               else None))"
| "read_members 0 s = None"
| "read_members (Suc fuel) s =
     (case skip_ws s of
        [] \<Rightarrow> None
      | q # t \<Rightarrow>
          if q \<noteq> CHR 0x22 then None
          else (case read_string t of
            None \<Rightarrow> None
          | Some (k, t1) \<Rightarrow>
              (case skip_ws t1 of
                 [] \<Rightarrow> None
               | c # t2 \<Rightarrow>
                   if c \<noteq> CHR '':'' then None
                   else (case read_value fuel t2 of
                     None \<Rightarrow> None
                   | Some (v, t3) \<Rightarrow>
                       (case skip_ws t3 of
                          [] \<Rightarrow> None
                        | d # u \<Rightarrow>
                            if d = CHR ''}'' then Some ([(k, v)], u)
                            else if d = CHR '',''
                            then map_option (\<lambda>(ms, r). ((k, v) # ms, r)) (read_members fuel u)
                            else None)))))"

text \<open>The whole input is one value, with white space around it.\<close>

definition parse_json :: "string \<Rightarrow> json res" where
  "parse_json s =
     (case read_value (2 * length s + 2) s of
        None \<Rightarrow> Inl json_syntax_error
      | Some (v, r) \<Rightarrow> if skip_ws r = [] then Inr v else Inl json_syntax_error)"

section \<open>Decoding into structs\<close>

text \<open>
  A decoder updates a target, as \<open>Unmarshal\<close> fills the value it is given; \<^term>\<open>None\<close> is an
  \<open>UnmarshalTypeError\<close>.
\<close>

type_synonym 'a decoder = "json \<Rightarrow> 'a \<Rightarrow> 'a option"

text \<open>\<open>foldName\<close>: ASCII letters in upper case, and the two other runes that fold to one.\<close>

fun fold_name :: "string \<Rightarrow> string" where
  "fold_name [] = []"
| "fold_name (c # s) =
     (if c = CHR 0xC5 \<and> s \<noteq> [] \<and> hd s = CHR 0xBF then CHR ''S'' # fold_name (tl s)
      else if c = CHR 0xE2 \<and> 1 < length s \<and> hd s = CHR 0x84 \<and> hd (tl s) = CHR 0xAA
      then CHR ''K'' # fold_name (drop 2 s)
      else if 97 \<le> (of_char c :: nat) \<and> (of_char c :: nat) \<le> 122
      then char_of ((of_char c :: nat) - 32) # fold_name s
      else c # fold_name s)"

definition field_for :: "(string \<times> 'a decoder) list \<Rightarrow> string \<Rightarrow> 'a decoder option" where
  "field_for fields key =
     (case map_of fields key of
        Some f \<Rightarrow> Some f
      | None \<Rightarrow> map_option snd (find (\<lambda>(name, f). fold_name name = fold_name key) fields))"

fun decode_members :: "(string \<times> 'a decoder) list \<Rightarrow> (string \<times> json) list \<Rightarrow> 'a \<Rightarrow> 'a option" where
  "decode_members fields [] x = Some x"
| "decode_members fields ((k, v) # ms) x =
     (case field_for fields k of
        None \<Rightarrow> decode_members fields ms x
      | Some f \<Rightarrow> (case f v x of None \<Rightarrow> None | Some y \<Rightarrow> decode_members fields ms y))"

definition decode_struct :: "(string \<times> 'a decoder) list \<Rightarrow> 'a decoder" where
  "decode_struct fields v x =
     (case v of JNull \<Rightarrow> Some x | JObj ms \<Rightarrow> decode_members fields ms x | _ \<Rightarrow> None)"

definition decode_bool :: "bool decoder" where
  "decode_bool v x = (case v of JNull \<Rightarrow> Some x | JBool b \<Rightarrow> Some b | _ \<Rightarrow> None)"

definition decode_string :: "string decoder" where
  "decode_string v x = (case v of JNull \<Rightarrow> Some x | JStr s \<Rightarrow> Some s | _ \<Rightarrow> None)"

definition decode_int :: "int decoder" where
  "decode_int v x = (case v of JNull \<Rightarrow> Some x | JNum lit \<Rightarrow> Atoi lit | _ \<Rightarrow> None)"

text \<open>A pointer field: \<open>null\<close> is nil, anything else decodes into a new value.\<close>

definition decode_ptr :: "'a \<Rightarrow> 'a decoder \<Rightarrow> 'a option decoder" where
  "decode_ptr zero dec v x =
     (if v = JNull then Some None
      else map_option Some (dec v (case x of None \<Rightarrow> zero | Some y \<Rightarrow> y)))"

text \<open>An array decodes over the elements the slice already has, then into zero values.\<close>

fun decode_list :: "'a \<Rightarrow> 'a decoder \<Rightarrow> json list \<Rightarrow> 'a list \<Rightarrow> 'a list option" where
  "decode_list zero dec [] old = Some []"
| "decode_list zero dec (v # vs) old =
     (case dec v (case old of [] \<Rightarrow> zero | y # _ \<Rightarrow> y) of
        None \<Rightarrow> None
      | Some x \<Rightarrow> map_option (Cons x) (decode_list zero dec vs (tl old)))"

definition decode_slice :: "'a \<Rightarrow> 'a decoder \<Rightarrow> 'a slice decoder" where
  "decode_slice zero dec v x =
     (case v of
        JNull \<Rightarrow> Some None
      | JArr vs \<Rightarrow> map_option Some (decode_list zero dec vs (elems x))
      | _ \<Rightarrow> None)"

text \<open>A field of a struct, by its getter and setter.\<close>

definition decode_field :: "('a \<Rightarrow> 'b) \<Rightarrow> ('b \<Rightarrow> 'a \<Rightarrow> 'a) \<Rightarrow> 'b decoder \<Rightarrow> 'a decoder" where
  "decode_field read write dec v x = map_option (\<lambda>y. write y x) (dec v (read x))"

definition Unmarshal :: "'a decoder \<Rightarrow> string \<Rightarrow> 'a \<Rightarrow> 'a res" where
  "Unmarshal dec data x =
     (case parse_json data of
        Inl err \<Rightarrow> Inl err
      | Inr v \<Rightarrow> (case dec v x of None \<Rightarrow> Inl json_type_error | Some y \<Rightarrow> Inr y))"

section \<open>Encoding\<close>

definition encode_int :: "int \<Rightarrow> json" where "encode_int i = JNum (Itoa i)"

definition encode_slice :: "('a \<Rightarrow> json) \<Rightarrow> 'a slice \<Rightarrow> json" where
  "encode_slice enc s = (case s of None \<Rightarrow> JNull | Some xs \<Rightarrow> JArr (map enc xs))"

definition encode_ptr :: "('a \<Rightarrow> json) \<Rightarrow> 'a option \<Rightarrow> json" where
  "encode_ptr enc p = (case p of None \<Rightarrow> JNull | Some x \<Rightarrow> enc x)"

end
