(* ===== verification/JsonFacts.thy ===== *)
theory JsonFacts
  imports Json
begin

text \<open>
  The text of a printed value parses back to it, for values whose strings are valid UTF-8 and
  whose numbers are decimal integers: those are the values the program writes; and the fuel of the
  reader is enough for every text.
\<close>

section \<open>Strings\<close>

function utf8_valid :: "string \<Rightarrow> bool" where
  "utf8_valid [] = True"
| "utf8_valid (c # s) =
     (if (of_char c :: nat) < 0x80 then utf8_valid s
      else utf8_len (c # s) \<noteq> 0 \<and> utf8_valid (drop (utf8_len (c # s) - 1) s))"
  by pat_completeness auto
termination
  by (relation "measure length") auto

lemma ascii_utf8_valid: "list_all (\<lambda>c. (of_char c :: nat) < 0x80) s \<Longrightarrow> utf8_valid s"
  by (induction s) auto

lemma graphic_utf8_valid: "list_all graphic s \<Longrightarrow> utf8_valid s"
  by (rule ascii_utf8_valid) (auto simp: list_all_iff graphic_def)

lemma hex_nibble_hex_digit [simp]: "d < 16 \<Longrightarrow> hex_nibble (hex_digit d) = Some d"
  by (simp add: hex_nibble_def hex_digit_def)

lemma nibbles:
  "(n::nat) = x1 * 16 + a \<Longrightarrow> x1 = x2 * 16 + b \<Longrightarrow> x2 = x3 * 16 + c
   \<Longrightarrow> 4096 * x3 + 256 * c + 16 * b + a = n"
  by simp

lemma read_hex4_hex4:
  assumes "n < 65536" shows "read_hex4 (hex4 n @ s) = Some n"
proof -
  have lt: "n div 16 div 16 div 16 < 16" using assms by (simp add: div_less_iff_less_mult)
  then have "n div 16 div 16 div 16 mod 16 = n div 16 div 16 div 16" by (rule mod_less)
  moreover have "n div 256 = n div 16 div 16" "n div 4096 = n div 16 div 16 div 16"
    by (simp_all flip: div_mult2_eq)
  moreover have "4096 * (n div 16 div 16 div 16) + 256 * (n div 16 div 16 mod 16)
      + 16 * (n div 16 mod 16) + n mod 16 = n"
    by (rule nibbles; rule div_mult_mod_eq [symmetric])
  ultimately show ?thesis using lt by (simp add: hex4_def)
qed

lemma length_hex4 [simp]: "length (hex4 n) = 4"
  by (simp add: hex4_def)

text \<open>An escaped code unit that is not a surrogate.\<close>

lemma read_string_escape_u:
  assumes "n < 65536" "\<not> is_surrogate n"
  shows "read_string (escape_u n @ s) = prepend (utf8_encode n) (read_string s)"
proof -
  have "drop 4 (hex4 n @ s) = s" by simp
  then show ?thesis using assms by (simp add: escape_u_def read_hex4_hex4 read_string.simps)
qed

declare utf8_encode.simps [simp del]

lemma utf8_separators:
  "utf8_encode 0x2028 = [CHR 0xE2, CHR 0x80, CHR 0xA8]"
  "utf8_encode 0x2029 = [CHR 0xE2, CHR 0x80, CHR 0xA9]"
  by (simp_all add: utf8_encode.simps char_of_eq_iff)

lemma read_string_simple:
  "simple_escape e = Some x \<Longrightarrow> e \<noteq> CHR ''u'' \<Longrightarrow>
   read_string (CHR 0x5C # e # s) = prepend [x] (read_string s)"
  by simp

lemma read_string_end: "read_string (CHR 0x22 # s) = Some ([], s)"
  by simp

lemma read_string_plain:
  "\<not> (of_char c :: nat) < 0x20 \<Longrightarrow> (of_char c :: nat) < 0x80 \<Longrightarrow> c \<noteq> CHR 0x22 \<Longrightarrow> c \<noteq> CHR 0x5C
   \<Longrightarrow> read_string (c # s) = prepend [c] (read_string s)"
  by simp

lemma read_string_multi:
  "(of_char c :: nat) \<ge> 0x80 \<Longrightarrow> utf8_len (c # s) \<noteq> 0 \<Longrightarrow>
   read_string (c # s) = prepend (take (utf8_len (c # s)) (c # s)) (read_string (drop (utf8_len (c # s) - 1) s))"
  by auto

declare read_string.simps [simp del]

lemma escape_special:
  "c \<in> {CHR 0x22, CHR 0x5C, CHR 0x08, CHR 0x0C, CHR 0x0A, CHR 0x0D, CHR 0x09}
   \<Longrightarrow> \<exists>e. escape_ascii c = [CHR 0x5C, e] \<and> simple_escape e = Some c \<and> e \<noteq> CHR ''u''"
  by (elim insertE emptyE; simp add: escape_ascii_def simple_escape_def)

lemma read_string_ascii:
  assumes "(of_char c :: nat) < 0x80"
  shows "read_string (escape_ascii c @ s) = prepend [c] (read_string s)"
proof -
  let ?special = "{CHR 0x22, CHR 0x5C, CHR 0x08, CHR 0x0C, CHR 0x0A, CHR 0x0D, CHR 0x09}"
  let ?coded = "(of_char c :: nat) < 0x20 \<or> c = CHR ''<'' \<or> c = CHR ''>'' \<or> c = CHR ''&''"
  show ?thesis
  proof (cases "c \<in> ?special")
    case True
    then obtain e where "escape_ascii c = [CHR 0x5C, e]" "simple_escape e = Some c" "e \<noteq> CHR ''u''"
      using escape_special by blast
    then show ?thesis by (simp add: read_string_simple)
  next
    case ns: False
    show ?thesis
    proof (cases ?coded)
      case True
      have "utf8_encode (of_char c) = [c]" using assms by (simp add: utf8_encode.simps)
      moreover have "escape_ascii c = escape_u (of_char c)" using ns True by (simp add: escape_ascii_def)
      ultimately show ?thesis
        using read_string_escape_u [of "of_char c" s] assms by (simp add: is_surrogate_def)
    next
      case False
      then have "escape_ascii c = [c]" using ns by (simp add: escape_ascii_def)
      then show ?thesis using ns False assms by (simp add: read_string_plain)
    qed
  qed
qed

lemma utf8_len_bounds: "utf8_len s \<le> length s \<and> utf8_len s \<le> 4"
  by (auto simp: utf8_len_def split: list.splits)

lemma utf8_len_cases:
  assumes "utf8_len s \<noteq> 0"
  obtains (two) c c1 t where "s = c # c1 # t" "seq2 c c1" "utf8_len s = 2"
  | (three) c c1 c2 t where "s = c # c1 # c2 # t" "\<not> seq2 c c1" "seq3 c c1 c2" "utf8_len s = 3"
  | (four) c c1 c2 c3 t where "s = c # c1 # c2 # c3 # t" "\<not> seq2 c c1" "\<not> seq3 c c1 c2"
      "seq4 c c1 c2 c3" "utf8_len s = 4"
  using assms unfolding utf8_len_def by (simp split: list.splits if_splits)

lemma utf8_len_take:
  "utf8_len s \<noteq> 0 \<Longrightarrow> utf8_len (take (utf8_len s) s @ t) = utf8_len s"
  by (erule utf8_len_cases; simp add: utf8_len_def)

lemma utf8_lead:
  "utf8_len (c # s) \<noteq> 0 \<Longrightarrow> 0xC2 \<le> (of_char c :: nat)"
  by (erule utf8_len_cases) (auto simp: seq2_def seq3_def seq4_def is_cont_def)

lemma read_string_utf8:
  assumes "utf8_len (c # s) \<noteq> 0"
  shows "read_string (take (utf8_len (c # s)) (c # s) @ t)
         = prepend (take (utf8_len (c # s)) (c # s)) (read_string t)"
proof -
  let ?k = "utf8_len (c # s)"
  obtain j where k: "?k = Suc j" using assms by (cases ?k) auto
  have len: "length (take j s) = j" using utf8_len_bounds [of "c # s"] k by simp
  have "utf8_len (c # take j s @ t) = ?k"
    using utf8_len_take [OF assms, of t] k by simp
  then show ?thesis
    using utf8_lead [OF assms] k len by (simp add: read_string_multi)
qed

lemma prepend_prepend [simp]: "prepend p (prepend q r) = prepend (p @ q) r"
  by (cases r) (auto simp: prepend_def)

lemma prepend_Some [simp]: "prepend p (Some (s, r)) = Some (p @ s, r)"
  by (simp add: prepend_def)

lemma read_string_coded:
  assumes "take 3 (c # s) = utf8_encode n" "n < 65536" "\<not> is_surrogate n"
    and "read_string (t @ u) = Some (drop 2 s, r)"
  shows "read_string (escape_u n @ t @ u) = Some (c # s, r)"
proof -
  have "utf8_encode n @ drop 2 s = c # s"
    unfolding assms(1) [symmetric] by simp
  then show ?thesis using assms by (simp add: read_string_escape_u)
qed

lemma read_string_escape:
  "utf8_valid s \<Longrightarrow> read_string (escape_string s @ CHR 0x22 # r) = Some (s, r)"
proof (induction s rule: escape_string.induct)
  case 1
  show ?case by (simp add: read_string_end)
next
  case (2 c s)
  let ?k = "utf8_len (c # s)"
  show ?case
  proof (cases "(of_char c :: nat) < 0x80")
    case True
    with 2 show ?thesis by (simp add: read_string_ascii)
  next
    case False
    with 2 have k: "?k \<noteq> 0" and v: "utf8_valid (drop (?k - 1) s)" by auto
    consider (ls) "take 3 (c # s) = [CHR 0xE2, CHR 0x80, CHR 0xA8]"
      | (ps) "take 3 (c # s) = [CHR 0xE2, CHR 0x80, CHR 0xA9]"
      | (other) "take 3 (c # s) \<noteq> [CHR 0xE2, CHR 0x80, CHR 0xA8]"
          "take 3 (c # s) \<noteq> [CHR 0xE2, CHR 0x80, CHR 0xA9]" by blast
    then show ?thesis
    proof cases
      case ls
      then have "?k = 3"
        by (auto simp: utf8_len_def seq2_def seq3_def is_cont_def split: list.splits)
      then show ?thesis
        using 2(3) False k v ls read_string_coded [of c s "0x2028" "escape_string (drop 2 s)" "CHR 0x22 # r" r]
        by (simp add: utf8_separators is_surrogate_def)
    next
      case ps
      then have "?k = 3"
        by (auto simp: utf8_len_def seq2_def seq3_def is_cont_def split: list.splits)
      then show ?thesis
        using 2(4) False k v ps read_string_coded [of c s "0x2029" "escape_string (drop 2 s)" "CHR 0x22 # r" r]
        by (simp add: utf8_separators is_surrogate_def)
    next
      case other
      have "read_string (escape_string (drop (?k - 1) s) @ CHR 0x22 # r) = Some (drop (?k - 1) s, r)"
        using 2(5) False k v other by simp
      moreover have "take ?k (c # s) @ drop (?k - 1) s = c # s"
        using k by (cases ?k) auto
      moreover have "escape_string (c # s) = take ?k (c # s) @ escape_string (drop (?k - 1) s)"
        unfolding escape_string.simps(2) using False k other by (simp only: if_False)
      ultimately show ?thesis
        by (simp add: read_string_utf8 [OF k] del: escape_string.simps)
    qed
  qed
qed

lemma read_string_quote:
  "utf8_valid s \<Longrightarrow> quote_json s @ r = CHR 0x22 # escape_string s @ CHR 0x22 # r \<and>
   read_string (escape_string s @ CHR 0x22 # r) = Some (s, r)"
  by (simp add: read_string_escape quote_json_def)

section \<open>Numbers\<close>

lemma nat_dec_zero: "hd (nat_dec n) = CHR ''0'' \<Longrightarrow> n = 0"
proof (induction n rule: nat_dec.induct)
  case (1 n)
  have zero: "digit_char 0 = CHR ''0''" by (simp add: digit_char_def char_of_eq_iff)
  have inj: "d < 10 \<Longrightarrow> digit_char d = digit_char 0 \<Longrightarrow> d = 0" for d
    by (metis digit_val_digit_char zero_less_numeral)
  show ?case
  proof (cases "n < 10")
    case True
    then show ?thesis using 1(2) inj zero by (simp add: nat_dec.simps [of n])
  next
    case False
    then have "hd (nat_dec (n div 10)) = CHR ''0''"
      using 1(2) by (simp add: nat_dec.simps [of n])
    then have "n div 10 = 0" using 1(1) False by blast
    then show ?thesis using False by simp
  qed
qed

text \<open>What may follow a number: nothing, a comma, a closing bracket or a new line.\<close>

definition delimited :: "string \<Rightarrow> bool" where
  "delimited r \<longleftrightarrow> r = [] \<or> hd r \<in> {CHR '','', CHR 0x0A, CHR '']'', CHR ''}''}"

lemma delimited_simps [simp]:
  "delimited []" "delimited (CHR '','' # r)" "delimited (CHR 0x0A # r)"
  "delimited (newline d @ CHR '']'' # r)" "delimited (newline d @ CHR ''}'' # r)"
  by (cases d; simp add: delimited_def)+

lemma delimited_not_digit: "delimited r \<Longrightarrow> r = [] \<or> \<not> is_digit (hd r)"
  by (auto simp: delimited_def is_digit_def)

lemma read_frac_exp_delimited:
  "delimited r \<Longrightarrow> read_frac r = Some ([], r)" "delimited r \<Longrightarrow> read_exp r = Some ([], r)"
  by (auto simp: delimited_def read_frac_def read_exp_def split: list.splits)

lemma read_int_part_nat_dec:
  assumes "delimited r" shows "read_int_part (nat_dec n @ r) = Some (nat_dec n, r)"
proof -
  obtain c t where ct: "nat_dec n = c # t" by (cases "nat_dec n") simp_all
  have dig: "is_digit c" "\<forall>x \<in> set t. is_digit x"
    using nat_dec_digits [of n] ct by (simp_all add: list_all_iff)
  show ?thesis
  proof (cases "c = CHR ''0''")
    case True
    then have "n = 0" using nat_dec_zero [of n] ct by simp
    then show ?thesis using True ct by (simp add: read_int_part_def nat_dec.simps)
  next
    case False
    have "takeWhile is_digit (t @ r) = t" "dropWhile is_digit (t @ r) = r"
      using dig(2) delimited_not_digit [OF assms] by (cases r; simp)+
    then show ?thesis using False dig(1) ct by (simp add: read_int_part_def read_digits_def)
  qed
qed

lemma read_number_Itoa:
  assumes "delimited r" shows "read_number (Itoa i @ r) = Some (Itoa i, r)"
proof (cases "i < 0")
  case True
  then show ?thesis
    using read_int_part_nat_dec [OF assms]
    by (simp add: Itoa_def read_number_def read_frac_exp_delimited [OF assms])
next
  case False
  obtain c t where ct: "nat_dec (nat i) = c # t" by (cases "nat_dec (nat i)") simp_all
  then have "c \<noteq> CHR ''-''" using nat_dec_digits [of "nat i"] by (auto dest: is_digit_not_sign)
  then show ?thesis
    using False ct read_int_part_nat_dec [OF assms, of "nat i"]
    by (simp add: Itoa_def read_number_def read_frac_exp_delimited [OF assms])
qed

lemma Itoa_start:
  obtains c t where "Itoa i = c # t" "is_digit c \<or> c = CHR ''-''"
proof (cases "i < 0")
  case True
  then show ?thesis using that [of "CHR ''-''"] by (simp add: Itoa_def)
next
  case False
  then show ?thesis using that nat_dec_digits [of "nat i"]
    by (cases "nat_dec (nat i)") (auto simp: Itoa_def)
qed

section \<open>Values\<close>

text \<open>The values that print without loss, and the fuel that reading their text takes.\<close>

fun json_ok :: "json \<Rightarrow> bool" where
  "json_ok (JNum lit) = (\<exists>i. lit = Itoa i)"
| "json_ok (JStr s) = utf8_valid s"
| "json_ok (JArr vs) = (\<forall>v \<in> set vs. json_ok v)"
| "json_ok (JObj ms) = (\<forall>(k, v) \<in> set ms. utf8_valid k \<and> json_ok v)"
| "json_ok _ = True"

fun fuel_value :: "json \<Rightarrow> nat" and fuel_elems :: "json list \<Rightarrow> nat"
  and fuel_members :: "(string \<times> json) list \<Rightarrow> nat" where
  "fuel_value (JArr vs) = Suc (fuel_elems vs)"
| "fuel_value (JObj ms) = Suc (fuel_members ms)"
| "fuel_value _ = 1"
| "fuel_elems [] = 0"
| "fuel_elems (v # vs) = Suc (fuel_value v + fuel_elems vs)"
| "fuel_members [] = 0"
| "fuel_members ((k, v) # ms) = Suc (fuel_value v + fuel_members ms)"

lemma fuel_bound:
  "json_ok v \<Longrightarrow> fuel_value v \<le> length (print_json d v)"
  "\<forall>v \<in> set vs. json_ok v \<Longrightarrow> fuel_elems vs \<le> Suc (length (print_elems d vs))"
  "\<forall>(k, v) \<in> set ms. utf8_valid k \<and> json_ok v \<Longrightarrow> fuel_members ms \<le> length (print_members d ms)"
proof (induction d v and d vs and d ms rule: print_json_print_elems_print_members.induct)
  case (3 depth lit)
  then obtain i where "lit = Itoa i" by auto
  then show ?case by (cases rule: Itoa_start [of i]) simp
qed (auto simp: quote_json_def)

lemma skip_ws_newline [simp]: "skip_ws (newline d @ s) = skip_ws s"
proof -
  have "skip_ws (replicate n (CHR '' '') @ s) = skip_ws s" for n
    by (induction n) (simp_all add: skip_ws_def is_ws_def)
  then show ?thesis by (cases d) (simp_all add: skip_ws_def is_ws_def)
qed

lemma skip_ws_simps [simp]:
  "skip_ws [] = []" "skip_ws (CHR '' '' # s) = skip_ws s"
  "\<not> is_ws c \<Longrightarrow> skip_ws (c # s) = c # s"
  by (simp_all add: skip_ws_def is_ws_def)

lemma read_value_newline [simp]: "read_value fuel (newline d @ s) = read_value fuel s"
  by (cases fuel) simp_all

lemma read_value_blank [simp]: "read_value fuel (CHR '' '' # s) = read_value fuel s"
  by (cases fuel) simp_all

lemma read_value_after_colon [simp]: "read_value fuel (after_colon d @ s) = read_value fuel s"
  by (cases d) simp_all

lemma skip_ws_idem [simp]: "skip_ws (skip_ws s) = skip_ws s"
  by (induction s) (auto simp: skip_ws_def)

lemma read_skip:
  "read_value fuel (skip_ws s) = read_value fuel s"
  "read_elems fuel (skip_ws s) = read_elems fuel s"
  "read_members fuel (skip_ws s) = read_members fuel s"
proof -
  show v: "read_value fuel (skip_ws s) = read_value fuel s" for fuel by (cases fuel) simp_all
  show "read_elems fuel (skip_ws s) = read_elems fuel s" by (cases fuel) (simp_all add: v)
  show "read_members fuel (skip_ws s) = read_members fuel s" by (cases fuel) simp_all
qed

lemma number_start:
  "is_digit c \<or> c = CHR ''-'' \<Longrightarrow> \<not> is_ws c \<and> c \<noteq> CHR ''{'' \<and> c \<noteq> CHR ''['' \<and> c \<noteq> CHR 0x22
     \<and> c \<noteq> CHR ''n'' \<and> c \<noteq> CHR ''t'' \<and> c \<noteq> CHR ''f'' \<and> c \<noteq> CHR '']'' \<and> c \<noteq> CHR ''}''"
  by (auto simp: is_digit_def is_ws_def)

lemma read_value_number:
  assumes "delimited r" shows "read_value (Suc f) (Itoa i @ r) = Some (JNum (Itoa i), r)"
proof (cases rule: Itoa_start [of i])
  case (1 c t)
  then show ?thesis using read_number_Itoa [OF assms, of i] number_start [of c] by auto
qed

text \<open>The first character of a printed value is neither white space nor a closing bracket.\<close>

lemma print_json_start:
  "json_ok v \<Longrightarrow> \<exists>c t. print_json d v = c # t \<and> \<not> is_ws c \<and> c \<noteq> CHR '']''"
proof (cases v)
  case (JNum lit)
  assume "json_ok v"
  then obtain i where "lit = Itoa i" using JNum by auto
  then show ?thesis using JNum number_start by (cases rule: Itoa_start [of i]) simp
qed (simp_all add: is_ws_def quote_json_def)

lemma print_elems_Cons:
  "print_elems d (v # vs) @ s =
     newline d @ print_json d v @ (if vs = [] then s else CHR '','' # print_elems d vs @ s)"
  by simp

lemma print_members_Cons:
  "print_members d ((k, v) # ms) @ s =
     newline d @ quote_json k @ CHR '':'' # after_colon d @ print_json d v
     @ (if ms = [] then s else CHR '','' # print_members d ms @ s)"
  by simp

lemma read_print_json:
  "json_ok v \<Longrightarrow> fuel_value v \<le> fuel \<Longrightarrow> delimited r
     \<Longrightarrow> read_value fuel (print_json d v @ r) = Some (v, r)"
  "vs \<noteq> [] \<Longrightarrow> \<forall>v \<in> set vs. json_ok v \<Longrightarrow> fuel_elems vs \<le> fuel
     \<Longrightarrow> read_elems fuel (print_elems d vs @ newline d' @ CHR '']'' # r) = Some (vs, r)"
  "ms \<noteq> [] \<Longrightarrow> \<forall>(k, v) \<in> set ms. utf8_valid k \<and> json_ok v \<Longrightarrow> fuel_members ms \<le> fuel
     \<Longrightarrow> read_members fuel (print_members d ms @ newline d' @ CHR ''}'' # r) = Some (ms, r)"
proof (induction d v and d vs and d ms arbitrary: fuel r and fuel r d' and fuel r d'
    rule: print_json_print_elems_print_members.induct)
  case (1 depth)
  then show ?case by (cases fuel) (simp_all add: is_ws_def)
next
  case (2 depth b)
  then show ?case by (cases fuel) (simp_all add: is_ws_def)
next
  case (3 depth lit)
  then show ?case by (cases fuel) (auto simp: read_value_number simp del: read_value.simps(2))
next
  case (4 depth s)
  then show ?case by (cases fuel) (simp_all add: is_ws_def read_string_escape quote_json_def)
next
  case (5 depth vs)
  then obtain f where f: "fuel = Suc f" by (cases fuel) simp_all
  show ?case
  proof (cases vs)
    case Nil
    then show ?thesis by (simp add: f is_ws_def)
  next
    case (Cons v vs')
    then obtain c t where ct: "print_json (deeper depth) v = c # t" "\<not> is_ws c" "c \<noteq> CHR '']''"
      using 5 print_json_start [of v "deeper depth"] by auto
    let ?s = "print_elems (deeper depth) vs @ newline depth @ CHR '']'' # r"
    have s: "read_elems f ?s = Some (vs, r)"
      using 5 f Cons by (simp del: print_elems.simps print_members.simps)
    obtain u where u: "skip_ws ?s = c # u"
      using ct by (simp add: Cons)
    then have "read_elems f (c # u) = Some (vs, r)"
      using s read_skip(2) [of f ?s] by simp
    with u show ?thesis using Cons ct f by (simp add: is_ws_def)
  qed
next
  case (6 depth ms)
  then obtain f where f: "fuel = Suc f" by (cases fuel) simp_all
  show ?case
  proof (cases ms)
    case Nil
    then show ?thesis by (simp add: f is_ws_def)
  next
    case (Cons m ms')
    obtain k v where m: "m = (k, v)" by (cases m)
    let ?s = "print_members (deeper depth) ms @ newline depth @ CHR ''}'' # r"
    have s: "read_members f ?s = Some (ms, r)"
      using 6 f Cons by (simp del: print_elems.simps print_members.simps)
    obtain u where u: "skip_ws ?s = CHR 0x22 # u"
      by (simp add: Cons m quote_json_def is_ws_def)
    then have "read_members f (CHR 0x22 # u) = Some (ms, r)"
      using s read_skip(3) [of f ?s] by simp
    with u show ?thesis using Cons f by (simp add: is_ws_def)
  qed
next
  case (7 depth)
  then show ?case by simp
next
  case (8 depth v vs)
  then obtain f where f: "fuel = Suc f" "fuel_value v \<le> f" "fuel_elems vs \<le> f" by (cases fuel) simp_all
  let ?r = "if vs = [] then newline d' @ CHR '']'' # r
            else CHR '','' # print_elems depth vs @ newline d' @ CHR '']'' # r"
  have "read_value f (print_json depth v @ ?r) = Some (v, ?r)"
    using 8 f by (cases "vs = []") simp_all
  moreover have "vs \<noteq> [] \<Longrightarrow> read_elems f (print_elems depth vs @ newline d' @ CHR '']'' # r) = Some (vs, r)"
    using 8 f by simp
  ultimately show ?case
    unfolding print_elems_Cons by (cases "vs = []") (simp_all add: f is_ws_def)
next
  case (9 depth)
  then show ?case by simp
next
  case (10 depth k v ms)
  then obtain f where f: "fuel = Suc f" "fuel_value v \<le> f" "fuel_members ms \<le> f" by (cases fuel) simp_all
  let ?r = "if ms = [] then newline d' @ CHR ''}'' # r
            else CHR '','' # print_members depth ms @ newline d' @ CHR ''}'' # r"
  have "read_value f (print_json depth v @ ?r) = Some (v, ?r)"
    using 10 f by (cases "ms = []") simp_all
  moreover have "ms \<noteq> [] \<Longrightarrow> read_members f (print_members depth ms @ newline d' @ CHR ''}'' # r) = Some (ms, r)"
    using 10 f by simp
  moreover have "utf8_valid k" using 10 by simp
  ultimately show ?case
    unfolding print_members_Cons
    by (cases "ms = []") (simp_all add: f is_ws_def quote_json_def read_string_escape)
qed

theorem parse_MarshalIndent: "json_ok v \<Longrightarrow> parse_json (MarshalIndent v) = Inr v"
  using read_print_json(1) [of v "2 * length (print_json (Indented 0) v) + 2" "[]" "Indented 0"] fuel_bound(1) [of v "Indented 0"]
  by (simp add: parse_json_def MarshalIndent_def)

section \<open>The fuel of the reader\<close>

text \<open>Every reader consumes, so twice the length is enough fuel for whatever some amount of fuel reads.\<close>

lemma length_skip_ws: "length (skip_ws s) \<le> length s"
  by (simp add: skip_ws_def length_dropWhile_le)

lemma prepend_eq_Some: "prepend x y = Some (z, r) \<longleftrightarrow> (\<exists>z'. y = Some (z', r) \<and> z = x @ z')"
  by (cases y) (auto simp: prepend_def)

lemma read_string_shorter: "read_string s = Some (x, r) \<Longrightarrow> length r < length s"
proof (induction s arbitrary: x r rule: length_induct)
  case (1 s)
  have later: "length r < length s" if "read_string t = Some (y, r)" "length t < length s" for t y
    using 1(1) that by fastforce
  obtain c t where s: "s = c # t" using 1(2) by (cases s) (auto simp: read_string.simps)
  show ?case
    using 1(2) unfolding s
    by (auto simp: s read_string.simps(2) [of c t] prepend_eq_Some simp del: take_Cons drop_Cons split: if_splits list.splits option.splits dest!: later)
qed

lemma read_int_part_shorter: "read_int_part s = Some (x, r) \<Longrightarrow> length r < length s"
  by (auto simp: read_int_part_def read_digits_def less_Suc_eq_le length_dropWhile_le split: list.splits if_splits)

lemma read_frac_shorter: "read_frac s = Some (x, r) \<Longrightarrow> length r \<le> length s"
  by (auto simp: read_frac_def read_digits_def length_dropWhile_le le_SucI split: list.splits if_splits)

lemma read_exp_shorter: "read_exp s = Some (x, r) \<Longrightarrow> length r \<le> length s"
  by (auto simp: read_exp_def read_digits_def Let_def length_dropWhile_le le_SucI split: list.splits if_splits)

lemma read_number_shorter: "read_number s = Some (x, r) \<Longrightarrow> length r < length s"
  by (fastforce simp: read_number_def dest!: read_int_part_shorter read_frac_shorter read_exp_shorter
      split: list.splits if_splits option.splits prod.splits)

definition enough :: "(nat \<Rightarrow> string \<Rightarrow> ('a \<times> string) option) \<Rightarrow> nat \<Rightarrow> nat \<Rightarrow> bool" where
  "enough rd k f \<longleftrightarrow> (\<forall>s x r. rd f s = Some (x, r) \<longrightarrow>
     length r < length s \<and> (\<forall>g \<ge> 2 * length s + k. rd g s = Some (x, r)))"

lemma enoughD:
  assumes "enough rd k f" "rd f s = Some (x, r)"
  shows "length r < length s" "2 * length s + k \<le> g \<Longrightarrow> rd g s = Some (x, r)"
  using assms unfolding enough_def by blast+

lemma enoughI:
  assumes "\<And>s x r. rd f s = Some (x, r) \<Longrightarrow> length r < length s"
    "\<And>s x r g. rd f s = Some (x, r) \<Longrightarrow> 2 * length s + k \<le> g \<Longrightarrow> rd g s = Some (x, r)"
  shows "enough rd k f"
  using assms unfolding enough_def by blast

lemma skip_ws_Cons: "skip_ws s = c # t \<Longrightarrow> length t < length s"
  using length_skip_ws [of s] by simp

lemma enough_elems:
  assumes "enough read_value 0 f" "enough read_elems 1 f"
  shows "enough read_elems 1 (Suc f)"
proof (rule enoughI)
  fix s x r g assume r: "read_elems (Suc f) s = Some (x, r)"
  obtain v t where v: "read_value f s = Some (v, t)" using r by (auto split: option.splits)
  obtain c u where c: "skip_ws t = c # u" using r v by (auto split: list.splits)
  note len = enoughD(1) [OF assms(1) v] skip_ws_Cons [OF c]
  show "length r < length s"
    using r len by (auto simp: v c dest!: enoughD(1) [OF assms(2)] split: if_splits)
  assume "2 * length s + 1 \<le> g"
  then obtain g' where g: "g = Suc g'" "2 * length s + 0 \<le> g'" "2 * length u + 1 \<le> g'" using len by (cases g) auto
  show "read_elems g s = Some (x, r)"
    using r enoughD(2) [OF assms(1) v g(2)] by (auto simp: g(1) v c dest: enoughD(2) [OF assms(2) _ g(3)] split: if_splits)
qed

lemma enough_members:
  assumes "enough read_value 0 f" "enough read_members 1 f"
  shows "enough read_members 1 (Suc f)"
proof (rule enoughI)
  fix s x r g assume r: "read_members (Suc f) s = Some (x, r)"
  obtain t where t: "skip_ws s = CHR 0x22 # t" using r by (auto split: list.splits if_splits)
  obtain k t1 where k: "read_string t = Some (k, t1)" using r t by (auto split: option.splits)
  obtain t2 where t2: "skip_ws t1 = CHR '':'' # t2" using r t k by (auto split: list.splits if_splits)
  obtain v t3 where v: "read_value f t2 = Some (v, t3)" using r t k t2 by (auto split: option.splits)
  obtain d u where d: "skip_ws t3 = d # u" using r t k t2 v by (auto split: list.splits)
  note len = skip_ws_Cons [OF t] read_string_shorter [OF k] skip_ws_Cons [OF t2] enoughD(1) [OF assms(1) v] skip_ws_Cons [OF d]
  show "length r < length s"
    using r len by (auto simp: t k t2 v d dest!: enoughD(1) [OF assms(2)] split: if_splits)
  assume "2 * length s + 1 \<le> g"
  then obtain g' where g: "g = Suc g'" "2 * length t2 + 0 \<le> g'" "2 * length u + 1 \<le> g'" using len by (cases g) auto
  show "read_members g s = Some (x, r)"
    using r enoughD(2) [OF assms(1) v g(2)]
    by (auto simp: g(1) t k t2 v d dest: enoughD(2) [OF assms(2) _ g(3)] split: if_splits)
qed

lemma read_value_cases:
  assumes "read_value (Suc f) s = Some (x, r)"
  obtains (flat) "length r < length s" "\<And>g. read_value (Suc g) s = Some (x, r)"
  | (arr) d u vs where "length (d # u) < length s" "read_elems f (d # u) = Some (vs, r)"
      "\<And>g. read_elems g (d # u) = Some (vs, r) \<Longrightarrow> read_value (Suc g) s = Some (x, r)"
  | (obj) d u ms where "length (d # u) < length s" "read_members f (d # u) = Some (ms, r)"
      "\<And>g. read_members g (d # u) = Some (ms, r) \<Longrightarrow> read_value (Suc g) s = Some (x, r)"
proof -
  obtain c t where c: "skip_ws s = c # t" using assms by (auto split: list.splits)
  have t: "length t < length s" "length (c # t) \<le> length s" using skip_ws_Cons [OF c] by simp_all
  have nested: "length (d # u) < length s" if "skip_ws t = d # u" for d u
    using t(1) length_skip_ws [of t] that by simp
  consider (brace) "c = CHR ''{''" | (bracket) "c = CHR ''[''" | (quote) "c = CHR 0x22"
    | (other) "c \<noteq> CHR ''{''" "c \<noteq> CHR ''[''" "c \<noteq> CHR 0x22" by blast
  then show thesis
  proof cases
    case brace
    obtain d u where d: "skip_ws t = d # u" using assms by (auto simp: c brace split: list.splits)
    show thesis
    proof (cases "d = CHR ''}''")
      case True
      then show thesis using assms nested [OF d] by (intro flat) (simp_all add: c d brace)
    next
      case False
      then obtain ms where "read_members f (d # u) = Some (ms, r)" "x = JObj ms" using assms by (auto simp: c d brace)
      then show thesis using obj [OF nested [OF d]] False by (simp add: c d brace)
    qed
  next
    case bracket
    obtain d u where d: "skip_ws t = d # u" using assms by (auto simp: c bracket split: list.splits)
    show thesis
    proof (cases "d = CHR '']''")
      case True
      then show thesis using assms nested [OF d] by (intro flat) (simp_all add: c d bracket)
    next
      case False
      then obtain vs where "read_elems f (d # u) = Some (vs, r)" "x = JArr vs" using assms by (auto simp: c d bracket)
      then show thesis using arr [OF nested [OF d]] False by (simp add: c d bracket)
    qed
  next
    case quote
    then show thesis using assms t(1)
      by (intro flat) (auto simp: c dest: read_string_shorter)
  next
    case other
    let ?u = "c # t"
    have eq: "read_value (Suc g) s =
       (if prefix ''null'' ?u then Some (JNull, drop 4 ?u) else if prefix ''true'' ?u then Some (JBool True, drop 4 ?u)
        else if prefix ''false'' ?u then Some (JBool False, drop 5 ?u)
        else map_option (\<lambda>(lit, r). (JNum lit, r)) (read_number ?u))" for g
      using other by (simp only: read_value.simps c list.case if_False)
    have "length (drop (Suc n) ?u) < length s" for n using t(2) by simp
    from this [of 3] this [of 4] have "length r < length s"
      using assms t(2) unfolding eq by (auto simp del: drop_Suc_Cons split: if_splits dest: read_number_shorter)
    then show thesis by (rule flat) (use assms in \<open>simp only: eq\<close>)
  qed
qed

lemma enough_value:
  assumes "enough read_elems 1 f" "enough read_members 1 f"
  shows "enough read_value 0 (Suc f)"
proof (rule enoughI)
  fix s x r assume r: "read_value (Suc f) s = Some (x, r)"
  from r show "length r < length s"
    by (cases rule: read_value_cases) (use assms in \<open>fastforce dest: enoughD(1)\<close>)+
  fix g assume "2 * length s + 0 \<le> g"
  moreover have "s \<noteq> []" using r by (auto simp: skip_ws_def)
  ultimately obtain g' where g: "g = Suc g'" "\<And>u :: string. length u < length s \<Longrightarrow> 2 * length u + 1 \<le> g'"
    by (cases g) fastforce+
  from r show "read_value g s = Some (x, r)"
    by (cases rule: read_value_cases) (auto simp del: read_value.simps simp: g(1) enoughD(2) [OF assms(1) _ g(2)] enoughD(2) [OF assms(2) _ g(2)])
qed

lemma fuel_enough: "enough read_value 0 f \<and> enough read_elems 1 f \<and> enough read_members 1 f"
proof (induction f)
  case 0
  then show ?case by (simp add: enough_def)
next
  case (Suc f)
  then show ?case using enough_value enough_elems enough_members by blast
qed

theorem json_fuel_enough:
  "(\<exists>fuel. read_value fuel s = Some (v, r)) \<longleftrightarrow> read_value (2 * length s + 2) s = Some (v, r)"
proof
  assume "\<exists>fuel. read_value fuel s = Some (v, r)"
  then obtain fuel where r: "read_value fuel s = Some (v, r)" ..
  have "enough read_value 0 fuel" using fuel_enough by blast
  from this r show "read_value (2 * length s + 2) s = Some (v, r)" by (rule enoughD(2)) simp
qed blast

end
