(* ===== verification/FileUtil.thy ===== *)
theory FileUtil
  imports GoStrings
begin

text \<open>
  \<open>internal/fileutil/atomic.go\<close> over a model of the file system: a map from paths to files.
  The operating system is a parameter that says which calls fail; an operation returns every
  state of the file system between its system calls, the last one being the state at its
  return: what a crash of the process could leave behind. The code does not sync its files, so a power failure is
  not covered.
\<close>

section \<open>The operating system\<close>

record file_data =
  f_data :: string
  f_mode :: int

type_synonym fs = "string \<rightharpoonup> file_data"

text \<open>
  The outcome of each system call.  \<open>sys_CreateTemp\<close> is the random part of the new name;
  \<open>sys_Write\<close> is \<^term>\<open>None\<close> for a complete write, and otherwise the number of bytes written
  and the error.  Directories are not part of the state.
\<close>

record OS =
  sys_MkdirAll :: "string \<Rightarrow> goerr option"
  sys_CreateTemp :: "string \<Rightarrow> string res"
  sys_Write :: "string \<Rightarrow> string \<Rightarrow> (nat \<times> goerr) option"
  sys_Close :: "string \<Rightarrow> goerr option"
  sys_Chmod :: "string \<Rightarrow> goerr option"
  sys_Rename :: "string \<Rightarrow> string \<Rightarrow> goerr option"
  sys_Remove :: "string \<Rightarrow> goerr option"
  sys_Open :: "string \<Rightarrow> goerr option"
  sys_Stat :: "string \<Rightarrow> goerr option"

definition working_OS :: OS where
  "working_OS = \<lparr>sys_MkdirAll = \<lambda>dir. None, sys_CreateTemp = \<lambda>dir. Inr ''1'',
     sys_Write = \<lambda>p d. None, sys_Close = \<lambda>p. None, sys_Chmod = \<lambda>p. None,
     sys_Rename = \<lambda>p q. None, sys_Remove = \<lambda>p. None, sys_Open = \<lambda>p. None, sys_Stat = \<lambda>p. None\<rparr>"

section \<open>Paths\<close>

text \<open>\<open>filepath.Clean\<close> on the elements of a path: the elements kept so far, last one first.\<close>

fun clean_elements :: "bool \<Rightarrow> string list \<Rightarrow> string list \<Rightarrow> string list" where
  "clean_elements rooted acc [] = rev acc"
| "clean_elements rooted acc (e # es) =
     (if e = [] \<or> e = ''.'' then clean_elements rooted acc es
      else if e = ''..'' then
        (if acc \<noteq> [] \<and> hd acc \<noteq> ''..'' then clean_elements rooted (tl acc) es
         else if rooted then clean_elements rooted acc es
         else clean_elements rooted (e # acc) es)
      else clean_elements rooted (e # acc) es)"

definition Clean :: "string \<Rightarrow> string" where
  "Clean p =
     (let rooted = (p \<noteq> [] \<and> hd p = CHR ''/'');
          es = clean_elements rooted [] (SplitChar (CHR ''/'') p);
          body = Join es ''/''
      in if rooted then CHR ''/'' # body else if body = [] then ''.'' else body)"

text \<open>\<open>filepath.Dir\<close>: the cleaned path up to the last separator.\<close>

definition upto_last_slash :: "string \<Rightarrow> string" where
  "upto_last_slash p = rev (dropWhile (\<lambda>c. c \<noteq> CHR ''/'') (rev p))"

definition after_last_slash :: "string \<Rightarrow> string" where
  "after_last_slash p = rev (takeWhile (\<lambda>c. c \<noteq> CHR ''/'') (rev p))"

definition Dir :: "string \<Rightarrow> string" where
  "Dir p = Clean (upto_last_slash p)"

text \<open>The name \<open>os.CreateTemp(dir, ".tmp-*")\<close> gives to the file.\<close>

definition temp_name :: "string \<Rightarrow> string \<Rightarrow> string" where
  "temp_name dir random =
     dir @ (if dir \<noteq> [] \<and> last dir = CHR ''/'' then [] else ''/'') @ ''.tmp-'' @ random"

section \<open>System calls on the state\<close>

definition remove_file :: "OS \<Rightarrow> string \<Rightarrow> fs \<Rightarrow> fs" where
  "remove_file os p s = (if sys_Remove os p = None then s(p := None) else s)"

definition rename_file :: "string \<Rightarrow> string \<Rightarrow> fs \<Rightarrow> fs" where
  "rename_file p q s = (if p = q then s else (s(q := s p))(p := None))"

text \<open>\<open>os.ReadFile\<close>.\<close>

definition not_exist :: "string \<Rightarrow> string \<Rightarrow> goerr" where
  "not_exist what path = NotExist (what @ '' '' @ path @ '': no such file or directory'')"

definition ReadFile :: "OS \<Rightarrow> fs \<Rightarrow> string \<Rightarrow> string res" where
  "ReadFile os s path =
     (case s path of
        None \<Rightarrow> Inl (not_exist ''open'' path)
      | Some f \<Rightarrow> (case sys_Open os path of Some err \<Rightarrow> Inl err | None \<Rightarrow> Inr (f_data f)))"

section \<open>\<open>WriteAtomically\<close>\<close>

definition WriteAtomically :: "OS \<Rightarrow> string \<Rightarrow> string \<Rightarrow> fs \<Rightarrow> fs list \<times> goerr option" where
  "WriteAtomically os path data s0 =
     (let dir = Dir path in
      case sys_MkdirAll os dir of Some err \<Rightarrow> ([s0], Some err)
      | None \<Rightarrow>
     (case sys_CreateTemp os dir of Inl err \<Rightarrow> ([s0], Some err)
      | Inr random \<Rightarrow>
     (let tmp = temp_name dir random;
          s1 = s0(tmp \<mapsto> \<lparr>f_data = [], f_mode = 0x180\<rparr>) in
      case sys_Write os tmp data of
        Some (n, err) \<Rightarrow>
          (let s2 = s1(tmp \<mapsto> \<lparr>f_data = take n data, f_mode = 0x180\<rparr>)
           in ([s0, s1, s2, remove_file os tmp s2], Some err))
      | None \<Rightarrow>
     (let s2 = s1(tmp \<mapsto> \<lparr>f_data = data, f_mode = 0x180\<rparr>) in
      case sys_Close os tmp of Some err \<Rightarrow> ([s0, s1, s2, remove_file os tmp s2], Some err)
      | None \<Rightarrow>
     (case sys_Chmod os tmp of Some err \<Rightarrow> ([s0, s1, s2, remove_file os tmp s2], Some err)
      | None \<Rightarrow>
     (let s3 = s2(tmp \<mapsto> \<lparr>f_data = data, f_mode = 0x1A4\<rparr>) in
      case sys_Rename os tmp path of
        Some err \<Rightarrow> ([s0, s1, s2, s3, remove_file os tmp s3], Some err)
      | None \<Rightarrow> ([s0, s1, s2, s3, rename_file tmp path s3], None)))))))"

text \<open>The file system when the call returns.\<close>

definition after_write :: "fs list \<times> goerr option \<Rightarrow> fs" where
  "after_write r = last (fst r)"

section \<open>What a crash can leave\<close>

text \<open>
  The contract of \<open>os.CreateTemp\<close>: the file did not exist.  A path whose last element does not
  start like a temporary name is never the temporary file.
\<close>

definition fresh_temp :: "OS \<Rightarrow> fs \<Rightarrow> string \<Rightarrow> bool" where
  "fresh_temp os s path \<longleftrightarrow>
     (case sys_CreateTemp os (Dir path) of
        Inl err \<Rightarrow> True | Inr random \<Rightarrow> s (temp_name (Dir path) random) = None \<and> CHR ''/'' \<notin> set random)"

definition plain_name :: "string \<Rightarrow> bool" where
  "plain_name path \<longleftrightarrow> \<not> prefix ''.tmp-'' (after_last_slash path)"

lemma after_last_slash_append:
  "CHR ''/'' \<notin> set r \<Longrightarrow> after_last_slash (d @ CHR ''/'' # r) = r"
proof -
  assume "CHR ''/'' \<notin> set r"
  then have "takeWhile (\<lambda>c. c \<noteq> CHR ''/'') (rev r) = rev r"
    by (intro takeWhile_eq_all_conv [THEN iffD2]) auto
  with \<open>CHR ''/'' \<notin> set r\<close> show ?thesis
    by (simp add: after_last_slash_def takeWhile_append)
qed

lemma last_slash_split: "d \<noteq> [] \<Longrightarrow> last d = CHR ''/'' \<Longrightarrow> \<exists>e. d = e @ [CHR ''/'']"
  by (metis append_butlast_last_id)

lemma after_last_slash_temp_name:
  assumes "CHR ''/'' \<notin> set random"
  shows "after_last_slash (temp_name dir random) = ''.tmp-'' @ random"
proof (cases "dir \<noteq> [] \<and> last dir = CHR ''/''")
  case True
  then obtain e where "dir = e @ [CHR ''/'']" using last_slash_split by blast
  then show ?thesis
    using assms after_last_slash_append [of "''.tmp-'' @ random" e] by (simp add: temp_name_def)
next
  case False
  then show ?thesis
    using assms after_last_slash_append [of "''.tmp-'' @ random" dir] by (auto simp: temp_name_def)
qed

lemma temp_name_neq:
  "plain_name path \<Longrightarrow> CHR ''/'' \<notin> set random \<Longrightarrow> temp_name dir random \<noteq> path"
  using after_last_slash_temp_name [of random dir] by (auto simp: plain_name_def)

lemma remove_file_other: "q \<noteq> tmp \<Longrightarrow> remove_file os tmp s q = s q"
  by (simp add: remove_file_def)

text \<open>
  Every crash state agrees with the old state on every path but the temporary one, except the
  last state of a successful write, where the target holds the new data.
\<close>

definition old_or_new :: "fs \<Rightarrow> string \<Rightarrow> string \<Rightarrow> fs \<Rightarrow> bool" where
  "old_or_new s0 path data s \<longleftrightarrow> s path = s0 path \<or> s path = Some \<lparr>f_data = data, f_mode = 0x1A4\<rparr>"

lemmas WriteAtomically_cases = WriteAtomically_def Let_def

lemma WriteAtomically_crash:
  assumes "fresh_temp os s0 path" "plain_name path" "s \<in> set (fst (WriteAtomically os path data s0))"
  shows "old_or_new s0 path data s"
proof -
  have "temp_name (Dir path) random \<noteq> path" if "sys_CreateTemp os (Dir path) = Inr random" for random
    using assms(1,2) that by (auto simp: fresh_temp_def dest: temp_name_neq)
  with assms(3) show ?thesis
    by (auto simp: WriteAtomically_cases old_or_new_def rename_file_def remove_file_def
        split: option.splits sum.splits if_splits)
qed

lemma WriteAtomically_ok:
  assumes "fresh_temp os s0 path" "plain_name path" "WriteAtomically os path data s0 = (ss, None)"
  shows "last ss = s0(path \<mapsto> \<lparr>f_data = data, f_mode = 0x1A4\<rparr>)"
proof -
  have "s0 (temp_name (Dir path) random) = None \<and> temp_name (Dir path) random \<noteq> path"
    if "sys_CreateTemp os (Dir path) = Inr random" for random
    using assms(1,2) that by (auto simp: fresh_temp_def dest: temp_name_neq)
  with assms(3) show ?thesis
    by (auto simp: WriteAtomically_cases rename_file_def
        split: option.splits sum.splits if_splits)
qed

text \<open>A failed write changes nothing once the temporary file is removed.\<close>

lemma WriteAtomically_failed:
  assumes "fresh_temp os s0 path" "\<And>p. sys_Remove os p = None"
    "WriteAtomically os path data s0 = (ss, Some err)"
  shows "last ss = s0"
proof -
  have "s0 (temp_name (Dir path) random) = None" if "sys_CreateTemp os (Dir path) = Inr random" for random
    using assms(1) that by (auto simp: fresh_temp_def)
  with assms(3) show ?thesis
    by (auto simp: WriteAtomically_cases remove_file_def assms(2) fun_upd_idem
        split: option.splits sum.splits if_splits)
qed

lemma WriteAtomically_nonempty [simp]: "fst (WriteAtomically os path data s) \<noteq> []"
  by (auto simp: WriteAtomically_cases split: option.splits sum.splits)

lemma WriteAtomically_first: "hd (fst (WriteAtomically os path data s)) = s"
  by (auto simp: WriteAtomically_cases split: option.splits sum.splits)

text \<open>
  The same facts for one path at a time, which do not need the temporary file to be new: its name
  alone keeps it apart from the others.
\<close>

definition temp_sane :: "OS \<Rightarrow> bool" where
  "temp_sane os \<longleftrightarrow> (\<forall>dir random. sys_CreateTemp os dir = Inr random \<longrightarrow> CHR ''/'' \<notin> set random)"

lemma temp_saneD:
  "temp_sane os \<Longrightarrow> plain_name path \<Longrightarrow> sys_CreateTemp os dir = Inr random \<Longrightarrow> temp_name dir random \<noteq> path"
  by (auto simp: temp_sane_def dest: temp_name_neq)

lemma WriteAtomically_other:
  assumes "temp_sane os" "plain_name q" "q \<noteq> path" "t \<in> set (fst (WriteAtomically os path data s))"
  shows "t q = s q"
proof (cases "sys_CreateTemp os (Dir path)")
  case (Inl err)
  then show ?thesis using assms(4) by (auto simp: WriteAtomically_cases split: option.splits)
next
  case (Inr random)
  have "q \<noteq> temp_name (Dir path) random" using temp_saneD [OF assms(1,2) Inr] by simp
  then show ?thesis
    using assms(3,4) Inr
    by (auto simp: WriteAtomically_cases rename_file_def remove_file_def split: option.splits if_splits)
qed

lemma WriteAtomically_path:
  assumes "temp_sane os" "plain_name path" "t \<in> set (fst (WriteAtomically os path data s))"
  shows "t path = s path \<or> snd (WriteAtomically os path data s) = None
      \<and> t path = last (fst (WriteAtomically os path data s)) path"
proof (cases "sys_CreateTemp os (Dir path)")
  case (Inl err)
  then show ?thesis using assms(3) by (auto simp: WriteAtomically_cases split: option.splits)
next
  case (Inr random)
  have "path \<noteq> temp_name (Dir path) random" using temp_saneD [OF assms(1,2) Inr] by simp
  then show ?thesis
    using assms(3) Inr
    by (auto simp: WriteAtomically_cases rename_file_def remove_file_def split: option.splits if_splits)
qed

lemma WriteAtomically_target:
  assumes "temp_sane os" "plain_name path" "WriteAtomically os path data s = (ss, None)"
  shows "last ss path = Some \<lparr>f_data = data, f_mode = 0x1A4\<rparr>"
proof (cases "sys_CreateTemp os (Dir path)")
  case (Inl err)
  then show ?thesis using assms(3) by (auto simp: WriteAtomically_cases split: option.splits)
next
  case (Inr random)
  have "path \<noteq> temp_name (Dir path) random" using temp_saneD [OF assms(1,2) Inr] by simp
  then show ?thesis
    using assms(3) Inr by (auto simp: WriteAtomically_cases rename_file_def split: option.splits if_splits)
qed

text \<open>
  C28: \<open>WriteAtomically\<close> is atomic under crashes and faults.  Whatever system call fails, and at
  whatever point between two of them the process stops, the target holds either its old contents or all of the new
  data with mode 0644; a call that reports success changed the target and nothing else; and a
  call that reports an error leaves the file system as it was when the temporary file can be removed.
\<close>

theorem write_atomically:
  assumes "fresh_temp os s0 path" "plain_name path" "WriteAtomically os path data s0 = (ss, err)"
  shows "(\<forall>s \<in> set ss. old_or_new s0 path data s)
    \<and> (err = None \<longrightarrow> last ss = s0(path \<mapsto> \<lparr>f_data = data, f_mode = 0x1A4\<rparr>))
    \<and> (err \<noteq> None \<and> (\<forall>p. sys_Remove os p = None) \<longrightarrow> last ss = s0)"
  using WriteAtomically_crash [OF assms(1,2), of _ data] WriteAtomically_ok [OF assms(1,2)]
    WriteAtomically_failed [OF assms(1)] assms(3)
  by (cases err) auto

text \<open>The rename fails, and the old configuration stays in place.\<close>

theorem write_atomically_witness:
  "\<exists>ss. WriteAtomically (working_OS\<lparr>sys_Rename := \<lambda>p q. Some (ErrorString ''rename failed'')\<rparr>)
       ''/data/config.json'' ''new'' [''/data/config.json'' \<mapsto> \<lparr>f_data = ''old'', f_mode = 0x1A4\<rparr>]
       = (ss, Some (ErrorString ''rename failed''))
     \<and> (\<forall>s \<in> set ss. old_or_new [''/data/config.json'' \<mapsto> \<lparr>f_data = ''old'', f_mode = 0x1A4\<rparr>]
                    ''/data/config.json'' ''new'' s)
     \<and> last ss = [''/data/config.json'' \<mapsto> \<lparr>f_data = ''old'', f_mode = 0x1A4\<rparr>]"
proof -
  let ?os = "working_OS\<lparr>sys_Rename := \<lambda>p q. Some (ErrorString ''rename failed'')\<rparr>"
  let ?s = "[''/data/config.json'' \<mapsto> \<lparr>f_data = ''old'', f_mode = 0x1A4\<rparr>]"
  obtain ss where run: "WriteAtomically ?os ''/data/config.json'' ''new'' ?s = (ss, Some (ErrorString ''rename failed''))"
    by (simp add: WriteAtomically_cases working_OS_def)
  have "fresh_temp ?os ?s ''/data/config.json''"
    by (simp add: fresh_temp_def working_OS_def temp_name_def)
  moreover have "plain_name ''/data/config.json''"
    by (simp add: plain_name_def after_last_slash_def)
  ultimately show ?thesis
    using run write_atomically [OF _ _ run] by (simp add: working_OS_def)
qed

end
