(* ===== verification/ConfigStore.thy ===== *)
theory ConfigStore
  imports ConfigFacts JsonFacts FileUtil
begin

text \<open>
  Parsing, migrating, updating and saving configurations: the second half of
  \<open>internal/config/config.go\<close>.  A struct is decoded by the table of its JSON fields and encoded
  field by field in the order of its declaration.
\<close>

section \<open>The raw structs\<close>

text \<open>The structs that tell an absent field from a zero one.\<close>

record rawTunnelConfig =
  rt_Enabled :: "bool ptr"
  rt_Broker :: string
  rt_RemoteEndpoint :: string
  rt_LocalIPv6 :: string
  rt_RemoteIPv6 :: string
  rt_TTL :: int
  rt_MTU :: int

record rawServerConfig =
  rs_Port :: "int ptr"
  rs_WANInterface :: string
  rs_AuthToken :: string

record rawConfig =
  raw_Tunnel :: rawTunnelConfig
  raw_LAN :: LANConfig
  raw_Health :: HealthConfig
  raw_Server :: rawServerConfig

record rawProfileTunnelConfig =
  rpt_Broker :: string
  rpt_RemoteEndpoint :: string
  rpt_LocalIPv6 :: string
  rpt_RemoteIPv6 :: string
  rpt_TTL :: int
  rpt_MTU :: int

record rawProfileConfig =
  rpc_Tunnel :: rawProfileTunnelConfig
  rpc_LAN :: LANConfig
  rpc_Health :: HealthConfig

record rawProfile =
  rp_ID :: string
  rp_Name :: string
  rp_Config :: rawProfileConfig

record rawProfileDocument =
  rd_TunnelEnabled :: "bool ptr"
  rd_ActiveProfileID :: string
  rd_Profiles :: "rawProfile slice"
  rd_Server :: rawServerConfig

record documentFormatProbe =
  fp_TunnelEnabled :: "bool ptr"
  fp_ActiveProfileID :: string
  fp_Profiles :: "json slice"

section \<open>Zero values\<close>

definition zero_lan :: LANConfig where
  "zero_lan = \<lparr>lan_Enabled = False, lan_DNS = None, lan_Mode = [], lan_Networks = None\<rparr>"

definition zero_health :: HealthConfig where
  "zero_health = \<lparr>hc_Enabled = False, hc_IntervalSec = 0, hc_Target = [], hc_AutoRestart = False\<rparr>"

definition zero_network :: NetworkConfig where
  "zero_network = \<lparr>nc_Interface = [], nc_Prefix = [], nc_Comment = []\<rparr>"

definition zero_raw_server :: rawServerConfig where
  "zero_raw_server = \<lparr>rs_Port = None, rs_WANInterface = [], rs_AuthToken = []\<rparr>"

definition zero_raw_config :: rawConfig where
  "zero_raw_config =
     \<lparr>raw_Tunnel = \<lparr>rt_Enabled = None, rt_Broker = [], rt_RemoteEndpoint = [], rt_LocalIPv6 = [],
                    rt_RemoteIPv6 = [], rt_TTL = 0, rt_MTU = 0\<rparr>,
      raw_LAN = zero_lan, raw_Health = zero_health, raw_Server = zero_raw_server\<rparr>"

definition zero_raw_profile :: rawProfile where
  "zero_raw_profile =
     \<lparr>rp_ID = [], rp_Name = [],
      rp_Config = \<lparr>rpc_Tunnel = \<lparr>rpt_Broker = [], rpt_RemoteEndpoint = [], rpt_LocalIPv6 = [],
                                 rpt_RemoteIPv6 = [], rpt_TTL = 0, rpt_MTU = 0\<rparr>,
                   rpc_LAN = zero_lan, rpc_Health = zero_health\<rparr>\<rparr>"

definition zero_raw_document :: rawProfileDocument where
  "zero_raw_document = \<lparr>rd_TunnelEnabled = None, rd_ActiveProfileID = [], rd_Profiles = None,
                        rd_Server = zero_raw_server\<rparr>"

definition zero_probe :: documentFormatProbe where
  "zero_probe = \<lparr>fp_TunnelEnabled = None, fp_ActiveProfileID = [], fp_Profiles = None\<rparr>"

section \<open>Field tables\<close>

definition tunnel_fields :: "(string \<times> TunnelConfig decoder) list" where
  "tunnel_fields =
     [(''enabled'', decode_field tc_Enabled (\<lambda>x. tc_Enabled_update (\<lambda>_. x)) decode_bool),
      (''broker'', decode_field tc_Broker (\<lambda>x. tc_Broker_update (\<lambda>_. x)) decode_string),
      (''remote_endpoint'', decode_field tc_RemoteEndpoint (\<lambda>x. tc_RemoteEndpoint_update (\<lambda>_. x)) decode_string),
      (''local_ipv6'', decode_field tc_LocalIPv6 (\<lambda>x. tc_LocalIPv6_update (\<lambda>_. x)) decode_string),
      (''remote_ipv6'', decode_field tc_RemoteIPv6 (\<lambda>x. tc_RemoteIPv6_update (\<lambda>_. x)) decode_string),
      (''ttl'', decode_field tc_TTL (\<lambda>x. tc_TTL_update (\<lambda>_. x)) decode_int),
      (''mtu'', decode_field tc_MTU (\<lambda>x. tc_MTU_update (\<lambda>_. x)) decode_int)]"

definition raw_tunnel_fields :: "(string \<times> rawTunnelConfig decoder) list" where
  "raw_tunnel_fields =
     [(''enabled'', decode_field rt_Enabled (\<lambda>x. rt_Enabled_update (\<lambda>_. x)) (decode_ptr False decode_bool)),
      (''broker'', decode_field rt_Broker (\<lambda>x. rt_Broker_update (\<lambda>_. x)) decode_string),
      (''remote_endpoint'', decode_field rt_RemoteEndpoint (\<lambda>x. rt_RemoteEndpoint_update (\<lambda>_. x)) decode_string),
      (''local_ipv6'', decode_field rt_LocalIPv6 (\<lambda>x. rt_LocalIPv6_update (\<lambda>_. x)) decode_string),
      (''remote_ipv6'', decode_field rt_RemoteIPv6 (\<lambda>x. rt_RemoteIPv6_update (\<lambda>_. x)) decode_string),
      (''ttl'', decode_field rt_TTL (\<lambda>x. rt_TTL_update (\<lambda>_. x)) decode_int),
      (''mtu'', decode_field rt_MTU (\<lambda>x. rt_MTU_update (\<lambda>_. x)) decode_int)]"

definition profile_tunnel_fields :: "(string \<times> rawProfileTunnelConfig decoder) list" where
  "profile_tunnel_fields =
     [(''broker'', decode_field rpt_Broker (\<lambda>x. rpt_Broker_update (\<lambda>_. x)) decode_string),
      (''remote_endpoint'', decode_field rpt_RemoteEndpoint (\<lambda>x. rpt_RemoteEndpoint_update (\<lambda>_. x)) decode_string),
      (''local_ipv6'', decode_field rpt_LocalIPv6 (\<lambda>x. rpt_LocalIPv6_update (\<lambda>_. x)) decode_string),
      (''remote_ipv6'', decode_field rpt_RemoteIPv6 (\<lambda>x. rpt_RemoteIPv6_update (\<lambda>_. x)) decode_string),
      (''ttl'', decode_field rpt_TTL (\<lambda>x. rpt_TTL_update (\<lambda>_. x)) decode_int),
      (''mtu'', decode_field rpt_MTU (\<lambda>x. rpt_MTU_update (\<lambda>_. x)) decode_int)]"

definition network_fields :: "(string \<times> NetworkConfig decoder) list" where
  "network_fields =
     [(''interface'', decode_field nc_Interface (\<lambda>x. nc_Interface_update (\<lambda>_. x)) decode_string),
      (''prefix'', decode_field nc_Prefix (\<lambda>x. nc_Prefix_update (\<lambda>_. x)) decode_string),
      (''comment'', decode_field nc_Comment (\<lambda>x. nc_Comment_update (\<lambda>_. x)) decode_string)]"

definition lan_fields :: "(string \<times> LANConfig decoder) list" where
  "lan_fields =
     [(''enabled'', decode_field lan_Enabled (\<lambda>x. lan_Enabled_update (\<lambda>_. x)) decode_bool),
      (''dns'', decode_field lan_DNS (\<lambda>x. lan_DNS_update (\<lambda>_. x)) (decode_slice [] decode_string)),
      (''mode'', decode_field lan_Mode (\<lambda>x. lan_Mode_update (\<lambda>_. x)) decode_string),
      (''networks'', decode_field lan_Networks (\<lambda>x. lan_Networks_update (\<lambda>_. x))
         (decode_slice zero_network (decode_struct network_fields)))]"

definition health_fields :: "(string \<times> HealthConfig decoder) list" where
  "health_fields =
     [(''enabled'', decode_field hc_Enabled (\<lambda>x. hc_Enabled_update (\<lambda>_. x)) decode_bool),
      (''interval_sec'', decode_field hc_IntervalSec (\<lambda>x. hc_IntervalSec_update (\<lambda>_. x)) decode_int),
      (''target'', decode_field hc_Target (\<lambda>x. hc_Target_update (\<lambda>_. x)) decode_string),
      (''auto_restart'', decode_field hc_AutoRestart (\<lambda>x. hc_AutoRestart_update (\<lambda>_. x)) decode_bool)]"

definition server_fields :: "(string \<times> ServerConfig decoder) list" where
  "server_fields =
     [(''port'', decode_field sc_Port (\<lambda>x. sc_Port_update (\<lambda>_. x)) decode_int),
      (''wan_interface'', decode_field sc_WANInterface (\<lambda>x. sc_WANInterface_update (\<lambda>_. x)) decode_string),
      (''auth_token'', decode_field sc_AuthToken (\<lambda>x. sc_AuthToken_update (\<lambda>_. x)) decode_string)]"

definition raw_server_fields :: "(string \<times> rawServerConfig decoder) list" where
  "raw_server_fields =
     [(''port'', decode_field rs_Port (\<lambda>x. rs_Port_update (\<lambda>_. x)) (decode_ptr 0 decode_int)),
      (''wan_interface'', decode_field rs_WANInterface (\<lambda>x. rs_WANInterface_update (\<lambda>_. x)) decode_string),
      (''auth_token'', decode_field rs_AuthToken (\<lambda>x. rs_AuthToken_update (\<lambda>_. x)) decode_string)]"

definition config_fields :: "(string \<times> Config decoder) list" where
  "config_fields =
     [(''tunnel'', decode_field cfg_Tunnel (\<lambda>x. cfg_Tunnel_update (\<lambda>_. x)) (decode_struct tunnel_fields)),
      (''lan'', decode_field cfg_LAN (\<lambda>x. cfg_LAN_update (\<lambda>_. x)) (decode_struct lan_fields)),
      (''health'', decode_field cfg_Health (\<lambda>x. cfg_Health_update (\<lambda>_. x)) (decode_struct health_fields)),
      (''server'', decode_field cfg_Server (\<lambda>x. cfg_Server_update (\<lambda>_. x)) (decode_struct server_fields))]"

definition raw_config_fields :: "(string \<times> rawConfig decoder) list" where
  "raw_config_fields =
     [(''tunnel'', decode_field raw_Tunnel (\<lambda>x. raw_Tunnel_update (\<lambda>_. x)) (decode_struct raw_tunnel_fields)),
      (''lan'', decode_field raw_LAN (\<lambda>x. raw_LAN_update (\<lambda>_. x)) (decode_struct lan_fields)),
      (''health'', decode_field raw_Health (\<lambda>x. raw_Health_update (\<lambda>_. x)) (decode_struct health_fields)),
      (''server'', decode_field raw_Server (\<lambda>x. raw_Server_update (\<lambda>_. x)) (decode_struct raw_server_fields))]"

definition profile_config_fields :: "(string \<times> rawProfileConfig decoder) list" where
  "profile_config_fields =
     [(''tunnel'', decode_field rpc_Tunnel (\<lambda>x. rpc_Tunnel_update (\<lambda>_. x)) (decode_struct profile_tunnel_fields)),
      (''lan'', decode_field rpc_LAN (\<lambda>x. rpc_LAN_update (\<lambda>_. x)) (decode_struct lan_fields)),
      (''health'', decode_field rpc_Health (\<lambda>x. rpc_Health_update (\<lambda>_. x)) (decode_struct health_fields))]"

definition profile_fields :: "(string \<times> rawProfile decoder) list" where
  "profile_fields =
     [(''id'', decode_field rp_ID (\<lambda>x. rp_ID_update (\<lambda>_. x)) decode_string),
      (''name'', decode_field rp_Name (\<lambda>x. rp_Name_update (\<lambda>_. x)) decode_string),
      (''config'', decode_field rp_Config (\<lambda>x. rp_Config_update (\<lambda>_. x)) (decode_struct profile_config_fields))]"

definition document_fields :: "(string \<times> rawProfileDocument decoder) list" where
  "document_fields =
     [(''tunnel_enabled'', decode_field rd_TunnelEnabled (\<lambda>x. rd_TunnelEnabled_update (\<lambda>_. x)) (decode_ptr False decode_bool)),
      (''active_profile_id'', decode_field rd_ActiveProfileID (\<lambda>x. rd_ActiveProfileID_update (\<lambda>_. x)) decode_string),
      (''profiles'', decode_field rd_Profiles (\<lambda>x. rd_Profiles_update (\<lambda>_. x))
         (decode_slice zero_raw_profile (decode_struct profile_fields))),
      (''server'', decode_field rd_Server (\<lambda>x. rd_Server_update (\<lambda>_. x)) (decode_struct raw_server_fields))]"

text \<open>A \<open>json.RawMessage\<close> takes any value.\<close>

definition probe_fields :: "(string \<times> documentFormatProbe decoder) list" where
  "probe_fields =
     [(''tunnel_enabled'', decode_field fp_TunnelEnabled (\<lambda>x. fp_TunnelEnabled_update (\<lambda>_. x)) (decode_ptr False decode_bool)),
      (''active_profile_id'', decode_field fp_ActiveProfileID (\<lambda>x. fp_ActiveProfileID_update (\<lambda>_. x)) decode_string),
      (''profiles'', decode_field fp_Profiles (\<lambda>x. fp_Profiles_update (\<lambda>_. x))
         (decode_slice JNull (\<lambda>v x. Some v)))]"

section \<open>Encoding\<close>

definition encode_tunnel :: "TunnelConfig \<Rightarrow> json" where
  "encode_tunnel t = JObj
     [(''enabled'', JBool (tc_Enabled t)), (''broker'', JStr (tc_Broker t)),
      (''remote_endpoint'', JStr (tc_RemoteEndpoint t)), (''local_ipv6'', JStr (tc_LocalIPv6 t)),
      (''remote_ipv6'', JStr (tc_RemoteIPv6 t)), (''ttl'', encode_int (tc_TTL t)),
      (''mtu'', encode_int (tc_MTU t))]"

definition encode_network :: "NetworkConfig \<Rightarrow> json" where
  "encode_network n = JObj
     [(''interface'', JStr (nc_Interface n)), (''prefix'', JStr (nc_Prefix n)),
      (''comment'', JStr (nc_Comment n))]"

definition encode_lan :: "LANConfig \<Rightarrow> json" where
  "encode_lan l = JObj
     [(''enabled'', JBool (lan_Enabled l)), (''dns'', encode_slice JStr (lan_DNS l)),
      (''mode'', JStr (lan_Mode l)), (''networks'', encode_slice encode_network (lan_Networks l))]"

definition encode_health :: "HealthConfig \<Rightarrow> json" where
  "encode_health h = JObj
     [(''enabled'', JBool (hc_Enabled h)), (''interval_sec'', encode_int (hc_IntervalSec h)),
      (''target'', JStr (hc_Target h)), (''auto_restart'', JBool (hc_AutoRestart h))]"

definition encode_server :: "ServerConfig \<Rightarrow> json" where
  "encode_server s = JObj
     [(''port'', encode_int (sc_Port s)), (''wan_interface'', JStr (sc_WANInterface s)),
      (''auth_token'', JStr (sc_AuthToken s))]"

definition encode_config :: "Config \<Rightarrow> json" where
  "encode_config c = JObj
     [(''tunnel'', encode_tunnel (cfg_Tunnel c)), (''lan'', encode_lan (cfg_LAN c)),
      (''health'', encode_health (cfg_Health c)), (''server'', encode_server (cfg_Server c))]"

definition encode_raw_server :: "rawServerConfig \<Rightarrow> json" where
  "encode_raw_server s = JObj
     [(''port'', encode_ptr encode_int (rs_Port s)), (''wan_interface'', JStr (rs_WANInterface s)),
      (''auth_token'', JStr (rs_AuthToken s))]"

definition encode_profile_tunnel :: "rawProfileTunnelConfig \<Rightarrow> json" where
  "encode_profile_tunnel t = JObj
     [(''broker'', JStr (rpt_Broker t)), (''remote_endpoint'', JStr (rpt_RemoteEndpoint t)),
      (''local_ipv6'', JStr (rpt_LocalIPv6 t)), (''remote_ipv6'', JStr (rpt_RemoteIPv6 t)),
      (''ttl'', encode_int (rpt_TTL t)), (''mtu'', encode_int (rpt_MTU t))]"

definition encode_profile_config :: "rawProfileConfig \<Rightarrow> json" where
  "encode_profile_config c = JObj
     [(''tunnel'', encode_profile_tunnel (rpc_Tunnel c)), (''lan'', encode_lan (rpc_LAN c)),
      (''health'', encode_health (rpc_Health c))]"

definition encode_raw_profile :: "rawProfile \<Rightarrow> json" where
  "encode_raw_profile p = JObj
     [(''id'', JStr (rp_ID p)), (''name'', JStr (rp_Name p)),
      (''config'', encode_profile_config (rp_Config p))]"

definition encode_raw_document :: "rawProfileDocument \<Rightarrow> json" where
  "encode_raw_document d = JObj
     [(''tunnel_enabled'', encode_ptr JBool (rd_TunnelEnabled d)),
      (''active_profile_id'', JStr (rd_ActiveProfileID d)),
      (''profiles'', encode_slice encode_raw_profile (rd_Profiles d)),
      (''server'', encode_raw_server (rd_Server d))]"

section \<open>Parsing\<close>

definition wrap :: "string \<Rightarrow> goerr \<Rightarrow> goerr" where
  "wrap msg err = WrapError msg err []"

definition isProfilesFormat :: "string \<Rightarrow> bool" where
  "isProfilesFormat data =
     (case Unmarshal (decode_struct probe_fields) data zero_probe of
        Inl err \<Rightarrow> False
      | Inr probe \<Rightarrow> fp_TunnelEnabled probe \<noteq> None \<or> \<not> blank (fp_ActiveProfileID probe)
                     \<or> fp_Profiles probe \<noteq> None)"

definition applyLegacyTunnelEnabled :: "Config \<Rightarrow> string \<Rightarrow> Config res" where
  "applyLegacyTunnelEnabled c data =
     (case Unmarshal (decode_struct raw_config_fields) data zero_raw_config of
        Inl err \<Rightarrow> Inl (wrap ''parse config for migration: '' err)
      | Inr raw \<Rightarrow>
          Inr (c\<lparr>cfg_Tunnel := (cfg_Tunnel c)\<lparr>tc_Enabled :=
            (case rt_Enabled (raw_Tunnel raw) of
               Some enabled \<Rightarrow> enabled
             | None \<Rightarrow> \<not> blank (tc_RemoteEndpoint (cfg_Tunnel c)) \<and> \<not> blank (tc_LocalIPv6 (cfg_Tunnel c)))\<rparr>\<rparr>))"

definition parseLegacyConfig :: "string \<Rightarrow> Config res" where
  "parseLegacyConfig data =
     (case Unmarshal (decode_struct config_fields) data Defaults of
        Inl err \<Rightarrow> Inl (wrap ''parse config: '' err)
      | Inr cfg \<Rightarrow>
          (case applyLegacyTunnelEnabled cfg data of
             Inl err \<Rightarrow> Inl err
           | Inr cfg \<Rightarrow> Inr (Config_applyDefaults cfg)))"

definition profile_of_raw :: "rawProfile \<Rightarrow> Profile" where
  "profile_of_raw r =
     (let t = rpc_Tunnel (rp_Config r)
      in \<lparr>pr_ID = rp_ID r, pr_Name = rp_Name r,
          pr_Config =
            \<lparr>pc_Tunnel = \<lparr>tc_Enabled = False, tc_Broker = rpt_Broker t,
               tc_RemoteEndpoint = rpt_RemoteEndpoint t, tc_LocalIPv6 = rpt_LocalIPv6 t,
               tc_RemoteIPv6 = rpt_RemoteIPv6 t, tc_TTL = rpt_TTL t, tc_MTU = rpt_MTU t\<rparr>,
             pc_LAN = rpc_LAN (rp_Config r), pc_Health = rpc_Health (rp_Config r)\<rparr>,
          pr_IsValid = False, pr_ValidationErrors = None\<rparr>)"

text \<open>
  \<open>Validate\<close> on a pointer that is not nil, by the document it leaves behind and its error.
\<close>

definition validated :: "Document \<Rightarrow> Document res" where
  "validated d =
     (case Document_Validate (Some d) of
        (Some d', None) \<Rightarrow> Inr d' | (_, Some err) \<Rightarrow> Inl err | (None, None) \<Rightarrow> Inr d)"

definition parseProfilesDocument :: "string \<Rightarrow> Document res" where
  "parseProfilesDocument data =
     (case Unmarshal (decode_struct document_fields) data zero_raw_document of
        Inl err \<Rightarrow> Inl (wrap ''parse config document: '' err)
      | Inr raw \<Rightarrow>
          (let d0 = DefaultDocument\<lparr>doc_StorageFormat := StorageFormatProfiles\<rparr>;
               d1 = (case rd_TunnelEnabled raw of None \<Rightarrow> d0 | Some b \<Rightarrow> d0\<lparr>doc_TunnelEnabled := b\<rparr>);
               d2 = (if \<not> blank (rd_ActiveProfileID raw)
                     then d1\<lparr>doc_ActiveProfileID := rd_ActiveProfileID raw\<rparr> else d1);
               server = rd_Server raw;
               d3 = d2\<lparr>doc_Server := \<lparr>sc_Port = 0, sc_WANInterface = rs_WANInterface server,
                                       sc_AuthToken = rs_AuthToken server\<rparr>\<rparr>;
               d4 = (case rs_Port server of
                       None \<Rightarrow> d3
                     | Some p \<Rightarrow> d3\<lparr>doc_Server := (doc_Server d3)\<lparr>sc_Port := p\<rparr>\<rparr>);
               d5 = d4\<lparr>doc_Profiles := map profile_of_raw (elems (rd_Profiles raw))\<rparr>
           in validated (Document_applyDefaults d5)))"

definition ParseDocument :: "string \<Rightarrow> Document res" where
  "ParseDocument data =
     (if isProfilesFormat data then parseProfilesDocument data
      else (case parseLegacyConfig data of
              Inl err \<Rightarrow> Inl err
            | Inr legacyConfig \<Rightarrow>
                Inr (refreshProfileValidation (DocumentFromConfig (Some legacyConfig) StorageFormatLegacy))))"

definition Parse :: "string \<Rightarrow> Config res" where
  "Parse data = (case ParseDocument data of Inl err \<Rightarrow> Inl err | Inr d \<Rightarrow> ActiveConfig (Some d))"

definition LoadDocument :: "OS \<Rightarrow> fs \<Rightarrow> string \<Rightarrow> Document res" where
  "LoadDocument os s path =
     (case ReadFile os s path of
        Inl err \<Rightarrow> Inl (wrap ''read config: '' err) | Inr data \<Rightarrow> ParseDocument data)"

definition Load :: "OS \<Rightarrow> fs \<Rightarrow> string \<Rightarrow> Config res" where
  "Load os s path =
     (case LoadDocument os s path of Inl err \<Rightarrow> Inl err | Inr d \<Rightarrow> ActiveConfig (Some d))"

section \<open>Updates\<close>

text \<open>The startup-only values that a legacy update keeps when it omits them.\<close>

definition keep_omitted :: "rawConfig \<Rightarrow> bool \<Rightarrow> int \<Rightarrow> Config \<Rightarrow> Config" where
  "keep_omitted raw enabled port cfg =
     (let c = (if rt_Enabled (raw_Tunnel raw) = None
               then cfg\<lparr>cfg_Tunnel := (cfg_Tunnel cfg)\<lparr>tc_Enabled := enabled\<rparr>\<rparr> else cfg)
      in if rs_Port (raw_Server raw) = None
         then c\<lparr>cfg_Server := (cfg_Server c)\<lparr>sc_Port := port\<rparr>\<rparr> else c)"

definition parseLegacyUpdateDocument :: "string \<Rightarrow> Document ptr \<Rightarrow> Document res" where
  "parseLegacyUpdateDocument data current =
     (case parseLegacyConfig data of
        Inl err \<Rightarrow> Inl err
      | Inr cfg \<Rightarrow>
          (case current of
             None \<Rightarrow> Inr (refreshProfileValidation (DocumentFromConfig (Some cfg) StorageFormatLegacy))
           | Some d \<Rightarrow>
               (case Unmarshal (decode_struct raw_config_fields) data zero_raw_config of
                  Inl err \<Rightarrow> Inl (wrap ''parse config for update migration: '' err)
                | Inr raw \<Rightarrow>
                    (let c = keep_omitted raw (doc_TunnelEnabled d) (sc_Port (doc_Server d)) cfg;
                         d1 = (Document_Clone d)\<lparr>doc_TunnelEnabled := tc_Enabled (cfg_Tunnel c),
                                                  doc_Server := cfg_Server c\<rparr>
                     in case replaceDocumentActiveProfileConfig (Some d1) (Some c) of
                          Inl err \<Rightarrow> Inl err
                        | Inr d2 \<Rightarrow> validated d2))))"

definition ParseUpdateDocument :: "string \<Rightarrow> Document ptr \<Rightarrow> Document res" where
  "ParseUpdateDocument data current =
     (if isProfilesFormat data then parseProfilesDocument data
      else parseLegacyUpdateDocument data current)"

definition ParseUpdate :: "string \<Rightarrow> Config ptr \<Rightarrow> Config res" where
  "ParseUpdate data current =
     (if isProfilesFormat data then
        (case ParseUpdateDocument data (Some (DocumentFromConfig current StorageFormatProfiles)) of
           Inl err \<Rightarrow> Inl err | Inr d \<Rightarrow> ActiveConfig (Some d))
      else
        (case parseLegacyConfig data of
           Inl err \<Rightarrow> Inl err
         | Inr cfg \<Rightarrow>
             (case current of
                None \<Rightarrow> Inr cfg
              | Some cur \<Rightarrow>
                  (case Unmarshal (decode_struct raw_config_fields) data zero_raw_config of
                     Inl err \<Rightarrow> Inl (wrap ''parse config for update migration: '' err)
                   | Inr raw \<Rightarrow>
                       Inr (keep_omitted raw (tc_Enabled (cfg_Tunnel cur)) (sc_Port (cfg_Server cur)) cfg)))))"

section \<open>Saving\<close>

text \<open>Encoding never fails on these structs; an operation that does not write leaves one state.\<close>

definition written :: "string \<Rightarrow> fs list \<times> goerr option \<Rightarrow> fs list \<times> goerr option" where
  "written msg r = (fst r, map_option (wrap msg) (snd r))"

definition Save :: "OS \<Rightarrow> string \<Rightarrow> Config ptr \<Rightarrow> fs \<Rightarrow> fs list \<times> goerr option" where
  "Save os path cfg s =
     (case cfg of
        None \<Rightarrow> ([s], Some (ErrorString ''config is required''))
      | Some c \<Rightarrow>
          (let clone = Config_applyDefaults (Config_Clone c)
           in case Config_Validate (Some clone) of
                Some err \<Rightarrow> ([s], Some err)
              | None \<Rightarrow> written ''write config: '' (WriteAtomically os path (MarshalIndent (encode_config clone)) s)))"

definition raw_of_profile :: "Profile \<Rightarrow> rawProfile" where
  "raw_of_profile p =
     (let t = pc_Tunnel (pr_Config p)
      in \<lparr>rp_ID = pr_ID p, rp_Name = pr_Name p,
          rp_Config =
            \<lparr>rpc_Tunnel = \<lparr>rpt_Broker = tc_Broker t, rpt_RemoteEndpoint = tc_RemoteEndpoint t,
               rpt_LocalIPv6 = tc_LocalIPv6 t, rpt_RemoteIPv6 = tc_RemoteIPv6 t, rpt_TTL = tc_TTL t,
               rpt_MTU = tc_MTU t\<rparr>,
             rpc_LAN = pc_LAN (pr_Config p), rpc_Health = pc_Health (pr_Config p)\<rparr>\<rparr>)"

definition buildRawProfileDocument :: "Document \<Rightarrow> rawProfileDocument" where
  "buildRawProfileDocument d =
     \<lparr>rd_TunnelEnabled = Some (doc_TunnelEnabled d), rd_ActiveProfileID = doc_ActiveProfileID d,
      rd_Profiles = Some (map raw_of_profile (doc_Profiles d)),
      rd_Server = \<lparr>rs_Port = Some (sc_Port (doc_Server d)),
                   rs_WANInterface = sc_WANInterface (doc_Server d),
                   rs_AuthToken = sc_AuthToken (doc_Server d)\<rparr>\<rparr>"

definition SaveDocument :: "OS \<Rightarrow> string \<Rightarrow> Document ptr \<Rightarrow> fs \<Rightarrow> fs list \<times> goerr option" where
  "SaveDocument os path document s =
     (case document of
        None \<Rightarrow> ([s], Some (ErrorString ''config document is required''))
      | Some d \<Rightarrow>
          (case validated (Document_applyDefaults (Document_Clone d)) of
             Inl err \<Rightarrow> ([s], Some err)
           | Inr clone \<Rightarrow>
               (if shouldSaveLegacy clone then
                  (case ActiveConfig (Some clone) of
                     Inl err \<Rightarrow> ([s], Some err)
                   | Inr cfg \<Rightarrow> Save os path (Some cfg) s)
                else written ''write config document: ''
                       (WriteAtomically os path
                          (MarshalIndent (encode_raw_document (buildRawProfileDocument clone))) s))))"

end
