(* ===== verification/Tunnel.thy ===== *)
theory Tunnel
  imports ConfigStore
begin

text \<open>
  \<open>internal/tunnel/manager.go\<close>: the status of the tunnel as the daemon publishes it, and the client
  of the local control API, with its timeouts.  \<open>Do\<close> of \<open>http.Client\<close> is a parameter.
\<close>

section \<open>Constants\<close>

definition InterfaceName :: string where [go_const]: "InterfaceName = ''sit-6in4''"
definition defaultURL :: string where [go_const]: "defaultURL = ''http://127.0.0.1:9086''"
definition unixBaseURL :: string where [go_const]: "unixBaseURL = ''http://unix''"
definition ReconcileIdle :: string where [go_const]: "ReconcileIdle = ''idle''"
definition ReconcileReconciling :: string where [go_const]: "ReconcileReconciling = ''reconciling''"
definition ReconcileReady :: string where [go_const]: "ReconcileReady = ''ready''"
definition ReconcileDegraded :: string where [go_const]: "ReconcileDegraded = ''degraded''"
definition ReconcileDown :: string where [go_const]: "ReconcileDown = ''down''"
definition ReasonHealthProbeFailed :: string where
  [go_const]: "ReasonHealthProbeFailed = ''health probe failed''"

lemma reconcile_states_differ [simp]:
  "ReconcileReady \<noteq> ReconcileDegraded" "ReconcileReady \<noteq> ReconcileDown" "ReconcileReady \<noteq> ReconcileIdle"
  "ReconcileReady \<noteq> ReconcileReconciling" "ReconcileDegraded \<noteq> ReconcileReady"
  "ReconcileDegraded \<noteq> ReconcileDown" "ReconcileDown \<noteq> ReconcileReady" "ReconcileDown \<noteq> ReconcileDegraded"
  "ReconcileIdle \<noteq> ReconcileReady" "ReconcileReconciling \<noteq> ReconcileReady"
  by (simp_all add: go_const)

section \<open>Time stamps\<close>

text \<open>
  A \<open>time.Time\<close> of the program is its RFC 3339 text, the form in which it is stored and published.
  The zero time is the value of an unset field.
\<close>

type_synonym Time = string

definition zero_time :: Time where "zero_time = ''0001-01-01T00:00:00Z''"

definition two_digits :: "string \<Rightarrow> nat option" where
  "two_digits s = (if length s = 2 \<and> list_all is_digit s then Some (dec_val s) else None)"

definition leap_year :: "nat \<Rightarrow> bool" where
  "leap_year y \<longleftrightarrow> y mod 4 = 0 \<and> (y mod 100 \<noteq> 0 \<or> y mod 400 = 0)"

definition days_in :: "nat \<Rightarrow> nat \<Rightarrow> nat" where
  "days_in y m = (if m = 2 then (if leap_year y then 29 else 28) else if m \<in> {4, 6, 9, 11} then 30 else 31)"

text \<open>The optional fraction, then \<open>Z\<close> or a zone offset.\<close>

definition valid_zone :: "string \<Rightarrow> bool" where
  "valid_zone s \<longleftrightarrow> s = ''Z'' \<or>
     (length s = 6 \<and> hd s \<in> {CHR ''+'', CHR ''-''} \<and> s ! 3 = CHR '':''
      \<and> (case (two_digits (take 2 (tl s)), two_digits (drop 4 s)) of
           (Some h, Some m) \<Rightarrow> h < 24 \<and> m < 60 | _ \<Rightarrow> False))"

definition valid_fraction_zone :: "string \<Rightarrow> bool" where
  "valid_fraction_zone s \<longleftrightarrow>
     (if s \<noteq> [] \<and> hd s = CHR ''.''
      then takeWhile is_digit (tl s) \<noteq> [] \<and> valid_zone (dropWhile is_digit (tl s)) else valid_zone s)"

definition valid_time :: "string \<Rightarrow> bool" where
  "valid_time s \<longleftrightarrow>
     19 \<le> length s \<and> list_all is_digit (take 4 s)
     \<and> s ! 4 = CHR ''-'' \<and> s ! 7 = CHR ''-'' \<and> s ! 10 = CHR ''T'' \<and> s ! 13 = CHR '':'' \<and> s ! 16 = CHR '':''
     \<and> (case (two_digits (take 2 (drop 5 s)), two_digits (take 2 (drop 8 s)), two_digits (take 2 (drop 11 s)),
              two_digits (take 2 (drop 14 s)), two_digits (take 2 (drop 17 s))) of
          (Some mo, Some d, Some h, Some mi, Some sec) \<Rightarrow>
            1 \<le> mo \<and> mo \<le> 12 \<and> 1 \<le> d \<and> d \<le> days_in (dec_val (take 4 s)) mo \<and> h < 24 \<and> mi < 60 \<and> sec < 60
        | _ \<Rightarrow> False)
     \<and> valid_fraction_zone (drop 19 s)"

definition decode_time :: "Time decoder" where
  "decode_time v x =
     (case v of JNull \<Rightarrow> Some x | JStr s \<Rightarrow> if valid_time s then Some s else None | _ \<Rightarrow> None)"

section \<open>Status\<close>

record NetworkStatus =
  ns_Interface :: string
  ns_Prefix :: string

record Status =
  st_TunnelUp :: bool
  st_Interface :: string
  st_LocalIPv6 :: string
  st_EffectiveMTU :: int
  st_WANIPv4 :: string
  st_ActiveProfileID :: string
  st_ActiveProfileName :: string
  st_ActiveBroker :: string
  st_Networks :: "NetworkStatus slice"
  st_PingOK :: bool
  st_PingMs :: int
  st_LastPingAt :: Time
  st_ConfigValid :: bool
  st_DesiredEnabled :: bool
  st_ReconcileState :: string
  st_LastError :: string
  st_DegradedReasons :: "string slice"
  st_LastReconcileAt :: Time

definition Status_Clone :: "Status \<Rightarrow> Status" where
  "Status_Clone s = s\<lparr>st_Networks := copy_slice (st_Networks s),
                     st_DegradedReasons := copy_slice (st_DegradedReasons s)\<rparr>"

lemma Status_Clone_idem [simp]: "Status_Clone (Status_Clone s) = Status_Clone s"
  by (simp add: Status_Clone_def)

definition zero_status :: Status where
  "zero_status =
     \<lparr>st_TunnelUp = False, st_Interface = [], st_LocalIPv6 = [], st_EffectiveMTU = 0, st_WANIPv4 = [],
      st_ActiveProfileID = [], st_ActiveProfileName = [], st_ActiveBroker = [], st_Networks = None,
      st_PingOK = False, st_PingMs = 0, st_LastPingAt = zero_time, st_ConfigValid = False,
      st_DesiredEnabled = False, st_ReconcileState = [], st_LastError = [], st_DegradedReasons = None,
      st_LastReconcileAt = zero_time\<rparr>"

definition zero_network_status :: NetworkStatus where
  "zero_network_status = \<lparr>ns_Interface = [], ns_Prefix = []\<rparr>"

definition network_status_fields :: "(string \<times> NetworkStatus decoder) list" where
  "network_status_fields =
     [(''interface'', decode_field ns_Interface (\<lambda>x. ns_Interface_update (\<lambda>_. x)) decode_string),
      (''prefix'', decode_field ns_Prefix (\<lambda>x. ns_Prefix_update (\<lambda>_. x)) decode_string)]"

definition decode_networks :: "NetworkStatus slice decoder" where
  "decode_networks = decode_slice zero_network_status (decode_struct network_status_fields)"

definition status_fields :: "(string \<times> Status decoder) list" where
  "status_fields =
     [(''tunnel_up'', decode_field st_TunnelUp (\<lambda>x. st_TunnelUp_update (\<lambda>_. x)) decode_bool),
      (''interface'', decode_field st_Interface (\<lambda>x. st_Interface_update (\<lambda>_. x)) decode_string),
      (''local_ipv6'', decode_field st_LocalIPv6 (\<lambda>x. st_LocalIPv6_update (\<lambda>_. x)) decode_string),
      (''effective_mtu'', decode_field st_EffectiveMTU (\<lambda>x. st_EffectiveMTU_update (\<lambda>_. x)) decode_int),
      (''wan_ipv4'', decode_field st_WANIPv4 (\<lambda>x. st_WANIPv4_update (\<lambda>_. x)) decode_string),
      (''active_profile_id'', decode_field st_ActiveProfileID (\<lambda>x. st_ActiveProfileID_update (\<lambda>_. x)) decode_string),
      (''active_profile_name'', decode_field st_ActiveProfileName (\<lambda>x. st_ActiveProfileName_update (\<lambda>_. x)) decode_string),
      (''active_broker'', decode_field st_ActiveBroker (\<lambda>x. st_ActiveBroker_update (\<lambda>_. x)) decode_string),
      (''networks'', decode_field st_Networks (\<lambda>x. st_Networks_update (\<lambda>_. x)) decode_networks),
      (''ping_ok'', decode_field st_PingOK (\<lambda>x. st_PingOK_update (\<lambda>_. x)) decode_bool),
      (''ping_ms'', decode_field st_PingMs (\<lambda>x. st_PingMs_update (\<lambda>_. x)) decode_int),
      (''last_ping_at'', decode_field st_LastPingAt (\<lambda>x. st_LastPingAt_update (\<lambda>_. x)) decode_time),
      (''config_valid'', decode_field st_ConfigValid (\<lambda>x. st_ConfigValid_update (\<lambda>_. x)) decode_bool),
      (''desired_enabled'', decode_field st_DesiredEnabled (\<lambda>x. st_DesiredEnabled_update (\<lambda>_. x)) decode_bool),
      (''reconcile_state'', decode_field st_ReconcileState (\<lambda>x. st_ReconcileState_update (\<lambda>_. x)) decode_string),
      (''last_error'', decode_field st_LastError (\<lambda>x. st_LastError_update (\<lambda>_. x)) decode_string),
      (''degraded_reasons'', decode_field st_DegradedReasons (\<lambda>x. st_DegradedReasons_update (\<lambda>_. x))
         (decode_slice [] decode_string)),
      (''last_reconcile_at'', decode_field st_LastReconcileAt (\<lambda>x. st_LastReconcileAt_update (\<lambda>_. x)) decode_time)]"

definition encode_network_status :: "NetworkStatus \<Rightarrow> json" where
  "encode_network_status n = JObj [(''interface'', JStr (ns_Interface n)), (''prefix'', JStr (ns_Prefix n))]"

text \<open>The members, which \<open>StateDocument\<close> embeds.\<close>

definition status_members :: "Status \<Rightarrow> (string \<times> json) list" where
  "status_members s =
     [(''tunnel_up'', JBool (st_TunnelUp s)), (''interface'', JStr (st_Interface s)),
      (''local_ipv6'', JStr (st_LocalIPv6 s)), (''effective_mtu'', encode_int (st_EffectiveMTU s)),
      (''wan_ipv4'', JStr (st_WANIPv4 s)), (''active_profile_id'', JStr (st_ActiveProfileID s)),
      (''active_profile_name'', JStr (st_ActiveProfileName s)), (''active_broker'', JStr (st_ActiveBroker s)),
      (''networks'', encode_slice encode_network_status (st_Networks s)), (''ping_ok'', JBool (st_PingOK s)),
      (''ping_ms'', encode_int (st_PingMs s)), (''last_ping_at'', JStr (st_LastPingAt s)),
      (''config_valid'', JBool (st_ConfigValid s)), (''desired_enabled'', JBool (st_DesiredEnabled s)),
      (''reconcile_state'', JStr (st_ReconcileState s)), (''last_error'', JStr (st_LastError s)),
      (''degraded_reasons'', encode_slice JStr (st_DegradedReasons s)),
      (''last_reconcile_at'', JStr (st_LastReconcileAt s))]"

definition encode_status :: "Status \<Rightarrow> json" where
  "encode_status s = JObj (status_members s)"

section \<open>The control client\<close>

text \<open>
  How the client reaches the daemon: over a Unix socket, with the time it allows for dialing, or by the default
  transport; and its \<open>http.Client\<close>, the one it was given or a new one with the time it allows for a request,
  from the dialing to the end of the answer. Times are in nanoseconds.
\<close>

datatype Transport = UnixSocket string nat | DefaultTransport

datatype HTTPClient = GivenClient | NewHTTPClient Transport nat

record ClientConfig =
  cc_BaseURL :: string
  cc_SocketPath :: string
  cc_Token :: string
  cc_HTTPClient :: bool

record Client =
  cl_baseURL :: string
  cl_token :: string
  cl_httpClient :: HTTPClient

record Request =
  rq_Method :: string
  rq_URL :: string
  rq_Authorization :: string
  rq_Body :: string

text \<open>A response: its status code and what reading its body gives.\<close>

record Response =
  rsp_StatusCode :: int
  rsp_Body :: "string res"

text \<open>\<open>strings.TrimRight(s, "/")\<close>.\<close>

definition trim_slashes :: "string \<Rightarrow> string" where
  "trim_slashes s = rev (dropWhile (\<lambda>c. c = CHR ''/'') (rev s))"

definition clientTimeout :: nat where
  "clientTimeout = 5 * 1000000000"

definition NewClient :: "ClientConfig \<Rightarrow> Client" where
  "NewClient cfg =
     (let base = trim_slashes (cc_BaseURL cfg)
      in \<lparr>cl_baseURL =
            (if base = [] then (if cc_SocketPath cfg \<noteq> [] then unixBaseURL else defaultURL) else base),
          cl_token = cc_Token cfg,
          cl_httpClient =
            (if cc_HTTPClient cfg then GivenClient
             else NewHTTPClient
               (if cc_SocketPath cfg \<noteq> [] then UnixSocket (cc_SocketPath cfg) clientTimeout else DefaultTransport)
               clientTimeout)\<rparr>)"

text \<open>
  The first JSON value of a response body, as \<open>json.Decoder.Decode\<close> reads it; what follows it is
  not looked at.
\<close>

definition decode_stream :: "'a decoder \<Rightarrow> string \<Rightarrow> 'a \<Rightarrow> 'a res" where
  "decode_stream dec body x =
     (case read_value (2 * length body + 2) body of
        None \<Rightarrow> Inl json_syntax_error
      | Some (v, r) \<Rightarrow> (case dec v x of None \<Rightarrow> Inl json_type_error | Some y \<Rightarrow> Inr y))"

definition request_for :: "Client \<Rightarrow> string \<Rightarrow> string \<Rightarrow> Request" where
  "request_for c method path =
     \<lparr>rq_Method = method, rq_URL = cl_baseURL c @ path,
      rq_Authorization = (if cl_token c \<noteq> [] then ''Bearer '' @ cl_token c else []), rq_Body = []\<rparr>"

text \<open>
  \<open>requestJSON\<close> without a body; \<open>new_request\<close> is the verdict of \<open>http.NewRequest\<close> on the URL and
  \<open>do_request\<close> is \<open>Do\<close> of the \<open>http.Client\<close>, with what it does to the other side.  A target is a decoder and its
  initial value.
\<close>

type_synonym 's http_do = "HTTPClient \<Rightarrow> Request \<Rightarrow> 's \<Rightarrow> Response res \<times> 's"

definition requestJSON ::
  "(string \<Rightarrow> goerr option) \<Rightarrow> 's http_do \<Rightarrow> Client \<Rightarrow> string \<Rightarrow> string
   \<Rightarrow> ('a decoder \<times> 'a) option \<Rightarrow> 's \<Rightarrow> 'a option res \<times> 's" where
  "requestJSON new_request do_request c method path target s =
     (let req = request_for c method path in
      case new_request (rq_URL req) of Some err \<Rightarrow> (Inl (wrap ''build request: '' err), s)
      | None \<Rightarrow>
     (case do_request (cl_httpClient c) req s of (Inl err, s1) \<Rightarrow> (Inl (wrap ''perform request: '' err), s1)
      | (Inr res, s1) \<Rightarrow>
          (if 400 \<le> rsp_StatusCode res then
             (case rsp_Body res of
                Inl err \<Rightarrow> Inl (ErrorString (''request failed with status '' @ Itoa (rsp_StatusCode res)))
              | Inr body \<Rightarrow> Inl (ErrorString (''request failed with status '' @ Itoa (rsp_StatusCode res)
                                              @ '': '' @ TrimSpace body)))
           else case target of
                  None \<Rightarrow> Inr None
                | Some (dec, x) \<Rightarrow>
                    (case rsp_Body res of
                       Inl err \<Rightarrow> Inl (wrap ''decode response: '' err)
                     | Inr body \<Rightarrow>
                         (case decode_stream dec body x of
                            Inl err \<Rightarrow> Inl (wrap ''decode response: '' err)
                          | Inr y \<Rightarrow> Inr (Some y))), s1)))"

definition status_target :: "(Status decoder \<times> Status) option" where
  "status_target = Some (decode_struct status_fields, zero_status)"

text \<open>The commands of the client; the last three return no value.\<close>

definition Client_Status where
  "Client_Status nr dr c = requestJSON nr dr c ''GET'' ''/api/status'' status_target"

definition Client_Health where
  "Client_Health nr dr c = requestJSON nr dr c ''GET'' ''/api/health'' status_target"

definition Client_Up where
  "Client_Up nr dr c = requestJSON nr dr c ''POST'' ''/api/tunnel/up'' (None :: (Status decoder \<times> Status) option)"

definition Client_Down where
  "Client_Down nr dr c = requestJSON nr dr c ''POST'' ''/api/tunnel/down'' (None :: (Status decoder \<times> Status) option)"

definition Client_Restart where
  "Client_Restart nr dr c = requestJSON nr dr c ''POST'' ''/api/tunnel/restart'' (None :: (Status decoder \<times> Status) option)"

end
