(* ===== verification/State.thy ===== *)
theory State
  imports Tunnel
begin

text \<open>
  \<open>internal/control/state.go\<close>: the observed state that the daemon persists beside the configuration.
\<close>

section \<open>The state document\<close>

record AppliedState =
  ap_WANInterface :: string
  ap_RemoteEndpoint :: string
  ap_LocalIPv6 :: string
  ap_LANEnabled :: bool
  ap_Networks :: "NetworkStatus slice"

record StateDocument =
  sd_Status :: Status
  sd_Applied :: AppliedState

definition emptyAppliedState :: AppliedState where
  "emptyAppliedState = \<lparr>ap_WANInterface = [], ap_RemoteEndpoint = [], ap_LocalIPv6 = [],
                        ap_LANEnabled = False, ap_Networks = Some []\<rparr>"

definition DefaultState :: StateDocument where
  "DefaultState =
     \<lparr>sd_Status = zero_status\<lparr>st_Interface := InterfaceName, st_Networks := Some [],
                            st_ReconcileState := ReconcileIdle\<rparr>,
      sd_Applied = emptyAppliedState\<rparr>"

definition CloneStatus :: "StateDocument \<Rightarrow> Status" where
  "CloneStatus s = Status_Clone (sd_Status s)"

definition State_Clone :: "StateDocument \<Rightarrow> StateDocument" where
  "State_Clone s = \<lparr>sd_Status = Status_Clone (sd_Status s),
     sd_Applied = (sd_Applied s)\<lparr>ap_Networks := copy_slice (ap_Networks (sd_Applied s))\<rparr>\<rparr>"

lemma State_Clone_idem [simp]: "State_Clone (State_Clone s) = State_Clone s"
  by (simp add: State_Clone_def)

definition status_of_network :: "NetworkConfig \<Rightarrow> NetworkStatus" where
  "status_of_network n = \<lparr>ns_Interface = nc_Interface n, ns_Prefix = nc_Prefix n\<rparr>"

definition buildAppliedState :: "Config \<Rightarrow> AppliedState" where
  "buildAppliedState cfg =
     \<lparr>ap_WANInterface = sc_WANInterface (cfg_Server cfg),
      ap_RemoteEndpoint = tc_RemoteEndpoint (cfg_Tunnel cfg), ap_LocalIPv6 = tc_LocalIPv6 (cfg_Tunnel cfg),
      ap_LANEnabled = lan_Enabled (cfg_LAN cfg),
      ap_Networks = Some (map status_of_network (elems (lan_Networks (cfg_LAN cfg))))\<rparr>"

section \<open>Storage\<close>

text \<open>A member with \<open>omitempty\<close>.\<close>

definition unless_empty :: "string \<Rightarrow> string \<Rightarrow> (string \<times> json) list" where
  "unless_empty name s = (if s = [] then [] else [(name, JStr s)])"

definition encode_applied :: "AppliedState \<Rightarrow> json" where
  "encode_applied a = JObj
     (unless_empty ''wan_interface'' (ap_WANInterface a) @ unless_empty ''remote_endpoint'' (ap_RemoteEndpoint a)
      @ unless_empty ''local_ipv6'' (ap_LocalIPv6 a) @ [(''lan_enabled'', JBool (ap_LANEnabled a))]
      @ (if elems (ap_Networks a) = [] then []
         else [(''networks'', encode_slice encode_network_status (ap_Networks a))]))"

definition encode_state :: "StateDocument \<Rightarrow> json" where
  "encode_state s = JObj (status_members (sd_Status s) @ [(''applied'', encode_applied (sd_Applied s))])"

definition applied_fields :: "(string \<times> AppliedState decoder) list" where
  "applied_fields =
     [(''wan_interface'', decode_field ap_WANInterface (\<lambda>x. ap_WANInterface_update (\<lambda>_. x)) decode_string),
      (''remote_endpoint'', decode_field ap_RemoteEndpoint (\<lambda>x. ap_RemoteEndpoint_update (\<lambda>_. x)) decode_string),
      (''local_ipv6'', decode_field ap_LocalIPv6 (\<lambda>x. ap_LocalIPv6_update (\<lambda>_. x)) decode_string),
      (''lan_enabled'', decode_field ap_LANEnabled (\<lambda>x. ap_LANEnabled_update (\<lambda>_. x)) decode_bool),
      (''networks'', decode_field ap_Networks (\<lambda>x. ap_Networks_update (\<lambda>_. x)) decode_networks)]"

text \<open>The fields of the embedded status are fields of the document.\<close>

definition state_fields :: "(string \<times> StateDocument decoder) list" where
  "state_fields =
     map (\<lambda>(name, dec). (name, decode_field sd_Status (\<lambda>x. sd_Status_update (\<lambda>_. x)) dec)) status_fields
     @ [(''applied'', decode_field sd_Applied (\<lambda>x. sd_Applied_update (\<lambda>_. x)) (decode_struct applied_fields))]"

definition LoadState :: "OS \<Rightarrow> fs \<Rightarrow> string \<Rightarrow> StateDocument res" where
  "LoadState os s path =
     (case ReadFile os s path of
        Inl err \<Rightarrow> if is_not_exist err then Inr DefaultState else Inl (wrap ''read state: '' err)
      | Inr data \<Rightarrow>
          (case Unmarshal (decode_struct state_fields) data DefaultState of
             Inl err \<Rightarrow> Inl (wrap ''parse state: '' err) | Inr state \<Rightarrow> Inr state))"

definition SaveState :: "OS \<Rightarrow> string \<Rightarrow> StateDocument \<Rightarrow> fs \<Rightarrow> fs list \<times> goerr option" where
  "SaveState os path state s =
     written ''write state: '' (WriteAtomically os path (MarshalIndent (encode_state state)) s)"

end
