(* ===== verification/Backend.thy ===== *)
theory Backend
  imports State
begin

text \<open>
  \<open>internal/control/backend.go\<close>: the backend that applies a configuration with command line tools.
  The command runner is a parameter over a world of any type; the machine records every command
  and every sleep, so that what an operation does to the host is its trace.
\<close>

section \<open>The machine\<close>

datatype event = Cmd "string list" | Sleep nat

record 'w machine =
  m_world :: 'w
  m_trace :: "event list"

text \<open>
  \<open>CombinedOutput\<close> of a \<open>CommandRunner\<close>: the output and the error of a command, whose argument
  list starts with its name, and the next world.
\<close>

type_synonym 'w runner = "string list \<Rightarrow> 'w \<Rightarrow> (string \<times> goerr option) \<times> 'w"

type_synonym ('w, 'a) act = "'w machine \<Rightarrow> 'a \<times> 'w machine"

definition CombinedOutput :: "'w runner \<Rightarrow> string list \<Rightarrow> ('w, string \<times> goerr option) act" where
  "CombinedOutput r argv m =
     (let (res, w) = r argv (m_world m) in (res, \<lparr>m_world = w, m_trace = m_trace m @ [Cmd argv]\<rparr>))"

definition sleepFn :: "nat \<Rightarrow> 'w machine \<Rightarrow> 'w machine" where
  "sleepFn ms m = m\<lparr>m_trace := m_trace m @ [Sleep ms]\<rparr>"

text \<open>
  \<open>if err := m; err != nil { return err }\<close> before the rest, a result, and a sequence of
  statements without results.
\<close>

definition bindE :: "('w, 'a res) act \<Rightarrow> ('a \<Rightarrow> ('w, 'b res) act) \<Rightarrow> ('w, 'b res) act" where
  "bindE m f s = (case m s of (Inl e, t) \<Rightarrow> (Inl e, t) | (Inr x, t) \<Rightarrow> f x t)"

definition thenE :: "('w, unit res) act \<Rightarrow> ('w, 'b res) act \<Rightarrow> ('w, 'b res) act" where
  "thenE m n = bindE m (\<lambda>_. n)"

definition retE :: "'a res \<Rightarrow> ('w, 'a res) act" where
  "retE x s = (x, s)"

definition afterwards :: "('w machine \<Rightarrow> 'w machine) \<Rightarrow> ('w, 'a) act \<Rightarrow> ('w, 'a) act" where
  "afterwards f m s = m (f s)"

fun sequence_all :: "('w machine \<Rightarrow> 'w machine) list \<Rightarrow> 'w machine \<Rightarrow> 'w machine" where
  "sequence_all [] s = s"
| "sequence_all (f # fs) s = sequence_all fs (f s)"

definition run :: "'w runner \<Rightarrow> string list \<Rightarrow> ('w, unit res) act" where
  "run r argv m =
     (case CombinedOutput r argv m of
        ((out, None), m') \<Rightarrow> (Inr (), m')
      | ((out, Some err), m') \<Rightarrow>
          (Inl (WrapError (hd argv @ '' '' @ Join (tl argv) '' '' @ '': '') err ('' ('' @ TrimSpace (TrimSpace out) @ '')'')), m'))"

definition runBestEffort :: "'w runner \<Rightarrow> string list \<Rightarrow> 'w machine \<Rightarrow> 'w machine" where
  "runBestEffort r argv m = snd (CombinedOutput r argv m)"

section \<open>Constants and data\<close>

definition iptablesChainInput :: string where [go_const]: "iptablesChainInput = ''IPV6TUNNEL_INPUT''"
definition iptablesChainForward :: string where [go_const]: "iptablesChainForward = ''IPV6TUNNEL_FORWARD''"
definition iptablesChainMSS :: string where [go_const]: "iptablesChainMSS = ''IPV6TUNNEL_MSS''"

record ReconcileInput =
  ri_Config :: "Config ptr"
  ri_ConfigValid :: bool
  ri_Force :: bool
  ri_Applied :: AppliedState

record ObserveInput =
  oi_WANInterface :: string
  oi_Config :: "Config ptr"

record Observation =
  ob_TunnelUp :: bool
  ob_WANIPv4 :: string
  ob_MissingIPv6Addresses :: "string slice"

definition zero_observation :: Observation where
  "zero_observation = \<lparr>ob_TunnelUp = False, ob_WANIPv4 = [], ob_MissingIPv6Addresses = None\<rparr>"

record ProbeResult =
  pb_PingOK :: bool
  pb_PingMs :: int

definition zero_probe_result :: ProbeResult where
  "zero_probe_result = \<lparr>pb_PingOK = False, pb_PingMs = 0\<rparr>"

datatype ipv6AddressState = ipv6AddressMissing | ipv6AddressHealthy | ipv6AddressUnhealthy

section \<open>Regular expressions\<close>

text \<open>The first submatch of the leftmost match: the matcher is tried at each position in turn.\<close>

fun find_submatch :: "(string \<Rightarrow> string option) \<Rightarrow> string \<Rightarrow> string option" where
  "find_submatch f [] = f []"
| "find_submatch f (c # s) = (case f (c # s) of Some x \<Rightarrow> Some x | None \<Rightarrow> find_submatch f s)"

definition after_literal :: "string \<Rightarrow> string \<Rightarrow> string option" where
  "after_literal lit s = (if prefix lit s then Some (drop (length lit) s) else None)"

text \<open>\<open>(\d+\.)\<close> repeated, then \<open>\d+\<close>; no digit run can give back a digit to the dot after it.\<close>

fun dotted_digits :: "nat \<Rightarrow> string \<Rightarrow> string option" where
  "dotted_digits 0 s = (let d = takeWhile is_digit s in if d = [] then None else Some d)"
| "dotted_digits (Suc n) s =
     (let d = takeWhile is_digit s
      in if d = [] then None
         else (case dropWhile is_digit s of
                 [] \<Rightarrow> None
               | c # t \<Rightarrow> if c \<noteq> CHR ''.'' then None
                          else map_option (\<lambda>u. d @ c # u) (dotted_digits n t)))"

definition ipv4AddressPattern :: "string \<Rightarrow> string option" where
  "ipv4AddressPattern =
     find_submatch (\<lambda>s. case after_literal ''inet '' s of None \<Rightarrow> None | Some t \<Rightarrow> dotted_digits 3 t)"

definition interfaceMTUPattern :: "string \<Rightarrow> string option" where
  "interfaceMTUPattern =
     find_submatch (\<lambda>s. case after_literal ''mtu '' s of None \<Rightarrow> None | Some t \<Rightarrow> dotted_digits 0 t)"

definition pingTimePattern :: "string \<Rightarrow> string option" where
  "pingTimePattern =
     find_submatch (\<lambda>s. case after_literal ''time='' s of None \<Rightarrow> None
       | Some t \<Rightarrow> (let v = takeWhile (\<lambda>c. is_digit c \<or> c = CHR ''.'') t in if v = [] then None else Some v))"

definition is_word_char :: "char \<Rightarrow> bool" where
  "is_word_char c \<longleftrightarrow> (let n = (of_char c :: nat)
     in is_digit c \<or> 65 \<le> n \<and> n \<le> 90 \<or> 97 \<le> n \<and> n \<le> 122 \<or> c = CHR ''_'')"

text \<open>\<open>\b\<close> between an optional character and an optional character.\<close>

definition word_boundary :: "char option \<Rightarrow> char option \<Rightarrow> bool" where
  "word_boundary a b \<longleftrightarrow> case_option False is_word_char a \<noteq> case_option False is_word_char b"

definition char_at :: "string \<Rightarrow> nat \<Rightarrow> char option" where
  "char_at s i = (if i < length s then Some (s ! i) else None)"

text \<open>\<open>([0-9a-fA-F:]+)\b\<close>: the longest run that ends at a boundary.\<close>

definition hex_colon_run :: "string \<Rightarrow> string option" where
  "hex_colon_run t =
     (let r = takeWhile (\<lambda>c. c = CHR '':'' \<or> hex_val c \<noteq> None) t
      in map_option (\<lambda>k. take k t)
           (find (\<lambda>k. word_boundary (char_at t (k - 1)) (char_at t k)) (rev [1..<Suc (length r)])))"

fun src_from :: "char option \<Rightarrow> string \<Rightarrow> string option" where
  "src_from prev [] = None"
| "src_from prev (c # s) =
     (case (if word_boundary prev (Some c)
            then (case after_literal ''src '' (c # s) of None \<Rightarrow> None | Some t \<Rightarrow> hex_colon_run t)
            else None) of
        Some x \<Rightarrow> Some x
      | None \<Rightarrow> src_from (Some c) s)"

definition ipv6RouteSrcPattern :: "string \<Rightarrow> string option" where
  "ipv6RouteSrcPattern = src_from None"

section \<open>Gateways and routes\<close>

text \<open>\<open>Prefix.String\<close> of a masked prefix is not used here: the length is the written one.\<close>

definition gatewayForPrefix :: "string \<Rightarrow> string res" where
  "gatewayForPrefix prefixValue =
     (case ParsePrefix prefixValue of
        Inl err \<Rightarrow> Inl (wrap ''parse gateway prefix: '' err)
      | Inr p \<Rightarrow>
          (let gateway = Next (prefix_addr (Masked p))
           in Inr (AddrString gateway @ ''/'' @ Itoa (int (prefix_bits p)))))"

definition addressFromPrefix :: "string \<Rightarrow> Addr res" where
  "addressFromPrefix prefixValue =
     (case ParsePrefix prefixValue of
        Inl err \<Rightarrow> Inl (wrap ''parse IPv6 prefix: '' err) | Inr p \<Rightarrow> Inr (prefix_addr p))"

definition isPreferredIPv6SourceAddress :: "Addr \<Rightarrow> bool" where
  "isPreferredIPv6SourceAddress a \<longleftrightarrow> Is6 a \<and> IsGlobalUnicast a \<and> \<not> IsPrivate a"

fun lan_route_source :: "NetworkConfig list \<Rightarrow> string res" where
  "lan_route_source [] = Inr []"
| "lan_route_source (network # networks) =
     (case gatewayForPrefix (nc_Prefix network) of
        Inl err \<Rightarrow> Inl err
      | Inr gatewayPrefix \<Rightarrow>
          (case addressFromPrefix gatewayPrefix of
             Inl err \<Rightarrow> Inl err
           | Inr gatewayAddress \<Rightarrow>
               if isPreferredIPv6SourceAddress gatewayAddress then Inr (AddrString gatewayAddress)
               else lan_route_source networks))"

definition selectDefaultRouteSource :: "Config ptr \<Rightarrow> string res" where
  "selectDefaultRouteSource cfg =
     (case cfg of
        None \<Rightarrow> Inr []
      | Some c \<Rightarrow>
          (case addressFromPrefix (tc_LocalIPv6 (cfg_Tunnel c)) of
             Inl err \<Rightarrow> Inl err
           | Inr tunnelAddress \<Rightarrow>
               if isPreferredIPv6SourceAddress tunnelAddress then Inr (AddrString tunnelAddress)
               else lan_route_source (elems (lan_Networks (cfg_LAN c)))))"

definition buildDefaultRouteArgs :: "Config ptr \<Rightarrow> string list res" where
  "buildDefaultRouteArgs cfg =
     (let routeArgs = [''-6'', ''route'', ''replace'', ''::/0'', ''dev'', InterfaceName]
      in case selectDefaultRouteSource cfg of
           Inl err \<Rightarrow> Inl err
         | Inr sourceAddress \<Rightarrow>
             if sourceAddress = [] then Inr routeArgs else Inr (routeArgs @ [''src'', sourceAddress]))"

section \<open>Reading the host\<close>

definition getWANIPv4 :: "'w runner \<Rightarrow> string \<Rightarrow> ('w, string res) act" where
  "getWANIPv4 r interfaceName m =
     (case CombinedOutput r [''ip'', ''-4'', ''addr'', ''show'', interfaceName] m of
        ((out, Some err), m') \<Rightarrow> (Inl (wrap ''read WAN IPv4: '' err), m')
      | ((out, None), m') \<Rightarrow>
          (case ipv4AddressPattern out of
             None \<Rightarrow> (Inl (ErrorString (''WAN IPv4 not found on '' @ interfaceName)), m')
           | Some ip \<Rightarrow> (Inr ip, m')))"

definition atoi_error :: "string \<Rightarrow> goerr" where
  "atoi_error s = ErrorString (''strconv.Atoi: parsing '' @ Quote s @ '': value out of range'')"

definition getInterfaceMTU :: "'w runner \<Rightarrow> string \<Rightarrow> ('w, int res) act" where
  "getInterfaceMTU r interfaceName m =
     (case CombinedOutput r [''ip'', ''link'', ''show'', interfaceName] m of
        ((out, Some err), m') \<Rightarrow> (Inl (wrap ''read interface MTU: '' err), m')
      | ((out, None), m') \<Rightarrow>
          (case interfaceMTUPattern out of
             None \<Rightarrow> (Inl (ErrorString (''MTU not found on '' @ interfaceName)), m')
           | Some digits \<Rightarrow>
               (case Atoi digits of
                  None \<Rightarrow> (Inl (wrap (''parse MTU on '' @ interfaceName @ '': '') (atoi_error digits)), m')
                | Some mtu \<Rightarrow> (Inr mtu, m'))))"

definition tunnelOverhead :: int where "tunnelOverhead = 20"
definition minimumIPv6MTU :: int where "minimumIPv6MTU = 1280"

definition resolveTunnelMTU :: "'w runner \<Rightarrow> int \<Rightarrow> string \<Rightarrow> ('w, int res) act" where
  "resolveTunnelMTU r configuredMTU wanInterface =
     (if 0 < configuredMTU then retE (Inr configuredMTU)
      else bindE (getInterfaceMTU r wanInterface) (\<lambda>wanMTU.
        let resolvedMTU = wanMTU - tunnelOverhead
        in if resolvedMTU < minimumIPv6MTU
           then retE (Inl (ErrorString (''resolved tunnel MTU '' @ Itoa resolvedMTU
                  @ '' is below IPv6 minimum '' @ Itoa minimumIPv6MTU)))
           else retE (Inr resolvedMTU)))"

text \<open>The flags after the address on an \<open>inet6\<close> line that mark it unusable.\<close>

definition broken_flags :: "string list \<Rightarrow> bool" where
  "broken_flags flags = list_ex (\<lambda>flag. flag = ''dadfailed'' \<or> flag = ''tentative'') flags"

definition line_fields :: "string \<Rightarrow> string list" where
  "line_fields line = Fields (TrimSpace line)"

definition inet6_line :: "string list \<Rightarrow> bool" where
  "inet6_line fs \<longleftrightarrow> \<not> (length fs < 2 \<or> hd fs \<noteq> ''inet6'')"

fun problematic_lines :: "string list \<Rightarrow> bool" where
  "problematic_lines [] = False"
| "problematic_lines (line # lines) =
     (let fs = line_fields line
      in if \<not> inet6_line fs then problematic_lines lines
         else (case ParsePrefix (fs ! 1) of
                 Inl err \<Rightarrow> problematic_lines lines
               | Inr p \<Rightarrow>
                   if \<not> IsLinkLocalUnicast (prefix_addr p) then problematic_lines lines
                   else if broken_flags (drop 2 fs) then True else problematic_lines lines))"

definition hasProblematicLinkLocal :: "string \<Rightarrow> bool" where
  "hasProblematicLinkLocal out = problematic_lines (SplitChar (CHR 0x0A) out)"

fun prefix_state_lines :: "Prefix \<Rightarrow> string list \<Rightarrow> ipv6AddressState" where
  "prefix_state_lines desired [] = ipv6AddressMissing"
| "prefix_state_lines desired (line # lines) =
     (let fs = line_fields line
      in if \<not> inet6_line fs then prefix_state_lines desired lines
         else (case ParsePrefix (fs ! 1) of
                 Inl err \<Rightarrow> prefix_state_lines desired lines
               | Inr p \<Rightarrow>
                   if p \<noteq> desired then prefix_state_lines desired lines
                   else if broken_flags (drop 2 fs) then ipv6AddressUnhealthy else ipv6AddressHealthy))"

definition findIPv6PrefixState :: "string \<Rightarrow> Prefix \<Rightarrow> ipv6AddressState" where
  "findIPv6PrefixState out desired = prefix_state_lines desired (SplitChar (CHR 0x0A) out)"

definition read_addresses_error :: "string \<Rightarrow> goerr \<Rightarrow> goerr" where
  "read_addresses_error interfaceName err = wrap (''read IPv6 addresses on '' @ interfaceName @ '': '') err"

definition queryInterfaceIPv6Address :: "'w runner \<Rightarrow> string \<Rightarrow> string \<Rightarrow> ('w, ipv6AddressState res) act" where
  "queryInterfaceIPv6Address r interfaceName prefixValue m =
     (case ParsePrefix prefixValue of
        Inl err \<Rightarrow> (Inl (wrap (''parse IPv6 prefix '' @ Quote prefixValue @ '': '') err), m)
      | Inr desired \<Rightarrow>
          (case CombinedOutput r [''ip'', ''-6'', ''addr'', ''show'', ''dev'', interfaceName] m of
             ((out, Some err), m') \<Rightarrow> (Inl (read_addresses_error interfaceName err), m')
           | ((out, None), m') \<Rightarrow> (Inr (findIPv6PrefixState out desired), m')))"

section \<open>Repairing and observing addresses\<close>

definition ensureIPv6AddressPresent :: "'w runner \<Rightarrow> string \<Rightarrow> string \<Rightarrow> ('w, unit res) act" where
  "ensureIPv6AddressPresent r interfaceName prefixValue =
     bindE (queryInterfaceIPv6Address r interfaceName prefixValue) (\<lambda>state.
       case state of
         ipv6AddressHealthy \<Rightarrow> retE (Inr ())
       | ipv6AddressUnhealthy \<Rightarrow>
           thenE (run r [''ip'', ''-6'', ''addr'', ''del'', prefixValue, ''dev'', interfaceName])
                 (run r [''ip'', ''-6'', ''addr'', ''add'', prefixValue, ''dev'', interfaceName])
       | ipv6AddressMissing \<Rightarrow> run r [''ip'', ''-6'', ''addr'', ''add'', prefixValue, ''dev'', interfaceName])"

fun repair_networks :: "'w runner \<Rightarrow> NetworkConfig list \<Rightarrow> ('w, unit res) act" where
  "repair_networks r [] = retE (Inr ())"
| "repair_networks r (network # networks) =
     bindE (retE (gatewayForPrefix (nc_Prefix network))) (\<lambda>gatewayAddress.
       thenE (ensureIPv6AddressPresent r (nc_Interface network) gatewayAddress) (repair_networks r networks))"

definition RepairAddresses :: "'w runner \<Rightarrow> Config ptr \<Rightarrow> ('w, unit res) act" where
  "RepairAddresses r config =
     (case config of
        None \<Rightarrow> retE (Inr ())
      | Some c \<Rightarrow>
          if \<not> tc_Enabled (cfg_Tunnel c) then retE (Inr ())
          else thenE (ensureIPv6AddressPresent r InterfaceName (tc_LocalIPv6 (cfg_Tunnel c)))
                 (if \<not> lan_Enabled (cfg_LAN c) then retE (Inr ())
                  else repair_networks r (elems (lan_Networks (cfg_LAN c)))))"

definition appendMissingIPv6Address ::
  "'w runner \<Rightarrow> string list \<Rightarrow> string \<Rightarrow> string \<Rightarrow> ('w, string list res) act" where
  "appendMissingIPv6Address r missing interfaceName prefixValue =
     bindE (queryInterfaceIPv6Address r interfaceName prefixValue) (\<lambda>state. retE (Inr
       (case state of
          ipv6AddressHealthy \<Rightarrow> missing
        | ipv6AddressUnhealthy \<Rightarrow> missing @ [interfaceName @ '' unhealthy '' @ prefixValue]
        | ipv6AddressMissing \<Rightarrow> missing @ [interfaceName @ '' missing '' @ prefixValue])))"

fun missing_networks :: "'w runner \<Rightarrow> string list \<Rightarrow> NetworkConfig list \<Rightarrow> ('w, string list res) act" where
  "missing_networks r missing [] = retE (Inr missing)"
| "missing_networks r missing (network # networks) =
     bindE (retE (gatewayForPrefix (nc_Prefix network))) (\<lambda>gatewayAddress.
       bindE (appendMissingIPv6Address r missing (nc_Interface network) gatewayAddress) (\<lambda>missing'.
         missing_networks r missing' networks))"

definition collectMissingManagedIPv6Addresses :: "'w runner \<Rightarrow> Config ptr \<Rightarrow> ('w, string list res) act" where
  "collectMissingManagedIPv6Addresses r config =
     (case config of
        None \<Rightarrow> retE (Inr [])
      | Some c \<Rightarrow>
          if \<not> tc_Enabled (cfg_Tunnel c) then retE (Inr [])
          else bindE (appendMissingIPv6Address r [] InterfaceName (tc_LocalIPv6 (cfg_Tunnel c))) (\<lambda>missing.
            if \<not> lan_Enabled (cfg_LAN c) then retE (Inr missing)
            else missing_networks r missing (elems (lan_Networks (cfg_LAN c)))))"

text \<open>The WAN address of an observation: empty when it is not asked for or cannot be read.\<close>

definition observe_wan :: "'w runner \<Rightarrow> string \<Rightarrow> ('w, string) act" where
  "observe_wan r wan m =
     (if blank wan then ([], m)
      else (case getWANIPv4 r wan m of (Inl err, m') \<Rightarrow> ([], m') | (Inr wanIP, m') \<Rightarrow> (wanIP, m')))"

text \<open>\<open>Observe\<close> returns an observation with an error as well.\<close>

definition Observe :: "'w runner \<Rightarrow> ObserveInput \<Rightarrow> ('w, Observation \<times> goerr option) act" where
  "Observe r inp m =
     (case CombinedOutput r [''ip'', ''link'', ''show'', InterfaceName] m of (link, m1) \<Rightarrow>
     (case observe_wan r (oi_WANInterface inp) m1 of (wanIP, m2) \<Rightarrow>
     (case collectMissingManagedIPv6Addresses r (oi_Config inp) m2 of (missing, m3) \<Rightarrow>
        (let observation = \<lparr>ob_TunnelUp = (snd link = None), ob_WANIPv4 = wanIP, ob_MissingIPv6Addresses = None\<rparr>
         in ((case missing of
                Inl err \<Rightarrow> (observation, Some err)
              | Inr addresses \<Rightarrow> (observation\<lparr>ob_MissingIPv6Addresses := Some addresses\<rparr>, None)), m3)))))"

section \<open>Probing\<close>

definition resolveProbeSourceAddress :: "'w runner \<Rightarrow> string \<Rightarrow> ('w, string) act" where
  "resolveProbeSourceAddress r target m =
     (case CombinedOutput r [''ip'', ''-6'', ''route'', ''get'', target] m of
        ((out, Some err), m') \<Rightarrow> ([], m')
      | ((out, None), m') \<Rightarrow>
          (case ipv6RouteSrcPattern out of
             None \<Rightarrow> ([], m')
           | Some s \<Rightarrow>
               (case ParseAddr s of
                  Inl err \<Rightarrow> ([], m')
                | Inr a \<Rightarrow> (if isPreferredIPv6SourceAddress a then AddrString a else [], m'))))"

text \<open>
  \<open>int(value)\<close> for \<open>strconv.ParseFloat(s, 64)\<close> on digits with dots: the decimal value rounded to
  53 bits, half to even, then truncated.  \<^term>\<open>None\<close> is a syntax or range error.  A value beyond
  the range of \<open>int\<close> saturates, as the conversion instruction of arm64 does, the architecture the
  program is built for.
\<close>

fun bit_len :: "nat \<Rightarrow> nat" where
  "bit_len n = (if n = 0 then 0 else Suc (bit_len (n div 2)))"

declare bit_len.simps [simp del]

definition round_half_even :: "nat \<Rightarrow> nat \<Rightarrow> nat" where
  "round_half_even n d =
     (let q = n div d; r = n mod d
      in if 2 * r < d then q else if d < 2 * r then Suc q else if even q then q else Suc q)"

definition truncated_double :: "nat \<Rightarrow> nat \<Rightarrow> nat" where
  "truncated_double n d =
     (let b = bit_len (n div d)
      in if b \<le> 53 then round_half_even (n * 2 ^ (53 - b)) d div 2 ^ (53 - b)
         else round_half_even n (d * 2 ^ (b - 53)) * 2 ^ (b - 53))"

definition ParseFloat_int :: "string \<Rightarrow> int option" where
  "ParseFloat_int s =
     (let i = takeWhile is_digit s; t = dropWhile is_digit s;
          f = (if t = [] then [] else tl t)
      in if CHR ''.'' \<in> set f \<or> (i = [] \<and> f = []) then None
         else let v = truncated_double (dec_val (i @ f)) (10 ^ length f)
              in if 2 ^ 1024 \<le> v then None else Some (min (int v) int64_max))"

definition ping_result :: "string \<times> goerr option \<Rightarrow> ProbeResult" where
  "ping_result reply =
     (case reply of
        (out, Some err) \<Rightarrow> \<lparr>pb_PingOK = False, pb_PingMs = 0\<rparr>
      | (out, None) \<Rightarrow>
          (case pingTimePattern out of
             None \<Rightarrow> \<lparr>pb_PingOK = True, pb_PingMs = 0\<rparr>
           | Some s \<Rightarrow>
               (case ParseFloat_int s of
                  None \<Rightarrow> \<lparr>pb_PingOK = True, pb_PingMs = 0\<rparr>
                | Some ms \<Rightarrow> \<lparr>pb_PingOK = True, pb_PingMs = ms\<rparr>)))"

definition Probe :: "'w runner \<Rightarrow> string \<Rightarrow> ('w, ProbeResult res) act" where
  "Probe r target m =
     (case resolveProbeSourceAddress r target m of (sourceAddress, m1) \<Rightarrow>
     (let args = [''-6'', ''-n'', ''-c'', ''1'', ''-W'', ''3'']
                 @ (if sourceAddress \<noteq> [] then [''-I'', sourceAddress] else []) @ [target] in
      case CombinedOutput r (''ping'' # args) m1 of (reply, m2) \<Rightarrow> (Inr (ping_result reply), m2)))"

section \<open>Reconciling\<close>

definition ensureJump :: "'w runner \<Rightarrow> string \<Rightarrow> string \<Rightarrow> string \<Rightarrow> 'w machine \<Rightarrow> 'w machine" where
  "ensureJump r binary parentChain targetChain m =
     (case CombinedOutput r [binary, ''-C'', parentChain, ''-j'', targetChain] m of
        ((out, None), m') \<Rightarrow> m'
      | ((out, Some err), m') \<Rightarrow> runBestEffort r [binary, ''-I'', parentChain, ''-j'', targetChain] m')"

definition removeJump :: "'w runner \<Rightarrow> string \<Rightarrow> string \<Rightarrow> string \<Rightarrow> 'w machine \<Rightarrow> 'w machine" where
  "removeJump r binary parentChain targetChain =
     runBestEffort r [binary, ''-D'', parentChain, ''-j'', targetChain]"

definition ensureJumpTable :: "'w runner \<Rightarrow> string \<Rightarrow> string \<Rightarrow> string \<Rightarrow> string \<Rightarrow> 'w machine \<Rightarrow> 'w machine" where
  "ensureJumpTable r binary table parentChain targetChain m =
     (case CombinedOutput r [binary, ''-t'', table, ''-C'', parentChain, ''-j'', targetChain] m of
        ((out, None), m') \<Rightarrow> m'
      | ((out, Some err), m') \<Rightarrow>
          runBestEffort r [binary, ''-t'', table, ''-I'', parentChain, ''-j'', targetChain] m')"

definition removeJumpTable :: "'w runner \<Rightarrow> string \<Rightarrow> string \<Rightarrow> string \<Rightarrow> string \<Rightarrow> 'w machine \<Rightarrow> 'w machine" where
  "removeJumpTable r binary table parentChain targetChain =
     runBestEffort r [binary, ''-t'', table, ''-D'', parentChain, ''-j'', targetChain]"

text \<open>The loop of \<open>teardown\<close> over the applied networks, which skips prefixes that do not parse.\<close>

fun remove_gateways :: "'w runner \<Rightarrow> NetworkStatus list \<Rightarrow> 'w machine \<Rightarrow> 'w machine" where
  "remove_gateways r [] m = m"
| "remove_gateways r (network # networks) m =
     (case gatewayForPrefix (ns_Prefix network) of
        Inl err \<Rightarrow> remove_gateways r networks m
      | Inr gatewayAddress \<Rightarrow>
          remove_gateways r networks
            (runBestEffort r [''ip'', ''-6'', ''addr'', ''del'', gatewayAddress, ''dev'', ns_Interface network] m))"

definition teardown :: "'w runner \<Rightarrow> AppliedState \<Rightarrow> 'w machine \<Rightarrow> 'w machine" where
  "teardown r applied = sequence_all
     [removeJump r ''iptables'' ''INPUT'' iptablesChainInput,
      runBestEffort r [''iptables'', ''-F'', iptablesChainInput],
      runBestEffort r [''iptables'', ''-X'', iptablesChainInput],
      removeJump r ''ip6tables'' ''FORWARD'' iptablesChainForward,
      runBestEffort r [''ip6tables'', ''-F'', iptablesChainForward],
      runBestEffort r [''ip6tables'', ''-X'', iptablesChainForward],
      removeJumpTable r ''ip6tables'' ''mangle'' ''FORWARD'' iptablesChainMSS,
      runBestEffort r [''ip6tables'', ''-t'', ''mangle'', ''-F'', iptablesChainMSS],
      runBestEffort r [''ip6tables'', ''-t'', ''mangle'', ''-X'', iptablesChainMSS],
      remove_gateways r (elems (ap_Networks applied)),
      (if ap_RemoteEndpoint applied \<noteq> [] \<and> ap_WANInterface applied \<noteq> []
       then runBestEffort r [''ip'', ''route'', ''del'', ap_RemoteEndpoint applied @ ''/32'', ''dev'',
                             ap_WANInterface applied]
       else id),
      runBestEffort r [''ip'', ''-6'', ''route'', ''del'', ''::/0'', ''dev'', InterfaceName],
      runBestEffort r [''ip'', ''tunnel'', ''del'', InterfaceName]]"

definition resetIPv6 :: "'w runner \<Rightarrow> string \<Rightarrow> ('w, unit res) act" where
  "resetIPv6 r interfaceName =
     thenE (run r [''sysctl'', ''-w'', ''net.ipv6.conf.'' @ interfaceName @ ''.disable_ipv6=1''])
       (afterwards (sleepFn 300)
         (thenE (run r [''sysctl'', ''-w'', ''net.ipv6.conf.'' @ interfaceName @ ''.disable_ipv6=0''])
           (afterwards (sleepFn 500) (retE (Inr ())))))"

definition ensureLANInterfaceReady :: "'w runner \<Rightarrow> string \<Rightarrow> ('w, unit res) act" where
  "ensureLANInterfaceReady r interfaceName =
     thenE (run r [''sysctl'', ''-w'', ''net.ipv6.conf.'' @ interfaceName @ ''.accept_dad=0'']) (\<lambda>m.
       case CombinedOutput r [''ip'', ''-6'', ''addr'', ''show'', ''dev'', interfaceName] m of (reply, m') \<Rightarrow>
         (case snd reply of
            Some err \<Rightarrow> (Inl (read_addresses_error interfaceName err), m')
          | None \<Rightarrow> if \<not> hasProblematicLinkLocal (fst reply) then (Inr (), m') else resetIPv6 r interfaceName m'))"

text \<open>The loop over the LAN networks; \<open>managed\<close> are the interfaces made ready so far.\<close>

fun setup_networks :: "'w runner \<Rightarrow> string list \<Rightarrow> NetworkConfig list \<Rightarrow> ('w, unit res) act" where
  "setup_networks r managed [] = retE (Inr ())"
| "setup_networks r managed (network # networks) =
     thenE (if nc_Interface network \<notin> set managed then ensureLANInterfaceReady r (nc_Interface network)
            else retE (Inr ()))
       (bindE (retE (gatewayForPrefix (nc_Prefix network))) (\<lambda>gatewayAddress.
          thenE (ensureIPv6AddressPresent r (nc_Interface network) gatewayAddress)
            (setup_networks r (nc_Interface network # managed) networks)))"

text \<open>The firewall rules, whose failures are ignored.\<close>

definition setup_firewall :: "'w runner \<Rightarrow> string \<Rightarrow> 'w machine \<Rightarrow> 'w machine" where
  "setup_firewall r wan = sequence_all
     [runBestEffort r [''iptables'', ''-N'', iptablesChainInput],
      runBestEffort r [''iptables'', ''-F'', iptablesChainInput],
      runBestEffort r [''iptables'', ''-A'', iptablesChainInput, ''-i'', wan, ''-p'', ''41'', ''-j'', ''ACCEPT''],
      ensureJump r ''iptables'' ''INPUT'' iptablesChainInput,
      runBestEffort r [''ip6tables'', ''-N'', iptablesChainForward],
      runBestEffort r [''ip6tables'', ''-F'', iptablesChainForward],
      runBestEffort r [''ip6tables'', ''-A'', iptablesChainForward, ''-i'', InterfaceName, ''-m'', ''state'',
                       ''--state'', ''ESTABLISHED,RELATED'', ''-j'', ''ACCEPT''],
      runBestEffort r [''ip6tables'', ''-A'', iptablesChainForward, ''-o'', InterfaceName, ''-j'', ''ACCEPT''],
      runBestEffort r [''ip6tables'', ''-A'', iptablesChainForward, ''-i'', InterfaceName, ''-m'', ''state'',
                       ''--state'', ''NEW'', ''-j'', ''DROP''],
      ensureJump r ''ip6tables'' ''FORWARD'' iptablesChainForward,
      runBestEffort r [''ip6tables'', ''-t'', ''mangle'', ''-N'', iptablesChainMSS],
      runBestEffort r [''ip6tables'', ''-t'', ''mangle'', ''-F'', iptablesChainMSS],
      runBestEffort r [''ip6tables'', ''-t'', ''mangle'', ''-A'', iptablesChainMSS, ''-o'', InterfaceName, ''-p'', ''tcp'',
                       ''--tcp-flags'', ''SYN,RST'', ''SYN'', ''-j'', ''TCPMSS'', ''--clamp-mss-to-pmtu''],
      ensureJumpTable r ''ip6tables'' ''mangle'' ''FORWARD'' iptablesChainMSS]"

text \<open>The steps that bring the tunnel up, for the WAN address and with the MTU resolved.\<close>

definition bring_up :: "'w runner \<Rightarrow> Config \<Rightarrow> string \<Rightarrow> ('w, unit res) act" where
  "bring_up r c wanIP =
     (let t = cfg_Tunnel c; wan = sc_WANInterface (cfg_Server c) in
      afterwards (runBestEffort r [''modprobe'', ''sit''])
      (thenE (run r [''ip'', ''route'', ''replace'', tc_RemoteEndpoint t @ ''/32'', ''dev'', wan, ''src'', wanIP])
      (thenE (run r [''ip'', ''tunnel'', ''add'', InterfaceName, ''mode'', ''sit'', ''remote'', tc_RemoteEndpoint t,
                     ''local'', wanIP, ''ttl'', Itoa (tc_TTL t)])
      (thenE (run r [''ip'', ''link'', ''set'', InterfaceName, ''mtu'', Itoa (tc_MTU t)])
      (thenE (run r [''ip'', ''link'', ''set'', InterfaceName, ''up''])
      (thenE (ensureIPv6AddressPresent r InterfaceName (tc_LocalIPv6 t))
      (thenE (run r [''sysctl'', ''-w'', ''net.ipv6.conf.all.forwarding=1''])
      (thenE (if lan_Enabled (cfg_LAN c) then setup_networks r [] (elems (lan_Networks (cfg_LAN c)))
              else retE (Inr ()))
      (bindE (retE (buildDefaultRouteArgs (Some c))) (\<lambda>defaultRouteArgs.
       run r (''ip'' # defaultRouteArgs)))))))))))"

text \<open>
  \<open>Reconcile\<close> writes the resolved MTU into the configuration it is given, so it returns the
  configuration as well.
\<close>

definition Reconcile :: "'w runner \<Rightarrow> ReconcileInput \<Rightarrow> ('w, goerr option \<times> Config ptr) act" where
  "Reconcile r inp m =
     (case ri_Config inp of
        None \<Rightarrow> ((Some (ErrorString ''config is required''), None), m)
      | Some c \<Rightarrow>
          (let m1 = teardown r (ri_Applied inp) m in
           if \<not> ri_ConfigValid inp \<or> \<not> tc_Enabled (cfg_Tunnel c) then ((None, Some c), m1)
           else (case getWANIPv4 r (sc_WANInterface (cfg_Server c)) m1 of
                   (Inl err, m2) \<Rightarrow> ((Some err, Some c), m2)
                 | (Inr wanIP, m2) \<Rightarrow>
                     (case resolveTunnelMTU r (tc_MTU (cfg_Tunnel c)) (sc_WANInterface (cfg_Server c)) m2 of
                        (Inl err, m3) \<Rightarrow> ((Some err, Some c), m3)
                      | (Inr resolvedMTU, m3) \<Rightarrow>
                          (let c' = c\<lparr>cfg_Tunnel := (cfg_Tunnel c)\<lparr>tc_MTU := resolvedMTU\<rparr>\<rparr>
                           in case bring_up r c' wanIP m3 of
                                (Inl err, m4) \<Rightarrow> ((Some err, Some c'), m4)
                              | (Inr done, m4) \<Rightarrow>
                                  ((None, Some c'), setup_firewall r (sc_WANInterface (cfg_Server c')) m4))))))"

end
