(* ===== verification/Advertiser.thy ===== *)
theory Advertiser
  imports NetipFacts
begin

text \<open>
  \<open>internal/ra/advertiser.go\<close>: the router advertisements, and the advertiser that opens a connection
  for each network, sends periodically, answers solicitations, and closes what it opened.
  The messages of the package \<open>ndp\<close> are the constructors of the datatypes below; which interfaces
  exist and which sockets open is a parameter.
\<close>

section \<open>Messages\<close>

record NetInterface =
  if_Name :: string
  if_HardwareAddr :: string
  if_MTU :: int

text \<open>Durations are in seconds.\<close>

datatype RAOption =
    SourceLinkLayerAddress string
  | MTUOption "32 word"
  | PrefixInformation "8 word" bool bool int int Addr
  | RecursiveDNSServer int "Addr list"

record RouterAdvertisement =
  ra_CurrentHopLimit :: "8 word"
  ra_ManagedConfiguration :: bool
  ra_OtherConfiguration :: bool
  ra_PreferenceMedium :: bool
  ra_RouterLifetime :: int
  ra_Options :: "RAOption list"

definition BuildRA :: "NetInterface option \<Rightarrow> Prefix \<Rightarrow> Addr list \<Rightarrow> int \<Rightarrow> RouterAdvertisement" where
  "BuildRA iface p dnsServers tunnelMTU =
     (let link = (case iface of
            None \<Rightarrow> []
          | Some i \<Rightarrow> if if_HardwareAddr i \<noteq> [] then [SourceLinkLayerAddress (if_HardwareAddr i)] else []);
          mtu = (if 0 < tunnelMTU then [MTUOption (word_of_int tunnelMTU)]
                 else (case iface of
                         None \<Rightarrow> []
                       | Some i \<Rightarrow> if 0 < if_MTU i then [MTUOption (word_of_int (if_MTU i))] else []));
          options = link @ mtu
            @ [PrefixInformation (word_of_nat (prefix_bits p)) True True 7200 1800 (prefix_addr p)]
      in \<lparr>ra_CurrentHopLimit = 64, ra_ManagedConfiguration = False, ra_OtherConfiguration = False,
          ra_PreferenceMedium = True, ra_RouterLifetime = 1800,
          ra_Options = options @ (if dnsServers \<noteq> [] then [RecursiveDNSServer 1800 dnsServers] else [])\<rparr>)"

section \<open>Connections\<close>

text \<open>
  The open sockets, by number, and the messages sent: socket, advertisement, destination.
  \<open>InterfaceByName\<close> and \<open>ndp.Listen\<close> may fail.
\<close>

record ndp =
  nd_next :: nat
  nd_open :: "nat list"

record ra_env =
  re_InterfaceByName :: "string \<Rightarrow> NetInterface res"
  re_Listen :: "NetInterface \<Rightarrow> goerr option"

record NetworkEntry =
  ne_Interface :: string
  ne_Prefix :: Prefix

record AdvertiserConfig =
  ac_Networks :: "NetworkEntry list"
  ac_DNS :: "Addr list"
  ac_Interval :: int
  ac_TunnelMTU :: int

record connEntry =
  ce_conn :: nat
  ce_iface :: NetInterface
  ce_prefix :: Prefix

record Advertiser =
  adv_conns :: "connEntry list"
  adv_dns :: "Addr list"
  adv_tunnelMTU :: int
  adv_interval :: int
  adv_cancelled :: bool

definition closeConns :: "connEntry list \<Rightarrow> ndp \<Rightarrow> ndp" where
  "closeConns conns w = w\<lparr>nd_open := filter (\<lambda>k. k \<notin> ce_conn ` set conns) (nd_open w)\<rparr>"

text \<open>The loop over the networks, with the connections opened so far.\<close>

fun open_conns :: "ra_env \<Rightarrow> connEntry list \<Rightarrow> NetworkEntry list \<Rightarrow> ndp \<Rightarrow> connEntry list res \<times> ndp" where
  "open_conns env conns [] w = (Inr conns, w)"
| "open_conns env conns (nw # nws) w =
     (case re_InterfaceByName env (ne_Interface nw) of
        Inl err \<Rightarrow>
          (Inl (WrapError (''interface '' @ Quote (ne_Interface nw) @ '': '') err []), closeConns conns w)
      | Inr iface \<Rightarrow>
          (case re_Listen env iface of
             Some err \<Rightarrow>
               (Inl (WrapError (''ndp listen on '' @ Quote (ne_Interface nw) @ '': '') err []), closeConns conns w)
           | None \<Rightarrow>
               open_conns env (conns @ [\<lparr>ce_conn = nd_next w, ce_iface = iface, ce_prefix = ne_Prefix nw\<rparr>]) nws
                 (w\<lparr>nd_next := Suc (nd_next w), nd_open := nd_next w # nd_open w\<rparr>)))"

definition NewAdvertiser :: "ra_env \<Rightarrow> AdvertiserConfig \<Rightarrow> ndp \<Rightarrow> Advertiser res \<times> ndp" where
  "NewAdvertiser env cfg w =
     (case open_conns env [] (ac_Networks cfg) w of
        (Inl err, w') \<Rightarrow> (Inl err, w')
      | (Inr conns, w') \<Rightarrow>
          (Inr \<lparr>adv_conns = conns, adv_dns = ac_DNS cfg, adv_tunnelMTU = ac_TunnelMTU cfg,
                adv_interval = (if ac_Interval cfg = 0 then 10 else ac_Interval cfg),
                adv_cancelled = False\<rparr>, w'))"

definition Advertiser_Stop :: "Advertiser \<Rightarrow> ndp \<Rightarrow> Advertiser \<times> ndp" where
  "Advertiser_Stop a w = (a\<lparr>adv_cancelled := True\<rparr>, closeConns (adv_conns a) w)"

section \<open>The loops\<close>

text \<open>
  The two goroutines of a connection.  Each iteration of \<open>sendLoop\<close> takes the outcome of its write,
  whether the context was done when a failed write was looked at, and whether the wait ended with
  the context rather than the ticker.  The result is the messages sent and whether the loop ended.
\<close>

definition allNodes :: Addr where
  "allNodes = Addr6 0xff020000000000000000000000000001 []"

record send_round =
  sr_write_error :: bool
  sr_done_after_error :: bool
  sr_done_in_wait :: bool

fun sendLoop :: "Advertiser \<Rightarrow> connEntry \<Rightarrow> send_round list \<Rightarrow> (RouterAdvertisement \<times> Addr) list \<times> bool" where
  "sendLoop a ce [] = ([], False)"
| "sendLoop a ce (x # xs) =
     (let msg = (BuildRA (Some (ce_iface ce)) (ce_prefix ce) (adv_dns a) (adv_tunnelMTU a), allNodes);
          sent = (if sr_write_error x then [] else [msg])
      in if sr_write_error x \<and> sr_done_after_error x then (sent, True)
         else if sr_done_in_wait x then (sent, True)
         else let (rest, ended) = sendLoop a ce xs in (sent @ rest, ended))"

text \<open>
  Each iteration of \<open>listenLoop\<close> takes what the read gave: an error, and whether the context was
  done, or a message with its source, and then the outcome of the answer.
\<close>

datatype ndpMessage = RouterSolicitation | OtherMessage

datatype listen_round =
    ReadError bool
  | ReadMessage ndpMessage Addr bool bool

definition answer_destination :: "Addr \<Rightarrow> Addr" where
  "answer_destination source =
     (if source = AddrZero \<or> source = Addr4 0 \<or> source = Addr6 0 [] then allNodes else source)"

fun listenLoop :: "Advertiser \<Rightarrow> connEntry \<Rightarrow> listen_round list \<Rightarrow> (RouterAdvertisement \<times> Addr) list \<times> bool" where
  "listenLoop a ce [] = ([], False)"
| "listenLoop a ce (ReadError cancelled # xs) = (if cancelled then ([], True) else listenLoop a ce xs)"
| "listenLoop a ce (ReadMessage message source writeError cancelled # xs) =
     (if message \<noteq> RouterSolicitation then listenLoop a ce xs
      else let msg = (BuildRA (Some (ce_iface ce)) (ce_prefix ce) (adv_dns a) (adv_tunnelMTU a),
                      answer_destination source)
           in if writeError then (if cancelled then ([], True) else listenLoop a ce xs)
              else let (rest, ended) = listenLoop a ce xs in (msg # rest, ended))"

section \<open>No connection is lost\<close>

text \<open>Numbers below the next one, each at most once.\<close>

definition ndp_ok :: "ndp \<Rightarrow> bool" where
  "ndp_ok w \<longleftrightarrow> distinct (nd_open w) \<and> (\<forall>k \<in> set (nd_open w). k < nd_next w)"

lemma open_conns_open:
  assumes "open_conns env conns nws w = (x, w')" "ndp_ok w"
    "nd_open w = rev (map ce_conn conns) @ base" "\<forall>k \<in> set base. k \<notin> ce_conn ` set conns"
  shows "ndp_ok w' \<and> (case x of
     Inl err \<Rightarrow> nd_open w' = base
   | Inr cs \<Rightarrow> nd_open w' = rev (map ce_conn cs) @ base \<and> (\<forall>k \<in> set base. k \<notin> ce_conn ` set cs)
       \<and> map ce_prefix cs = map ce_prefix conns @ map ne_Prefix nws)"
  using assms
proof (induction env conns nws w rule: open_conns.induct)
  case (1 env conns w)
  then show ?case by auto
next
  case (2 env conns nw nws w)
  have closed: "nd_open (closeConns conns w) = base" "ndp_ok (closeConns conns w)"
    using 2(3,4,5) by (auto simp: closeConns_def ndp_ok_def filter_empty_conv filter_id_conv)
  show ?case
  proof (cases "re_InterfaceByName env (ne_Interface nw)")
    case (Inl err)
    then show ?thesis using 2(2) closed by auto
  next
    case (Inr iface)
    show ?thesis
    proof (cases "re_Listen env iface")
      case (Some err)
      then show ?thesis using 2(2) Inr closed by auto
    next
      case None
      have "\<forall>k \<in> set base. k \<noteq> nd_next w" using 2(3,4) by (auto simp: ndp_ok_def)
      moreover have "ndp_ok (w\<lparr>nd_next := Suc (nd_next w), nd_open := nd_next w # nd_open w\<rparr>)"
        using 2(3) by (auto simp: ndp_ok_def)
      ultimately show ?thesis
        using 2(1) [OF Inr None] 2(2-5) Inr None by (auto split: sum.splits)
    qed
  qed
qed

lemma NewAdvertiser_open:
  assumes "NewAdvertiser env cfg w = (x, w')" "ndp_ok w"
  shows "ndp_ok w' \<and> (case x of
     Inl err \<Rightarrow> nd_open w' = nd_open w
   | Inr a \<Rightarrow> nd_open w' = rev (map ce_conn (adv_conns a)) @ nd_open w
       \<and> (\<forall>k \<in> set (nd_open w). k \<notin> ce_conn ` set (adv_conns a))
       \<and> map ce_prefix (adv_conns a) = map ne_Prefix (ac_Networks cfg))"
proof -
  obtain y v where o: "open_conns env [] (ac_Networks cfg) w = (y, v)" by (rule prod.exhaust)
  from open_conns_open [OF o assms(2), of "nd_open w"] show ?thesis
    using assms(1) o by (auto simp: NewAdvertiser_def split: sum.splits)
qed

lemma Stop_closes:
  assumes "nd_open w = rev (map ce_conn (adv_conns a)) @ base"
    "\<forall>k \<in> set base. k \<notin> ce_conn ` set (adv_conns a)" "ndp_ok w"
  shows "nd_open (snd (Advertiser_Stop a w)) = base \<and> ndp_ok (snd (Advertiser_Stop a w))"
  using assms by (auto simp: Advertiser_Stop_def closeConns_def ndp_ok_def filter_empty_conv filter_id_conv)

section \<open>Properties\<close>

text \<open>
  C39: the advertiser never leaks a connection.  When \<open>NewAdvertiser\<close> fails, at whatever network,
  exactly the connections that were open before are open; when it succeeds, it serves the
  configured prefixes in order and \<open>Stop\<close> closes exactly what it opened.
\<close>

theorem advertiser_no_leak:
  assumes "ndp_ok w" "NewAdvertiser env cfg w = (x, w')"
  shows "case x of
      Inl err \<Rightarrow> nd_open w' = nd_open w
    | Inr a \<Rightarrow> map ce_prefix (adv_conns a) = map ne_Prefix (ac_Networks cfg)
        \<and> set (map ce_conn (adv_conns a)) \<inter> set (nd_open w) = {}
        \<and> nd_open (snd (Advertiser_Stop a w')) = nd_open w"
  using NewAdvertiser_open [OF assms(2,1)] Stop_closes by (fastforce split: sum.splits)

text \<open>The second of two interfaces does not exist: the first one's connection is closed.\<close>

theorem advertiser_no_leak_witness:
  "nd_open (snd (NewAdvertiser
     \<lparr>re_InterfaceByName = \<lambda>n. if n = ''br0'' then Inr \<lparr>if_Name = n, if_HardwareAddr = [], if_MTU = 1500\<rparr>
                              else Inl (ErrorString ''no such network interface''),
      re_Listen = \<lambda>i. None\<rparr>
     \<lparr>ac_Networks = [\<lparr>ne_Interface = ''br0'', ne_Prefix = Prefix (Addr6 0 []) 64\<rparr>,
                     \<lparr>ne_Interface = ''br9'', ne_Prefix = Prefix (Addr6 1 []) 64\<rparr>],
      ac_DNS = [], ac_Interval = 10, ac_TunnelMTU = 0\<rparr> \<lparr>nd_next = 5, nd_open = [3]\<rparr>)) = [3]"
  (is "nd_open (snd (NewAdvertiser ?env ?cfg ?w)) = _")
proof -
  have ok: "ndp_ok ?w" by (simp add: ndp_ok_def)
  obtain err w' where run: "NewAdvertiser ?env ?cfg ?w = (Inl err, w')"
    by (simp add: NewAdvertiser_def)
  from advertiser_no_leak [OF ok run] show ?thesis by (simp only: run snd_conv sum.case) simp
qed

text \<open>
  C40: a router advertisement announces the prefix with its own length, autonomous and on-link, the
  DNS servers exactly when there are any, and the tunnel's MTU rather than the interface's; the MTU
  is exact below \<open>2 ^ 32\<close>, where its conversion to 32 bits does not wrap.
\<close>

theorem advertisement_contents:
  assumes "prefix_ok p" "0 < tunnelMTU" "tunnelMTU < 2 ^ 32"
  shows "\<exists>mtu len. {o' \<in> set (ra_Options (BuildRA iface p dns tunnelMTU)). \<exists>m. o' = MTUOption m} = {MTUOption mtu}
    \<and> uint mtu = tunnelMTU
    \<and> PrefixInformation len True True 7200 1800 (prefix_addr p) \<in> set (ra_Options (BuildRA iface p dns tunnelMTU))
    \<and> unat len = prefix_bits p
    \<and> (RecursiveDNSServer 1800 dns \<in> set (ra_Options (BuildRA iface p dns tunnelMTU)) \<longleftrightarrow> dns \<noteq> [])"
proof -
  have "prefix_bits p \<le> 128" using assms(1) by (cases p; cases "prefix_addr p") auto
  then have "unat (word_of_nat (prefix_bits p) :: 8 word) = prefix_bits p"
    by (simp add: unat_of_nat take_bit_nat_eq_self)
  moreover have "uint (word_of_int tunnelMTU :: 32 word) = tunnelMTU"
    using assms(2,3) by (simp add: uint_word_of_int mod_pos_pos_trivial)
  ultimately show ?thesis
    using assms(2)
    by (intro exI [of _ "word_of_int tunnelMTU"] exI [of _ "word_of_nat (prefix_bits p)"])
       (auto simp: BuildRA_def Let_def split: option.splits)
qed

theorem advertisement_contents_witness:
  "\<exists>mtu. {o' \<in> set (ra_Options (BuildRA None (Prefix (Addr6 0 []) 64) [] 1472)). \<exists>m. o' = MTUOption m} = {MTUOption mtu}
    \<and> uint mtu = 1472"
  using advertisement_contents [of "Prefix (Addr6 0 []) 64" 1472 None "[]"] by auto

end
