(* ===== verification/Service.thy ===== *)
theory Service
  imports Backend Advertiser
begin

text \<open>
  \<open>internal/control/service.go\<close>: the control service.  The functions here are the critical sections
  of the code, each of which runs under the mutex, on an explicit state; \<open>ServiceRuns\<close> composes them.
  The backend, the clock, the file system's faults and the network interfaces are parameters.
\<close>

section \<open>The backend interface\<close>

record 'w backend =
  be_Reconcile :: "ReconcileInput \<Rightarrow> 'w \<Rightarrow> (goerr option \<times> Config ptr) \<times> 'w"
  be_Observe :: "ObserveInput \<Rightarrow> 'w \<Rightarrow> (Observation ptr \<times> goerr option) \<times> 'w"
  be_Probe :: "string \<Rightarrow> 'w \<Rightarrow> ProbeResult res \<times> 'w"
  be_RepairAddresses :: "Config ptr \<Rightarrow> 'w \<Rightarrow> goerr option \<times> 'w"

definition error_of :: "unit res \<Rightarrow> goerr option" where
  "error_of x = (case x of Inl err \<Rightarrow> Some err | Inr u \<Rightarrow> None)"

text \<open>\<open>NewSystemBackendWithRunner\<close>.\<close>

definition SystemBackend :: "'w runner \<Rightarrow> 'w machine backend" where
  "SystemBackend r =
     \<lparr>be_Reconcile = Reconcile r,
      be_Observe = (\<lambda>inp m. case Observe r inp m of ((ob, err), m') \<Rightarrow> ((Some ob, err), m')),
      be_Probe = Probe r,
      be_RepairAddresses = (\<lambda>cfg m. case RepairAddresses r cfg m of (x, m') \<Rightarrow> (error_of x, m'))\<rparr>"

section \<open>The service\<close>

text \<open>
  The environment, by the number of the call: the clock, the faults of the file system and the
  network interfaces may differ at each use.
\<close>

record 'w env =
  en_backend :: "'w backend"
  en_now :: "nat \<Rightarrow> Time"
  en_os :: "nat \<Rightarrow> OS"
  en_ra :: "nat \<Rightarrow> ra_env"

text \<open>
  The fields of \<open>Service\<close> that the operations use, the parts of the host they act on, and the number
  of calls made.  \<open>sv_disks\<close> are the states of the file system so far, the current one first: each of
  them is what a crash would have left.
\<close>

record 'w service =
  sv_configPath :: string
  sv_statePath :: string
  sv_document :: Document
  sv_config :: Config
  sv_state :: StateDocument
  sv_advertiser :: "Advertiser option"
  sv_backend :: 'w
  sv_ndp :: ndp
  sv_disks :: "fs list"
  sv_calls :: nat

definition current_fs :: "'w service \<Rightarrow> fs" where
  "current_fs s = hd (sv_disks s)"

definition tick :: "'w service \<Rightarrow> 'w service" where
  "tick s = s\<lparr>sv_calls := Suc (sv_calls s)\<rparr>"

definition on_status :: "(Status \<Rightarrow> Status) \<Rightarrow> 'w service \<Rightarrow> 'w service" where
  "on_status f s = s\<lparr>sv_state := (sv_state s)\<lparr>sd_Status := f (sd_Status (sv_state s))\<rparr>\<rparr>"

definition on_applied :: "AppliedState \<Rightarrow> 'w service \<Rightarrow> 'w service" where
  "on_applied a s = s\<lparr>sv_state := (sv_state s)\<lparr>sd_Applied := a\<rparr>\<rparr>"

text \<open>Writing a file: every state that the write went through is kept.\<close>

definition disk_write :: "fs list \<times> goerr option \<Rightarrow> 'w service \<Rightarrow> goerr option \<times> 'w service" where
  "disk_write r s = (snd r, tick (s\<lparr>sv_disks := rev (fst r) @ sv_disks s\<rparr>))"

definition save_state :: "'w env \<Rightarrow> 'w service \<Rightarrow> goerr option \<times> 'w service" where
  "save_state e s =
     disk_write (SaveState (en_os e (sv_calls s)) (sv_statePath s) (sv_state s) (current_fs s)) s"

definition save_document :: "'w env \<Rightarrow> Document \<Rightarrow> 'w service \<Rightarrow> goerr option \<times> 'w service" where
  "save_document e d s =
     disk_write (SaveDocument (en_os e (sv_calls s)) (sv_configPath s) (Some d) (current_fs s)) s"

section \<open>Reasons\<close>

definition managedIPv6AddressMissingReasonPrefix :: string where
  [go_const]: "managedIPv6AddressMissingReasonPrefix = ''managed IPv6 address missing: ''"

text \<open>\<open>firstReason\<close>.\<close>

definition firstReason :: "string list \<Rightarrow> string" where
  "firstReason reasons = (case reasons of [] \<Rightarrow> [] | r # _ \<Rightarrow> r)"

definition validationReasons :: "goerr option \<Rightarrow> string list" where
  "validationReasons err =
     (case err of
        None \<Rightarrow> []
      | Some x \<Rightarrow> (case as_validation_error x of Some reasons \<Rightarrow> reasons | None \<Rightarrow> [Error x]))"

text \<open>The reasons are a slice; appending to nil allocates one.\<close>

definition append_reason :: "string slice \<Rightarrow> string \<Rightarrow> string slice" where
  "append_reason reasons message =
     (if containsString (elems reasons) message then reasons else Some (elems reasons @ [message]))"

definition appendErrorReason :: "string slice \<Rightarrow> goerr option \<Rightarrow> string slice" where
  "appendErrorReason reasons err = (case err of None \<Rightarrow> reasons | Some x \<Rightarrow> append_reason reasons (Error x))"

definition hasMissingManagedIPv6Addresses :: "Observation \<Rightarrow> bool" where
  "hasMissingManagedIPv6Addresses observation \<longleftrightarrow> elems (ob_MissingIPv6Addresses observation) \<noteq> []"

definition managedIPv6AddressReasons :: "Observation \<Rightarrow> string list" where
  "managedIPv6AddressReasons observation =
     map (\<lambda>address. managedIPv6AddressMissingReasonPrefix @ address) (elems (ob_MissingIPv6Addresses observation))"

fun append_reasons :: "string slice \<Rightarrow> string list \<Rightarrow> string slice" where
  "append_reasons reasons [] = reasons"
| "append_reasons reasons (x # xs) = append_reasons (append_reason reasons x) xs"

definition appendManagedIPv6AddressReasons :: "string slice \<Rightarrow> Observation \<Rightarrow> string slice" where
  "appendManagedIPv6AddressReasons reasons observation =
     append_reasons reasons (managedIPv6AddressReasons observation)"

definition removeDegradedReason :: "string \<Rightarrow> string slice \<Rightarrow> string slice" where
  "removeDegradedReason reason reasons = Some (filter (\<lambda>r. r \<noteq> reason) (elems reasons))"

definition replaceManagedIPv6AddressReasons :: "string list \<Rightarrow> string slice \<Rightarrow> string slice" where
  "replaceManagedIPv6AddressReasons new reasons =
     Some (append_new (filter (\<lambda>r. \<not> prefix managedIPv6AddressMissingReasonPrefix r) (elems reasons)) new)"

section \<open>Router advertisements\<close>

fun ra_networks :: "NetworkConfig list \<Rightarrow> NetworkEntry list res" where
  "ra_networks [] = Inr []"
| "ra_networks (n # ns) =
     (case ParsePrefix (nc_Prefix n) of
        Inl err \<Rightarrow> Inl (wrap (''parse RA prefix '' @ Quote (nc_Prefix n) @ '': '') err)
      | Inr p \<Rightarrow>
          (case ra_networks ns of
             Inl err \<Rightarrow> Inl err
           | Inr es \<Rightarrow> Inr (\<lparr>ne_Interface = nc_Interface n, ne_Prefix = p\<rparr> # es)))"

fun parse_dns :: "string list \<Rightarrow> Addr list res" where
  "parse_dns [] = Inr []"
| "parse_dns (v # vs) =
     (case ParseAddr v of
        Inl err \<Rightarrow> Inl (wrap (''parse RA dns '' @ Quote v @ '': '') err)
      | Inr a \<Rightarrow> (case parse_dns vs of Inl err \<Rightarrow> Inl err | Inr as \<Rightarrow> Inr (a # as)))"

text \<open>The keys of the map of the addresses seen are their texts.\<close>

fun router_dns :: "string list \<Rightarrow> NetworkConfig list \<Rightarrow> Addr list res" where
  "router_dns seen [] = Inr []"
| "router_dns seen (n # ns) =
     (case ParsePrefix (nc_Prefix n) of
        Inl err \<Rightarrow> Inl (wrap (''parse auto RA dns prefix '' @ Quote (nc_Prefix n) @ '': '') err)
      | Inr p \<Rightarrow>
          (let routerAddress = Next (prefix_addr (Masked p)); key = AddrString routerAddress
           in if key \<in> set seen then router_dns seen ns
              else (case router_dns (key # seen) ns of
                      Inl err \<Rightarrow> Inl err | Inr as \<Rightarrow> Inr (routerAddress # as))))"

definition deriveRouterDNSServers :: "NetworkConfig list \<Rightarrow> Addr list res" where
  "deriveRouterDNSServers networks = router_dns [] networks"

definition resolveRADNSServers :: "Config \<Rightarrow> Addr list res" where
  "resolveRADNSServers cfg =
     (if elems (lan_DNS (cfg_LAN cfg)) \<noteq> [] then parse_dns (elems (lan_DNS (cfg_LAN cfg)))
      else deriveRouterDNSServers (elems (lan_Networks (cfg_LAN cfg))))"

definition stopAdvertiserLocked :: "'w service \<Rightarrow> 'w service" where
  "stopAdvertiserLocked s =
     (case sv_advertiser s of
        None \<Rightarrow> s
      | Some a \<Rightarrow> s\<lparr>sv_ndp := snd (Advertiser_Stop a (sv_ndp s)), sv_advertiser := None\<rparr>)"

definition startAdvertiserLocked :: "'w env \<Rightarrow> Config \<Rightarrow> 'w service \<Rightarrow> goerr option \<times> 'w service" where
  "startAdvertiserLocked e cfg s =
     (case ra_networks (elems (lan_Networks (cfg_LAN cfg))) of Inl err \<Rightarrow> (Some err, s)
      | Inr networks \<Rightarrow>
     (case resolveRADNSServers cfg of Inl err \<Rightarrow> (Some err, s)
      | Inr dnsServers \<Rightarrow>
     (case NewAdvertiser (en_ra e (sv_calls s))
             \<lparr>ac_Networks = networks, ac_DNS = dnsServers, ac_Interval = 10,
              ac_TunnelMTU = tc_MTU (cfg_Tunnel cfg)\<rparr> (sv_ndp s) of
        (Inl err, w) \<Rightarrow> (Some err, tick (s\<lparr>sv_ndp := w\<rparr>))
      | (Inr a, w) \<Rightarrow> (None, tick (s\<lparr>sv_ndp := w, sv_advertiser := Some a\<rparr>)))))"

section \<open>Reconciling\<close>

definition buildObserveInput :: "Config \<Rightarrow> string list \<Rightarrow> ObserveInput" where
  "buildObserveInput cfg reasons =
     \<lparr>oi_WANInterface = sc_WANInterface (cfg_Server cfg),
      oi_Config = (if reasons = [] \<and> tc_Enabled (cfg_Tunnel cfg) then Some cfg else None)\<rparr>"

definition observed :: "Observation ptr \<Rightarrow> Observation" where
  "observed ob = (case ob of None \<Rightarrow> zero_observation | Some x \<Rightarrow> x)"

text \<open>A probe and the time it was made, or nothing when it is not wanted or fails.\<close>

definition probe_now :: "'w env \<Rightarrow> bool \<Rightarrow> string \<Rightarrow> 'w \<Rightarrow> nat \<Rightarrow> ProbeResult \<times> Time \<times> 'w" where
  "probe_now e wanted target w n =
     (if wanted
      then (case be_Probe (en_backend e) target w of
              (Inl err, w') \<Rightarrow> (zero_probe_result, zero_time, w')
            | (Inr result, w') \<Rightarrow> (result, en_now e n, w'))
      else (zero_probe_result, zero_time, w))"

definition set_ping :: "ProbeResult \<Rightarrow> Time \<Rightarrow> Status \<Rightarrow> Status" where
  "set_ping result probeTime st =
     (let st' = st\<lparr>st_PingOK := pb_PingOK result, st_PingMs := pb_PingMs result\<rparr>
      in if probeTime \<noteq> zero_time then st'\<lparr>st_LastPingAt := probeTime\<rparr> else st')"

text \<open>The fields set before the backend is called.\<close>

definition begin_reconcile :: "Document \<Rightarrow> bool \<Rightarrow> Status \<Rightarrow> Status" where
  "begin_reconcile document valid st =
     (let (name, broker) =
        (case ActiveProfile (Some document) of
           Inl err \<Rightarrow> ([], [])
         | Inr p \<Rightarrow> (pr_Name p, tc_Broker (pc_Tunnel (pr_Config p))))
      in st\<lparr>st_Interface := InterfaceName, st_DesiredEnabled := doc_TunnelEnabled document,
            st_ActiveProfileID := doc_ActiveProfileID document, st_ActiveProfileName := name,
            st_ActiveBroker := broker, st_ConfigValid := valid, st_ReconcileState := ReconcileReconciling\<rparr>)"

text \<open>A configuration that the backend returned; a nil one cannot happen when one was given.\<close>

definition after_backend :: "Config \<Rightarrow> Config ptr \<Rightarrow> Config" where
  "after_backend cfg cfg' = (case cfg' of None \<Rightarrow> cfg | Some c \<Rightarrow> c)"

text \<open>The local variables of \<open>reconcileLocked\<close> once the backend was applied, observed and probed.\<close>

record reconcile_view =
  rv_Config :: Config
  rv_Reasons :: "string list"
  rv_BackendErr :: "goerr option"
  rv_AdvertiserErr :: "goerr option"
  rv_Observation :: Observation
  rv_ObserveErr :: "goerr option"
  rv_Result :: ProbeResult
  rv_ProbeTime :: Time

definition advertise :: "'w env \<Rightarrow> Config \<Rightarrow> string list \<Rightarrow> goerr option \<Rightarrow> 'w service \<Rightarrow> goerr option \<times> 'w service" where
  "advertise e cfg reasons backendErr s =
     (if backendErr = None \<and> reasons = [] \<and> tc_Enabled (cfg_Tunnel cfg) \<and> lan_Enabled (cfg_LAN cfg)
         \<and> elems (lan_Networks (cfg_LAN cfg)) \<noteq> []
      then startAdvertiserLocked e cfg s else (None, s))"

definition reconcile_effects :: "'w env \<Rightarrow> bool \<Rightarrow> 'w service \<Rightarrow> reconcile_view \<times> 'w service" where
  "reconcile_effects e force s0 =
     (let document = Document_Clone (sv_document s0);
          cfg0 = Config_Clone (sv_config s0);
          reasons = validationReasons (Config_Validate (Some cfg0));
          s1 = stopAdvertiserLocked (on_status (begin_reconcile document (reasons = [])) s0);
          ((backendErr, cfg'), w1) =
            be_Reconcile (en_backend e)
              \<lparr>ri_Config = Some cfg0, ri_ConfigValid = (reasons = []), ri_Force = force,
               ri_Applied = sd_Applied (sv_state s0)\<rparr> (sv_backend s1);
          cfg = after_backend cfg0 cfg';
          (advertiserErr, s3) = advertise e cfg reasons backendErr (s1\<lparr>sv_backend := w1\<rparr>);
          ((ob, observeErr), w2) = be_Observe (en_backend e) (buildObserveInput cfg reasons) (sv_backend s3);
          (result, probeTime, w3) =
            probe_now e (reasons = [] \<and> tc_Enabled (cfg_Tunnel cfg) \<and> hc_Enabled (cfg_Health cfg)
                         \<and> hc_Target (cfg_Health cfg) \<noteq> []) (hc_Target (cfg_Health cfg)) w2 (sv_calls s3)
      in (\<lparr>rv_Config = cfg, rv_Reasons = reasons, rv_BackendErr = backendErr, rv_AdvertiserErr = advertiserErr,
           rv_Observation = observed ob, rv_ObserveErr = observeErr, rv_Result = result, rv_ProbeTime = probeTime\<rparr>,
          tick (s3\<lparr>sv_backend := w3\<rparr>)))"

text \<open>The reasons after a reconcile, in the order in which they are appended.\<close>

definition reconcile_reasons :: "reconcile_view \<Rightarrow> string slice" where
  "reconcile_reasons v =
     (let r1 = appendManagedIPv6AddressReasons (Some (rv_Reasons v)) (rv_Observation v);
          r2 = appendErrorReason r1 (rv_BackendErr v);
          r3 = appendErrorReason r2 (rv_AdvertiserErr v);
          r4 = appendErrorReason r3 (rv_ObserveErr v)
      in if tc_Enabled (cfg_Tunnel (rv_Config v)) \<and> hc_Enabled (cfg_Health (rv_Config v))
            \<and> \<not> pb_PingOK (rv_Result v)
         then append_reason r4 ReasonHealthProbeFailed else r4)"

text \<open>The fields set after it.\<close>

definition end_reconcile :: "reconcile_view \<Rightarrow> Time \<Rightarrow> Status \<Rightarrow> Status" where
  "end_reconcile v now st =
     (let cfg = rv_Config v; observation = rv_Observation v; degraded = reconcile_reasons v
      in (set_ping (rv_Result v) (rv_ProbeTime v)
           (st\<lparr>st_WANIPv4 := ob_WANIPv4 observation, st_LocalIPv6 := tc_LocalIPv6 (cfg_Tunnel cfg),
               st_EffectiveMTU :=
                 (if rv_Reasons v = [] \<and> tc_Enabled (cfg_Tunnel cfg) \<and> 0 < tc_MTU (cfg_Tunnel cfg)
                  then tc_MTU (cfg_Tunnel cfg) else 0),
               st_Networks := ap_Networks (buildAppliedState cfg), st_TunnelUp := ob_TunnelUp observation\<rparr>))
         \<lparr>st_DegradedReasons := degraded, st_LastError := firstReason (elems degraded),
          st_LastReconcileAt := now\<rparr>)"

text \<open>The \<open>switch\<close>: the new state, and the new applied state where it changes.\<close>

definition outcome :: "reconcile_view \<Rightarrow> string \<times> AppliedState option" where
  "outcome v =
     (let cfg = rv_Config v in
      if \<not> tc_Enabled (cfg_Tunnel cfg) then (ReconcileDown, Some emptyAppliedState)
      else if rv_Reasons v \<noteq> [] then (ReconcileDegraded, None)
      else if rv_BackendErr v \<noteq> None \<or> rv_AdvertiserErr v \<noteq> None \<or> rv_ObserveErr v \<noteq> None
              \<or> hasMissingManagedIPv6Addresses (rv_Observation v)
        then (ReconcileDegraded, Some (buildAppliedState cfg))
      else if ob_TunnelUp (rv_Observation v) then (ReconcileReady, Some (buildAppliedState cfg))
      else (ReconcileDegraded, Some (buildAppliedState cfg)))"

definition close_reconcile :: "Config \<Rightarrow> string \<Rightarrow> Status \<Rightarrow> Status" where
  "close_reconcile cfg reconcileState st =
     (let st1 = st\<lparr>st_ReconcileState := reconcileState\<rparr>;
          st2 = (if \<not> lan_Enabled (cfg_LAN cfg) then st1\<lparr>st_Networks := Some []\<rparr> else st1)
      in if hc_Enabled (cfg_Health cfg) \<and> \<not> tc_Enabled (cfg_Tunnel cfg)
         then st2\<lparr>st_PingOK := False, st_PingMs := 0\<rparr> else st2)"

definition publish :: "reconcile_view \<Rightarrow> Time \<Rightarrow> 'w service \<Rightarrow> 'w service" where
  "publish v now s =
     (let (reconcileState, applied) = outcome v;
          s1 = on_status (\<lambda>st. close_reconcile (rv_Config v) reconcileState (end_reconcile v now st)) s
      in case applied of None \<Rightarrow> s1 | Some a \<Rightarrow> on_applied a s1)"

text \<open>The result: an invalid configuration is not an error, otherwise the first error counts.\<close>

definition first_error :: "goerr option list \<Rightarrow> goerr option" where
  "first_error errs = (case find (\<lambda>e. e \<noteq> None) errs of None \<Rightarrow> None | Some e \<Rightarrow> e)"

definition reconcile_error :: "reconcile_view \<Rightarrow> goerr option" where
  "reconcile_error v =
     (if rv_Reasons v \<noteq> [] then None
      else first_error [rv_BackendErr v, rv_AdvertiserErr v, rv_ObserveErr v])"

definition reconcileLocked :: "'w env \<Rightarrow> bool \<Rightarrow> 'w service \<Rightarrow> goerr option \<times> 'w service" where
  "reconcileLocked e force s0 =
     (let (v, s1) = reconcile_effects e force s0;
          (saveErr, s2) = save_state e (tick (publish v (en_now e (sv_calls s1)) s1))
      in case saveErr of Some err \<Rightarrow> (Some err, s2) | None \<Rightarrow> (reconcile_error v, s2))"

section \<open>Updates and rollback\<close>

definition with_saved :: "Document \<Rightarrow> Config \<Rightarrow> StateDocument \<Rightarrow> 'w service \<Rightarrow> 'w service" where
  "with_saved d c st s = s\<lparr>sv_document := Document_Clone d, sv_config := Config_Clone c, sv_state := State_Clone st\<rparr>"

definition rollbackConfigUpdateLocked ::
  "'w env \<Rightarrow> Document \<Rightarrow> Config \<Rightarrow> StateDocument \<Rightarrow> goerr \<Rightarrow> 'w service \<Rightarrow> goerr option \<times> 'w service" where
  "rollbackConfigUpdateLocked e previousDocument previousConfig previousState updateErr s =
     (case reconcileLocked e True (with_saved previousDocument previousConfig previousState s) of
        (None, s1) \<Rightarrow> (Some updateErr, s1)
      | (Some rollbackErr, s1) \<Rightarrow>
          (case save_state e (with_saved previousDocument previousConfig previousState s1) of
             (Some err, s2) \<Rightarrow>
               (Some (WrapError [] updateErr (''; rollback failed: '' @ Error rollbackErr
                                              @ ''; restore state failed: '' @ Error err)), s2)
           | (None, s2) \<Rightarrow> (Some (WrapError [] updateErr (''; rollback failed: '' @ Error rollbackErr)), s2)))"

definition preserveDocumentStartupFields :: "Document \<Rightarrow> Document \<Rightarrow> Document" where
  "preserveDocumentStartupFields nextDocument currentDocument =
     (if sc_Port (doc_Server nextDocument) = 0
      then nextDocument\<lparr>doc_Server := (doc_Server nextDocument)\<lparr>sc_Port := sc_Port (doc_Server currentDocument)\<rparr>\<rparr>
      else nextDocument)"

definition UpdateConfigDocument :: "'w env \<Rightarrow> Document ptr \<Rightarrow> 'w service \<Rightarrow> goerr option \<times> 'w service" where
  "UpdateConfigDocument e document s =
     (case document of
        None \<Rightarrow> (Some (ErrorString ''config document is required''), s)
      | Some d \<Rightarrow>
          (let currentDocument = Document_Clone (sv_document s);
               currentConfig = Config_Clone (sv_config s);
               currentState = State_Clone (sv_state s)
           in case validated (preserveDocumentStartupFields (Document_Clone d) currentDocument) of
                Inl err \<Rightarrow> (Some err, s)
              | Inr updatedDocument \<Rightarrow>
                  (case ActiveConfig (Some updatedDocument) of
                     Inl err \<Rightarrow> (Some err, s)
                   | Inr updatedConfig \<Rightarrow>
                       (case reconcileLocked e False
                               (s\<lparr>sv_document := updatedDocument, sv_config := updatedConfig\<rparr>) of
                          (Some err, s1) \<Rightarrow>
                            rollbackConfigUpdateLocked e currentDocument currentConfig currentState err s1
                        | (None, s1) \<Rightarrow>
                            (case save_document e updatedDocument s1 of
                               (Some err, s2) \<Rightarrow>
                                 rollbackConfigUpdateLocked e currentDocument currentConfig currentState err s2
                             | (None, s2) \<Rightarrow> (None, s2))))))"

text \<open>
  \<open>mutateDocument\<close> and \<open>UpdateConfig\<close> copy the document under the lock, release it, and then call
  \<open>UpdateConfigDocument\<close>: the snapshot and the update are separate critical sections.
\<close>

definition document_snapshot :: "'w service \<Rightarrow> Document" where
  "document_snapshot s = Document_Clone (sv_document s)"

definition set_enabled :: "bool \<Rightarrow> Document \<Rightarrow> Document" where
  "set_enabled b d = d\<lparr>doc_TunnelEnabled := b\<rparr>"

text \<open>The service has its own copy of this helper, over the same loop.\<close>

definition replaceActiveProfileConfig :: "Document ptr \<Rightarrow> Config ptr \<Rightarrow> Document res" where
  "replaceActiveProfileConfig document cfg =
     (case document of
        None \<Rightarrow> Inl (ErrorString ''config document is required'')
      | Some d \<Rightarrow>
          (case cfg of
             None \<Rightarrow> Inl (ErrorString ''config is required'')
           | Some c \<Rightarrow>
               (case replace_first (doc_ActiveProfileID d) (stored_config c) (doc_Profiles d) of
                  None \<Rightarrow> Inl (profile_not_found (doc_ActiveProfileID d))
                | Some ps \<Rightarrow> Inr (d\<lparr>doc_Profiles := ps\<rparr>))))"

definition update_config_document :: "Config \<Rightarrow> Document \<Rightarrow> Document res" where
  "update_config_document cfg d =
     replaceActiveProfileConfig
       (Some (d\<lparr>doc_TunnelEnabled := tc_Enabled (cfg_Tunnel cfg), doc_Server := cfg_Server cfg\<rparr>)) (Some cfg)"

definition UpdateConfig :: "'w env \<Rightarrow> Config ptr \<Rightarrow> 'w service \<Rightarrow> goerr option \<times> 'w service" where
  "UpdateConfig e cfg s =
     (case cfg of
        None \<Rightarrow> (Some (ErrorString ''config is required''), s)
      | Some c \<Rightarrow>
          (case update_config_document c (document_snapshot s) of
             Inl err \<Rightarrow> (Some err, s)
           | Inr d \<Rightarrow> UpdateConfigDocument e (Some d) s))"

definition mutateDocument :: "'w env \<Rightarrow> (Document \<Rightarrow> Document) \<Rightarrow> 'w service \<Rightarrow> goerr option \<times> 'w service" where
  "mutateDocument e mutate s = UpdateConfigDocument e (Some (mutate (document_snapshot s))) s"

definition Up :: "'w env \<Rightarrow> 'w service \<Rightarrow> goerr option \<times> 'w service" where
  "Up e s = mutateDocument e (set_enabled True) s"

definition Down :: "'w env \<Rightarrow> 'w service \<Rightarrow> goerr option \<times> 'w service" where
  "Down e s = mutateDocument e (set_enabled False) s"

definition Restart :: "'w env \<Rightarrow> 'w service \<Rightarrow> goerr option \<times> 'w service" where
  "Restart e s = reconcileLocked e True s"

section \<open>Reading the service\<close>

definition GetConfig :: "'w service \<Rightarrow> Config" where
  "GetConfig s = Config_Clone (sv_config s)"

definition GetConfigDocument :: "'w service \<Rightarrow> Document" where
  "GetConfigDocument s =
     (case fst (Document_Validate (Some (Document_Clone (sv_document s)))) of None \<Rightarrow> sv_document s | Some d \<Rightarrow> d)"

definition CurrentToken :: "'w service \<Rightarrow> string" where
  "CurrentToken s = sc_AuthToken (doc_Server (sv_document s))"

definition Service_Status :: "'w service \<Rightarrow> Status" where
  "Service_Status s = CloneStatus (sv_state s)"

section \<open>Health checks\<close>

text \<open>What a health check sees while it does not hold the lock.\<close>

record health_view =
  hv_Config :: Config
  hv_Reasons :: "string list"
  hv_Observation :: Observation
  hv_ObserveErr :: "goerr option"
  hv_Result :: ProbeResult
  hv_ProbeTime :: Time

text \<open>The snapshot of the configuration, and then \<open>Observe\<close> and \<open>Probe\<close> on the backend.\<close>

definition health_observe :: "'w env \<Rightarrow> Config \<Rightarrow> 'w \<Rightarrow> nat \<Rightarrow> health_view \<times> 'w" where
  "health_observe e cfg w n =
     (let reasons = validationReasons (Config_Validate (Some cfg));
          ((ob, observeErr), w1) = be_Observe (en_backend e) (buildObserveInput cfg reasons) w;
          (result, probeTime, w2) =
            probe_now e (hc_Enabled (cfg_Health cfg) \<and> hc_Target (cfg_Health cfg) \<noteq> [])
              (hc_Target (cfg_Health cfg)) w1 n
      in (\<lparr>hv_Config = cfg, hv_Reasons = reasons, hv_Observation = observed ob, hv_ObserveErr = observeErr,
           hv_Result = result, hv_ProbeTime = probeTime\<rparr>, w2))"

definition health_reasons_after :: "health_view \<Rightarrow> string slice \<Rightarrow> string slice" where
  "health_reasons_after v reasons =
     (let cfg = hv_Config v;
          r1 = replaceManagedIPv6AddressReasons (managedIPv6AddressReasons (hv_Observation v)) reasons;
          r2 = appendErrorReason r1 (hv_ObserveErr v)
      in if hc_Enabled (cfg_Health cfg) then
           (if pb_PingOK (hv_Result v) then removeDegradedReason ReasonHealthProbeFailed r2
            else if tc_Enabled (cfg_Tunnel cfg) then append_reason r2 ReasonHealthProbeFailed else r2)
         else r2)"

definition health_status :: "health_view \<Rightarrow> Status \<Rightarrow> Status" where
  "health_status v st =
     (let st1 = (if hv_ObserveErr v = None
                 then st\<lparr>st_WANIPv4 := ob_WANIPv4 (hv_Observation v), st_TunnelUp := ob_TunnelUp (hv_Observation v)\<rparr>
                 else st);
          st2 = set_ping (hv_Result v) (hv_ProbeTime v) st1;
          degraded = health_reasons_after v (st_DegradedReasons st2);
          st3 = st2\<lparr>st_DegradedReasons := degraded\<rparr>;
          st4 = (if hv_ObserveErr v \<noteq> None \<or> hasMissingManagedIPv6Addresses (hv_Observation v)
                 then st3\<lparr>st_ReconcileState := ReconcileDegraded\<rparr> else st3)
      in st4\<lparr>st_LastError := firstReason (elems degraded)\<rparr>)"

text \<open>The second critical section.\<close>

definition health_commit :: "'w env \<Rightarrow> health_view \<Rightarrow> 'w service \<Rightarrow> Status res \<times> 'w service" where
  "health_commit e v s =
     (case save_state e (on_status (health_status v) s) of
        (Some err, s1) \<Rightarrow> (Inl err, s1)
      | (None, s1) \<Rightarrow> (Inr (Service_Status s1), s1))"

datatype recovery = NoRecovery | FullReconcile | LightRepair

definition health_recovery :: "bool \<Rightarrow> health_view \<Rightarrow> recovery" where
  "health_recovery allowAutoRestart v =
     (let cfg = hv_Config v
      in if allowAutoRestart \<and> hc_AutoRestart (cfg_Health cfg) \<and> tc_Enabled (cfg_Tunnel cfg) \<and> hv_Reasons v = []
         then (if hc_Enabled (cfg_Health cfg) \<and> \<not> pb_PingOK (hv_Result v) then FullReconcile
               else if hasMissingManagedIPv6Addresses (hv_Observation v) then LightRepair else NoRecovery)
         else NoRecovery)"

definition repair_effects :: "'w env \<Rightarrow> Config \<Rightarrow> 'w \<Rightarrow> (goerr option \<times> Observation \<times> goerr option) \<times> 'w" where
  "repair_effects e cfg w =
     (let (repairErr, w1) = be_RepairAddresses (en_backend e) (Some cfg) w;
          ((ob, observeErr), w2) = be_Observe (en_backend e) (buildObserveInput cfg []) w1
      in ((repairErr, observed ob, observeErr), w2))"

definition repair_status :: "goerr option \<Rightarrow> Observation \<Rightarrow> goerr option \<Rightarrow> Status \<Rightarrow> Status" where
  "repair_status repairErr observation observeErr st =
     (let r1 = replaceManagedIPv6AddressReasons (managedIPv6AddressReasons observation) (st_DegradedReasons st);
          r2 = appendErrorReason r1 repairErr;
          r3 = appendErrorReason r2 observeErr
      in st\<lparr>st_DegradedReasons := r3,
            st_ReconcileState :=
              (if repairErr = None \<and> observeErr = None \<and> \<not> hasMissingManagedIPv6Addresses observation
               then (if ob_TunnelUp observation \<and> elems r3 = [] then ReconcileReady else st_ReconcileState st)
               else ReconcileDegraded),
            st_LastError := firstReason (elems r3)\<rparr>)"

definition repairManagedAddresses :: "'w env \<Rightarrow> 'w service \<Rightarrow> goerr option \<times> 'w service" where
  "repairManagedAddresses e s =
     (let cfg = Config_Clone (sv_config s)
      in if Config_Validate (Some cfg) \<noteq> None \<or> \<not> tc_Enabled (cfg_Tunnel cfg) then (None, s)
         else
           (let ((repairErr, observation, observeErr), w) = repair_effects e cfg (sv_backend s);
                (saveErr, s1) = save_state e (on_status (repair_status repairErr observation observeErr)
                                                (s\<lparr>sv_backend := w\<rparr>))
            in (first_error [saveErr, repairErr, observeErr], s1)))"

text \<open>What follows the commit: a full reconcile, or a repair that falls back to one.\<close>

definition recover :: "'w env \<Rightarrow> recovery \<Rightarrow> Status \<Rightarrow> 'w service \<Rightarrow> Status res \<times> 'w service" where
  "recover e kind status s =
     (case kind of
        NoRecovery \<Rightarrow> (Inr status, s)
      | FullReconcile \<Rightarrow>
          (case reconcileLocked e True s of
             (Some err, s1) \<Rightarrow> (Inl err, s1) | (None, s1) \<Rightarrow> (Inr (Service_Status s1), s1))
      | LightRepair \<Rightarrow>
          (case repairManagedAddresses e s of
             (None, s1) \<Rightarrow> (Inr (Service_Status s1), s1)
           | (Some repairErr, s1) \<Rightarrow>
               (case reconcileLocked e True s1 of
                  (Some err, s2) \<Rightarrow> (Inl err, s2) | (None, s2) \<Rightarrow> (Inr (Service_Status s2), s2))))"

definition runHealthCheck :: "'w env \<Rightarrow> bool \<Rightarrow> 'w service \<Rightarrow> Status res \<times> 'w service" where
  "runHealthCheck e allowAutoRestart s =
     (let (v, w) = health_observe e (Config_Clone (sv_config s)) (sv_backend s) (sv_calls s)
      in case health_commit e v (tick (s\<lparr>sv_backend := w\<rparr>)) of
           (Inl err, s1) \<Rightarrow> (Inl err, s1)
         | (Inr status, s1) \<Rightarrow> recover e (health_recovery allowAutoRestart v) status s1)"

definition Service_Health :: "'w env \<Rightarrow> 'w service \<Rightarrow> Status res \<times> 'w service" where
  "Service_Health e s = runHealthCheck e False s"

section \<open>The health loop\<close>

text \<open>\<open>time.Duration\<close> is a 64-bit number of nanoseconds; the product wraps.\<close>

definition currentHealthInterval :: "'w service \<Rightarrow> 64 word" where
  "currentHealthInterval s =
     (let interval = word_of_int (hc_IntervalSec (cfg_Health (sv_config s))) * (1000000000 :: 64 word)
      in if sint interval < 5000000000 then 30000000000 else interval)"

definition shouldRetryReconcile :: "'w service \<Rightarrow> bool" where
  "shouldRetryReconcile s =
     (if \<not> doc_TunnelEnabled (sv_document s) then False
      else if st_ReconcileState (sd_Status (sv_state s)) = ReconcileReady then False
      else Config_Validate (Some (sv_config s)) = None)"

text \<open>One turn of \<open>healthLoop\<close> after its timer, whose results are dropped.\<close>

definition health_turn :: "'w env \<Rightarrow> 'w service \<Rightarrow> 'w service" where
  "health_turn e s =
     (if shouldRetryReconcile s then snd (reconcileLocked e True s) else snd (runHealthCheck e True s))"

section \<open>Starting and stopping\<close>

definition loadOrCreateConfigDocument ::
  "OS \<Rightarrow> string \<Rightarrow> fs \<Rightarrow> (Document \<times> Config) res \<times> fs list" where
  "loadOrCreateConfigDocument os path s =
     (case LoadDocument os s path of
        Inr document \<Rightarrow>
          (case ActiveConfig (Some document) of
             Inl err \<Rightarrow> (Inl err, [s]) | Inr cfg \<Rightarrow> (Inr (document, cfg), [s]))
      | Inl err \<Rightarrow>
          if \<not> is_not_exist err then (Inl err, [s])
          else (case Save os path (Some Defaults) s of
                  (ss, Some saveErr) \<Rightarrow> (Inl saveErr, ss)
                | (ss, None) \<Rightarrow> (Inr (DocumentFromConfig (Some Defaults) StorageFormatLegacy, Defaults), ss)))"

definition NewService :: "OS \<Rightarrow> string \<Rightarrow> string \<Rightarrow> 'w \<Rightarrow> ndp \<Rightarrow> fs \<Rightarrow> 'w service res \<times> fs list" where
  "NewService os configPath statePath backend w s =
     (if configPath = [] then (Inl (ErrorString ''config path is required''), [s])
      else if statePath = [] then (Inl (ErrorString ''state path is required''), [s])
      else (case loadOrCreateConfigDocument os configPath s of
              (Inl err, ss) \<Rightarrow> (Inl err, ss)
            | (Inr (document, cfg), ss) \<Rightarrow>
                (case LoadState os (last ss) statePath of
                   Inl err \<Rightarrow> (Inl err, ss)
                 | Inr state \<Rightarrow>
                     (Inr \<lparr>sv_configPath = configPath, sv_statePath = statePath, sv_document = document,
                           sv_config = cfg, sv_state = state, sv_advertiser = None, sv_backend = backend,
                           sv_ndp = w, sv_disks = rev ss, sv_calls = 0\<rparr>, ss))))"

text \<open>The reconcile of \<open>Start\<close>; the health loop it launches is the thread of \<open>HealthLoop\<close>.\<close>

definition Start :: "'w env \<Rightarrow> 'w service \<Rightarrow> goerr option \<times> 'w service" where
  "Start e s = reconcileLocked e False s"

text \<open>
  The critical section of \<open>Stop\<close>; closing the stop channel before it is a step of \<open>ServiceRuns\<close>, and what \<open>wg.Wait\<close> waits
  for is that the loop of \<open>HealthLoop\<close> has returned.
\<close>

definition Stop :: "'w service \<Rightarrow> 'w service" where
  "Stop s = stopAdvertiserLocked s"

end
