(* ===== verification/BackendFacts.thy ===== *)
theory BackendFacts
  imports Backend
begin

text \<open>
  What the backend does to the host: which commands each operation can emit, what it leaves out
  when it fails, and that gateways lie in their prefix.
\<close>

section \<open>Emitted events\<close>

text \<open>The second machine extends the trace of the first by events that satisfy \<open>P\<close>.\<close>

definition adds :: "(event \<Rightarrow> bool) \<Rightarrow> 'w machine \<Rightarrow> 'w machine \<Rightarrow> bool" where
  "adds P m m' \<longleftrightarrow> (\<exists>es. m_trace m' = m_trace m @ es \<and> list_all P es)"

definition emits :: "(event \<Rightarrow> bool) \<Rightarrow> ('w, 'a) act \<Rightarrow> bool" where
  "emits P a \<longleftrightarrow> (\<forall>m. adds P m (snd (a m)))"

definition emits_step :: "(event \<Rightarrow> bool) \<Rightarrow> ('w machine \<Rightarrow> 'w machine) \<Rightarrow> bool" where
  "emits_step P f \<longleftrightarrow> (\<forall>m. adds P m (f m))"

named_theorems emits_intro

lemma adds_refl [simp]: "adds P m m"
  by (simp add: adds_def)

lemma adds_trans: "adds P l m \<Longrightarrow> adds P m n \<Longrightarrow> adds P l n"
  by (auto simp: adds_def)

lemma adds_mono: "adds P m n \<Longrightarrow> (\<And>e. P e \<Longrightarrow> Q e) \<Longrightarrow> adds Q m n"
  by (auto simp: adds_def list_all_iff)

lemma CombinedOutput_trace:
  "CombinedOutput r argv m = (x, m') \<Longrightarrow> m_trace m' = m_trace m @ [Cmd argv]"
  by (auto simp: CombinedOutput_def split: prod.splits)

lemma adds_CombinedOutput: "CombinedOutput r argv m = (x, m') \<Longrightarrow> P (Cmd argv) \<Longrightarrow> adds P m m'"
  by (auto simp: adds_def dest: CombinedOutput_trace)

lemma emits_run [emits_intro]: "P (Cmd argv) \<Longrightarrow> emits P (run r argv)"
  by (auto simp: emits_def run_def split: prod.splits option.splits dest: adds_CombinedOutput)

lemma emits_retE [emits_intro]: "emits P (retE x)"
  by (simp add: emits_def retE_def)

lemma emits_bindE [emits_intro]: "emits P a \<Longrightarrow> (\<And>x. emits P (f x)) \<Longrightarrow> emits P (bindE a f)"
  unfolding emits_def bindE_def
  by (auto split: prod.splits sum.splits) (metis adds_trans snd_conv)+

lemma emits_thenE [emits_intro]: "emits P a \<Longrightarrow> emits P b \<Longrightarrow> emits P (thenE a b)"
  by (simp add: thenE_def emits_bindE)

lemma emits_afterwards [emits_intro]: "emits_step P f \<Longrightarrow> emits P a \<Longrightarrow> emits P (afterwards f a)"
  unfolding emits_def emits_step_def afterwards_def by (metis adds_trans)

lemma emits_runBestEffort [emits_intro]: "P (Cmd argv) \<Longrightarrow> emits_step P (runBestEffort r argv)"
  by (auto simp: emits_step_def runBestEffort_def intro: adds_CombinedOutput prod.collapse [symmetric])

lemma emits_sleep [emits_intro]: "P (Sleep ms) \<Longrightarrow> emits_step P (sleepFn ms)"
  by (auto simp: emits_step_def sleepFn_def adds_def)

lemma emits_sequence_all: "list_all (emits_step P) fs \<Longrightarrow> emits_step P (sequence_all fs)"
proof (induction fs)
  case Nil
  show ?case by (simp add: emits_step_def)
next
  case (Cons f fs)
  then show ?case by (auto simp: emits_step_def intro: adds_trans)
qed

lemma emits_id [emits_intro]: "emits_step P id"
  by (simp add: emits_step_def)

lemma emitsD: "emits P a \<Longrightarrow> a m = (x, m') \<Longrightarrow> adds P m m'"
  unfolding emits_def by (metis snd_conv)

section \<open>The commands of each operation\<close>

text \<open>\<open>ip -6 addr ...\<close>: the only commands of a repair.\<close>

fun address_event :: "event \<Rightarrow> bool" where
  "address_event (Cmd argv) = (take 3 argv = [''ip'', ''-6'', ''addr''])"
| "address_event (Sleep ms) = False"

text \<open>Commands that only read.\<close>

fun reading_event :: "event \<Rightarrow> bool" where
  "reading_event (Cmd argv) =
     (take 3 argv = [''ip'', ''link'', ''show''] \<or> take 4 argv = [''ip'', ''-4'', ''addr'', ''show'']
      \<or> take 4 argv = [''ip'', ''-6'', ''addr'', ''show''] \<or> take 4 argv = [''ip'', ''-6'', ''route'', ''get'']
      \<or> take 1 argv = [''ping''])"
| "reading_event (Sleep ms) = False"

text \<open>A firewall command.\<close>

fun firewall_event :: "event \<Rightarrow> bool" where
  "firewall_event (Cmd argv) = (take 1 argv = [''iptables''] \<or> take 1 argv = [''ip6tables''])"
| "firewall_event (Sleep ms) = False"

lemma emits_query [emits_intro]:
  assumes "P (Cmd [''ip'', ''-6'', ''addr'', ''show'', ''dev'', interfaceName])"
  shows "emits P (queryInterfaceIPv6Address r interfaceName prefixValue)"
  using assms adds_CombinedOutput
  by (fastforce simp: emits_def queryInterfaceIPv6Address_def split: sum.splits prod.splits option.splits)

lemma emits_ensure_address:
  assumes "P (Cmd [''ip'', ''-6'', ''addr'', ''show'', ''dev'', i])"
    "P (Cmd [''ip'', ''-6'', ''addr'', ''del'', p, ''dev'', i])" "P (Cmd [''ip'', ''-6'', ''addr'', ''add'', p, ''dev'', i])"
  shows "emits P (ensureIPv6AddressPresent r i p)"
  unfolding ensureIPv6AddressPresent_def
  by (rule emits_bindE; (rule emits_query assms)?)
     (auto split: ipv6AddressState.splits intro!: emits_intro assms)

lemma emits_repair_networks: "emits address_event (repair_networks r ns)"
  by (induction ns) (auto intro!: emits_intro emits_ensure_address)

lemma emits_RepairAddresses: "emits address_event (RepairAddresses r cfg)"
  by (auto simp: RepairAddresses_def split: option.splits
      intro!: emits_intro emits_ensure_address emits_repair_networks)

lemma emits_getWANIPv4: "P (Cmd [''ip'', ''-4'', ''addr'', ''show'', i]) \<Longrightarrow> emits P (getWANIPv4 r i)"
  using adds_CombinedOutput by (fastforce simp: emits_def getWANIPv4_def split: prod.splits option.splits)

lemma emits_getInterfaceMTU: "P (Cmd [''ip'', ''link'', ''show'', i]) \<Longrightarrow> emits P (getInterfaceMTU r i)"
  using adds_CombinedOutput by (fastforce simp: emits_def getInterfaceMTU_def split: prod.splits option.splits)

lemma emits_resolveTunnelMTU: "P (Cmd [''ip'', ''link'', ''show'', i]) \<Longrightarrow> emits P (resolveTunnelMTU r mtu i)"
  by (auto simp: resolveTunnelMTU_def Let_def intro!: emits_intro emits_getInterfaceMTU)

lemma emits_appendMissing: "emits reading_event (appendMissingIPv6Address r missing i p)"
  by (auto simp: appendMissingIPv6Address_def intro!: emits_intro)

lemma emits_missing_networks: "emits reading_event (missing_networks r missing ns)"
  by (induction ns arbitrary: missing) (auto intro!: emits_intro emits_appendMissing)

lemma emits_collect: "emits reading_event (collectMissingManagedIPv6Addresses r cfg)"
  by (auto simp: collectMissingManagedIPv6Addresses_def split: option.splits
      intro!: emits_intro emits_appendMissing emits_missing_networks)

lemma adds_case:
  "emits P a \<Longrightarrow> (\<And>x m'. adds P m' (snd (f x m'))) \<Longrightarrow> adds P m (snd (case a m of (x, m') \<Rightarrow> f x m'))"
  by (cases "a m") (auto dest: emitsD intro: adds_trans)

lemma emits_CombinedOutput [emits_intro]: "P (Cmd argv) \<Longrightarrow> emits P (CombinedOutput r argv)"
  unfolding emits_def by (metis adds_CombinedOutput prod.collapse)

lemma emits_observe_wan: "emits reading_event (observe_wan r wan)"
proof -
  have "adds reading_event m m'" if "getWANIPv4 r wan m = (x, m')" for m x m'
    using emits_getWANIPv4 [of reading_event wan r] emitsD that by force
  then show ?thesis unfolding emits_def observe_wan_def by (auto split: prod.splits sum.splits)
qed

lemma emits_Observe: "emits reading_event (Observe r inp)"
  unfolding emits_def Observe_def Let_def
  by (auto intro!: adds_case emits_intro emits_observe_wan emits_collect)

lemma emits_source: "emits reading_event (resolveProbeSourceAddress r target)"
  using adds_CombinedOutput
  by (fastforce simp: emits_def resolveProbeSourceAddress_def split: prod.splits option.splits sum.splits)

lemma emits_Probe: "emits reading_event (Probe r target)"
  unfolding emits_def Probe_def Let_def
  by (auto intro!: adds_case emits_intro emits_source)

section \<open>Teardown\<close>

lemma runBestEffort_trace [simp]: "m_trace (runBestEffort r argv m) = m_trace m @ [Cmd argv]"
  unfolding runBestEffort_def by (metis CombinedOutput_trace prod.collapse)

fun gateway_removals :: "NetworkStatus list \<Rightarrow> string list list" where
  "gateway_removals [] = []"
| "gateway_removals (n # ns) =
     (case gatewayForPrefix (ns_Prefix n) of
        Inl err \<Rightarrow> gateway_removals ns
      | Inr g \<Rightarrow> [''ip'', ''-6'', ''addr'', ''del'', g, ''dev'', ns_Interface n] # gateway_removals ns)"

text \<open>The commands of a teardown, all of them, in order: none depends on the outcome of another.\<close>

definition teardown_commands :: "AppliedState \<Rightarrow> string list list" where
  "teardown_commands a =
     [[''iptables'', ''-D'', ''INPUT'', ''-j'', iptablesChainInput],
      [''iptables'', ''-F'', iptablesChainInput], [''iptables'', ''-X'', iptablesChainInput],
      [''ip6tables'', ''-D'', ''FORWARD'', ''-j'', iptablesChainForward],
      [''ip6tables'', ''-F'', iptablesChainForward], [''ip6tables'', ''-X'', iptablesChainForward],
      [''ip6tables'', ''-t'', ''mangle'', ''-D'', ''FORWARD'', ''-j'', iptablesChainMSS],
      [''ip6tables'', ''-t'', ''mangle'', ''-F'', iptablesChainMSS],
      [''ip6tables'', ''-t'', ''mangle'', ''-X'', iptablesChainMSS]]
     @ gateway_removals (elems (ap_Networks a))
     @ (if ap_RemoteEndpoint a \<noteq> [] \<and> ap_WANInterface a \<noteq> []
        then [[''ip'', ''route'', ''del'', ap_RemoteEndpoint a @ ''/32'', ''dev'', ap_WANInterface a]] else [])
     @ [[''ip'', ''-6'', ''route'', ''del'', ''::/0'', ''dev'', InterfaceName],
        [''ip'', ''tunnel'', ''del'', InterfaceName]]"

lemma remove_gateways_trace:
  "m_trace (remove_gateways r ns m) = m_trace m @ map Cmd (gateway_removals ns)"
  by (induction ns arbitrary: m) (auto split: sum.splits)

lemma teardown_trace: "m_trace (teardown r a m) = m_trace m @ map Cmd (teardown_commands a)"
  by (simp add: teardown_def teardown_commands_def removeJump_def removeJumpTable_def
      remove_gateways_trace)

section \<open>Bringing the tunnel up\<close>

lemma run_Inr: "run r argv m = (Inr x, m') \<Longrightarrow> m_trace m' = m_trace m @ [Cmd argv]"
  by (auto simp: run_def split: prod.splits option.splits dest: CombinedOutput_trace)

lemma thenE_Inr:
  "thenE a b m = (Inr x, m'') \<Longrightarrow> \<exists>m'. a m = (Inr (), m') \<and> b m' = (Inr x, m'')"
  by (auto simp: thenE_def bindE_def split: prod.splits sum.splits)

definition other_event :: "event \<Rightarrow> bool" where
  "other_event e \<longleftrightarrow> \<not> firewall_event e"

lemma other_event_simps [simp]:
  "other_event (Cmd argv) = (take 1 argv \<noteq> [''iptables''] \<and> take 1 argv \<noteq> [''ip6tables''])"
  "other_event (Sleep ms)"
  by (simp_all add: other_event_def)

lemma four_runs:
  assumes "thenE (run r a) (thenE (run r b) (thenE (run r c) (thenE (run r d) rest))) m = (Inr x, m')"
  shows "\<exists>m4. m_trace m4 = m_trace m @ map Cmd [a, b, c, d] \<and> rest m4 = (Inr x, m')"
  using assms by (auto dest!: thenE_Inr run_Inr)

lemma emits_case:
  "emits P a \<Longrightarrow> (\<And>x m'. adds P m' (snd (f x m'))) \<Longrightarrow> emits P (\<lambda>m. case a m of (x, m') \<Rightarrow> f x m')"
  unfolding emits_def by (intro allI adds_case) (simp_all add: emits_def)

lemma emits_resetIPv6: "emits other_event (resetIPv6 r i)"
  by (auto simp: resetIPv6_def other_event_def intro!: emits_intro)

lemma emits_ensureLAN: "emits other_event (ensureLANInterfaceReady r i)"
proof -
  have "adds other_event m' (snd (resetIPv6 r i m'))" for m'
    using emits_resetIPv6 [of r i] by (simp add: emits_def)
  then show ?thesis
    unfolding ensureLANInterfaceReady_def
    by (intro emits_thenE emits_case emits_intro) (auto split: option.splits)
qed

lemma emits_setup_networks: "emits other_event (setup_networks r managed ns)"
  by (induction ns arbitrary: managed)
     (auto intro!: emits_intro emits_ensure_address emits_ensureLAN)

lemma emits_bring_up: "emits other_event (bring_up r c wanIP)"
  unfolding bring_up_def Let_def
  by (intro emits_afterwards emits_thenE emits_bindE emits_intro emits_ensure_address)
     (auto intro!: emits_intro emits_setup_networks)

definition tunnel_commands :: "Config \<Rightarrow> string \<Rightarrow> string list list" where
  "tunnel_commands c wanIP =
     [[''ip'', ''route'', ''replace'', tc_RemoteEndpoint (cfg_Tunnel c) @ ''/32'', ''dev'',
       sc_WANInterface (cfg_Server c), ''src'', wanIP],
      [''ip'', ''tunnel'', ''add'', InterfaceName, ''mode'', ''sit'', ''remote'', tc_RemoteEndpoint (cfg_Tunnel c),
       ''local'', wanIP, ''ttl'', Itoa (tc_TTL (cfg_Tunnel c))],
      [''ip'', ''link'', ''set'', InterfaceName, ''mtu'', Itoa (tc_MTU (cfg_Tunnel c))],
      [''ip'', ''link'', ''set'', InterfaceName, ''up'']]"

text \<open>A successful run starts with the commands that create the tunnel, in this order.\<close>

lemma bring_up_trace:
  assumes "bring_up r c wanIP m = (Inr x, m')"
  shows "\<exists>addresses lan args. buildDefaultRouteArgs (Some c) = Inr args
    \<and> m_trace m' = m_trace m @ map Cmd ([''modprobe'', ''sit''] # tunnel_commands c wanIP) @ addresses
        @ [Cmd [''sysctl'', ''-w'', ''net.ipv6.conf.all.forwarding=1'']] @ lan @ [Cmd (''ip'' # args)]
    \<and> list_all address_event addresses \<and> list_all other_event lan"
proof -
  let ?t = "cfg_Tunnel c"
  let ?lan = "if lan_Enabled (cfg_LAN c) then setup_networks r [] (elems (lan_Networks (cfg_LAN c))) else retE (Inr ())"
  let ?route = "bindE (retE (buildDefaultRouteArgs (Some c))) (\<lambda>args. run r (''ip'' # args))"
  have addr: "emits address_event (ensureIPv6AddressPresent r InterfaceName (tc_LocalIPv6 ?t))"
    by (rule emits_ensure_address) simp_all
  have lan: "emits other_event ?lan" by (auto intro!: emits_intro emits_setup_networks)
  obtain m4 m5 m6 m7 where m4: "m_trace m4 = m_trace m @ map Cmd ([''modprobe'', ''sit''] # tunnel_commands c wanIP)"
    and m5: "ensureIPv6AddressPresent r InterfaceName (tc_LocalIPv6 ?t) m4 = (Inr (), m5)"
    and m6: "run r [''sysctl'', ''-w'', ''net.ipv6.conf.all.forwarding=1''] m5 = (Inr (), m6)"
    and m7: "?lan m6 = (Inr (), m7)" "?route m7 = (Inr x, m')"
    using four_runs [OF assms [unfolded bring_up_def Let_def afterwards_def]]
    by (auto simp: tunnel_commands_def dest!: thenE_Inr)
  obtain args where "buildDefaultRouteArgs (Some c) = Inr args" "run r (''ip'' # args) m7 = (Inr x, m')"
    using m7(2) by (auto simp: bindE_def retE_def split: sum.splits)
  moreover obtain es where "m_trace m5 = m_trace m4 @ es" "list_all address_event es"
    using emitsD [OF addr m5] unfolding adds_def by blast
  moreover obtain ls where "m_trace m7 = m_trace m6 @ ls" "list_all other_event ls"
    using emitsD [OF lan m7(1)] unfolding adds_def by blast
  ultimately show ?thesis
    using m4 run_Inr [OF m6] run_Inr [of r "''ip'' # args" m7]
    by (intro exI [of _ es] exI [of _ ls] exI [of _ args]) simp
qed

text \<open>
  The firewall commands, in order.  A chain is created and emptied before its rules are added; the jump to it is
  checked, and inserted when the check fails, which depends on the host at that moment.
\<close>

definition jump_commands :: "'w runner \<Rightarrow> 'w \<Rightarrow> string list \<Rightarrow> string list \<Rightarrow> string list list" where
  "jump_commands r w check insertion = (if snd (fst (r check w)) = None then [check] else [check, insertion])"

definition firewall_commands :: "'w runner \<Rightarrow> 'w \<Rightarrow> 'w \<Rightarrow> 'w \<Rightarrow> string \<Rightarrow> string list list" where
  "firewall_commands r w1 w2 w3 wan =
     [[''iptables'', ''-N'', iptablesChainInput], [''iptables'', ''-F'', iptablesChainInput],
      [''iptables'', ''-A'', iptablesChainInput, ''-i'', wan, ''-p'', ''41'', ''-j'', ''ACCEPT'']]
     @ jump_commands r w1 [''iptables'', ''-C'', ''INPUT'', ''-j'', iptablesChainInput]
         [''iptables'', ''-I'', ''INPUT'', ''-j'', iptablesChainInput]
     @ [[''ip6tables'', ''-N'', iptablesChainForward], [''ip6tables'', ''-F'', iptablesChainForward],
        [''ip6tables'', ''-A'', iptablesChainForward, ''-i'', InterfaceName, ''-m'', ''state'', ''--state'',
         ''ESTABLISHED,RELATED'', ''-j'', ''ACCEPT''],
        [''ip6tables'', ''-A'', iptablesChainForward, ''-o'', InterfaceName, ''-j'', ''ACCEPT''],
        [''ip6tables'', ''-A'', iptablesChainForward, ''-i'', InterfaceName, ''-m'', ''state'', ''--state'', ''NEW'', ''-j'', ''DROP'']]
     @ jump_commands r w2 [''ip6tables'', ''-C'', ''FORWARD'', ''-j'', iptablesChainForward]
         [''ip6tables'', ''-I'', ''FORWARD'', ''-j'', iptablesChainForward]
     @ [[''ip6tables'', ''-t'', ''mangle'', ''-N'', iptablesChainMSS], [''ip6tables'', ''-t'', ''mangle'', ''-F'', iptablesChainMSS],
        [''ip6tables'', ''-t'', ''mangle'', ''-A'', iptablesChainMSS, ''-o'', InterfaceName, ''-p'', ''tcp'', ''--tcp-flags'', ''SYN,RST'',
         ''SYN'', ''-j'', ''TCPMSS'', ''--clamp-mss-to-pmtu'']]
     @ jump_commands r w3 [''ip6tables'', ''-t'', ''mangle'', ''-C'', ''FORWARD'', ''-j'', iptablesChainMSS]
         [''ip6tables'', ''-t'', ''mangle'', ''-I'', ''FORWARD'', ''-j'', iptablesChainMSS]"

lemma ensureJump_trace:
  "m_trace (ensureJump r b p t m) = m_trace m @ map Cmd (jump_commands r (m_world m) [b, ''-C'', p, ''-j'', t] [b, ''-I'', p, ''-j'', t])"
  by (auto simp: ensureJump_def jump_commands_def CombinedOutput_def runBestEffort_def split: prod.splits option.splits)

lemma ensureJumpTable_trace:
  "m_trace (ensureJumpTable r b tb p t m) =
     m_trace m @ map Cmd (jump_commands r (m_world m) [b, ''-t'', tb, ''-C'', p, ''-j'', t] [b, ''-t'', tb, ''-I'', p, ''-j'', t])"
  by (auto simp: ensureJumpTable_def jump_commands_def CombinedOutput_def runBestEffort_def split: prod.splits option.splits)

lemma setup_firewall_trace:
  "\<exists>w1 w2 w3. m_trace (setup_firewall r wan m) = m_trace m @ map Cmd (firewall_commands r w1 w2 w3 wan)"
  unfolding setup_firewall_def firewall_commands_def
  by (simp add: ensureJump_trace ensureJumpTable_trace) blast

section \<open>Reconciling\<close>

lemma resolveTunnelMTU_Inr:
  "resolveTunnelMTU r mtu i m = (Inr x, m') \<Longrightarrow> if 0 < mtu then x = mtu else minimumIPv6MTU \<le> x"
  by (auto simp: resolveTunnelMTU_def bindE_def retE_def Let_def split: prod.splits sum.splits if_splits)

lemma resolveTunnelMTU_adds: "resolveTunnelMTU r mtu i m = (x, m') \<Longrightarrow> adds other_event m m'"
  by (rule emitsD [OF emits_resolveTunnelMTU]) (simp_all add: other_event_def)

lemma getWANIPv4_adds: "getWANIPv4 r i m = (x, m') \<Longrightarrow> adds other_event m m'"
  by (rule emitsD [OF emits_getWANIPv4]) (simp_all add: other_event_def)

lemma Reconcile_idle:
  assumes "ri_Config inp = Some c" "\<not> ri_ConfigValid inp \<or> \<not> tc_Enabled (cfg_Tunnel c)"
  shows "Reconcile r inp m = ((None, Some c), teardown r (ri_Applied inp) m)"
  using assms by (auto simp: Reconcile_def)

text \<open>Only the MTU of the configuration changes.\<close>

definition with_MTU :: "int \<Rightarrow> Config \<Rightarrow> Config" where
  "with_MTU mtu c = c\<lparr>cfg_Tunnel := (cfg_Tunnel c)\<lparr>tc_MTU := mtu\<rparr>\<rparr>"

lemma with_MTU_same [simp]: "with_MTU (tc_MTU (cfg_Tunnel c)) c = c"
  by (simp add: with_MTU_def)

lemma Reconcile_steps:
  fixes r :: "'w runner" and m :: "'w machine" and inp :: ReconcileInput and c :: Config
  assumes "ri_Config inp = Some c" "ri_ConfigValid inp" "tc_Enabled (cfg_Tunnel c)"
  defines "wan \<equiv> sc_WANInterface (cfg_Server c)" and "m1 \<equiv> teardown r (ri_Applied inp) m"
  obtains (wan) err m2 where "getWANIPv4 r wan m1 = (Inl err, m2)"
      "Reconcile r inp m = ((Some err, Some c), m2)"
  | (mtu) wanIP m2 err m3 where "getWANIPv4 r wan m1 = (Inr wanIP, m2)"
      "resolveTunnelMTU r (tc_MTU (cfg_Tunnel c)) wan m2 = (Inl err, m3)"
      "Reconcile r inp m = ((Some err, Some c), m3)"
  | (up) wanIP m2 mtu m3 err m4 where "getWANIPv4 r wan m1 = (Inr wanIP, m2)"
      "resolveTunnelMTU r (tc_MTU (cfg_Tunnel c)) wan m2 = (Inr mtu, m3)"
      "bring_up r (with_MTU mtu c) wanIP m3 = (Inl err, m4)"
      "Reconcile r inp m = ((Some err, Some (with_MTU mtu c)), m4)"
  | (ok) wanIP m2 mtu m3 m4 where "getWANIPv4 r wan m1 = (Inr wanIP, m2)"
      "resolveTunnelMTU r (tc_MTU (cfg_Tunnel c)) wan m2 = (Inr mtu, m3)"
      "bring_up r (with_MTU mtu c) wanIP m3 = (Inr (), m4)"
      "Reconcile r inp m = ((None, Some (with_MTU mtu c)), setup_firewall r wan m4)"
proof -
  note R = Reconcile_def [of r inp m, unfolded with_MTU_def [symmetric]]
  obtain x2 m2 where g: "getWANIPv4 r wan m1 = (x2, m2)" by (rule prod.exhaust)
  show ?thesis
  proof (cases x2)
    case (Inl err)
    show ?thesis by (rule that(1)) (use assms g Inl in \<open>simp_all add: R Let_def\<close>)
  next
    case x2: (Inr wanIP)
    obtain x3 m3 where h: "resolveTunnelMTU r (tc_MTU (cfg_Tunnel c)) wan m2 = (x3, m3)" by (rule prod.exhaust)
    show ?thesis
    proof (cases x3)
      case (Inl err)
      show ?thesis by (rule that(2)) (use assms g h x2 Inl in \<open>simp_all add: R Let_def\<close>)
    next
      case x3: (Inr mtu)
      obtain x4 m4 where b: "bring_up r (with_MTU mtu c) wanIP m3 = (x4, m4)" by (rule prod.exhaust)
      have srv: "cfg_Server (with_MTU mtu c) = cfg_Server c" by (simp add: with_MTU_def)
      show ?thesis
      proof (cases x4)
        case (Inl err)
        show ?thesis by (rule that(3)) (use assms g h b x2 x3 Inl in \<open>simp_all add: R Let_def\<close>)
      next
        case (Inr u)
        show ?thesis by (rule that(4) [of wanIP m2 mtu m3 m4]) (use assms g h b x2 x3 Inr srv in \<open>simp_all add: R Let_def\<close>)
      qed
    qed
  qed
qed

lemma Reconcile_config:
  assumes "ri_Config inp = Some c" "Reconcile r inp m = ((e, c'), m')"
  shows "\<exists>mtu. c' = Some (with_MTU mtu c)"
proof (cases "ri_ConfigValid inp \<and> tc_Enabled (cfg_Tunnel c)")
  case True
  then have act: "ri_ConfigValid inp" "tc_Enabled (cfg_Tunnel c)" by simp_all
  have "c' = Some c \<or> (\<exists>mtu. c' = Some (with_MTU mtu c))"
    using assms(2) by (cases rule: Reconcile_steps [OF assms(1) act, of r m]) auto
  then show ?thesis using with_MTU_same [of c, symmetric] by blast
next
  case False
  then have "c' = Some c" using Reconcile_idle [OF assms(1), of r m] assms(2) by auto
  then show ?thesis using with_MTU_same [of c, symmetric] by blast
qed

lemma bring_up_adds: "bring_up r c w m = (x, m') \<Longrightarrow> adds other_event m m'"
  by (rule emitsD [OF emits_bring_up])

lemma Reconcile_failed:
  assumes "ri_Config inp = Some c" "Reconcile r inp m = ((Some err, c'), m')"
  shows "\<exists>es. m_trace m' = m_trace m @ map Cmd (teardown_commands (ri_Applied inp)) @ es \<and> list_all other_event es"
proof -
  have act: "ri_ConfigValid inp" "tc_Enabled (cfg_Tunnel c)"
    using assms Reconcile_idle [OF assms(1), of r m] by auto
  have "adds other_event (teardown r (ri_Applied inp) m) m'"
    using assms(2)
    by (cases rule: Reconcile_steps [OF assms(1) act, of r m])
       (simp_all, (blast dest: getWANIPv4_adds resolveTunnelMTU_adds bring_up_adds intro: adds_trans)+)
  then show ?thesis by (auto simp: adds_def teardown_trace)
qed

lemma Reconcile_done:
  assumes "ri_Config inp = Some c" "ri_ConfigValid inp" "tc_Enabled (cfg_Tunnel c)"
    "Reconcile r inp m = ((None, c'), m')"
  shows "\<exists>mtu wanIP args before addresses lan w1 w2 w3.
    c' = Some (with_MTU mtu c)
    \<and> (if 0 < tc_MTU (cfg_Tunnel c) then mtu = tc_MTU (cfg_Tunnel c) else minimumIPv6MTU \<le> mtu)
    \<and> buildDefaultRouteArgs (Some c) = Inr args
    \<and> m_trace m' = m_trace m @ map Cmd (teardown_commands (ri_Applied inp)) @ before
        @ map Cmd ([''modprobe'', ''sit''] # tunnel_commands (with_MTU mtu c) wanIP) @ addresses
        @ [Cmd [''sysctl'', ''-w'', ''net.ipv6.conf.all.forwarding=1'']] @ lan @ [Cmd (''ip'' # args)]
        @ map Cmd (firewall_commands r w1 w2 w3 (sc_WANInterface (cfg_Server c)))
    \<and> list_all reading_event before \<and> list_all address_event addresses \<and> list_all other_event lan"
proof -
  let ?m1 = "teardown r (ri_Applied inp) m" and ?wan = "sc_WANInterface (cfg_Server c)"
  obtain wanIP m2 mtu m3 m4 where s: "getWANIPv4 r ?wan ?m1 = (Inr wanIP, m2)"
    "resolveTunnelMTU r (tc_MTU (cfg_Tunnel c)) ?wan m2 = (Inr mtu, m3)"
    "bring_up r (with_MTU mtu c) wanIP m3 = (Inr (), m4)" "c' = Some (with_MTU mtu c)"
    "m' = setup_firewall r ?wan m4"
    using assms(4) by (cases rule: Reconcile_steps [OF assms(1-3), of r m]) auto
  have "adds reading_event ?m1 m2" by (rule emitsD [OF emits_getWANIPv4 s(1)]) simp
  moreover have "adds reading_event m2 m3" by (rule emitsD [OF emits_resolveTunnelMTU s(2)]) simp
  ultimately obtain before where b: "m_trace m3 = m_trace ?m1 @ before" "list_all reading_event before"
    using adds_trans unfolding adds_def by blast
  have route: "buildDefaultRouteArgs (Some (with_MTU mtu c)) = buildDefaultRouteArgs (Some c)"
    unfolding buildDefaultRouteArgs_def selectDefaultRouteSource_def by (simp add: with_MTU_def cong: sum.case_cong if_cong)
  obtain addresses lan args where a: "buildDefaultRouteArgs (Some c) = Inr args"
    "m_trace m4 = m_trace m3 @ map Cmd ([''modprobe'', ''sit''] # tunnel_commands (with_MTU mtu c) wanIP) @ addresses
        @ [Cmd [''sysctl'', ''-w'', ''net.ipv6.conf.all.forwarding=1'']] @ lan @ [Cmd (''ip'' # args)]"
    "list_all address_event addresses" "list_all other_event lan"
    using bring_up_trace [OF s(3)] unfolding route by blast
  obtain w1 w2 w3 where f: "m_trace m' = m_trace m4 @ map Cmd (firewall_commands r w1 w2 w3 ?wan)"
    using setup_firewall_trace [of r ?wan m4] s(5) by blast
  show ?thesis
    using resolveTunnelMTU_Inr [OF s(2)] s(4) a b f
    by (intro exI [of _ mtu] exI [of _ wanIP] exI [of _ args] exI [of _ before] exI [of _ addresses] exI [of _ lan]
        exI [of _ w1] exI [of _ w2] exI [of _ w3]) (simp add: teardown_trace)
qed

end
