(* ===== verification/StoreFacts.thy ===== *)
theory StoreFacts
  imports ConfigStore
begin

text \<open>
  What the store promises: a document that was saved loads again as the same document (up to
  the cached validation results and the unused per-profile flag), a legacy update touches only
  the active profile, and every document that is parsed from the profiles format is valid.
\<close>

section \<open>Values that JSON keeps\<close>

text \<open>Strings in valid UTF-8 and integers in the range of \<open>int\<close>.\<close>

definition storable_tunnel :: "TunnelConfig \<Rightarrow> bool" where
  "storable_tunnel t \<longleftrightarrow> utf8_valid (tc_Broker t) \<and> utf8_valid (tc_RemoteEndpoint t)
     \<and> utf8_valid (tc_LocalIPv6 t) \<and> utf8_valid (tc_RemoteIPv6 t)
     \<and> in_int64 (tc_TTL t) \<and> in_int64 (tc_MTU t)"

definition storable_lan :: "LANConfig \<Rightarrow> bool" where
  "storable_lan l \<longleftrightarrow> list_all utf8_valid (elems (lan_DNS l)) \<and> utf8_valid (lan_Mode l)
     \<and> list_all (\<lambda>n. utf8_valid (nc_Interface n) \<and> utf8_valid (nc_Prefix n) \<and> utf8_valid (nc_Comment n))
         (elems (lan_Networks l))"

definition storable_health :: "HealthConfig \<Rightarrow> bool" where
  "storable_health h \<longleftrightarrow> in_int64 (hc_IntervalSec h) \<and> utf8_valid (hc_Target h)"

definition storable_server :: "ServerConfig \<Rightarrow> bool" where
  "storable_server s \<longleftrightarrow> in_int64 (sc_Port s) \<and> utf8_valid (sc_WANInterface s) \<and> utf8_valid (sc_AuthToken s)"

definition storable_profile_config :: "ProfileConfig \<Rightarrow> bool" where
  "storable_profile_config c \<longleftrightarrow>
     storable_tunnel (pc_Tunnel c) \<and> storable_lan (pc_LAN c) \<and> storable_health (pc_Health c)"

definition storable_profile :: "Profile \<Rightarrow> bool" where
  "storable_profile p \<longleftrightarrow> utf8_valid (pr_ID p) \<and> utf8_valid (pr_Name p) \<and> storable_profile_config (pr_Config p)"

definition storable_config :: "Config \<Rightarrow> bool" where
  "storable_config c \<longleftrightarrow> storable_profile_config (profile_part c) \<and> storable_server (cfg_Server c)"

definition storable :: "Document \<Rightarrow> bool" where
  "storable d \<longleftrightarrow> utf8_valid (doc_ActiveProfileID d) \<and> list_all storable_profile (doc_Profiles d)
     \<and> storable_server (doc_Server d)"

lemmas storable_defs = storable_tunnel_def storable_lan_def storable_health_def storable_server_def

section \<open>Decoding what was encoded\<close>

lemma decode_int_encode [simp]: "in_int64 i \<Longrightarrow> decode_int (encode_int i) x = Some i"
  by (simp add: decode_int_def encode_int_def Atoi_Itoa)

lemma json_ok_int [simp]: "json_ok (encode_int i)"
  by (auto simp: encode_int_def)

lemma encode_int_not_null [simp]: "encode_int i \<noteq> JNull"
  by (simp add: encode_int_def)

lemma decode_prim [simp]:
  "decode_bool (JBool b) x = Some b" "decode_string (JStr s) y = Some s"
  by (simp_all add: decode_bool_def decode_string_def)

lemma decode_list_encode:
  assumes "\<And>x old. x \<in> set xs \<Longrightarrow> dec (enc x) old = Some x"
  shows "decode_list zero dec (map enc xs) olds = Some xs"
  using assms by (induction xs arbitrary: olds) auto

lemma decode_slice_encode:
  "(\<And>x old. x \<in> set (elems s) \<Longrightarrow> dec (enc x) old = Some x)
   \<Longrightarrow> decode_slice zero dec (encode_slice enc s) t = Some s"
  by (cases s) (simp_all add: decode_slice_def encode_slice_def decode_list_encode)

lemma json_ok_slice: "(\<And>x. x \<in> set (elems s) \<Longrightarrow> json_ok (enc x)) \<Longrightarrow> json_ok (encode_slice enc s)"
  by (cases s) (auto simp: encode_slice_def)

lemma decode_struct_JObj: "decode_struct tbl (JObj ms) x = decode_members tbl ms x"
  by (simp add: decode_struct_def)

lemmas decode_simps = decode_struct_JObj field_for_def decode_field_def decode_ptr_def encode_ptr_def

lemma decode_tunnel [simp]:
  "storable_tunnel t \<Longrightarrow> decode_struct tunnel_fields (encode_tunnel t) t0 = Some t"
  by (simp add: decode_simps tunnel_fields_def encode_tunnel_def storable_tunnel_def)

lemma decode_network [simp]: "decode_struct network_fields (encode_network n) n0 = Some n"
  by (simp add: decode_simps network_fields_def encode_network_def)

lemma decode_lan [simp]:
  "decode_struct lan_fields (encode_lan l) l0 = Some l"
  by (simp add: decode_simps lan_fields_def encode_lan_def decode_slice_encode)

lemma decode_health [simp]:
  "storable_health h \<Longrightarrow> decode_struct health_fields (encode_health h) h0 = Some h"
  by (simp add: decode_simps health_fields_def encode_health_def storable_health_def)

lemma decode_server [simp]:
  "storable_server s \<Longrightarrow> decode_struct server_fields (encode_server s) s0 = Some s"
  by (simp add: decode_simps server_fields_def encode_server_def storable_server_def)

lemma decode_config:
  "storable_config c \<Longrightarrow> decode_struct config_fields (encode_config c) c0 = Some c"
  by (simp add: decode_simps config_fields_def encode_config_def storable_config_def
      storable_profile_config_def profile_part_def)

lemma decode_raw_tunnel:
  "storable_tunnel t \<Longrightarrow> \<exists>r. decode_struct raw_tunnel_fields (encode_tunnel t) r0 = Some r
     \<and> rt_Enabled r = Some (tc_Enabled t)"
  by (simp add: decode_simps raw_tunnel_fields_def encode_tunnel_def storable_tunnel_def)

lemma decode_raw_of_server:
  "storable_server s \<Longrightarrow> \<exists>r. decode_struct raw_server_fields (encode_server s) r0 = Some r
     \<and> rs_Port r = Some (sc_Port s)"
  by (simp add: decode_simps raw_server_fields_def encode_server_def storable_server_def)

lemma decode_raw_config:
  assumes "storable_config c"
  shows "\<exists>raw. decode_struct raw_config_fields (encode_config c) r0 = Some raw
     \<and> rt_Enabled (raw_Tunnel raw) = Some (tc_Enabled (cfg_Tunnel c))
     \<and> rs_Port (raw_Server raw) = Some (sc_Port (cfg_Server c))"
proof -
  have s: "storable_tunnel (cfg_Tunnel c)" "storable_health (cfg_Health c)" "storable_server (cfg_Server c)"
    using assms by (simp_all add: storable_config_def storable_profile_config_def profile_part_def)
  obtain t r where "decode_struct raw_tunnel_fields (encode_tunnel (cfg_Tunnel c)) (raw_Tunnel r0) = Some t"
    "rt_Enabled t = Some (tc_Enabled (cfg_Tunnel c))"
    "decode_struct raw_server_fields (encode_server (cfg_Server c)) (raw_Server r0) = Some r"
    "rs_Port r = Some (sc_Port (cfg_Server c))"
    using decode_raw_tunnel [OF s(1)] decode_raw_of_server [OF s(3)] by blast
  then show ?thesis
    using s by (simp add: decode_simps raw_config_fields_def encode_config_def)
qed

lemma decode_raw_server:
  "rs_Port s = Some p \<Longrightarrow> in_int64 p
   \<Longrightarrow> decode_struct raw_server_fields (encode_raw_server s) r0 = Some s"
  by (simp add: decode_simps raw_server_fields_def encode_raw_server_def)

lemma decode_profile_tunnel [simp]:
  "in_int64 (rpt_TTL t) \<Longrightarrow> in_int64 (rpt_MTU t)
   \<Longrightarrow> decode_struct profile_tunnel_fields (encode_profile_tunnel t) t0 = Some t"
  by (simp add: decode_simps profile_tunnel_fields_def encode_profile_tunnel_def)

lemma decode_profile_config [simp]:
  "in_int64 (rpt_TTL (rpc_Tunnel c)) \<Longrightarrow> in_int64 (rpt_MTU (rpc_Tunnel c)) \<Longrightarrow> storable_health (rpc_Health c)
   \<Longrightarrow> decode_struct profile_config_fields (encode_profile_config c) c0 = Some c"
  by (simp add: decode_simps profile_config_fields_def encode_profile_config_def)

lemma decode_raw_profile:
  "storable_profile p
   \<Longrightarrow> decode_struct profile_fields (encode_raw_profile (raw_of_profile p)) r0 = Some (raw_of_profile p)"
  by (simp add: decode_simps profile_fields_def encode_raw_profile_def raw_of_profile_def Let_def
      storable_profile_def storable_profile_config_def storable_tunnel_def)

lemma decode_raw_document:
  assumes "storable d"
  shows "decode_struct document_fields (encode_raw_document (buildRawProfileDocument d)) r0
     = Some (buildRawProfileDocument d)"
proof -
  have "decode_slice zero_raw_profile (decode_struct profile_fields)
     (encode_slice encode_raw_profile (Some (map raw_of_profile (doc_Profiles d)))) x
     = Some (Some (map raw_of_profile (doc_Profiles d)))" for x
    using assms
    by (intro decode_slice_encode) (auto simp: storable_def list_all_iff decode_raw_profile)
  moreover have "in_int64 (sc_Port (doc_Server d))"
    using assms by (simp add: storable_def storable_server_def)
  ultimately show ?thesis
    by (simp add: decode_simps document_fields_def encode_raw_document_def buildRawProfileDocument_def
        decode_raw_server)
qed

lemma decode_lan_none [simp]: "decode_list zero (\<lambda>v x. Some v) vs olds = Some vs"
  by (induction vs arbitrary: olds) auto

text \<open>The probe recognises what \<open>SaveDocument\<close> writes, in both formats.\<close>

lemma decode_probe_document:
  "\<exists>ps. decode_struct probe_fields (encode_raw_document (buildRawProfileDocument d)) zero_probe
     = Some \<lparr>fp_TunnelEnabled = Some (doc_TunnelEnabled d), fp_ActiveProfileID = doc_ActiveProfileID d,
             fp_Profiles = ps\<rparr>"
  by (simp add: decode_simps probe_fields_def encode_raw_document_def buildRawProfileDocument_def
      decode_slice_def encode_slice_def zero_probe_def)

lemma decode_probe_config:
  "decode_struct probe_fields (encode_config c) zero_probe = Some zero_probe"
  by (simp add: decode_simps probe_fields_def encode_config_def)

section \<open>What is printed can be parsed\<close>

lemma ascii_names [simp]: "list_all (\<lambda>c. (of_char c :: nat) < 0x80) k \<Longrightarrow> utf8_valid k"
  by (rule ascii_utf8_valid)

lemma json_ok_parts [simp]:
  "storable_tunnel t \<Longrightarrow> json_ok (encode_tunnel t)"
  "storable_health h \<Longrightarrow> json_ok (encode_health h)"
  "storable_server s \<Longrightarrow> json_ok (encode_server s)"
  by (simp_all add: encode_tunnel_def encode_health_def encode_server_def storable_defs
      del: utf8_valid.simps)

lemma json_ok_lan [simp]: "storable_lan l \<Longrightarrow> json_ok (encode_lan l)"
  by (simp add: encode_lan_def encode_network_def storable_lan_def list_all_iff json_ok_slice
      del: utf8_valid.simps)

lemma json_ok_config: "storable_config c \<Longrightarrow> json_ok (encode_config c)"
  by (simp add: encode_config_def storable_config_def storable_profile_config_def profile_part_def
      del: utf8_valid.simps)

lemma json_ok_raw_profile: "storable_profile p \<Longrightarrow> json_ok (encode_raw_profile (raw_of_profile p))"
  by (simp add: encode_raw_profile_def raw_of_profile_def storable_profile_def Let_def
      storable_profile_config_def encode_profile_config_def encode_profile_tunnel_def storable_tunnel_def
      del: utf8_valid.simps)

lemma json_ok_document:
  assumes "storable d" shows "json_ok (encode_raw_document (buildRawProfileDocument d))"
proof -
  have "json_ok (encode_slice encode_raw_profile (Some (map raw_of_profile (doc_Profiles d))))"
    using assms by (auto intro!: json_ok_slice json_ok_raw_profile simp: storable_def list_all_iff)
  then show ?thesis
    using assms by (simp add: encode_raw_document_def buildRawProfileDocument_def storable_def encode_ptr_def
      storable_server_def encode_raw_server_def del: utf8_valid.simps)
qed

lemma Unmarshal_Marshal:
  "json_ok v \<Longrightarrow> dec v x = Some y \<Longrightarrow> Unmarshal dec (MarshalIndent v) x = Inr y"
  by (simp add: Unmarshal_def parse_MarshalIndent)

section \<open>Saving and loading\<close>

lemma normalize_Clone [simp]: "normalize (Document_Clone d) = normalize d"
  by (simp add: normalize_def Document_Clone_def Document_applyDefaults_def refreshProfileValidation_def
      Profile_clone_def comp_def refresh_profile_def Let_def)

lemma normalize_applyDefaults [simp]: "normalize (Document_applyDefaults d) = normalize d"
  by (simp add: normalize_def)

lemma validated_eq:
  "validated d = (if document_valid (Document_applyDefaults d) then Inr (normalize d)
                  else Inl (ValidationError (document_reasons (normalize d))))"
  by (simp add: validated_def Document_Validate_def normalize_def document_reasons_refresh)

lemma document_valid_normalize [simp]: "document_valid (normalize d) = document_valid (Document_applyDefaults d)"
  by (simp add: normalize_def)

lemma document_valid_Clone [simp]:
  "document_valid (Document_applyDefaults (Document_Clone d)) = document_valid (Document_applyDefaults d)"
  using document_valid_normalize [of d] document_valid_normalize [of "Document_Clone d"] by simp

text \<open>The document that a saved document loads as.\<close>

definition drop_flag :: "Profile \<Rightarrow> Profile" where
  "drop_flag p = p\<lparr>pr_Config := (pr_Config p)\<lparr>pc_Tunnel := (pc_Tunnel (pr_Config p))\<lparr>tc_Enabled := False\<rparr>\<rparr>\<rparr>"

definition stored :: "Document \<Rightarrow> Document" where
  "stored d =
     (let n = normalize d
      in n\<lparr>doc_StorageFormat := (if shouldSaveLegacy n then StorageFormatLegacy else StorageFormatProfiles),
           doc_Profiles := map drop_flag (doc_Profiles n)\<rparr>)"

lemma storable_defaults [simp]:
  "storable_tunnel t \<Longrightarrow> storable_tunnel (default_tunnel t)"
  "storable_lan l \<Longrightarrow> storable_lan (default_lan l)"
  "storable_health h \<Longrightarrow> storable_health (default_health h)"
  "storable_server s \<Longrightarrow> storable_server (default_server s)"
  by (auto simp: storable_defs default_tunnel_def default_lan_def default_health_def default_server_def
      normalizeBroker_def go_const in_int64_def int64_min_def int64_max_def)

lemma storable_normalize: "storable d \<Longrightarrow> storable (normalize d)"
  by (auto simp: storable_def normalize_def refreshProfileValidation_def Document_applyDefaults_def
      list_all_iff storable_profile_def storable_profile_config_def ProfileConfig_applyDefaults_def
      defaultProfileID_def)

lemma drop_flag_raw:
  "profile_of_raw (raw_of_profile p) = (drop_flag p)\<lparr>pr_IsValid := False, pr_ValidationErrors := None\<rparr>"
  by (simp add: profile_of_raw_def raw_of_profile_def drop_flag_def Let_def)

text \<open>What \<open>parseProfilesDocument\<close> assembles from a document that was normalized before saving.\<close>

definition rebuilt :: "Document \<Rightarrow> Document" where
  "rebuilt n = n\<lparr>doc_StorageFormat := StorageFormatProfiles,
     doc_Profiles := map (profile_of_raw \<circ> raw_of_profile) (doc_Profiles n)\<rparr>"

lemma drop_flag_simps [simp]:
  "pr_ID (drop_flag p) = pr_ID p" "pr_Name (drop_flag p) = pr_Name p"
  "profile_valid (pr_Config (drop_flag p)) en = profile_valid (pr_Config p) en"
  "validateProfileConfig (pr_Config (drop_flag p)) en = validateProfileConfig (pr_Config p) en"
  "ProfileConfig_applyDefaults (pr_Config (drop_flag p)) =
     pr_Config (drop_flag (p\<lparr>pr_Config := ProfileConfig_applyDefaults (pr_Config p)\<rparr>))"
  by (simp_all add: drop_flag_def ProfileConfig_applyDefaults_def default_tunnel_Enabled)

lemma normalize_profile:
  "p \<in> set (doc_Profiles (normalize d)) \<Longrightarrow> ProfileConfig_applyDefaults (pr_Config p) = pr_Config p"
  by (auto simp: normalize_def refreshProfileValidation_def Document_applyDefaults_def)

lemma normalize_profile_refreshed:
  "p \<in> set (doc_Profiles (normalize d)) \<Longrightarrow> refresh_profile (normalize d) p = p"
  by (auto simp: normalize_def refreshProfileValidation_def refresh_profile_def Let_def)

lemma normalize_fields [simp]:
  "default_server (doc_Server (normalize d)) = doc_Server (normalize d)"
  "\<not> blank (doc_ActiveProfileID (normalize d))"
  by (simp_all add: normalize_def Document_applyDefaults_def)

lemma rebuilt_defaults: "Document_applyDefaults (rebuilt (normalize d)) = rebuilt (normalize d)"
proof -
  have "q\<lparr>pr_Config := ProfileConfig_applyDefaults (pr_Config q)\<rparr> = q"
    if "q \<in> set (doc_Profiles (rebuilt (normalize d)))" for q
    using that by (auto simp: rebuilt_def drop_flag_raw normalize_profile)
  then have "map (\<lambda>q. q\<lparr>pr_Config := ProfileConfig_applyDefaults (pr_Config q)\<rparr>)
      (doc_Profiles (rebuilt (normalize d))) = doc_Profiles (rebuilt (normalize d))"
    by (intro map_idI)
  then show ?thesis
    by (simp add: Document_applyDefaults_def rebuilt_def)
qed

lemma rebuilt_refresh:
  "refreshProfileValidation (rebuilt (normalize d)) =
     (normalize d)\<lparr>doc_StorageFormat := StorageFormatProfiles,
                   doc_Profiles := map drop_flag (doc_Profiles (normalize d))\<rparr>"
proof -
  let ?n = "normalize d"
  have "refresh_profile (rebuilt ?n) ((drop_flag p)\<lparr>pr_IsValid := False, pr_ValidationErrors := None\<rparr>)
     = drop_flag (refresh_profile ?n p)" for p
    by (simp add: refresh_profile_def Let_def rebuilt_def drop_flag_def)
  then have "refresh_profile (rebuilt ?n) ((profile_of_raw \<circ> raw_of_profile) p) = drop_flag p"
    if "p \<in> set (doc_Profiles ?n)" for p
    using normalize_profile_refreshed [OF that] by (simp add: drop_flag_raw)
  then have "map (refresh_profile (rebuilt ?n)) (doc_Profiles (rebuilt ?n)) = map drop_flag (doc_Profiles ?n)"
    by (simp add: rebuilt_def)
  then show ?thesis
    by (simp add: refreshProfileValidation_def) (simp add: rebuilt_def)
qed

lemma rebuilt_valid: "document_valid (rebuilt (normalize d)) = document_valid (Document_applyDefaults d)"
proof -
  have "document_valid (rebuilt (normalize d)) = document_valid (refreshProfileValidation (rebuilt (normalize d)))"
    by simp
  also have "\<dots> = document_valid (normalize d)"
    unfolding rebuilt_refresh by (simp add: document_valid_def Let_def comp_def)
  finally show ?thesis by simp
qed

lemma document_eta:
  fixes x n :: Document
  shows "x\<lparr>doc_StorageFormat := f, doc_TunnelEnabled := doc_TunnelEnabled n, doc_ActiveProfileID := doc_ActiveProfileID n,
     doc_Server := \<lparr>sc_Port = sc_Port (doc_Server n), sc_WANInterface = sc_WANInterface (doc_Server n),
                    sc_AuthToken = sc_AuthToken (doc_Server n)\<rparr>, doc_Profiles := ps\<rparr>
   = n\<lparr>doc_StorageFormat := f, doc_Profiles := ps\<rparr>"
  by (cases x; cases n; cases "doc_Server n") simp

lemma parse_built:
  assumes "Unmarshal (decode_struct document_fields) data zero_raw_document = Inr (buildRawProfileDocument (normalize d))"
    "document_valid (Document_applyDefaults d)"
  shows "parseProfilesDocument data
     = Inr ((normalize d)\<lparr>doc_StorageFormat := StorageFormatProfiles,
                          doc_Profiles := map drop_flag (doc_Profiles (normalize d))\<rparr>)"
proof -
  let ?n = "normalize d"
  have "parseProfilesDocument data = validated (Document_applyDefaults (rebuilt ?n))"
    unfolding parseProfilesDocument_def assms(1)
    by (simp add: Let_def buildRawProfileDocument_def rebuilt_def comp_def document_eta)
  also have "\<dots> = Inr (normalize (rebuilt ?n))"
    using assms(2) by (simp add: validated_eq rebuilt_defaults rebuilt_valid)
  finally show ?thesis
    by (simp add: normalize_def [of "rebuilt ?n"] rebuilt_defaults rebuilt_refresh)
qed

lemma parse_build:
  assumes "storable d" "document_valid (Document_applyDefaults d)"
  shows "parseProfilesDocument (MarshalIndent (encode_raw_document (buildRawProfileDocument (normalize d))))
     = Inr ((normalize d)\<lparr>doc_StorageFormat := StorageFormatProfiles,
                          doc_Profiles := map drop_flag (doc_Profiles (normalize d))\<rparr>)"
  by (intro parse_built assms(2) Unmarshal_Marshal json_ok_document decode_raw_document storable_normalize assms(1))

text \<open>The legacy format.\<close>

lemma parse_legacy_encoded:
  assumes "storable_config c" "Config_applyDefaults c = c"
  shows "parseLegacyConfig (MarshalIndent (encode_config c)) = Inr c"
proof -
  obtain raw where raw: "decode_struct raw_config_fields (encode_config c) zero_raw_config = Some raw"
    "rt_Enabled (raw_Tunnel raw) = Some (tc_Enabled (cfg_Tunnel c))"
    using decode_raw_config [OF assms(1)] by blast
  have "Unmarshal (decode_struct config_fields) (MarshalIndent (encode_config c)) Defaults = Inr c"
    "Unmarshal (decode_struct raw_config_fields) (MarshalIndent (encode_config c)) zero_raw_config = Inr raw"
    using assms(1) raw(1) by (auto intro!: Unmarshal_Marshal json_ok_config decode_config)
  with raw(2) assms(2) show ?thesis
    by (simp add: parseLegacyConfig_def applyLegacyTunnelEnabled_def)
qed

lemma not_profiles_format:
  assumes "storable_config c" shows "\<not> isProfilesFormat (MarshalIndent (encode_config c))"
proof -
  have "Unmarshal (decode_struct probe_fields) (MarshalIndent (encode_config c)) zero_probe = Inr zero_probe"
    by (intro Unmarshal_Marshal json_ok_config assms decode_probe_config)
  then show ?thesis by (simp add: isProfilesFormat_def) (simp add: zero_probe_def)
qed

lemma profiles_format:
  assumes "storable d"
  shows "isProfilesFormat (MarshalIndent (encode_raw_document (buildRawProfileDocument d)))"
proof -
  obtain ps where "decode_struct probe_fields (encode_raw_document (buildRawProfileDocument d)) zero_probe
     = Some \<lparr>fp_TunnelEnabled = Some (doc_TunnelEnabled d), fp_ActiveProfileID = doc_ActiveProfileID d,
             fp_Profiles = ps\<rparr>"
    using decode_probe_document by blast
  from Unmarshal_Marshal [OF json_ok_document [OF assms], of "decode_struct probe_fields", OF this]
  show ?thesis by (simp add: isProfilesFormat_def)
qed

lemma legacy_shape:
  assumes "shouldSaveLegacy d"
  obtains p where "doc_StorageFormat d = StorageFormatLegacy" "doc_Profiles d = [p]"
    "doc_ActiveProfileID d = defaultProfileID" "pr_ID p = defaultProfileID" "pr_Name p = defaultProfileName"
  using assms that by (auto simp: shouldSaveLegacy_def split: if_splits list.splits)

lemma legacy_config:
  assumes "shouldSaveLegacy (normalize d)"
  shows "\<exists>c. ActiveConfig (Some (normalize d)) = Inr c \<and> Config_applyDefaults c = c
    \<and> (storable d \<longrightarrow> storable_config c)
    \<and> refreshProfileValidation (DocumentFromConfig (Some c) StorageFormatLegacy) = stored d"
proof -
  let ?n = "normalize d"
  obtain p where p: "doc_StorageFormat ?n = StorageFormatLegacy" "doc_Profiles ?n = [p]"
    "doc_ActiveProfileID ?n = defaultProfileID" "pr_ID p = defaultProfileID" "pr_Name p = defaultProfileName"
    using legacy_shape [OF assms] by blast
  let ?pc = "pr_Config p" and ?en = "doc_TunnelEnabled ?n"
  let ?c = "\<lparr>cfg_Tunnel = (pc_Tunnel ?pc)\<lparr>tc_Enabled := ?en\<rparr>, cfg_LAN = pc_LAN ?pc,
             cfg_Health = pc_Health ?pc, cfg_Server = doc_Server ?n\<rparr>"
  have "ProfileConfig_applyDefaults ?pc = ?pc" using normalize_profile [of p d] p(2) by simp
  then have same: "default_tunnel (pc_Tunnel ?pc) = pc_Tunnel ?pc" "default_lan (pc_LAN ?pc) = pc_LAN ?pc"
    "default_health (pc_Health ?pc) = pc_Health ?pc"
    by (cases ?pc; simp add: ProfileConfig_applyDefaults_def)+
  have c: "ActiveConfig (Some ?n) = Inr ?c" "Config_applyDefaults ?c = ?c"
    using p same by (simp_all add: ActiveConfig_def ActiveProfile_def Profile_clone_def ProfileConfig_clone_def
        Config_applyDefaults_def default_tunnel_Enabled)
  have "storable d \<Longrightarrow> storable_config ?c"
    using storable_normalize [of d] p(2)
    by (simp add: storable_def storable_config_def storable_profile_def storable_profile_config_def
        profile_part_def storable_tunnel_def)
  moreover have "refreshProfileValidation (DocumentFromConfig (Some ?c) StorageFormatLegacy) = stored d"
  proof -
    have s: "stored_config ?c = pr_Config (drop_flag p)"
      by (cases ?pc) (simp add: stored_config_def profile_part_def drop_flag_def)
    have r: "refresh_profile ?n p = p" using normalize_profile_refreshed [of p d] p(2) by simp
    let ?d = "\<lparr>doc_StorageFormat = StorageFormatLegacy, doc_TunnelEnabled = ?en,
      doc_ActiveProfileID = defaultProfileID, doc_Profiles = [single_profile (stored_config ?c)],
      doc_Server = doc_Server ?n\<rparr>"
    have "refresh_profile ?d (single_profile (stored_config ?c)) = drop_flag p"
    proof -
      have "pr_ValidationErrors p = pr_ValidationErrors (refresh_profile ?n p)"
        "pr_IsValid p = pr_IsValid (refresh_profile ?n p)" using r by simp_all
      then show ?thesis
        using p s by (cases p) (simp add: refresh_profile_def Let_def single_profile_def drop_flag_def)
    qed
    moreover have "DocumentFromConfig (Some ?c) StorageFormatLegacy = refreshProfileValidation ?d"
      using c(2) by (simp add: Let_def)
    moreover have "refreshProfileValidation (refreshProfileValidation ?d) = refreshProfileValidation ?d"
      by (simp add: refreshProfileValidation_def refresh_profile_def Let_def)
    moreover have "stored d = \<lparr>doc_StorageFormat = StorageFormatLegacy, doc_TunnelEnabled = ?en,
      doc_ActiveProfileID = defaultProfileID, doc_Profiles = [drop_flag p], doc_Server = doc_Server ?n\<rparr>"
      using p assms by (cases ?n) (simp add: stored_def)
    ultimately show ?thesis by (simp add: refreshProfileValidation_def [of ?d])
  qed
  ultimately show ?thesis using c by blast
qed

text \<open>The bytes that a successful save writes, and that they parse as the stored document.\<close>

lemma Save_written:
  assumes "SaveDocument os path (Some d) s = (ss, None)" "storable d"
  shows "\<exists>data. WriteAtomically os path data s = (ss, None) \<and> ParseDocument data = Inr (stored d)"
proof -
  let ?n = "normalize d"
  have valid: "document_valid (Document_applyDefaults d)"
    using assms(1) by (auto simp: SaveDocument_def validated_eq split: if_splits)
  note save = assms(1) [unfolded SaveDocument_def]
  show ?thesis
  proof (cases "shouldSaveLegacy ?n")
    case True
    then obtain c where c: "ActiveConfig (Some ?n) = Inr c" "Config_applyDefaults c = c" "storable_config c"
      "refreshProfileValidation (DocumentFromConfig (Some c) StorageFormatLegacy) = stored d"
      using legacy_config assms(2) by blast
    let ?data = "MarshalIndent (encode_config c)"
    have "Config_applyDefaults (Config_Clone c) = c" using c(2) by simp
    then have "\<exists>ss'. WriteAtomically os path ?data s = (ss, None)"
      using save valid True c(1) by (auto simp: validated_eq written_def Save_def Let_def prod_eq_iff split: option.splits)
    with not_profiles_format [OF c(3)] parse_legacy_encoded [OF c(3,2)] c(4)
    show ?thesis by (auto simp: ParseDocument_def)
  next
    case False
    let ?data = "MarshalIndent (encode_raw_document (buildRawProfileDocument ?n))"
    have "\<exists>ss'. WriteAtomically os path ?data s = (ss, None)"
      using save valid False by (auto simp: validated_eq written_def prod_eq_iff)
    with False profiles_format [OF storable_normalize [OF assms(2)]] parse_build [OF assms(2) valid]
    show ?thesis by (auto simp: ParseDocument_def stored_def Let_def)
  qed
qed

lemma Save_Load:
  assumes "SaveDocument os path (Some d) s = (ss, None)" "storable d"
    "fresh_temp os s path" "plain_name path" "sys_Open os path = None"
  shows "LoadDocument os (last ss) path = Inr (stored d)"
  using Save_written [OF assms(1,2)] WriteAtomically_ok [OF assms(3,4)] assms(5)
  by (auto simp: LoadDocument_def ReadFile_def)

section \<open>Parsed and updated documents\<close>

lemma normalize_simps:
  "doc_TunnelEnabled (normalize d) = doc_TunnelEnabled d"
  "doc_Server (normalize d) = default_server (doc_Server d)"
  "doc_StorageFormat (normalize d) =
     (if blank (doc_StorageFormat d) then StorageFormatProfiles else doc_StorageFormat d)"
  by (simp_all add: normalize_def Document_applyDefaults_def)

lemma validated_Inr: "validated d = Inr d' \<Longrightarrow> d' = normalize d \<and> document_valid (Document_applyDefaults d)"
  by (auto simp: validated_eq split: if_splits)

lemma parsed_profiles:
  assumes "parseProfilesDocument data = Inr d"
  shows "normalize d = d \<and> document_valid (Document_applyDefaults d) \<and> doc_StorageFormat d = StorageFormatProfiles"
proof -
  obtain e where e: "validated (Document_applyDefaults e) = Inr d" "doc_StorageFormat e = StorageFormatProfiles"
    using assms by (auto simp: parseProfilesDocument_def Let_def split: sum.splits option.splits if_splits)
  have d: "d = normalize e" "document_valid (Document_applyDefaults e)"
    using validated_Inr [OF e(1)] by simp_all
  have "document_valid (normalize d)" using d by simp
  moreover have "doc_StorageFormat d = StorageFormatProfiles"
    by (simp add: d normalize_simps e(2))
  moreover have "normalize d = d" by (simp add: d)
  ultimately show ?thesis using document_valid_normalize [of d] by simp
qed

text \<open>A legacy update: what the current document, the parsed configuration and the result share.\<close>

lemma keep_omitted_fields:
  "tc_Enabled (cfg_Tunnel (keep_omitted raw en port c)) =
     (if rt_Enabled (raw_Tunnel raw) = None then en else tc_Enabled (cfg_Tunnel c))"
  "sc_Port (cfg_Server (keep_omitted raw en port c)) =
     (if rs_Port (raw_Server raw) = None then port else sc_Port (cfg_Server c))"
  by (simp_all add: keep_omitted_def Let_def)

lemma legacy_update_cases:
  assumes "parseLegacyUpdateDocument data (Some d) = Inr d'"
  obtains cfg raw d1 d2 where "Unmarshal (decode_struct raw_config_fields) data zero_raw_config = Inr raw"
    "d1 = (Document_Clone d)\<lparr>doc_TunnelEnabled := tc_Enabled (cfg_Tunnel cfg), doc_Server := cfg_Server cfg\<rparr>"
    "replaceDocumentActiveProfileConfig (Some d1) (Some cfg) = Inr d2" "validated d2 = Inr d'"
    "rt_Enabled (raw_Tunnel raw) = None \<longrightarrow> tc_Enabled (cfg_Tunnel cfg) = doc_TunnelEnabled d"
    "rs_Port (raw_Server raw) = None \<longrightarrow> sc_Port (cfg_Server cfg) = sc_Port (doc_Server d)"
proof -
  obtain cfg raw where c: "parseLegacyConfig data = Inr cfg"
    "Unmarshal (decode_struct raw_config_fields) data zero_raw_config = Inr raw"
    using assms by (auto simp: parseLegacyUpdateDocument_def split: sum.splits)
  let ?c = "keep_omitted raw (doc_TunnelEnabled d) (sc_Port (doc_Server d)) cfg"
  let ?d1 = "(Document_Clone d)\<lparr>doc_TunnelEnabled := tc_Enabled (cfg_Tunnel ?c), doc_Server := cfg_Server ?c\<rparr>"
  obtain d2 where d2: "replaceDocumentActiveProfileConfig (Some ?d1) (Some ?c) = Inr d2" "validated d2 = Inr d'"
    using assms c by (auto simp: parseLegacyUpdateDocument_def Let_def split: sum.splits)
  show ?thesis by (rule that [OF c(2) refl d2]) (simp_all add: keep_omitted_fields)
qed

lemma normalize_parts:
  "map pr_ID (doc_Profiles (normalize d)) = map pr_ID (doc_Profiles d)"
  "map pr_Name (doc_Profiles (normalize d)) = map pr_Name (doc_Profiles d)"
  "map pr_Config (filter (\<lambda>p. pr_ID p \<noteq> a) (doc_Profiles (normalize d))) =
     map (ProfileConfig_applyDefaults \<circ> pr_Config) (filter (\<lambda>p. pr_ID p \<noteq> a) (doc_Profiles d))"
  by (simp_all add: normalize_def Document_applyDefaults_def filter_map comp_def)

lemma clone_parts:
  "map pr_ID (doc_Profiles (Document_Clone d)) = map pr_ID (doc_Profiles d)"
  "map pr_Name (doc_Profiles (Document_Clone d)) = map pr_Name (doc_Profiles d)"
  "map (ProfileConfig_applyDefaults \<circ> pr_Config) (filter (\<lambda>p. pr_ID p \<noteq> a) (doc_Profiles (Document_Clone d))) =
     map (ProfileConfig_applyDefaults \<circ> pr_Config) (filter (\<lambda>p. pr_ID p \<noteq> a) (doc_Profiles d))"
  by (simp_all add: Document_Clone_def Profile_clone_def filter_map comp_def)

lemma legacy_update_parts:
  assumes "parseLegacyUpdateDocument data (Some d) = Inr d'"
  defines "active \<equiv> doc_ActiveProfileID d"
  shows "map pr_ID (doc_Profiles d') = map pr_ID (doc_Profiles d)"
    "map pr_Name (doc_Profiles d') = map pr_Name (doc_Profiles d)"
    "map pr_Config (filter (\<lambda>p. pr_ID p \<noteq> active) (doc_Profiles d')) =
       map (ProfileConfig_applyDefaults \<circ> pr_Config) (filter (\<lambda>p. pr_ID p \<noteq> active) (doc_Profiles d))"
    "doc_ActiveProfileID d' = active" "document_valid d'" "normalize d' = d'"
proof -
  obtain cfg d1 d2 where u: "d1 = (Document_Clone d)\<lparr>doc_TunnelEnabled := tc_Enabled (cfg_Tunnel cfg), doc_Server := cfg_Server cfg\<rparr>"
    "replaceDocumentActiveProfileConfig (Some d1) (Some cfg) = Inr d2" "validated d2 = Inr d'"
    using assms(1) by (rule legacy_update_cases)
  note d' = validated_Inr [OF u(3)]
  have a1: "doc_ActiveProfileID d1 = active" by (simp add: u(1) Document_Clone_def active_def)
  obtain qs where q: "replace_first active (stored_config cfg) (doc_Profiles d1) = Some qs" "d2 = d1\<lparr>doc_Profiles := qs\<rparr>"
    using u(2) a1 by (auto simp: replaceDocumentActiveProfileConfig_def split: option.splits)
  note keeps = replace_first_keeps [OF q(1)]
  show ids: "map pr_ID (doc_Profiles d') = map pr_ID (doc_Profiles d)"
    and "map pr_Name (doc_Profiles d') = map pr_Name (doc_Profiles d)"
    and "map pr_Config (filter (\<lambda>p. pr_ID p \<noteq> active) (doc_Profiles d')) =
       map (ProfileConfig_applyDefaults \<circ> pr_Config) (filter (\<lambda>p. pr_ID p \<noteq> active) (doc_Profiles d))"
    using keeps d' clone_parts(1,2) [of d] clone_parts(3) [of active d]
    by (simp_all add: normalize_parts q(2)) (simp_all add: u(1))
  show v: "document_valid d'" and "normalize d' = d'" using d' by simp_all
  have "active \<in> pr_ID ` set (doc_Profiles d1)" using q(1) replace_first_None by (metis option.distinct(1))
  also have "pr_ID ` set (doc_Profiles d1) = set (map pr_ID (doc_Profiles d'))"
    unfolding ids using clone_parts(1) [of d] by (simp add: u(1) flip: set_map)
  finally have "active \<in> set (map pr_ID (doc_Profiles d'))" .
  then have "\<not> blank active" using v by (auto simp: document_valid_def Let_def)
  then show "doc_ActiveProfileID d' = active"
    using d' by (simp add: q(2) a1 normalize_def Document_applyDefaults_def)
qed

lemma Document_Validate_fixed:
  "Document_Validate (Some d) = (Some d, None) \<longleftrightarrow> normalize d = d \<and> document_valid d"
  by (metis Document_Validate_ok document_valid_normalize)

lemma sample_storable: "storable sample_document"
  by (simp add: storable_def sample_defs storable_profile_def storable_profile_config_def storable_defs
      Defaults_def DefaultProfileConfig_def go_const in_int64_def int64_min_def int64_max_def)

lemma working_fresh: "fresh_temp working_OS Map.empty p"
  by (simp add: fresh_temp_def working_OS_def)

lemma config_path_plain: "plain_name ''/data/config.json''"
  by (simp add: plain_name_def after_last_slash_def)

lemma working_write: "\<exists>ss. WriteAtomically working_OS p data s = (ss, None)"
  by (simp add: WriteAtomically_cases working_OS_def)

lemma sample_not_legacy: "\<not> shouldSaveLegacy (normalize d)" if "doc_StorageFormat d = StorageFormatProfiles"
  using that by (simp add: shouldSaveLegacy_def normalize_simps storage_formats_differ [symmetric]
      del: storage_formats_differ)

lemma sample_saved:
  "\<exists>ss. SaveDocument working_OS ''/data/config.json'' (Some sample_document) Map.empty = (ss, None)"
proof -
  have "validated (Document_applyDefaults (Document_Clone sample_document)) = Inr (normalize sample_document)"
    using sample_valid by (simp add: validated_eq sample_defaults)
  moreover have "\<not> shouldSaveLegacy (normalize sample_document)"
    by (rule sample_not_legacy) (simp add: sample_document_def)
  moreover obtain ss where "WriteAtomically working_OS ''/data/config.json''
      (MarshalIndent (encode_raw_document (buildRawProfileDocument (normalize sample_document)))) Map.empty = (ss, None)"
    using working_write by blast
  ultimately show ?thesis by (simp add: SaveDocument_def written_def)
qed

text \<open>The body \<open>{}\<close> as a legacy update of a disabled document that listens on port 8080.\<close>

definition disabled_document :: Document where
  "disabled_document = sample_document\<lparr>doc_TunnelEnabled := False,
     doc_Server := \<lparr>sc_Port = 8080, sc_WANInterface = ''ppp0'', sc_AuthToken = []\<rparr>\<rparr>"

lemma empty_body:
  "Unmarshal (decode_struct config_fields) (MarshalIndent (JObj [])) Defaults = Inr Defaults"
  "Unmarshal (decode_struct raw_config_fields) (MarshalIndent (JObj [])) zero_raw_config = Inr zero_raw_config"
  by (rule Unmarshal_Marshal; simp add: decode_struct_JObj)+

lemma Defaults_profile_valid: "profile_valid (pc\<lparr>pc_Tunnel := (pc_Tunnel pc)\<lparr>tc_Enabled := b\<rparr>\<rparr>) False"
  if "pc = profile_part Defaults" for pc
  by (simp add: that) (simp add: profile_valid_def profile_part_def Defaults_def ProfileConfig_applyDefaults_def
      default_tunnel_def default_lan_def default_health_def Let_def health_valid_def lan_valid_def go_const
      supportedBrokers_def normalizeBroker_def trim_eval parse_eval)

lemma zero_raw_simps [simp]:
  "rt_Enabled (raw_Tunnel zero_raw_config) = None" "rs_Port (raw_Server zero_raw_config) = None"
  by (simp_all add: zero_raw_config_def zero_raw_server_def)

lemma Defaults_simps:
  "tc_RemoteEndpoint (cfg_Tunnel Defaults) = []"
  "Defaults\<lparr>cfg_Tunnel := (cfg_Tunnel Defaults)\<lparr>tc_Enabled := False\<rparr>\<rparr> = Defaults"
  by (simp_all add: Defaults_def)

lemma empty_body_config: "parseLegacyConfig (MarshalIndent (JObj [])) = Inr Defaults"
  by (simp add: parseLegacyConfig_def applyLegacyTunnelEnabled_def empty_body Defaults_simps)

lemma disabled_update:
  "\<exists>d'. parseLegacyUpdateDocument (MarshalIndent (JObj [])) (Some disabled_document) = Inr d'"
proof -
  let ?c = "keep_omitted zero_raw_config False 8080 Defaults"
  let ?d1 = "(Document_Clone disabled_document)\<lparr>doc_TunnelEnabled := tc_Enabled (cfg_Tunnel ?c), doc_Server := cfg_Server ?c\<rparr>"
  let ?d2 = "?d1\<lparr>doc_Profiles := [Profile_clone draft_profile, (Profile_clone sample_profile)\<lparr>pr_Config := stored_config ?c\<rparr>]\<rparr>"
  have d: "doc_TunnelEnabled disabled_document = False" "sc_Port (doc_Server disabled_document) = 8080"
    by (simp_all add: disabled_document_def)
  have "replaceDocumentActiveProfileConfig (Some ?d1) (Some ?c) = Inr ?d2"
    by (simp add: replaceDocumentActiveProfileConfig_def Document_Clone_def disabled_document_def
        sample_document_def Profile_clone_def) (simp add: sample_profile_def draft_profile_def)
  moreover have "document_valid (Document_applyDefaults ?d2)"
  proof -
    have "stored_config ?c = profile_part Defaults"
      by (simp add: keep_omitted_def stored_config_def profile_part_def Defaults_def)
    moreover have "profile_valid (ProfileConfig_applyDefaults (profile_part Defaults)) False"
      using Defaults_profile_valid [of "profile_part Defaults"] by simp
    ultimately show ?thesis
      by (simp add: document_valid_def Document_applyDefaults_def Document_Clone_def Profile_clone_def
          disabled_document_def sample_document_def draft_profile_def sample_profile_def
          keep_omitted_def server_valid_def Defaults_def default_server_def trim_eval)
  qed
  ultimately show ?thesis
    by (simp add: parseLegacyUpdateDocument_def empty_body_config empty_body d validated_eq Let_def)
qed

section \<open>Properties\<close>

text \<open>
  C26: save and load are inverse.  When \<open>SaveDocument\<close> reports success, \<open>LoadDocument\<close> reads from
  the resulting file system the same document, normalized, with the unused per-profile \<open>enabled\<close>
  flags cleared, in the legacy format exactly when \<open>shouldSaveLegacy\<close> holds; the strings must be
  UTF-8 and the integers in range, and the path must not look like a temporary file.
\<close>

theorem save_load_roundtrip:
  assumes "SaveDocument os path (Some d) s = (ss, None)" "storable d"
    "fresh_temp os s path" "plain_name path" "sys_Open os path = None"
  shows "LoadDocument os (last ss) path = Inr (stored d)"
  using assms by (rule Save_Load)

theorem save_load_roundtrip_witness:
  "\<exists>ss. SaveDocument working_OS ''/data/config.json'' (Some sample_document) Map.empty = (ss, None)
     \<and> LoadDocument working_OS (last ss) ''/data/config.json'' = Inr (stored sample_document)"
  using sample_saved save_load_roundtrip [OF _ sample_storable working_fresh config_path_plain]
  by (fastforce simp: working_OS_def)

text \<open>
  A document that \<open>parseProfilesDocument\<close> accepts is normalized and valid: validating it again
  succeeds and changes nothing, and its storage format is the profiles format.
\<close>

theorem parsed_document_valid:
  assumes "parseProfilesDocument data = Inr d"
  shows "Document_Validate (Some d) = (Some d, None) \<and> doc_StorageFormat d = StorageFormatProfiles"
  using parsed_profiles [OF assms] document_valid_normalize [of d] by (simp add: Document_Validate_fixed)

theorem parsed_document_valid_witness:
  "\<exists>data d. parseProfilesDocument data = Inr d \<and>
     Document_Validate (Some d) = (Some d, None) \<and> doc_StorageFormat d = StorageFormatProfiles"
  using parse_build [OF sample_storable] sample_valid parsed_document_valid
  by (simp add: sample_defaults) blast

text \<open>
  C27: a legacy update touches the active profile only.  The result is a valid, normalized document
  with the same profile IDs and names and the same active profile; the other profiles keep their
  configurations (with defaults filled in); and a body without \<open>tunnel.enabled\<close> or without
  \<open>server.port\<close> keeps the current tunnel switch or port.
\<close>

theorem legacy_update:
  assumes "parseLegacyUpdateDocument data (Some d) = Inr d'"
    "Unmarshal (decode_struct raw_config_fields) data zero_raw_config = Inr raw"
  shows "map pr_ID (doc_Profiles d') = map pr_ID (doc_Profiles d)
    \<and> map pr_Name (doc_Profiles d') = map pr_Name (doc_Profiles d)
    \<and> doc_ActiveProfileID d' = doc_ActiveProfileID d
    \<and> map pr_Config (filter (\<lambda>p. pr_ID p \<noteq> doc_ActiveProfileID d) (doc_Profiles d')) =
      map (ProfileConfig_applyDefaults \<circ> pr_Config)
        (filter (\<lambda>p. pr_ID p \<noteq> doc_ActiveProfileID d) (doc_Profiles d))
    \<and> Document_Validate (Some d') = (Some d', None)
    \<and> (rt_Enabled (raw_Tunnel raw) = None \<longrightarrow> doc_TunnelEnabled d' = doc_TunnelEnabled d)
    \<and> (rs_Port (raw_Server raw) = None \<longrightarrow>
         sc_Port (doc_Server d') = sc_Port (default_server (doc_Server d)))"
proof -
  obtain cfg raw' d1 d2 where u: "Unmarshal (decode_struct raw_config_fields) data zero_raw_config = Inr raw'"
    "d1 = (Document_Clone d)\<lparr>doc_TunnelEnabled := tc_Enabled (cfg_Tunnel cfg), doc_Server := cfg_Server cfg\<rparr>"
    "replaceDocumentActiveProfileConfig (Some d1) (Some cfg) = Inr d2" "validated d2 = Inr d'"
    "rt_Enabled (raw_Tunnel raw') = None \<longrightarrow> tc_Enabled (cfg_Tunnel cfg) = doc_TunnelEnabled d"
    "rs_Port (raw_Server raw') = None \<longrightarrow> sc_Port (cfg_Server cfg) = sc_Port (doc_Server d)"
    using assms(1) by (rule legacy_update_cases)
  have "d2 = d1\<lparr>doc_Profiles := doc_Profiles d2\<rparr>"
    using u(3) by (auto simp: replaceDocumentActiveProfileConfig_def split: option.splits)
  then have "doc_TunnelEnabled d2 = doc_TunnelEnabled d1" "doc_Server d2 = doc_Server d1"
    by (metis Document.select_convs(2,5) Document.surjective Document.update_convs(4))+
  then have "doc_TunnelEnabled d' = tc_Enabled (cfg_Tunnel cfg)"
    "doc_Server d' = default_server (cfg_Server cfg)"
    using validated_Inr [OF u(4)] u(2) by (simp_all add: normalize_simps)
  then show ?thesis
    using legacy_update_parts [OF assms(1)] u(1,5,6) assms(2)
    by (simp add: Document_Validate_fixed default_server_def)
qed

theorem legacy_update_witness:
  "\<exists>d'. parseLegacyUpdateDocument (MarshalIndent (JObj [])) (Some disabled_document) = Inr d'
     \<and> map pr_ID (doc_Profiles d') = map pr_ID (doc_Profiles disabled_document)
     \<and> doc_TunnelEnabled d' = False \<and> sc_Port (doc_Server d') = 8080"
proof -
  obtain d' where d': "parseLegacyUpdateDocument (MarshalIndent (JObj [])) (Some disabled_document) = Inr d'"
    using disabled_update by blast
  have "doc_TunnelEnabled disabled_document = False"
    "sc_Port (default_server (doc_Server disabled_document)) = 8080"
    by (simp_all add: disabled_document_def default_server_def)
  then show ?thesis
    using d' legacy_update [OF d' empty_body(2)] by auto
qed

end
