(* ===== verification/ServiceFacts.thy ===== *)
theory ServiceFacts
  imports Service BackendFacts StoreFacts
begin

text \<open>
  What the operations of the service keep and produce.  \<open>dataplane\<close> is the interface of a backend as
  the service relies on it, with the system backend as its interpretation.
\<close>

section \<open>The parts of the state an operation leaves alone\<close>

lemmas service_defs = on_status_def on_applied_def tick_def with_saved_def

lemma on_status_parts [simp]:
  "sv_backend (on_status f s) = sv_backend s" "sv_advertiser (on_status f s) = sv_advertiser s"
  "sv_ndp (on_status f s) = sv_ndp s" "sv_disks (on_status f s) = sv_disks s" "sv_calls (on_status f s) = sv_calls s"
  "sv_document (on_status f s) = sv_document s" "sv_config (on_status f s) = sv_config s"
  "sd_Status (sv_state (on_status f s)) = f (sd_Status (sv_state s))"
  "sd_Applied (sv_state (on_status f s)) = sd_Applied (sv_state s)"
  by (simp_all add: on_status_def)

lemma save_state_parts:
  assumes "save_state e s = (err, s')"
  obtains ss where "SaveState (en_os e (sv_calls s)) (sv_statePath s) (sv_state s) (current_fs s) = (ss, err)"
    "s' = s\<lparr>sv_disks := rev ss @ sv_disks s, sv_calls := Suc (sv_calls s)\<rparr>"
  using assms by (cases "SaveState (en_os e (sv_calls s)) (sv_statePath s) (sv_state s) (current_fs s)")
    (auto simp: save_state_def disk_write_def tick_def)

lemma save_document_parts:
  assumes "save_document e d s = (err, s')"
  obtains ss where "SaveDocument (en_os e (sv_calls s)) (sv_configPath s) (Some d) (current_fs s) = (ss, err)"
    "s' = s\<lparr>sv_disks := rev ss @ sv_disks s, sv_calls := Suc (sv_calls s)\<rparr>"
  using assms by (cases "SaveDocument (en_os e (sv_calls s)) (sv_configPath s) (Some d) (current_fs s)")
    (auto simp: save_document_def disk_write_def tick_def)

text \<open>The desired state: what only an update changes.\<close>

definition same_desired :: "'w service \<Rightarrow> 'w service \<Rightarrow> bool" where
  "same_desired s t \<longleftrightarrow> sv_document t = sv_document s \<and> sv_config t = sv_config s
     \<and> sv_configPath t = sv_configPath s \<and> sv_statePath t = sv_statePath s"

lemma same_desired_refl [simp]: "same_desired s s"
  by (simp add: same_desired_def)

lemma same_desired_trans: "same_desired s t \<Longrightarrow> same_desired t u \<Longrightarrow> same_desired s u"
  by (simp add: same_desired_def)

lemma same_desired_updates [simp]:
  "same_desired s (on_status f t) = same_desired s t" "same_desired s (on_applied a t) = same_desired s t"
  "same_desired s (tick t) = same_desired s t" "same_desired s (t\<lparr>sv_backend := w\<rparr>) = same_desired s t"
  "same_desired s (t\<lparr>sv_disks := ds\<rparr>) = same_desired s t" "same_desired s (t\<lparr>sv_calls := n\<rparr>) = same_desired s t"
  "same_desired s (t\<lparr>sv_ndp := nd\<rparr>) = same_desired s t"
  "same_desired s (t\<lparr>sv_advertiser := adv\<rparr>) = same_desired s t"
  by (simp_all add: same_desired_def service_defs)

lemma same_desired_stopAdvertiser [simp]: "same_desired s (stopAdvertiserLocked t) = same_desired s t"
  by (auto simp: stopAdvertiserLocked_def split: option.splits)

text \<open>Everything that belongs to neither the advertiser nor the call counter.\<close>

lemma startAdvertiser_parts:
  assumes "startAdvertiserLocked e cfg s = (err, t)"
  shows "same_desired s t \<and> sv_state t = sv_state s \<and> sv_backend t = sv_backend s \<and> sv_disks t = sv_disks s"
  using assms by (auto simp: startAdvertiserLocked_def tick_def split: sum.splits prod.splits)

lemma advertise_parts:
  assumes "advertise e cfg reasons backendErr s = (err, t)"
  shows "same_desired s t \<and> sv_state t = sv_state s \<and> sv_backend t = sv_backend s \<and> sv_disks t = sv_disks s"
  using assms startAdvertiser_parts [of e cfg s err t] by (auto simp: advertise_def split: if_splits)

lemma stopAdvertiser_parts [simp]:
  "sv_state (stopAdvertiserLocked s) = sv_state s" "sv_backend (stopAdvertiserLocked s) = sv_backend s"
  "sv_disks (stopAdvertiserLocked s) = sv_disks s" "sv_advertiser (stopAdvertiserLocked s) = None"
  "sv_document (stopAdvertiserLocked s) = sv_document s" "sv_config (stopAdvertiserLocked s) = sv_config s"
  "sv_calls (stopAdvertiserLocked s) = sv_calls s" "sv_configPath (stopAdvertiserLocked s) = sv_configPath s"
  "sv_statePath (stopAdvertiserLocked s) = sv_statePath s"
  by (auto simp: stopAdvertiserLocked_def split: option.splits)

lemma reconcile_effects_cases:
  assumes "reconcile_effects e force s = (v, t)"
  obtains cfg' w1 s2 s3 ob w2 w3 where
    "be_Reconcile (en_backend e)
       \<lparr>ri_Config = Some (Config_Clone (sv_config s)), ri_ConfigValid = (rv_Reasons v = []), ri_Force = force,
        ri_Applied = sd_Applied (sv_state s)\<rparr> (sv_backend s) = ((rv_BackendErr v, cfg'), w1)"
    "rv_Reasons v = validationReasons (Config_Validate (Some (Config_Clone (sv_config s))))"
    "rv_Config v = after_backend (Config_Clone (sv_config s)) cfg'"
    "s2 = stopAdvertiserLocked (on_status (begin_reconcile (Document_Clone (sv_document s)) (rv_Reasons v = [])) s)
            \<lparr>sv_backend := w1\<rparr>"
    "advertise e (rv_Config v) (rv_Reasons v) (rv_BackendErr v) s2 = (rv_AdvertiserErr v, s3)"
    "be_Observe (en_backend e) (buildObserveInput (rv_Config v) (rv_Reasons v)) w1 = ((ob, rv_ObserveErr v), w2)"
    "rv_Observation v = observed ob"
    "probe_now e (rv_Reasons v = [] \<and> tc_Enabled (cfg_Tunnel (rv_Config v)) \<and> hc_Enabled (cfg_Health (rv_Config v))
         \<and> hc_Target (cfg_Health (rv_Config v)) \<noteq> []) (hc_Target (cfg_Health (rv_Config v))) w2 (sv_calls s3)
       = (rv_Result v, rv_ProbeTime v, w3)"
    "t = tick (s3\<lparr>sv_backend := w3\<rparr>)"
proof -
  let ?c = "Config_Clone (sv_config s)"
  define reasons where "reasons = validationReasons (Config_Validate (Some ?c))"
  define s1 where "s1 = stopAdvertiserLocked (on_status (begin_reconcile (Document_Clone (sv_document s)) (reasons = [])) s)"
  obtain err cfg' w1 where r: "be_Reconcile (en_backend e)
      \<lparr>ri_Config = Some ?c, ri_ConfigValid = (reasons = []), ri_Force = force,
       ri_Applied = sd_Applied (sv_state s)\<rparr> (sv_backend s) = ((err, cfg'), w1)"
    by (metis prod.exhaust)
  define cfg where "cfg = after_backend ?c cfg'"
  obtain aerr s3 where a: "advertise e cfg reasons err (s1\<lparr>sv_backend := w1\<rparr>) = (aerr, s3)" by (rule prod.exhaust)
  obtain ob oerr w2 where o: "be_Observe (en_backend e) (buildObserveInput cfg reasons) w1 = ((ob, oerr), w2)"
    by (metis prod.exhaust)
  obtain res pt w3 where p: "probe_now e (reasons = [] \<and> tc_Enabled (cfg_Tunnel cfg) \<and> hc_Enabled (cfg_Health cfg)
      \<and> hc_Target (cfg_Health cfg) \<noteq> []) (hc_Target (cfg_Health cfg)) w2 (sv_calls s3) = (res, pt, w3)"
    by (metis prod.exhaust)
  have b: "sv_backend s1 = sv_backend s" "sv_backend s3 = w1"
    using advertise_parts [OF a] by (simp_all add: s1_def on_status_def)
  have "reconcile_effects e force s =
    (\<lparr>rv_Config = cfg, rv_Reasons = reasons, rv_BackendErr = err, rv_AdvertiserErr = aerr,
      rv_Observation = observed ob, rv_ObserveErr = oerr, rv_Result = res, rv_ProbeTime = pt\<rparr>,
     tick (s3\<lparr>sv_backend := w3\<rparr>))"
    unfolding reconcile_effects_def Let_def
    by (simp only: reasons_def [symmetric] s1_def [symmetric] b r prod.case cfg_def [symmetric] a o p)
  with assms have v: "v = \<lparr>rv_Config = cfg, rv_Reasons = reasons, rv_BackendErr = err, rv_AdvertiserErr = aerr,
      rv_Observation = observed ob, rv_ObserveErr = oerr, rv_Result = res, rv_ProbeTime = pt\<rparr>"
    "t = tick (s3\<lparr>sv_backend := w3\<rparr>)" by simp_all
  show ?thesis
    by (rule that [of cfg' w1 "s1\<lparr>sv_backend := w1\<rparr>" s3 ob w2 w3])
      (use r a o p v in \<open>simp_all add: reasons_def s1_def cfg_def\<close>)
qed

section \<open>The interface of a backend\<close>

text \<open>
  What the service relies on: a reconcile changes the MTU of the configuration at most, one that is
  not wanted does not fail and leaves the configuration alone, an observation is never nil and finds
  nothing missing when no configuration is given, and a failed ping is a result of a probe.
\<close>

locale dataplane =
  fixes be :: "'w backend"
  assumes reconcile_config:
      "\<And>inp c w. ri_Config inp = Some c \<Longrightarrow> \<exists>mtu. snd (fst (be_Reconcile be inp w)) = Some (with_MTU mtu c)"
    and reconcile_idle:
      "\<And>inp c w. ri_Config inp = Some c \<Longrightarrow> \<not> ri_ConfigValid inp \<or> \<not> tc_Enabled (cfg_Tunnel c)
        \<Longrightarrow> fst (be_Reconcile be inp w) = (None, Some c)"
    and observe_some: "\<And>inp w. fst (fst (be_Observe be inp w)) \<noteq> None"
    and observe_idle:
      "\<And>inp w. oi_Config inp = None \<Longrightarrow> \<exists>ob. fst (be_Observe be inp w) = (Some ob, None)
        \<and> elems (ob_MissingIPv6Addresses ob) = []"
    and probe_result: "\<And>target w. \<exists>x. fst (be_Probe be target w) = Inr x"
begin

lemma effects_config:
  assumes "reconcile_effects e force s = (v, t)" "en_backend e = be"
  shows "\<exists>mtu. rv_Config v = with_MTU mtu (Config_Clone (sv_config s))"
  using assms(1)
proof (cases rule: reconcile_effects_cases)
  case (1 cfg' w1 s2 s3 ob w2 w3)
  then show ?thesis
    using reconcile_config [of "\<lparr>ri_Config = Some (Config_Clone (sv_config s)), ri_ConfigValid = (rv_Reasons v = []),
        ri_Force = force, ri_Applied = sd_Applied (sv_state s)\<rparr>" "Config_Clone (sv_config s)" "sv_backend s"] assms(2)
    by (auto simp: after_backend_def)
qed

text \<open>Nothing can go wrong when nothing is to be done.\<close>

lemma effects_idle:
  assumes "reconcile_effects e force s = (v, t)" "en_backend e = be"
    "rv_Reasons v \<noteq> [] \<or> \<not> tc_Enabled (cfg_Tunnel (sv_config s))"
  shows "rv_BackendErr v = None \<and> rv_AdvertiserErr v = None \<and> rv_ObserveErr v = None
    \<and> rv_Config v = Config_Clone (sv_config s) \<and> elems (ob_MissingIPv6Addresses (rv_Observation v)) = []
    \<and> rv_Result v = zero_probe_result \<and> sv_advertiser t = None"
  using assms(1)
proof (cases rule: reconcile_effects_cases)
  case (1 cfg' w1 s2 s3 ob w2 w3)
  let ?c = "Config_Clone (sv_config s)"
  have off: "rv_Reasons v \<noteq> [] \<or> \<not> tc_Enabled (cfg_Tunnel ?c)"
    using assms(3) by (simp add: Config_Clone_def)
  have r: "rv_BackendErr v = None" "rv_Config v = ?c"
    using 1(1,3) off assms(2) reconcile_idle [of "\<lparr>ri_Config = Some ?c, ri_ConfigValid = (rv_Reasons v = []),
        ri_Force = force, ri_Applied = sd_Applied (sv_state s)\<rparr>" ?c "sv_backend s"]
    by (auto simp: after_backend_def)
  have a: "rv_AdvertiserErr v = None" "s3 = s2"
    using 1(5) off r(2) by (auto simp: advertise_def)
  obtain ob' where "fst (be_Observe be (buildObserveInput ?c (rv_Reasons v)) w1) = (Some ob', None)"
    "elems (ob_MissingIPv6Addresses ob') = []"
    using observe_idle [of "buildObserveInput ?c (rv_Reasons v)" w1] off by (auto simp: buildObserveInput_def)
  then have o: "rv_ObserveErr v = None" "elems (ob_MissingIPv6Addresses (rv_Observation v)) = []"
    using 1(6,7) assms(2) r(2) by (simp_all add: observed_def)
  have "rv_Result v = zero_probe_result" using 1(8) off r(2) by (auto simp: probe_now_def)
  then show ?thesis using r a o 1(4,9) by (simp add: service_defs)
qed

end

interpretation system: dataplane "SystemBackend r" for r
proof
  fix inp :: ReconcileInput and c :: Config and w
  assume c: "ri_Config inp = Some c"
  obtain e c' w' where "Reconcile r inp w = ((e, c'), w')" by (metis prod.exhaust)
  then show "\<exists>mtu. snd (fst (be_Reconcile (SystemBackend r) inp w)) = Some (with_MTU mtu c)"
    using Reconcile_config [OF c] by (simp add: SystemBackend_def)
  assume "\<not> ri_ConfigValid inp \<or> \<not> tc_Enabled (cfg_Tunnel c)"
  then show "fst (be_Reconcile (SystemBackend r) inp w) = (None, Some c)"
    by (simp add: SystemBackend_def Reconcile_idle [OF c])
next
  fix inp w
  show "fst (fst (be_Observe (SystemBackend r) inp w)) \<noteq> None"
    by (simp add: SystemBackend_def split: prod.split)
  assume "oi_Config inp = None"
  then show "\<exists>ob. fst (be_Observe (SystemBackend r) inp w) = (Some ob, None) \<and> elems (ob_MissingIPv6Addresses ob) = []"
    by (simp add: SystemBackend_def Observe_def collectMissingManagedIPv6Addresses_def retE_def split: prod.split)
next
  fix target w
  show "\<exists>x. fst (be_Probe (SystemBackend r) target w) = Inr x"
    by (simp add: SystemBackend_def Probe_def split: prod.split)
qed


section \<open>The outcome of a reconcile\<close>

lemma reconcileLocked_parts:
  assumes "reconcileLocked e force s = (err, s')"
  obtains v t saveErr where "reconcile_effects e force s = (v, t)"
    "save_state e (tick (publish v (en_now e (sv_calls t)) t)) = (saveErr, s')"
    "err = (case saveErr of Some x \<Rightarrow> Some x | None \<Rightarrow> reconcile_error v)"
proof -
  obtain v t where v: "reconcile_effects e force s = (v, t)" by (rule prod.exhaust)
  obtain saveErr u where u: "save_state e (tick (publish v (en_now e (sv_calls t)) t)) = (saveErr, u)"
    by (rule prod.exhaust)
  have "reconcileLocked e force s = (case saveErr of Some x \<Rightarrow> (Some x, u) | None \<Rightarrow> (reconcile_error v, u))"
    by (simp add: reconcileLocked_def v u)
  then show ?thesis using that [OF v] u assms by (auto split: option.splits)
qed

lemma reconcile_effects_state:
  assumes "reconcile_effects e force s = (v, t)"
  shows "same_desired s t \<and> sv_disks t = sv_disks s \<and> sv_state t = (sv_state s)\<lparr>sd_Status :=
      begin_reconcile (Document_Clone (sv_document s)) (rv_Reasons v = []) (sd_Status (sv_state s))\<rparr>
    \<and> rv_Reasons v = validationReasons (Config_Validate (Some (Config_Clone (sv_config s))))"
  using assms
proof (cases rule: reconcile_effects_cases)
  case (1 cfg' w1 s2 s3 ob w2 w3)
  then show ?thesis
    using advertise_parts [OF 1(5)] by (auto simp: service_defs same_desired_def)
qed

text \<open>Status and applied state after a reconcile, in terms of the view.\<close>

lemma publish_alt:
  "publish v now t = t\<lparr>sv_state :=
     \<lparr>sd_Status = close_reconcile (rv_Config v) (fst (outcome v)) (end_reconcile v now (sd_Status (sv_state t))),
      sd_Applied = (case snd (outcome v) of None \<Rightarrow> sd_Applied (sv_state t) | Some a \<Rightarrow> a)\<rparr>\<rparr>"
  by (cases "outcome v"; cases "snd (outcome v)") (simp_all add: publish_def service_defs)

lemma publish_parts [simp]:
  "same_desired s (publish v now t) = same_desired s t" "sv_disks (publish v now t) = sv_disks t"
  "sv_advertiser (publish v now t) = sv_advertiser t" "sv_ndp (publish v now t) = sv_ndp t"
  "sv_backend (publish v now t) = sv_backend t" "sv_calls (publish v now t) = sv_calls t"
  "sv_config (publish v now t) = sv_config t" "sv_document (publish v now t) = sv_document t"
  by (simp_all add: publish_alt same_desired_def)

lemma published_state:
  "sd_Status (sv_state (publish v now t)) =
     close_reconcile (rv_Config v) (fst (outcome v)) (end_reconcile v now (sd_Status (sv_state t)))"
  "sd_Applied (sv_state (publish v now t)) =
     (case snd (outcome v) of None \<Rightarrow> sd_Applied (sv_state t) | Some a \<Rightarrow> a)"
  by (simp_all add: publish_alt)

lemma set_ping_keeps [simp]:
  "st_TunnelUp (set_ping x p st) = st_TunnelUp st" "st_DegradedReasons (set_ping x p st) = st_DegradedReasons st"
  "st_DesiredEnabled (set_ping x p st) = st_DesiredEnabled st" "st_ConfigValid (set_ping x p st) = st_ConfigValid st"
  "st_ReconcileState (set_ping x p st) = st_ReconcileState st"
  by (simp_all add: set_ping_def Let_def)

lemma published_fields:
  defines "pub v now t \<equiv> sd_Status (sv_state (publish v now t))"
  shows "st_ReconcileState (pub v now t) = fst (outcome v)"
    "st_DegradedReasons (pub v now t) = reconcile_reasons v"
    "st_LastError (pub v now t) = firstReason (elems (reconcile_reasons v))"
    "st_TunnelUp (pub v now t) = ob_TunnelUp (rv_Observation v)"
    "st_DesiredEnabled (pub v now t) = st_DesiredEnabled (sd_Status (sv_state t))"
    "st_ConfigValid (pub v now t) = st_ConfigValid (sd_Status (sv_state t))"
  by (simp_all add: pub_def published_state close_reconcile_def end_reconcile_def Let_def)

text \<open>The reasons are the texts of what went wrong, each once, the validation reasons first.\<close>

lemma append_reason_elems:
  "set (elems (append_reason r x)) = insert x (set (elems r))"
  "distinct (elems r) \<Longrightarrow> distinct (elems (append_reason r x))"
  "\<exists>ys. elems (append_reason r x) = elems r @ ys"
  by (auto simp: append_reason_def)

lemma appendErrorReason_elems:
  "set (elems (appendErrorReason r err)) = set (elems r) \<union> Error ` set_option err"
  "\<exists>ys. elems (appendErrorReason r err) = elems r @ ys"
  using append_reason_elems [of r] by (auto simp: appendErrorReason_def split: option.splits)

lemma append_reasons_elems:
  "set (elems (append_reasons r xs)) = set (elems r) \<union> set xs"
  "\<exists>ys. elems (append_reasons r xs) = elems r @ ys"
proof (induction r xs rule: append_reasons.induct)
  case (2 r x xs)
  show "set (elems (append_reasons r (x # xs))) = set (elems r) \<union> set (x # xs)"
    using 2(1) append_reason_elems(1) [of r x] by auto
  show "\<exists>ys. elems (append_reasons r (x # xs)) = elems r @ ys"
    using 2(2) append_reason_elems(3) [of r x] by auto
qed auto

lemma reconcile_reasons_set:
  "set (elems (reconcile_reasons v)) =
     set (rv_Reasons v) \<union> set (managedIPv6AddressReasons (rv_Observation v))
     \<union> Error ` (set_option (rv_BackendErr v) \<union> set_option (rv_AdvertiserErr v) \<union> set_option (rv_ObserveErr v))
     \<union> (if tc_Enabled (cfg_Tunnel (rv_Config v)) \<and> hc_Enabled (cfg_Health (rv_Config v)) \<and> \<not> pb_PingOK (rv_Result v)
        then {ReasonHealthProbeFailed} else {})"
  unfolding reconcile_reasons_def Let_def appendManagedIPv6AddressReasons_def
  by (simp add: append_reason_elems(1) appendErrorReason_elems(1) append_reasons_elems(1) image_Un
      split: if_splits) blast

lemma reconcile_reasons_prefix: "\<exists>ys. elems (reconcile_reasons v) = rv_Reasons v @ ys"
proof -
  have app: "\<exists>ys. elems (append_reason r x) = rv_Reasons v @ ys"
    if "\<exists>ys. elems r = rv_Reasons v @ ys" for r x
    using append_reason_elems(3) [of r x] that by auto
  have err: "\<exists>ys. elems (appendErrorReason r x) = rv_Reasons v @ ys"
    if "\<exists>ys. elems r = rv_Reasons v @ ys" for r x
    using appendErrorReason_elems(2) [of r x] that by auto
  have "\<exists>ys. elems (appendManagedIPv6AddressReasons (Some (rv_Reasons v)) (rv_Observation v)) = rv_Reasons v @ ys"
    using append_reasons_elems(2) [of "Some (rv_Reasons v)"] by (auto simp: appendManagedIPv6AddressReasons_def)
  then show ?thesis unfolding reconcile_reasons_def Let_def by (simp add: app err)
qed

end
