(* ===== verification/AddressFacts.thy ===== *)
theory AddressFacts
  imports BackendFacts
begin

text \<open>
  Gateways and managed addresses: a gateway lies in its prefix, and after a successful repair every
  managed address is there, so that \<open>Observe\<close> reports those at most that are not usable yet.  What the \<open>ip\<close> tool is relied on for is the predicate
  \<open>address_tool\<close>, and a simulated host shows that it can hold.
\<close>

section \<open>Gateways\<close>

lemma Itoa_nat: "Itoa (int n) = nat_dec n"
  by (simp add: Itoa_def)

lemma network_plus_one:
  fixes a :: "128 word"
  assumes "0 < k"
  defines "n \<equiv> a AND NOT (mask k)"
  shows "n + 1 = n OR 1" "n + 1 \<noteq> 0" "(n + 1) AND NOT (mask k) = n"
proof -
  have low: "\<not> bit n 0" using assms by (simp add: n_def bit_simps)
  show eq: "n + 1 = n OR 1"
    by (rule disjunctive_add) (use low in \<open>auto simp: bit_simps intro: gr0I\<close>)
  have "bit (n OR 1) 0" by (simp add: bit_simps)
  then show "n + 1 \<noteq> 0" unfolding eq by (auto simp del: or_eq_0_iff)
  show "(n + 1) AND NOT (mask k) = n"
    unfolding eq by (rule bit_word_eqI) (use assms in \<open>auto simp: n_def bit_simps\<close>)
qed

lemma gatewayForPrefix_IPv6:
  assumes "ParsePrefix s = Inr (Prefix (Addr6 a z) b)" "b < 128"
  defines "n \<equiv> a AND NOT (mask (128 - b))"
  shows "gatewayForPrefix s = Inr (PrefixString (Prefix (Addr6 (n + 1) []) b))"
  using network_plus_one(2) [of "128 - b" a] assms
  by (simp add: gatewayForPrefix_def PrefixString_def Itoa_nat Let_def)

lemma gateway_parses:
  assumes "ParsePrefix s = Inr (Prefix (Addr6 a z) b)" "b < 128" "gatewayForPrefix s = Inr g"
  shows "ParsePrefix g = Inr (Prefix (Addr6 ((a AND NOT (mask (128 - b))) + 1) []) b)"
proof -
  have "prefix_ok (Prefix (Addr6 ((a AND NOT (mask (128 - b))) + 1) []) b)" using assms(2) by simp
  from ParsePrefix_PrefixString [OF this] show ?thesis
    using gatewayForPrefix_IPv6 [OF assms(1,2)] assms(3) by simp
qed

section \<open>The contract of the address tool\<close>

definition show_cmd :: "string \<Rightarrow> string list" where
  "show_cmd i = [''ip'', ''-6'', ''addr'', ''show'', ''dev'', i]"

definition add_cmd :: "string \<Rightarrow> string \<Rightarrow> string list" where
  "add_cmd p i = [''ip'', ''-6'', ''addr'', ''add'', p, ''dev'', i]"

definition del_cmd :: "string \<Rightarrow> string \<Rightarrow> string list" where
  "del_cmd p i = [''ip'', ''-6'', ''addr'', ''del'', p, ''dev'', i]"

text \<open>What the tool shows about a prefix on an interface; \<^term>\<open>None\<close> when it fails.\<close>

definition addr_shown :: "'w runner \<Rightarrow> 'w \<Rightarrow> string \<Rightarrow> Prefix \<Rightarrow> ipv6AddressState option" where
  "addr_shown r w i d =
     (case fst (r (show_cmd i) w) of (out, None) \<Rightarrow> Some (findIPv6PrefixState out d) | (out, Some err) \<Rightarrow> None)"

definition listed :: "'w runner \<Rightarrow> 'w \<Rightarrow> string \<Rightarrow> Prefix \<Rightarrow> bool" where
  "listed r w i d \<longleftrightarrow> addr_shown r w i d = Some ipv6AddressHealthy \<or> addr_shown r w i d = Some ipv6AddressUnhealthy"

definition keeps_elsewhere :: "'w runner \<Rightarrow> string \<Rightarrow> Prefix \<Rightarrow> 'w \<Rightarrow> 'w \<Rightarrow> bool" where
  "keeps_elsewhere r i d w w' \<longleftrightarrow> (\<forall>j q. (j, q) \<noteq> (i, d) \<longrightarrow> listed r w j q \<longrightarrow> listed r w' j q)"

text \<open>
  Showing changes nothing; after a successful \<open>add\<close> the address is listed, healthy or, while duplicate
  address detection runs, tentative; and a successful \<open>del\<close> or \<open>add\<close> removes no other address.
\<close>

definition address_tool :: "'w runner \<Rightarrow> bool" where
  "address_tool r \<longleftrightarrow>
     (\<forall>w i. snd (r (show_cmd i) w) = w)
     \<and> (\<forall>w w' i p d out. r (add_cmd p i) w = ((out, None), w') \<and> ParsePrefix p = Inr d
          \<longrightarrow> listed r w' i d \<and> keeps_elsewhere r i d w w')
     \<and> (\<forall>w w' i p d out. r (del_cmd p i) w = ((out, None), w') \<and> ParsePrefix p = Inr d
          \<longrightarrow> keeps_elsewhere r i d w w')"

lemma run_world: "run r argv m = (Inr x, m') \<Longrightarrow> \<exists>out. r argv (m_world m) = ((out, None), m_world m')"
  by (auto simp: run_def CombinedOutput_def split: prod.splits option.splits)

lemma query_world:
  assumes "address_tool r"
  shows "queryInterfaceIPv6Address r i p m = (x, m') \<Longrightarrow> m_world m' = m_world m"
    "queryInterfaceIPv6Address r i p m = (Inr st, m') \<Longrightarrow>
       \<exists>d. ParsePrefix p = Inr d \<and> addr_shown r (m_world m) i d = Some st"
proof -
  have keep: "snd (r (show_cmd i) w) = w" for w using assms by (simp add: address_tool_def)
  obtain out e where r: "r (show_cmd i) (m_world m) = ((out, e), m_world m)"
    using keep [of "m_world m"] by (metis prod.exhaust snd_conv)
  show "queryInterfaceIPv6Address r i p m = (x, m') \<Longrightarrow> m_world m' = m_world m"
    using r by (auto simp: queryInterfaceIPv6Address_def CombinedOutput_def show_cmd_def
        split: sum.splits option.splits)
  show "queryInterfaceIPv6Address r i p m = (Inr st, m') \<Longrightarrow>
       \<exists>d. ParsePrefix p = Inr d \<and> addr_shown r (m_world m) i d = Some st"
    using r by (auto simp: queryInterfaceIPv6Address_def CombinedOutput_def show_cmd_def addr_shown_def
        split: sum.splits option.splits)
qed

lemma query_shown:
  assumes "address_tool r" "ParsePrefix p = Inr d" "addr_shown r (m_world m) i d = Some st"
  shows "\<exists>m'. queryInterfaceIPv6Address r i p m = (Inr st, m') \<and> m_world m' = m_world m"
proof -
  have "snd (r (show_cmd i) (m_world m)) = m_world m" using assms(1) by (simp add: address_tool_def)
  then show ?thesis
    using assms(2,3)
    by (auto simp: queryInterfaceIPv6Address_def CombinedOutput_def show_cmd_def addr_shown_def
        split: prod.splits option.splits)
qed

section \<open>Repair\<close>

text \<open>An address, as an interface and a written prefix, is listed; and it is listed but not yet usable.\<close>

definition present :: "'w runner \<Rightarrow> 'w \<Rightarrow> string \<times> string \<Rightarrow> bool" where
  "present r w a \<longleftrightarrow> (case ParsePrefix (snd a) of Inl err \<Rightarrow> False | Inr d \<Rightarrow> listed r w (fst a) d)"

definition unusable :: "'w runner \<Rightarrow> 'w \<Rightarrow> string \<times> string \<Rightarrow> bool" where
  "unusable r w a \<longleftrightarrow>
     (case ParsePrefix (snd a) of Inl err \<Rightarrow> False | Inr d \<Rightarrow> addr_shown r w (fst a) d = Some ipv6AddressUnhealthy)"

definition stays :: "'w runner \<Rightarrow> 'w \<Rightarrow> 'w \<Rightarrow> bool" where
  "stays r w w' \<longleftrightarrow> (\<forall>a. present r w a \<longrightarrow> present r w' a)"

lemma stays_refl [simp]: "stays r w w"
  by (simp add: stays_def)

lemma stays_trans: "stays r u v \<Longrightarrow> stays r v w \<Longrightarrow> stays r u w"
  by (simp add: stays_def)

lemma staysD: "stays r w w' \<Longrightarrow> present r w a \<Longrightarrow> present r w' a"
  by (simp only: stays_def)

lemma made_present:
  assumes "ParsePrefix p = Inr d" "listed r w' i d" "keeps_elsewhere r i d w w'"
  shows "present r w' (i, p) \<and> stays r w w'"
proof -
  have "listed r w' j q" if "listed r w j q" for j q
    using assms(2,3) that unfolding keeps_elsewhere_def by (cases "(j, q) = (i, d)") auto
  then show ?thesis using assms(1,2) by (simp add: present_def stays_def split: sum.split)
qed

lemma add_ok:
  assumes "address_tool r" "run r [''ip'', ''-6'', ''addr'', ''add'', p, ''dev'', i] m = (Inr x, m')" "ParsePrefix p = Inr d"
  shows "listed r (m_world m') i d \<and> keeps_elsewhere r i d (m_world m) (m_world m')"
  using assms run_world [OF assms(2)] by (auto simp: address_tool_def add_cmd_def)

lemma del_ok:
  assumes "address_tool r" "run r [''ip'', ''-6'', ''addr'', ''del'', p, ''dev'', i] m = (Inr x, m')" "ParsePrefix p = Inr d"
  shows "keeps_elsewhere r i d (m_world m) (m_world m')"
  using assms run_world [OF assms(2)] by (auto simp: address_tool_def del_cmd_def)

lemma keeps_elsewhere_trans: "keeps_elsewhere r i d u v \<Longrightarrow> keeps_elsewhere r i d v w \<Longrightarrow> keeps_elsewhere r i d u w"
  by (simp add: keeps_elsewhere_def)

lemma bindE_Inr: "bindE a f m = (Inr y, m'') \<Longrightarrow> \<exists>x m'. a m = (Inr x, m') \<and> f x m' = (Inr y, m'')"
  by (auto simp: bindE_def split: prod.splits sum.splits)

lemma ensure_ok:
  assumes tool: "address_tool r" and "ensureIPv6AddressPresent r i p m = (Inr x, m')"
  shows "present r (m_world m') (i, p) \<and> stays r (m_world m) (m_world m')"
proof -
  obtain st m1 where q: "queryInterfaceIPv6Address r i p m = (Inr st, m1)"
    and rest: "(case st of ipv6AddressHealthy \<Rightarrow> retE (Inr ())
       | ipv6AddressUnhealthy \<Rightarrow>
           thenE (run r [''ip'', ''-6'', ''addr'', ''del'', p, ''dev'', i])
                 (run r [''ip'', ''-6'', ''addr'', ''add'', p, ''dev'', i])
       | ipv6AddressMissing \<Rightarrow> run r [''ip'', ''-6'', ''addr'', ''add'', p, ''dev'', i]) m1 = (Inr x, m')"
    using assms(2) unfolding ensureIPv6AddressPresent_def by (blast dest: bindE_Inr)
  have w: "m_world m1 = m_world m" using query_world(1) [OF tool q] .
  obtain d where d: "ParsePrefix p = Inr d" "addr_shown r (m_world m) i d = Some st"
    using query_world(2) [OF tool q] by blast
  show ?thesis
  proof (cases st)
    case ipv6AddressHealthy
    then show ?thesis using rest d w by (auto simp: retE_def present_def listed_def)
  next
    case ipv6AddressMissing
    then have "run r [''ip'', ''-6'', ''addr'', ''add'', p, ''dev'', i] m1 = (Inr x, m')" using rest by simp
    with add_ok [OF tool this d(1)] w show ?thesis by (intro made_present [OF d(1)]) auto
  next
    case ipv6AddressUnhealthy
    then obtain m2 where m2: "run r [''ip'', ''-6'', ''addr'', ''del'', p, ''dev'', i] m1 = (Inr (), m2)"
      "run r [''ip'', ''-6'', ''addr'', ''add'', p, ''dev'', i] m2 = (Inr x, m')"
      using rest thenE_Inr by fastforce
    have "keeps_elsewhere r i d (m_world m) (m_world m')"
      using add_ok [OF tool m2(2) d(1)] del_ok [OF tool m2(1) d(1)] w by (auto intro: keeps_elsewhere_trans)
    with add_ok [OF tool m2(2) d(1)] show ?thesis by (intro made_present [OF d(1)]) auto
  qed
qed

text \<open>The addresses that a configuration needs, on their interfaces; a gateway that cannot be formed is empty.\<close>

definition gateway_of :: "NetworkConfig \<Rightarrow> string \<times> string" where
  "gateway_of n = (nc_Interface n, case gatewayForPrefix (nc_Prefix n) of Inl err \<Rightarrow> [] | Inr g \<Rightarrow> g)"

definition managed_addresses :: "Config \<Rightarrow> (string \<times> string) list" where
  "managed_addresses c =
     (if \<not> tc_Enabled (cfg_Tunnel c) then []
      else (InterfaceName, tc_LocalIPv6 (cfg_Tunnel c))
        # (if lan_Enabled (cfg_LAN c) then map gateway_of (elems (lan_Networks (cfg_LAN c))) else []))"

lemma ParsePrefix_empty: "\<exists>err. ParsePrefix [] = Inl err"
  by (simp add: ParsePrefix_def)

lemma present_parses: "present r w a \<Longrightarrow> snd a \<noteq> []"
  using ParsePrefix_empty by (auto simp: present_def split: sum.splits)

lemma present_gateway:
  assumes "present r w (gateway_of n)"
  obtains g where "gatewayForPrefix (nc_Prefix n) = Inr g" "gateway_of n = (nc_Interface n, g)"
  using present_parses [OF assms] that by (auto simp: gateway_of_def split: sum.splits)

lemma repair_networks_ok:
  assumes tool: "address_tool r" and "repair_networks r ns m = (Inr x, m')"
  shows "(\<forall>n \<in> set ns. present r (m_world m') (gateway_of n)) \<and> stays r (m_world m) (m_world m')"
  using assms(2)
proof (induction ns arbitrary: m)
  case Nil
  then show ?case by (simp add: retE_def)
next
  case (Cons n ns)
  obtain g where g: "gatewayForPrefix (nc_Prefix n) = Inr g"
    "thenE (ensureIPv6AddressPresent r (nc_Interface n) g) (repair_networks r ns) m = (Inr x, m')"
    using Cons.prems by (auto dest!: bindE_Inr simp: retE_def)
  obtain m1 where m1: "ensureIPv6AddressPresent r (nc_Interface n) g m = (Inr (), m1)"
    "repair_networks r ns m1 = (Inr x, m')"
    using thenE_Inr [OF g(2)] by blast
  note e = ensure_ok [OF tool m1(1)] and ih = Cons.IH [OF m1(2)]
  have "present r (m_world m1) (gateway_of n)" using g(1) e by (simp add: gateway_of_def)
  then show ?case using e ih by (auto intro: staysD stays_trans)
qed

lemma repaired_present:
  assumes tool: "address_tool r" and "RepairAddresses r (Some c) m = (Inr x, m')"
  shows "\<forall>a \<in> set (managed_addresses c). present r (m_world m') a"
proof (cases "tc_Enabled (cfg_Tunnel c)")
  case False
  then show ?thesis by (simp add: managed_addresses_def)
next
  case True
  let ?lan = "cfg_LAN c" and ?local = "tc_LocalIPv6 (cfg_Tunnel c)"
  obtain m1 where m1: "ensureIPv6AddressPresent r InterfaceName ?local m = (Inr (), m1)"
    and rest: "(if \<not> lan_Enabled ?lan then retE (Inr ()) else repair_networks r (elems (lan_Networks ?lan))) m1 = (Inr x, m')"
    using assms(2) True thenE_Inr unfolding RepairAddresses_def by fastforce
  note e = ensure_ok [OF tool m1]
  have r: "stays r (m_world m1) (m_world m')"
    "lan_Enabled ?lan \<Longrightarrow> \<forall>n \<in> set (elems (lan_Networks ?lan)). present r (m_world m') (gateway_of n)"
    using rest repair_networks_ok [OF tool] by (auto simp: retE_def split: if_splits)
  then show ?thesis using e by (auto simp: managed_addresses_def intro: staysD)
qed

text \<open>What \<open>Observe\<close> reports of addresses that are all listed: those that are not yet usable.\<close>

definition unusable_addresses :: "'w runner \<Rightarrow> 'w \<Rightarrow> (string \<times> string) list \<Rightarrow> string list" where
  "unusable_addresses r w as = map (\<lambda>a. fst a @ '' unhealthy '' @ snd a) (filter (unusable r w) as)"

lemma append_present:
  assumes "address_tool r" "present r (m_world m) (i, p)"
  shows "\<exists>m'. appendMissingIPv6Address r missing i p m = (Inr (missing @ unusable_addresses r (m_world m) [(i, p)]), m')
    \<and> m_world m' = m_world m"
proof -
  obtain d where d: "ParsePrefix p = Inr d" "listed r (m_world m) i d"
    using assms(2) by (auto simp: present_def split: sum.splits)
  then obtain st where st: "addr_shown r (m_world m) i d = Some st" "st \<noteq> ipv6AddressMissing" by (auto simp: listed_def)
  from query_shown [OF assms(1) d(1) st(1)] obtain m' where
    "queryInterfaceIPv6Address r i p m = (Inr st, m')" "m_world m' = m_world m" by blast
  then show ?thesis
    using d(1) st by (cases st) (simp_all add: appendMissingIPv6Address_def bindE_def retE_def unusable_addresses_def unusable_def)
qed

lemma missing_networks_present:
  assumes "address_tool r" "\<forall>n \<in> set ns. present r (m_world m) (gateway_of n)"
  shows "\<exists>m'. missing_networks r missing ns m
      = (Inr (missing @ unusable_addresses r (m_world m) (map gateway_of ns)), m') \<and> m_world m' = m_world m"
  using assms(2)
proof (induction ns arbitrary: m missing)
  case Nil
  then show ?case by (simp add: retE_def unusable_addresses_def)
next
  case (Cons n ns)
  have "present r (m_world m) (gateway_of n)" using Cons.prems by simp
  then obtain g where g: "gatewayForPrefix (nc_Prefix n) = Inr g" "gateway_of n = (nc_Interface n, g)"
    "present r (m_world m) (nc_Interface n, g)" by (metis present_gateway)
  let ?first = "missing @ unusable_addresses r (m_world m) [(nc_Interface n, g)]"
  obtain m1 where m1: "appendMissingIPv6Address r missing (nc_Interface n) g m = (Inr ?first, m1)"
    "m_world m1 = m_world m"
    using append_present [OF assms(1) g(3)] by blast
  then obtain m2 where "missing_networks r ?first ns m1
      = (Inr (?first @ unusable_addresses r (m_world m1) (map gateway_of ns)), m2)" "m_world m2 = m_world m1"
    using Cons.IH [of m1 ?first] Cons.prems by auto
  then show ?case using g m1 by (simp add: bindE_def retE_def unusable_addresses_def)
qed

lemma present_missing:
  assumes tool: "address_tool r" and "\<forall>a \<in> set (managed_addresses c). present r (m_world m) a"
  shows "\<exists>m'. collectMissingManagedIPv6Addresses r (Some c) m
    = (Inr (unusable_addresses r (m_world m) (managed_addresses c)), m') \<and> m_world m' = m_world m"
proof (cases "tc_Enabled (cfg_Tunnel c)")
  case False
  then show ?thesis by (simp add: collectMissingManagedIPv6Addresses_def retE_def managed_addresses_def unusable_addresses_def)
next
  case True
  let ?lan = "cfg_LAN c" and ?local = "tc_LocalIPv6 (cfg_Tunnel c)"
  let ?first = "unusable_addresses r (m_world m) [(InterfaceName, ?local)]"
  have "present r (m_world m) (InterfaceName, ?local)" using assms(2) True by (simp add: managed_addresses_def)
  from append_present [OF tool this, of "[]"] obtain m2 where
    m2: "appendMissingIPv6Address r [] InterfaceName ?local m = (Inr ?first, m2)" "m_world m2 = m_world m" by auto
  show ?thesis
    using True m2 assms(2) missing_networks_present [OF tool, of "elems (lan_Networks ?lan)" m2 ?first]
    by (cases "lan_Enabled ?lan")
      (auto simp: managed_addresses_def collectMissingManagedIPv6Addresses_def bindE_def retE_def unusable_addresses_def)
qed

text \<open>Duplicate address detection is over: what was listed is healthy.\<close>

definition usable_since :: "'w runner \<Rightarrow> 'w \<Rightarrow> 'w \<Rightarrow> bool" where
  "usable_since r w w' \<longleftrightarrow> (\<forall>i d. listed r w i d \<longrightarrow> addr_shown r w' i d = Some ipv6AddressHealthy)"

lemma usable_since_present:
  assumes "usable_since r w w'" "present r w a" shows "present r w' a" "\<not> unusable r w' a"
  using assms by (auto simp: usable_since_def present_def unusable_def listed_def split: sum.splits)

lemma none_unusable: "\<forall>a \<in> set as. \<not> unusable r w a \<Longrightarrow> unusable_addresses r w as = []"
  by (simp add: unusable_addresses_def)

section \<open>Reading the tool's output\<close>

lemma hex_graphic: "hex_val c = Some d \<Longrightarrow> graphic c"
  by (auto simp: hex_val_def graphic_def Let_def split: if_splits)

lemma graphic_punctuation: "graphic (CHR '':'')" "graphic (CHR ''.'')" "graphic (CHR ''/'')"
  by (simp_all add: graphic_def)

lemma string4_graphic: "list_all graphic (string4 a)"
  using string4_no_special [of _ a] is_digit_graphic graphic_punctuation by (auto simp: list_all_iff)

lemma string6_graphic: "list_all graphic (string6 a)"
  using string6_chars [of _ a] hex_graphic graphic_punctuation by (auto simp: list_all_iff)

lemma PrefixString_graphic: "prefix_ok p \<Longrightarrow> list_all graphic (PrefixString p)"
proof -
  assume ok: "prefix_ok p"
  obtain a b where p: "p = Prefix a b" by (cases p)
  have "list_all graphic (nat_dec b)"
    using nat_dec_digits [of b] is_digit_graphic by (auto simp: list_all_iff)
  moreover have "list_all graphic (AddrString a)"
    using ok p string4_graphic string6_graphic by (cases a) (auto simp: graphic_def)
  ultimately show ?thesis
    using graphic_punctuation by (simp add: p PrefixString_def)
qed

text \<open>Words of graphic characters, separated by single blanks.\<close>

definition words_ok :: "string list \<Rightarrow> bool" where
  "words_ok ws \<longleftrightarrow> list_all (\<lambda>w. w \<noteq> [] \<and> list_all graphic w) ws"

lemma space_prefix_blank: "space_prefix (CHR '' '' # s) = 1"
  by (simp add: space_prefix_def ascii_spaces_def)

lemma fields_word:
  "list_all graphic v \<Longrightarrow> c # w @ v \<noteq> [] \<Longrightarrow> fields_from (c # w) (v @ CHR '' '' # s) = (c # w @ v) # fields_from [] s"
proof (induction v arbitrary: w)
  case Nil
  then show ?case by (simp add: fields_from.simps space_prefix_blank)
next
  case (Cons d v)
  then show ?case
    using Cons.IH [of "w @ [d]"]
    by (subst fields_from.simps) (simp add: space_prefix_graphic)
qed

lemma fields_last_word: "list_all graphic v \<Longrightarrow> fields_from (c # w) v = [c # w @ v]"
proof (induction v arbitrary: w)
  case Nil
  then show ?case by (simp add: fields_from.simps)
next
  case (Cons d v)
  then show ?case
    using Cons.IH [of "w @ [d]"]
    by (subst fields_from.simps) (simp add: space_prefix_graphic)
qed

lemma fields_first: "graphic c \<Longrightarrow> fields_from [] (c # s) = fields_from [c] s"
  by (subst fields_from.simps) (simp add: space_prefix_graphic)

lemma Fields_Join: "words_ok ws \<Longrightarrow> Fields (Join ws '' '') = ws"
proof (induction ws rule: induct_list012)
  case 1
  show ?case by (simp add: Fields_def fields_from.simps)
next
  case (2 x)
  then show ?case
    by (cases x) (simp_all add: Fields_def words_ok_def fields_first fields_last_word)
next
  case (3 x y xs)
  then show ?case
    by (cases x) (simp_all add: Fields_def words_ok_def fields_first fields_word)
qed

text \<open>A line that starts with blanks.\<close>

lemma TrimLeftSpace_blanks: "TrimLeftSpace (replicate k (CHR '' '') @ s) = TrimLeftSpace s"
  by (induction k) (simp_all add: TrimLeftSpace.simps [of "CHR '' '' # _"] space_prefix_blank)

lemma Join_ends:
  assumes "words_ok ws" "ws \<noteq> []"
  shows "\<exists>c t. Join ws '' '' = c # t \<and> graphic c" "\<exists>c t. Join ws '' '' = t @ [c] \<and> graphic c"
proof -
  show "\<exists>c t. Join ws '' '' = c # t \<and> graphic c"
    using assms by (induction ws rule: induct_list012) (auto simp: words_ok_def neq_Nil_conv)
  show "\<exists>c t. Join ws '' '' = t @ [c] \<and> graphic c"
    using assms
  proof (induction ws rule: induct_list012)
    case (2 x)
    then show ?case by (cases x rule: rev_cases) (auto simp: words_ok_def)
  next
    case (3 x y xs)
    then obtain c t where "Join (y # xs) '' '' = t @ [c]" "graphic c" by (auto simp: words_ok_def)
    then have "Join (x # y # xs) '' '' = (x @ '' '' @ t) @ [c]" by simp
    with \<open>graphic c\<close> show ?case by blast
  qed simp
qed

lemma line_fields_words:
  assumes "words_ok ws" "ws \<noteq> []"
  shows "line_fields (replicate k (CHR '' '') @ Join ws '' '') = ws"
proof -
  obtain c t where "Join ws '' '' = c # t" "graphic c" using Join_ends(1) [OF assms] by blast
  then have "TrimLeftSpace (Join ws '' '') = Join ws '' ''"
    by (simp add: TrimLeftSpace_stop space_prefix_graphic)
  moreover obtain d u where "Join ws '' '' = u @ [d]" "graphic d" using Join_ends(2) [OF assms] by blast
  then have "TrimRightSpace (Join ws '' '') = Join ws '' ''"
    by (simp add: TrimRightSpace_stop space_suffix_graphic)
  ultimately show ?thesis
    by (simp add: line_fields_def TrimSpace_def TrimLeftSpace_blanks Fields_Join [OF assms(1)])
qed

text \<open>The entries of \<open>ip -6 addr show\<close>: a prefix and the words after it.\<close>

definition address_line :: "Prefix \<times> string list \<Rightarrow> string" where
  "address_line e = replicate 4 (CHR '' '') @ Join (''inet6'' # PrefixString (fst e) # snd e) '' ''"

definition render :: "(Prefix \<times> string list) list \<Rightarrow> string" where
  "render es = concat (map (\<lambda>e. address_line e @ [CHR 0x0A]) es)"

definition entry_ok :: "Prefix \<times> string list \<Rightarrow> bool" where
  "entry_ok e \<longleftrightarrow> prefix_ok (fst e) \<and> words_ok (snd e)"

fun lookup_state :: "Prefix \<Rightarrow> (Prefix \<times> string list) list \<Rightarrow> ipv6AddressState" where
  "lookup_state d [] = ipv6AddressMissing"
| "lookup_state d (e # es) =
     (if fst e = d then (if broken_flags (snd e) then ipv6AddressUnhealthy else ipv6AddressHealthy)
      else lookup_state d es)"

lemma entry_words:
  assumes "entry_ok e" shows "words_ok (''inet6'' # PrefixString (fst e) # snd e)"
proof -
  have "PrefixString (fst e) \<noteq> []" by (simp add: PrefixString_def)
  then show ?thesis
    using assms PrefixString_graphic [of "fst e"] by (simp add: entry_ok_def words_ok_def graphic_def)
qed

lemma newline_not_in_words: "words_ok ws \<Longrightarrow> CHR 0x0A \<notin> set (Join ws '' '')"
  by (induction ws rule: induct_list012) (auto simp: words_ok_def list_all_iff graphic_def)

lemma findIPv6PrefixState_render:
  assumes "list_all entry_ok es" shows "findIPv6PrefixState (render es) d = lookup_state d es"
  using assms
proof (induction es)
  case Nil
  show ?case by (simp add: findIPv6PrefixState_def render_def line_fields_def Fields_def fields_from.simps inet6_line_def)
next
  case (Cons e es)
  let ?ws = "''inet6'' # PrefixString (fst e) # snd e"
  have ws: "words_ok ?ws" using Cons.prems entry_words by simp
  then have "CHR 0x0A \<notin> set (address_line e)"
    using newline_not_in_words [OF ws] by (auto simp: address_line_def)
  then have "SplitChar (CHR 0x0A) (render (e # es)) = address_line e # SplitChar (CHR 0x0A) (render es)"
    by (simp add: render_def SplitChar_append)
  moreover have "line_fields (address_line e) = ?ws"
    unfolding address_line_def by (rule line_fields_words [OF ws]) simp
  moreover have "ParsePrefix (PrefixString (fst e)) = Inr (fst e)"
    using Cons.prems by (simp add: entry_ok_def ParsePrefix_PrefixString)
  ultimately show ?case
    using Cons by (simp add: findIPv6PrefixState_def inet6_line_def Let_def)
qed

section \<open>A simulated host\<close>

text \<open>
  The interfaces on which duplicate address detection is running, and the addresses of each interface, which are
  tentative there; every command that does not concern addresses succeeds and does nothing.
\<close>

type_synonym sim_world = "string list \<times> (string \<times> Prefix) list"

definition sim_entries :: "sim_world \<Rightarrow> string \<Rightarrow> (Prefix \<times> string list) list" where
  "sim_entries w i =
     map (\<lambda>(j, q). (q, [''scope'', ''global''] @ (if i \<in> set (fst w) then [''tentative''] else [])))
       (filter (\<lambda>(j, q). j = i \<and> prefix_ok q) (snd w))"

definition sim_host :: "sim_world runner" where
  "sim_host argv w =
     (if length argv = 6 \<and> take 5 argv = [''ip'', ''-6'', ''addr'', ''show'', ''dev'']
      then ((render (sim_entries w (argv ! 5)), None), w)
      else if length argv = 7 \<and> take 4 argv = [''ip'', ''-6'', ''addr'', ''add''] \<and> argv ! 5 = ''dev''
      then (case ParsePrefix (argv ! 4) of
              Inl err \<Rightarrow> (([], Some err), w)
            | Inr d \<Rightarrow> if (argv ! 6, d) \<in> set (snd w) then (([], Some (ErrorString ''File exists'')), w)
                       else (([], None), (fst w, snd w @ [(argv ! 6, d)])))
      else if length argv = 7 \<and> take 4 argv = [''ip'', ''-6'', ''addr'', ''del''] \<and> argv ! 5 = ''dev''
      then (case ParsePrefix (argv ! 4) of
              Inl err \<Rightarrow> (([], Some err), w)
            | Inr d \<Rightarrow> (([], None), (fst w, filter (\<lambda>e. e \<noteq> (argv ! 6, d)) (snd w))))
      else (([], None), w))"

lemma sim_entries_ok: "list_all entry_ok (sim_entries w i)"
  by (auto simp: sim_entries_def list_all_iff entry_ok_def words_ok_def graphic_def)

definition sim_state :: "sim_world \<Rightarrow> string \<Rightarrow> Prefix \<Rightarrow> ipv6AddressState" where
  "sim_state w i d =
     (if (i, d) \<in> set (snd w) \<and> prefix_ok d
      then (if i \<in> set (fst w) then ipv6AddressUnhealthy else ipv6AddressHealthy) else ipv6AddressMissing)"

lemma lookup_same_flags:
  "lookup_state d (map (\<lambda>(j, q). (q, flags)) w) =
     (if d \<in> snd ` set w then (if broken_flags flags then ipv6AddressUnhealthy else ipv6AddressHealthy) else ipv6AddressMissing)"
  by (induction w) (simp_all add: split_beta)

lemma sim_lookup: "lookup_state d (sim_entries w i) = sim_state w i d"
proof -
  have flags: "broken_flags ([''scope'', ''global''] @ (if i \<in> set (fst w) then [''tentative''] else [])) \<longleftrightarrow> i \<in> set (fst w)"
    by (simp add: broken_flags_def)
  have "d \<in> snd ` set (filter (\<lambda>(j, q). j = i \<and> prefix_ok q) (snd w)) \<longleftrightarrow> (i, d) \<in> set (snd w) \<and> prefix_ok d"
    by force
  then show ?thesis by (simp only: sim_entries_def lookup_same_flags sim_state_def flags)
qed

lemma sim_shown: "addr_shown sim_host w i d = Some (sim_state w i d)"
  by (simp add: addr_shown_def sim_host_def show_cmd_def findIPv6PrefixState_render sim_entries_ok sim_lookup)

lemma sim_listed: "listed sim_host w i d \<longleftrightarrow> (i, d) \<in> set (snd w) \<and> prefix_ok d"
  by (simp add: listed_def sim_shown sim_state_def)

lemma sim_add:
  assumes "ParsePrefix p = Inr d"
  shows "sim_host (add_cmd p i) w = (if (i, d) \<in> set (snd w) then (([], Some (ErrorString ''File exists'')), w)
    else (([], None), (fst w, snd w @ [(i, d)])))"
  using assms by (simp add: sim_host_def add_cmd_def)

lemma sim_del:
  assumes "ParsePrefix p = Inr d"
  shows "sim_host (del_cmd p i) w = (([], None), (fst w, filter (\<lambda>e. e \<noteq> (i, d)) (snd w)))"
  using assms by (simp add: sim_host_def del_cmd_def)

lemma sim_address_tool: "address_tool sim_host"
proof -
  have sh: "snd (sim_host (show_cmd i) w) = w" for i w by (simp add: sim_host_def show_cmd_def)
  have add: "listed sim_host w' i d \<and> keeps_elsewhere sim_host i d w w'"
    if "sim_host (add_cmd p i) w = ((out, None), w')" "ParsePrefix p = Inr d" for w w' i p d out
  proof -
    have "w' = (fst w, snd w @ [(i, d)])" using that(1) unfolding sim_add [OF that(2)] by (auto split: if_splits)
    then show ?thesis using ParsePrefix_ok [OF that(2)] by (simp add: sim_listed keeps_elsewhere_def)
  qed
  have del: "keeps_elsewhere sim_host i d w w'"
    if "sim_host (del_cmd p i) w = ((out, None), w')" "ParsePrefix p = Inr d" for w w' i p d out
  proof -
    have "w' = (fst w, filter (\<lambda>e. e \<noteq> (i, d)) (snd w))" using that(1) unfolding sim_del [OF that(2)] by simp
    then show ?thesis by (simp add: sim_listed keeps_elsewhere_def)
  qed
  show ?thesis unfolding address_tool_def using sh add del by blast
qed

text \<open>A repair succeeds on it.\<close>

lemma sim_ensure:
  assumes "ParsePrefix p = Inr d"
  shows "\<exists>m'. ensureIPv6AddressPresent sim_host i p m = (Inr (), m') \<and> fst (m_world m') = fst (m_world m)"
proof -
  have ok: "prefix_ok d" by (rule ParsePrefix_ok [OF assms])
  have add: "\<exists>m'. run sim_host [''ip'', ''-6'', ''addr'', ''add'', p, ''dev'', i] m = (Inr (), m') \<and> fst (m_world m') = fst (m_world m)"
    if "(i, d) \<notin> set (snd (m_world m))" for m
    using sim_add [OF assms, of i "m_world m"] that by (simp add: run_def CombinedOutput_def add_cmd_def)
  have del: "\<exists>m'. run sim_host [''ip'', ''-6'', ''addr'', ''del'', p, ''dev'', i] m = (Inr (), m')
      \<and> (i, d) \<notin> set (snd (m_world m')) \<and> fst (m_world m') = fst (m_world m)" for m
    using sim_del [OF assms, of i "m_world m"] by (simp add: run_def CombinedOutput_def del_cmd_def)
  obtain m1 where q: "queryInterfaceIPv6Address sim_host i p m = (Inr (sim_state (m_world m) i d), m1)" "m_world m1 = m_world m"
    using query_shown [OF sim_address_tool assms sim_shown] by blast
  show ?thesis
  proof (cases "sim_state (m_world m) i d")
    case ipv6AddressHealthy
    then show ?thesis using q by (simp add: ensureIPv6AddressPresent_def bindE_def retE_def)
  next
    case ipv6AddressMissing
    then have "(i, d) \<notin> set (snd (m_world m1))" using ok q(2) by (simp add: sim_state_def split: if_splits)
    from add [OF this] show ?thesis using q ipv6AddressMissing by (simp add: ensureIPv6AddressPresent_def bindE_def)
  next
    case ipv6AddressUnhealthy
    obtain m2 where m2: "run sim_host [''ip'', ''-6'', ''addr'', ''del'', p, ''dev'', i] m1 = (Inr (), m2)"
      "(i, d) \<notin> set (snd (m_world m2))" "fst (m_world m2) = fst (m_world m1)" using del by blast
    from add [OF m2(2)] show ?thesis
      using q m2 ipv6AddressUnhealthy by (simp add: ensureIPv6AddressPresent_def bindE_def thenE_def)
  qed
qed

end
