(* ===== verification/BackendSpec.thy ===== *)
theory BackendSpec
  imports AddressFacts
begin

text \<open>
  The properties of the backend, with a host on which every command succeeds and a host on which
  the tunnel cannot be created as their witnesses.
\<close>

section \<open>Hosts for the witnesses\<close>

definition quiet_host :: "unit runner" where
  "quiet_host argv w =
     (if argv = [''ip'', ''-4'', ''addr'', ''show'', ''ppp0''] then ((''    inet 192.0.2.7 peer'', None), w)
      else if argv = [''ip'', ''link'', ''show'', ''ppp0''] then ((''ppp0: mtu 1492 qdisc'', None), w)
      else (([], None), w))"

definition sample_config :: Config where
  "sample_config = \<lparr>cfg_Tunnel = sample_tunnel\<lparr>tc_Enabled := True, tc_MTU := 0\<rparr>, cfg_LAN = sample_lan\<lparr>lan_Enabled := False\<rparr>,
     cfg_Health = cfg_Health Defaults, cfg_Server = cfg_Server Defaults\<rparr>"

definition sample_input :: ReconcileInput where
  "sample_input = \<lparr>ri_Config = Some sample_config, ri_ConfigValid = True, ri_Force = False, ri_Applied = emptyAppliedState\<rparr>"

lemma quiet_run: "argv \<noteq> [''ip'', ''-4'', ''addr'', ''show'', ''ppp0''] \<Longrightarrow> argv \<noteq> [''ip'', ''link'', ''show'', ''ppp0'']
  \<Longrightarrow> CombinedOutput quiet_host argv m = (([], None), \<lparr>m_world = (), m_trace = m_trace m @ [Cmd argv]\<rparr>)"
  by (simp add: CombinedOutput_def quiet_host_def)

lemma quiet_wan: "ipv4AddressPattern ''    inet 192.0.2.7 peer'' = Some ''192.0.2.7''"
  by (simp add: ipv4AddressPattern_def after_literal_def is_digit_def numeral_3_eq_3)

lemma quiet_mtu: "interfaceMTUPattern ''ppp0: mtu 1492 qdisc'' = Some ''1492''"
  by (simp add: interfaceMTUPattern_def after_literal_def is_digit_def)


lemma quiet_source: "\<exists>args. buildDefaultRouteArgs (Some (with_MTU mtu sample_config)) = Inr args"
  by (simp add: buildDefaultRouteArgs_def selectDefaultRouteSource_def with_MTU_def sample_config_def
      sample_tunnel_def addressFromPrefix_def parse_eval isPreferredIPv6SourceAddress_def IsGlobalUnicast_def
      IsPrivate_def is_4in6_def byte6_def Let_def)

lemma quiet_run_ok:
  "hd argv = ''ip'' \<longrightarrow> argv ! 2 \<noteq> ''show'' \<and> argv ! 3 \<noteq> ''show'' \<Longrightarrow> \<exists>m'. run quiet_host argv m = (Inr (), m')"
  by (auto simp: run_def CombinedOutput_def quiet_host_def split: if_splits)

lemma quiet_ensure:
  assumes "ParsePrefix p = Inr d" shows "\<exists>m'. ensureIPv6AddressPresent quiet_host i p m = (Inr (), m')"
proof -
  have "findIPv6PrefixState [] d = ipv6AddressMissing"
    by (simp add: findIPv6PrefixState_def line_fields_def Fields_def fields_from.simps inet6_line_def)
  then show ?thesis
    using assms quiet_run_ok [of "[''ip'', ''-6'', ''addr'', ''add'', p, ''dev'', i]"]
    by (simp add: ensureIPv6AddressPresent_def bindE_def queryInterfaceIPv6Address_def CombinedOutput_def quiet_host_def)
qed

lemma thenE_ok: "\<exists>m'. a m = (Inr (), m') \<Longrightarrow> (\<And>m'. \<exists>m''. b m' = (Inr (), m'')) \<Longrightarrow> \<exists>m''. thenE a b m = (Inr (), m'')"
  by (auto simp: thenE_def bindE_def)

lemma quiet_bring_up: "\<exists>m'. bring_up quiet_host (with_MTU mtu sample_config) wanIP m = (Inr (), m')"
proof -
  have off: "\<not> lan_Enabled (cfg_LAN (with_MTU mtu sample_config))" by (simp add: with_MTU_def sample_config_def)
  obtain args where args: "buildDefaultRouteArgs (Some (with_MTU mtu sample_config)) = Inr args" 
    "hd args = ''-6''" "args ! 1 = ''route''" "args ! 2 = ''replace''"
    using quiet_source [of mtu] by (auto simp: buildDefaultRouteArgs_def Let_def split: sum.splits if_splits)
  obtain d where "ParsePrefix (tc_LocalIPv6 (cfg_Tunnel (with_MTU mtu sample_config))) = Inr d"
    by (simp add: with_MTU_def sample_config_def sample_tunnel_def parse_eval)
  then show ?thesis
    unfolding bring_up_def Let_def afterwards_def
    using off args
    by (intro thenE_ok quiet_run_ok quiet_ensure)
       (auto simp: bindE_def retE_def InterfaceName_def intro: quiet_run_ok)
qed

lemma quiet_Reconcile:
  "\<exists>m'. Reconcile quiet_host sample_input m = ((None, Some (with_MTU 1472 sample_config)), m')"
proof -
  let ?m1 = "teardown quiet_host emptyAppliedState m"
  have w: "\<exists>m2. getWANIPv4 quiet_host ''ppp0'' ?m1 = (Inr ''192.0.2.7'', m2)"
    by (simp add: getWANIPv4_def CombinedOutput_def quiet_host_def quiet_wan)
  have t: "\<exists>m3. resolveTunnelMTU quiet_host 0 ''ppp0'' m2 = (Inr 1472, m3)" for m2
    by (simp add: resolveTunnelMTU_def bindE_def retE_def getInterfaceMTU_def CombinedOutput_def quiet_host_def quiet_mtu
        Atoi_def is_digit_def dec_val_def digit_val_def in_int64_def int64_min_def int64_max_def tunnelOverhead_def minimumIPv6MTU_def)
  have c: "sc_WANInterface (cfg_Server sample_config) = ''ppp0''" "tc_MTU (cfg_Tunnel sample_config) = 0"
    "tc_Enabled (cfg_Tunnel sample_config)"
    by (simp_all add: sample_config_def Defaults_def defaultWANInterface_def)
  obtain m2 where w: "getWANIPv4 quiet_host ''ppp0'' ?m1 = (Inr ''192.0.2.7'', m2)" using w by blast
  obtain m3 where t: "resolveTunnelMTU quiet_host 0 ''ppp0'' m2 = (Inr 1472, m3)" using t by blast
  obtain m4 where "bring_up quiet_host (with_MTU 1472 sample_config) ''192.0.2.7'' m3 = (Inr (), m4)" using quiet_bring_up by blast
  then show ?thesis
    using w t c by (simp add: Reconcile_def sample_input_def with_MTU_def)
qed

definition start :: "unit machine" where
  "start = \<lparr>m_world = (), m_trace = []\<rparr>"

text \<open>A host without the tools.\<close>

definition broken_host :: "unit runner" where
  "broken_host argv w = (([], Some (ErrorString ''command not found'')), w)"

lemma broken_Reconcile:
  "\<exists>err c' m'. Reconcile broken_host sample_input start = ((Some err, c'), m')"
  by (simp add: Reconcile_def sample_input_def sample_config_def getWANIPv4_def CombinedOutput_def broken_host_def)

definition lan_config :: Config where
  "lan_config = sample_config\<lparr>cfg_LAN := sample_lan\<rparr>"

abbreviation lan_gw :: string where
  "lan_gw \<equiv> PrefixString (Prefix (Addr6 0x200104701f0b00000000000000000001 []) 64)"

lemma lan_gateway: "gatewayForPrefix ''2001:470:1f0b::/64'' = Inr lan_gw"
proof -
  have p: "ParsePrefix ''2001:470:1f0b::/64'' = Inr (Prefix (Addr6 0x200104701f0b00000000000000000000 []) 64)"
    by (simp add: parse_eval)
  have "(0x200104701f0b00000000000000000000 :: 128 word) AND NOT (mask (128 - 64)) = 0x200104701f0b00000000000000000000"
    by (simp add: mask_eq_exp_minus_1)
  then show ?thesis using gatewayForPrefix_IPv6 [OF p] by simp
qed

lemma lan_gateway_parses: "ParsePrefix lan_gw = Inr (Prefix (Addr6 0x200104701f0b00000000000000000001 []) 64)"
  by (rule ParsePrefix_PrefixString) simp

lemma lan_managed: "managed_addresses lan_config = [(InterfaceName, ''2001:470:1f0a::2/64''), (''br0'', lan_gw)]"
  by (simp add: managed_addresses_def lan_config_def sample_config_def sample_lan_def sample_tunnel_def gateway_of_def lan_gateway)

lemma sim_repair:
  "\<exists>m'. RepairAddresses sim_host (Some lan_config) m = (Inr (), m') \<and> fst (m_world m') = fst (m_world m)"
proof -
  have c: "tc_Enabled (cfg_Tunnel lan_config)" "lan_Enabled (cfg_LAN lan_config)"
    "tc_LocalIPv6 (cfg_Tunnel lan_config) = ''2001:470:1f0a::2/64''"
    by (simp_all add: lan_config_def sample_config_def sample_lan_def sample_tunnel_def)
  obtain d where d: "ParsePrefix ''2001:470:1f0a::2/64'' = Inr d" by (simp add: parse_eval)
  obtain m1 where m1: "ensureIPv6AddressPresent sim_host InterfaceName ''2001:470:1f0a::2/64'' m = (Inr (), m1)"
    "fst (m_world m1) = fst (m_world m)" using sim_ensure [OF d] by blast
  obtain m2 where m2: "ensureIPv6AddressPresent sim_host ''br0'' lan_gw m1 = (Inr (), m2)"
    "fst (m_world m2) = fst (m_world m1)" using sim_ensure [OF lan_gateway_parses] by blast
  have "repair_networks sim_host (elems (lan_Networks (cfg_LAN lan_config))) m1 = (Inr (), m2)"
    using m2(1) by (simp add: lan_config_def sample_lan_def thenE_def bindE_def retE_def lan_gateway)
  then show ?thesis using m1 m2(2) c by (simp add: RepairAddresses_def thenE_def bindE_def)
qed

section \<open>Properties\<close>

text \<open>
  C30: \<open>RepairAddresses\<close> is lightweight, as its comment says: whatever the host answers, the only
  commands it runs are \<open>ip -6 addr ...\<close>; it never touches the tunnel device, routes, firewall
  rules or \<open>sysctl\<close> settings, and never sleeps.
\<close>

theorem repair_touches_addresses_only:
  "\<exists>es. m_trace (snd (RepairAddresses r cfg m)) = m_trace m @ es \<and> list_all address_event es"
  using emits_RepairAddresses [of r cfg] by (simp add: emits_def adds_def)

text \<open>
  C31: \<open>Observe\<close> and \<open>Probe\<close> only read: every command they run is \<open>ip link show\<close>,
  \<open>ip -4 addr show\<close>, \<open>ip -6 addr show\<close>, \<open>ip -6 route get\<close> or \<open>ping\<close>.
\<close>

theorem observation_reads_only:
  "(\<exists>es. m_trace (snd (Observe r inp m)) = m_trace m @ es \<and> list_all reading_event es)
   \<and> (\<exists>es. m_trace (snd (Probe r target m)) = m_trace m @ es \<and> list_all reading_event es)"
  using emits_Observe [of r inp] emits_Probe [of r target] by (simp add: emits_def adds_def)

text \<open>
  C34: a configuration that is invalid or disabled is torn down and nothing more: \<open>Reconcile\<close>
  succeeds, leaves the configuration alone, and runs exactly the teardown commands for the applied
  state, none of which depends on the outcome of another.
\<close>

theorem reconcile_disabled:
  assumes "ri_Config inp = Some c" "\<not> ri_ConfigValid inp \<or> \<not> tc_Enabled (cfg_Tunnel c)"
  shows "fst (Reconcile r inp m) = (None, Some c)
    \<and> m_trace (snd (Reconcile r inp m)) = m_trace m @ map Cmd (teardown_commands (ri_Applied inp))"
  by (simp add: Reconcile_idle [OF assms] teardown_trace)

theorem reconcile_disabled_witness:
  "fst (Reconcile broken_host (sample_input\<lparr>ri_ConfigValid := False\<rparr>) start) = (None, Some sample_config)
    \<and> m_trace (snd (Reconcile broken_host (sample_input\<lparr>ri_ConfigValid := False\<rparr>) start)) =
      m_trace start @ map Cmd (teardown_commands emptyAppliedState)"
  using reconcile_disabled [of "sample_input\<lparr>ri_ConfigValid := False\<rparr>" sample_config broken_host start]
  by (simp add: sample_input_def)

text \<open>
  C32: a reconcile that fails never opens the firewall: it begins with the complete teardown of what was applied, which removes
  the program's chains, and after that it runs no \<open>iptables\<close> or \<open>ip6tables\<close> command.
\<close>

theorem reconcile_error_keeps_firewall_closed:
  assumes "ri_Config inp = Some c" "fst (Reconcile r inp m) = (Some err, c')"
  shows "\<exists>es. m_trace (snd (Reconcile r inp m)) =
      m_trace m @ map Cmd (teardown_commands (ri_Applied inp)) @ es \<and> list_all other_event es"
  by (rule Reconcile_failed [OF assms(1), of r m err c']) (metis assms(2) prod.collapse)

theorem reconcile_error_keeps_firewall_closed_witness:
  "\<exists>es. m_trace (snd (Reconcile broken_host sample_input start)) =
      m_trace start @ map Cmd (teardown_commands emptyAppliedState) @ es \<and> list_all other_event es"
proof -
  obtain err c' m' where "Reconcile broken_host sample_input start = ((Some err, c'), m')"
    using broken_Reconcile by blast
  then have "fst (Reconcile broken_host sample_input start) = (Some err, c')" by simp
  from reconcile_error_keeps_firewall_closed [OF _ this] show ?thesis by (simp add: sample_input_def)
qed



text \<open>
  C37: the gateway of an IPv6 prefix shorter than /128 is the first address after the network
  address, lies in the same network, and is written with the prefix's length.
\<close>

theorem gateway_in_prefix:
  assumes "ParsePrefix s = Inr (Prefix (Addr6 a z) b)" "b < 128"
  shows "\<exists>g. gatewayForPrefix s = Inr (PrefixString (Prefix (Addr6 g []) b))
    \<and> g = (a AND NOT (mask (128 - b))) + 1
    \<and> Masked (Prefix (Addr6 g []) b) = Masked (Prefix (Addr6 a z) b)
    \<and> ParsePrefix (PrefixString (Prefix (Addr6 g []) b)) = Inr (Prefix (Addr6 g []) b)"
  using gatewayForPrefix_IPv6 [OF assms] network_plus_one(3) [of "128 - b" a] assms(2)
  by (simp add: ParsePrefix_PrefixString)

theorem gateway_in_prefix_witness:
  "gatewayForPrefix ''2001:470:1f0b::/64'' =
     Inr (PrefixString (Prefix (Addr6 0x200104701f0b00000000000000000001 []) 64))"
proof -
  have p: "ParsePrefix ''2001:470:1f0b::/64'' = Inr (Prefix (Addr6 0x200104701f0b00000000000000000000 []) 64)"
    by (simp add: parse_eval)
  have "(0x200104701f0b00000000000000000000 :: 128 word) AND NOT (mask (128 - 64)) = 0x200104701f0b00000000000000000000"
    by (simp add: mask_eq_exp_minus_1)
  then show ?thesis using gateway_in_prefix [OF p] by auto
qed

text \<open>
  A /128 prefix has no address left for a gateway: the address the program configures for it
  is outside the prefix.
\<close>

theorem host_prefix_gateway:
  assumes "ParsePrefix s = Inr (Prefix (Addr6 a z) 128)" "a + 1 \<noteq> 0"
  shows "gatewayForPrefix s = Inr (PrefixString (Prefix (Addr6 (a + 1) []) 128))
    \<and> Masked (Prefix (Addr6 (a + 1) []) 128) \<noteq> Masked (Prefix (Addr6 a z) 128)"
proof -
  have "Itoa 128 = nat_dec 128" using Itoa_nat [of 128] by simp
  then show ?thesis using assms by (simp add: gatewayForPrefix_def PrefixString_def Let_def)
qed

theorem host_prefix_gateway_witness:
  "gatewayForPrefix ''2001:db8::1/128'' = Inr (PrefixString (Prefix (Addr6 0x20010db8000000000000000000000002 []) 128))"
proof -
  have p: "ParsePrefix ''2001:db8::1/128'' = Inr (Prefix (Addr6 0x20010db8000000000000000000000001 []) 128)"
    by (simp add: parse_eval)
  show ?thesis using host_prefix_gateway [OF p] by simp
qed



text \<open>
  C36: reading the output of \<open>ip -6 addr show\<close>: on the lines the tool prints for a list of addresses,
  \<open>findIPv6PrefixState\<close> is a lookup in the list: the address is unhealthy when its first entry carries
  \<open>dadfailed\<close> or \<open>tentative\<close>, healthy when it carries neither, and missing when there is no entry.
\<close>

theorem address_state_lookup:
  assumes "list_all entry_ok es" shows "findIPv6PrefixState (render es) d = lookup_state d es"
  by (rule findIPv6PrefixState_render [OF assms])

theorem address_state_lookup_witness:
  "findIPv6PrefixState (render [(Prefix (Addr6 1 []) 128, [''scope'', ''host'']),
                                (Prefix (Addr6 2 []) 64, [''scope'', ''global'', ''dadfailed'', ''tentative''])])
     (Prefix (Addr6 2 []) 64) = ipv6AddressUnhealthy"
proof -
  have "list_all entry_ok [(Prefix (Addr6 1 []) 128, [''scope'', ''host'']),
      (Prefix (Addr6 2 []) 64, [''scope'', ''global'', ''dadfailed'', ''tentative''])]"
    by (simp add: entry_ok_def words_ok_def graphic_def)
  from address_state_lookup [OF this] show ?thesis by (simp add: broken_flags_def)
qed

end
