(* ===== verification/ServiceSpec.thy ===== *)
theory ServiceSpec
  imports ServiceFacts BackendSpec
begin

text \<open>
  The properties of the control service over the system backend, whose host is any command runner.
\<close>

definition system_env :: "'w runner \<Rightarrow> (nat \<Rightarrow> Time) \<Rightarrow> (nat \<Rightarrow> OS) \<Rightarrow> (nat \<Rightarrow> ra_env) \<Rightarrow> 'w machine env" where
  "system_env r now os ra = \<lparr>en_backend = SystemBackend r, en_now = now, en_os = os, en_ra = ra\<rparr>"

lemma system_env_simps [simp]:
  "en_backend (system_env r now os ra) = SystemBackend r" "en_now (system_env r now os ra) = now"
  "en_os (system_env r now os ra) = os" "en_ra (system_env r now os ra) = ra"
  by (simp_all add: system_env_def)

section \<open>A disk that works\<close>

text \<open>A disk on which every write succeeds.\<close>

definition works :: "OS \<Rightarrow> bool" where
  "works os \<longleftrightarrow> (\<forall>path data s. snd (WriteAtomically os path data s) = None)"

definition working_env :: "'w env \<Rightarrow> bool" where
  "working_env e \<longleftrightarrow> (\<forall>n. works (en_os e n))"

lemma working_save_state: "working_env e \<Longrightarrow> save_state e s = (err, s') \<Longrightarrow> err = None"
  by (auto simp: working_env_def works_def SaveState_def written_def elim!: save_state_parts)

section \<open>Outcomes\<close>

lemma Config_Validate_Clone [simp]: "Config_Validate (Some (Config_Clone c)) = Config_Validate (Some c)"
proof -
  have "profile_part (Config_Clone c) = ProfileConfig_clone (profile_part c)"
    by (simp add: profile_part_def Config_Clone_def ProfileConfig_clone_def)
  then show ?thesis by (simp add: Config_Validate_def validationReasonsForConfig_def) (simp add: Config_Clone_def)
qed

lemma validationReasons_Nil: "validationReasons (Config_Validate (Some c)) = [] \<longleftrightarrow> Config_Validate (Some c) = None"
  by (auto simp: validationReasons_def Config_Validate_def Let_def as_validation_error.simps)

lemma with_MTU_simps [simp]:
  "tc_Enabled (cfg_Tunnel (with_MTU mtu c)) = tc_Enabled (cfg_Tunnel c)" "cfg_LAN (with_MTU mtu c) = cfg_LAN c"
  "cfg_Health (with_MTU mtu c) = cfg_Health c" "buildAppliedState (with_MTU mtu c) = buildAppliedState c"
  "cfg_Server (with_MTU mtu c) = cfg_Server c"
  by (simp_all add: with_MTU_def buildAppliedState_def)

lemma Config_Clone_simps [simp]:
  "cfg_Tunnel (Config_Clone c) = cfg_Tunnel c" "cfg_Health (Config_Clone c) = cfg_Health c"
  "cfg_Server (Config_Clone c) = cfg_Server c" "lan_Enabled (cfg_LAN (Config_Clone c)) = lan_Enabled (cfg_LAN c)"
  "elems (lan_Networks (cfg_LAN (Config_Clone c))) = elems (lan_Networks (cfg_LAN c))"
  "elems (lan_DNS (cfg_LAN (Config_Clone c))) = elems (lan_DNS (cfg_LAN c))"
  "buildAppliedState (Config_Clone c) = buildAppliedState c"
  by (simp_all add: Config_Clone_def LAN_clone_def buildAppliedState_def)

text \<open>A LAN that router advertisements are wanted for, and an advertiser that announces its prefixes and DNS servers.\<close>

definition lan_wanted :: "Config \<Rightarrow> bool" where
  "lan_wanted c \<longleftrightarrow> lan_Enabled (cfg_LAN c) \<and> elems (lan_Networks (cfg_LAN c)) \<noteq> []"

definition announces :: "Config \<Rightarrow> Advertiser \<Rightarrow> bool" where
  "announces c a \<longleftrightarrow> \<not> adv_cancelled a \<and> resolveRADNSServers c = Inr (adv_dns a)
     \<and> (case ra_networks (elems (lan_Networks (cfg_LAN c))) of
          Inl err \<Rightarrow> False | Inr es \<Rightarrow> map ce_prefix (adv_conns a) = map ne_Prefix es)"

lemma open_conns_prefixes:
  "open_conns env conns nws w = (Inr cs, w') \<Longrightarrow> map ce_prefix cs = map ce_prefix conns @ map ne_Prefix nws"
  by (induction env conns nws w rule: open_conns.induct) (auto split: sum.splits option.splits)

lemma startAdvertiser_announces:
  assumes "startAdvertiserLocked e cfg s = (err, t)" "sv_advertiser s = None"
  shows "case sv_advertiser t of None \<Rightarrow> err \<noteq> None | Some a \<Rightarrow> announces cfg a \<and> err = None"
  using assms
  by (auto simp: startAdvertiserLocked_def NewAdvertiser_def announces_def tick_def dest!: open_conns_prefixes
      split: sum.splits prod.splits)

lemma advertise_announces:
  assumes "advertise e cfg reasons backendErr s = (err, t)" "sv_advertiser s = None"
  shows "case sv_advertiser t of
      None \<Rightarrow> backendErr = None \<and> reasons = [] \<and> tc_Enabled (cfg_Tunnel cfg) \<and> lan_wanted cfg \<longrightarrow> err \<noteq> None
    | Some a \<Rightarrow> reasons = [] \<and> tc_Enabled (cfg_Tunnel cfg) \<and> lan_wanted cfg \<and> announces cfg a"
  using assms startAdvertiser_announces [of e cfg s err t]
  by (auto simp: advertise_def lan_wanted_def split: if_splits option.splits)

lemma effects_announces:
  assumes "reconcile_effects e force s = (v, t)"
  shows "case sv_advertiser t of
      None \<Rightarrow> rv_BackendErr v = None \<and> rv_Reasons v = [] \<and> tc_Enabled (cfg_Tunnel (rv_Config v)) \<and> lan_wanted (rv_Config v)
        \<longrightarrow> rv_AdvertiserErr v \<noteq> None
    | Some a \<Rightarrow> rv_Reasons v = [] \<and> tc_Enabled (cfg_Tunnel (rv_Config v)) \<and> lan_wanted (rv_Config v) \<and> announces (rv_Config v) a"
  using assms
proof (cases rule: reconcile_effects_cases)
  case (1 cfg' w1 s2 s3 ob w2 w3)
  have "sv_advertiser s2 = None" by (simp add: 1(4))
  from advertise_announces [OF 1(5) this] show ?thesis by (simp add: 1(9) tick_def)
qed

lemma same_LAN:
  "lan_wanted (with_MTU mtu (Config_Clone c)) = lan_wanted c" "announces (with_MTU mtu (Config_Clone c)) = announces c"
  by (auto simp: lan_wanted_def announces_def resolveRADNSServers_def fun_eq_iff)

text \<open>What a reconcile leaves, by the three cases of the \<open>switch\<close>.\<close>

definition settled :: "Config \<Rightarrow> AppliedState \<Rightarrow> 'w service \<Rightarrow> bool" where
  "settled c old s \<longleftrightarrow>
     (let st = sd_Status (sv_state s); reasons = elems (st_DegradedReasons st) in
      st_LastError st = firstReason reasons \<and>
      (if \<not> tc_Enabled (cfg_Tunnel c) then
         st_ReconcileState st = ReconcileDown \<and> sd_Applied (sv_state s) = emptyAppliedState \<and> sv_advertiser s = None
       else if \<not> config_valid c then
         st_ReconcileState st = ReconcileDegraded \<and> sd_Applied (sv_state s) = old \<and> sv_advertiser s = None
         \<and> prefix (validationReasonsForConfig c) reasons
       else sd_Applied (sv_state s) = buildAppliedState c
         \<and> (st_ReconcileState st = ReconcileReady \<or> st_ReconcileState st = ReconcileDegraded)
         \<and> (st_ReconcileState st = ReconcileReady \<longrightarrow> st_TunnelUp st \<and> set reasons \<subseteq> {ReasonHealthProbeFailed})
         \<and> (st_TunnelUp st \<and> reasons = [] \<longrightarrow> st_ReconcileState st = ReconcileReady)
         \<and> (case sv_advertiser s of
              None \<Rightarrow> st_ReconcileState st = ReconcileReady \<longrightarrow> \<not> lan_wanted c
            | Some a \<Rightarrow> lan_wanted c \<and> announces c a)))"

text \<open>A reason about a managed address.\<close>

abbreviation managed_reason :: "string \<Rightarrow> bool" where
  "managed_reason \<equiv> prefix managedIPv6AddressMissingReasonPrefix"

text \<open>
  What the result of a reconcile means: without an error, nothing is complained of but addresses and the probe, and the
  advertiser is running if it is wanted; an error belongs to a valid, enabled configuration and is among the reasons.
\<close>

definition answered :: "Config \<Rightarrow> goerr option \<Rightarrow> 'w service \<Rightarrow> bool" where
  "answered c err s \<longleftrightarrow>
     (let st = sd_Status (sv_state s); reasons = elems (st_DegradedReasons st); active = config_valid c \<and> tc_Enabled (cfg_Tunnel c) in
      case err of
        None \<Rightarrow> active \<longrightarrow> (\<forall>x \<in> set reasons. managed_reason x \<or> x = ReasonHealthProbeFailed)
          \<and> (lan_wanted c \<longrightarrow> sv_advertiser s \<noteq> None)
      | Some x \<Rightarrow> active \<and> Error x \<in> set reasons \<and> st_ReconcileState st = ReconcileDegraded)"

lemma reconcile_error_cases:
  "reconcile_error v = None \<longleftrightarrow> rv_Reasons v \<noteq> [] \<or> rv_BackendErr v = None \<and> rv_AdvertiserErr v = None \<and> rv_ObserveErr v = None"
  "reconcile_error v = Some x \<Longrightarrow> rv_Reasons v = [] \<and> (rv_BackendErr v = Some x \<or> rv_AdvertiserErr v = Some x \<or> rv_ObserveErr v = Some x)"
  by (auto simp: reconcile_error_def first_error_def split: if_splits)

lemma missing_reasons: "hasMissingManagedIPv6Addresses ob \<longleftrightarrow> managedIPv6AddressReasons ob \<noteq> []"
  by (simp add: managedIPv6AddressReasons_def hasMissingManagedIPv6Addresses_def)

lemma validationReasons_config: "\<not> config_valid c \<Longrightarrow> validationReasons (Config_Validate (Some c)) = validationReasonsForConfig c"
  using Config_Validate_ok [of c] by (auto simp: validationReasons_def Config_Validate_def Let_def as_validation_error.simps)

lemma reconcile_settled:
  assumes "reconcileLocked e force s = (err, s')" "en_backend e = SystemBackend r"
  shows "settled (sv_config s) (sd_Applied (sv_state s)) s' \<and> same_desired s s'"
    and "err = None \<or> working_env e \<Longrightarrow> answered (sv_config s) err s'"
proof -
  let ?c = "sv_config s"
  obtain v t saveErr where R: "reconcile_effects e force s = (v, t)"
    "save_state e (tick (publish v (en_now e (sv_calls t)) t)) = (saveErr, s')"
    "err = (case saveErr of Some x \<Rightarrow> Some x | None \<Rightarrow> reconcile_error v)"
    using assms(1) by (rule reconcileLocked_parts)
  note eff = reconcile_effects_state [OF R(1)]
  from R(2) obtain ss where s': "s' = (tick (publish v (en_now e (sv_calls t)) t))
      \<lparr>sv_disks := rev ss @ sv_disks t, sv_calls := Suc (Suc (sv_calls t))\<rparr>"
    by (cases rule: save_state_parts) (simp add: tick_def)
  then have st: "sv_state s' = sv_state (publish v (en_now e (sv_calls t)) t)" "sv_advertiser s' = sv_advertiser t"
    by (simp_all add: tick_def)
  obtain mtu where cfg: "rv_Config v = with_MTU mtu (Config_Clone ?c)"
    using system.effects_config [OF R(1) assms(2)] by blast
  have on: "tc_Enabled (cfg_Tunnel (rv_Config v)) = tc_Enabled (cfg_Tunnel ?c)"
    "buildAppliedState (rv_Config v) = buildAppliedState ?c" using cfg by simp_all
  have rs: "rv_Reasons v = validationReasons (Config_Validate (Some ?c))" using eff by simp
  have valid: "rv_Reasons v = [] \<longleftrightarrow> config_valid ?c"
    by (simp add: rs validationReasons_Nil Config_Validate_ok)
  note idle = system.effects_idle [OF R(1) assms(2)]
  note ra = effects_announces [OF R(1), unfolded cfg same_LAN with_MTU_simps Config_Clone_simps]
  have pub: "settled ?c (sd_Applied (sv_state s)) s'"
  proof (cases "tc_Enabled (cfg_Tunnel ?c) \<and> config_valid ?c")
    case True
    have none: "rv_BackendErr v = None \<and> rv_AdvertiserErr v = None \<and> rv_ObserveErr v = None
        \<and> managedIPv6AddressReasons (rv_Observation v) = []" if "elems (reconcile_reasons v) = []"
      using arg_cong [OF that, of set] unfolding reconcile_reasons_set by (auto simp: set_empty2 split: if_splits)
    show ?thesis
      unfolding settled_def Let_def
      using True on valid none ra
      by (auto simp: st published_fields published_state(2) outcome_def Let_def reconcile_reasons_set missing_reasons
          split: option.splits)
  next
    case False
    then show ?thesis
      unfolding settled_def Let_def
      using on valid idle eff rs reconcile_reasons_prefix [of v] validationReasons_config [of ?c]
      by (auto simp: st published_fields published_state(2) outcome_def Let_def prefix_def)
  qed
  then show "settled ?c (sd_Applied (sv_state s)) s' \<and> same_desired s s'" using eff by (simp add: s')
  have mr: "managed_reason x" if "x \<in> set (managedIPv6AddressReasons ob)" for x ob
    using that by (auto simp: managedIPv6AddressReasons_def)
  assume "err = None \<or> working_env e"
  then have "saveErr = None" using R(3) working_save_state [OF _ R(2)] by (auto split: option.splits)
  then have err: "err = reconcile_error v" using R(3) by simp
  show "answered ?c err s'"
  proof (cases err)
    case None
    with err have "rv_Reasons v \<noteq> [] \<or> rv_BackendErr v = None \<and> rv_AdvertiserErr v = None \<and> rv_ObserveErr v = None"
      using reconcile_error_cases(1) [of v] by simp
    then show ?thesis
      unfolding None answered_def Let_def option.case st published_fields reconcile_reasons_set
      using valid on ra mr by (auto split: option.splits)
  next
    case (Some x)
    then have "reconcile_error v = Some x" using err by simp
    note x = reconcile_error_cases(2) [OF this]
    have "tc_Enabled (cfg_Tunnel ?c)" by (rule ccontr) (use x idle in auto)
    then show ?thesis
      using Some x valid on
      by (auto simp: answered_def st published_fields reconcile_reasons_set outcome_def Let_def)
  qed
qed

section \<open>Health checks\<close>

lemma be_Observe_reads:
  "be_Observe (SystemBackend r) inp m = ((ob, err), m') \<Longrightarrow> adds reading_event m m'"
  using emits_Observe [of r inp] by (auto simp: SystemBackend_def dest: emitsD split: prod.splits)

lemma probe_now_reads:
  assumes "probe_now e wanted target m n = (x, p, m')" "en_backend e = SystemBackend r"
  shows "adds reading_event m m'"
  using assms emits_Probe [of r target] emitsD
  by (fastforce simp: probe_now_def SystemBackend_def split: if_splits prod.splits sum.splits)

lemma health_observe_parts:
  assumes "health_observe e cfg m n = (v, m')" "en_backend e = SystemBackend r"
  shows "adds reading_event m m' \<and> hv_Config v = cfg \<and> hv_Reasons v = validationReasons (Config_Validate (Some cfg))"
proof -
  let ?reasons = "validationReasons (Config_Validate (Some cfg))"
  obtain ob err m1 where o: "be_Observe (SystemBackend r) (buildObserveInput cfg ?reasons) m = ((ob, err), m1)"
    by (metis prod.exhaust)
  obtain x p m2 where q: "probe_now e (hc_Enabled (cfg_Health cfg) \<and> hc_Target (cfg_Health cfg) \<noteq> [])
      (hc_Target (cfg_Health cfg)) m1 n = (x, p, m2)" by (metis prod.exhaust)
  from assms(1) have "m' = m2" "hv_Config v = cfg" "hv_Reasons v = ?reasons"
    by (auto simp: health_observe_def Let_def assms(2) o q)
  then show ?thesis using adds_trans [OF be_Observe_reads [OF o] probe_now_reads [OF q assms(2)]] by simp
qed

text \<open>What an operation leaves alone that only publishes a new status.\<close>

definition status_only :: "'w service \<Rightarrow> 'w service \<Rightarrow> bool" where
  "status_only s t \<longleftrightarrow> same_desired s t \<and> sv_advertiser t = sv_advertiser s \<and> sv_ndp t = sv_ndp s
     \<and> sd_Applied (sv_state t) = sd_Applied (sv_state s)"

lemma save_state_status_only:
  assumes "save_state e s = (err, t)"
  shows "status_only u t = status_only u s" "sv_backend t = sv_backend s" "sv_state t = sv_state s"
  using assms by (auto elim!: save_state_parts simp: status_only_def)

lemma status_only_on_status [simp]:
  "status_only s (on_status f t) = status_only s t" "status_only s (tick t) = status_only s t"
  "status_only s (t\<lparr>sv_backend := w\<rparr>) = status_only s t" "status_only s s"
  "status_only (tick s) t = status_only s t" "status_only (s\<lparr>sv_backend := w\<rparr>) t = status_only s t"
  by (simp_all add: status_only_def) (simp_all add: service_defs same_desired_def)

lemma health_commit_parts:
  assumes "health_commit e v s = (res, t)"
  shows "status_only s t \<and> sv_backend t = sv_backend s \<and> sv_state t = sv_state (on_status (health_status v) s)
    \<and> (\<forall>st. res = Inr st \<longrightarrow> st = Service_Status t)"
proof -
  obtain err u where u: "save_state e (on_status (health_status v) s) = (err, u)" by (rule prod.exhaust)
  from assms u have "t = u" "\<forall>st. res = Inr st \<longrightarrow> st = Service_Status t"
    by (auto simp: health_commit_def split: option.splits)
  then show ?thesis using save_state_status_only [OF u] by simp
qed

lemma runHealthCheck_observing:
  assumes "runHealthCheck e auto s = (res, s')" "en_backend e = SystemBackend r"
    "\<And>v. auto \<Longrightarrow> hv_Config v = Config_Clone (sv_config s) \<Longrightarrow>
       hv_Reasons v = validationReasons (Config_Validate (Some (sv_config s))) \<Longrightarrow> health_recovery auto v = NoRecovery"
  shows "adds reading_event (sv_backend s) (sv_backend s') \<and> status_only s s'
    \<and> (\<forall>st. res = Inr st \<longrightarrow> st = Service_Status s')"
proof -
  obtain v w where o: "health_observe e (Config_Clone (sv_config s)) (sv_backend s) (sv_calls s) = (v, w)"
    by (rule prod.exhaust)
  obtain res1 s1 where c: "health_commit e v (tick (s\<lparr>sv_backend := w\<rparr>)) = (res1, s1)" by (rule prod.exhaust)
  have none: "health_recovery auto v = NoRecovery"
    using assms(3) health_observe_parts [OF o assms(2)] by (cases auto) (auto simp: health_recovery_def)
  have run: "(res, s') = (case res1 of Inl err \<Rightarrow> (Inl err, s1) | Inr status \<Rightarrow> (Inr status, s1))"
    using assms(1) by (simp add: runHealthCheck_def o c none recover_def split: sum.splits)
  then have "s' = s1" "res = res1" by (auto split: sum.splits)
  then show ?thesis
    using health_commit_parts [OF c] health_observe_parts [OF o assms(2)] by simp (simp add: tick_def)
qed

section \<open>Repair\<close>

text \<open>The commands that only read leave the host as it is.\<close>

definition reads_pure :: "'w runner \<Rightarrow> bool" where
  "reads_pure r \<longleftrightarrow> (\<forall>argv w. reading_event (Cmd argv) \<longrightarrow> snd (r argv w) = w)"

lemma Observe_after_repair:
  assumes "address_tool r" "reads_pure r" "RepairAddresses r (Some c) m = (Inr u, m')" "oi_Config inp = Some c"
  shows "\<exists>m'' wan. Observe r inp m' = ((\<lparr>ob_TunnelUp =
      (snd (fst (r [''ip'', ''link'', ''show'', InterfaceName] (m_world m'))) = None), ob_WANIPv4 = wan,
      ob_MissingIPv6Addresses = Some (unusable_addresses r (m_world m') (managed_addresses c))\<rparr>, None), m'')
    \<and> m_world m'' = m_world m'"
proof -
  have pure: "m_world (snd (CombinedOutput r argv m)) = m_world m" if "reading_event (Cmd argv)" for argv m
  proof -
    have "snd (r argv (m_world m)) = m_world m" using assms(2) that unfolding reads_pure_def by blast
    then show ?thesis by (auto simp: CombinedOutput_def split: prod.split)
  qed
  obtain link m1 where m1: "CombinedOutput r [''ip'', ''link'', ''show'', InterfaceName] m' = (link, m1)"
    by (rule prod.exhaust)
  obtain wan m2 where m2: "observe_wan r (oi_WANInterface inp) m1 = (wan, m2)" by (rule prod.exhaust)
  have w1: "m_world m1 = m_world m'" using pure [of "[''ip'', ''link'', ''show'', InterfaceName]" m'] m1 by simp
  have w2: "m_world m2 = m_world m1"
    using pure [of "[''ip'', ''-4'', ''addr'', ''show'', oi_WANInterface inp]" m1] m2
    by (auto simp: observe_wan_def getWANIPv4_def split: if_splits sum.splits prod.splits option.splits)
  have "\<forall>a \<in> set (managed_addresses c). present r (m_world m2) a" using repaired_present [OF assms(1,3)] w1 w2 by simp
  from present_missing [OF assms(1) this] obtain m3 where
    "collectMissingManagedIPv6Addresses r (Some c) m2 = (Inr (unusable_addresses r (m_world m2) (managed_addresses c)), m3)"
    "m_world m3 = m_world m2" by blast
  moreover have "snd link = snd (fst (r [''ip'', ''link'', ''show'', InterfaceName] (m_world m')))"
    using m1 by (auto simp: CombinedOutput_def split: prod.splits)
  ultimately show ?thesis
    unfolding Observe_def by (simp add: m1 m2 assms(4) Let_def w1 w2)
qed

text \<open>The other reasons, and after them those for the given addresses.\<close>

definition with_addresses :: "string list \<Rightarrow> string list \<Rightarrow> string list" where
  "with_addresses reasons addresses =
     append_new (filter (\<lambda>x. \<not> managed_reason x) reasons) (map (\<lambda>a. managedIPv6AddressMissingReasonPrefix @ a) addresses)"

lemma replaced_reasons:
  "elems (replaceManagedIPv6AddressReasons (managedIPv6AddressReasons ob) reasons) =
     with_addresses (elems reasons) (elems (ob_MissingIPv6Addresses ob))"
  by (simp add: replaceManagedIPv6AddressReasons_def managedIPv6AddressReasons_def with_addresses_def)

lemma managed_addresses_Clone [simp]: "managed_addresses (Config_Clone c) = managed_addresses c"
  by (simp add: managed_addresses_def)

lemma repair_parts:
  assumes "address_tool r" "reads_pure r" "en_backend e = SystemBackend r"
    "repairManagedAddresses e s = (None, s')" "config_valid (sv_config s)" "tc_Enabled (cfg_Tunnel (sv_config s))"
  defines "w \<equiv> m_world (sv_backend s')"
  defines "up \<equiv> snd (fst (r [''ip'', ''link'', ''show'', InterfaceName] w)) = None"
    and "pending \<equiv> unusable_addresses r w (managed_addresses (sv_config s))"
    and "st \<equiv> sd_Status (sv_state s)" and "st' \<equiv> sd_Status (sv_state s')"
  shows "elems (st_DegradedReasons st') = with_addresses (elems (st_DegradedReasons st)) pending"
    and "st_LastError st' = firstReason (elems (st_DegradedReasons st'))"
    and "st_ReconcileState st' =
        (if pending \<noteq> [] then ReconcileDegraded
         else if up \<and> elems (st_DegradedReasons st') = [] then ReconcileReady else st_ReconcileState st)"
    and "\<forall>a \<in> set (managed_addresses (sv_config s)). present r w a"
    and "adds (\<lambda>ev. reading_event ev \<or> address_event ev) (sv_backend s) (sv_backend s')" "status_only s s'"
proof -
  let ?c = "Config_Clone (sv_config s)"
  obtain repairErr ob observeErr m2 where eff: "repair_effects e ?c (sv_backend s) = ((repairErr, ob, observeErr), m2)"
    by (metis prod.exhaust)
  obtain saveErr s1 where sv: "save_state e (on_status (repair_status repairErr ob observeErr) (s\<lparr>sv_backend := m2\<rparr>))
      = (saveErr, s1)" by (rule prod.exhaust)
  have c: "Config_Validate (Some (sv_config s)) = None" "tc_Enabled (cfg_Tunnel ?c)"
    using assms(5,6) by (simp_all add: Config_Validate_ok)
  have "(None, s') = (first_error [saveErr, repairErr, observeErr], s1)"
    using assms(4) c eff sv by (simp add: repairManagedAddresses_def Let_def)
  then have n: "s' = s1" "repairErr = None" "observeErr = None"
    by (auto simp: first_error_def split: if_splits option.splits)
  obtain u m1 where rep: "RepairAddresses r (Some ?c) (sv_backend s) = (Inr u, m1)"
    and obs: "\<exists>x. be_Observe (SystemBackend r) (buildObserveInput ?c []) m1 = ((x, None), m2) \<and> ob = observed x"
    using eff n(2,3) by (cases "RepairAddresses r (Some ?c) (sv_backend s)" rule: prod.exhaust)
      (auto simp: repair_effects_def SystemBackend_def assms(3) error_of_def Let_def split: sum.splits prod.splits)
  have inp: "oi_Config (buildObserveInput ?c []) = Some ?c" using c by (simp add: buildObserveInput_def)
  have seen: "ob_TunnelUp ob = (snd (fst (r [''ip'', ''link'', ''show'', InterfaceName] (m_world m1))) = None)"
    "elems (ob_MissingIPv6Addresses ob) = unusable_addresses r (m_world m1) (managed_addresses (sv_config s))"
    "m_world m2 = m_world m1"
    using Observe_after_repair [OF assms(1,2) rep inp] obs by (auto simp: SystemBackend_def observed_def)
  have b: "sv_backend s' = m2" "sd_Status (sv_state s') = repair_status None ob None st"
    using save_state_status_only [OF sv] n by (simp_all add: st_def)
  then have w: "w = m_world m1" using seen(3) by (simp add: w_def)
  have missing: "elems (ob_MissingIPv6Addresses ob) = pending" "ob_TunnelUp ob = up"
    using seen(1,2) by (simp_all add: pending_def up_def w)
  show "status_only s s'" using save_state_status_only [OF sv] n by simp
  show "\<forall>a \<in> set (managed_addresses (sv_config s)). present r w a"
    using repaired_present [OF assms(1) rep] by (simp add: w)
  have "adds address_event (sv_backend s) m1" "adds reading_event m1 m2"
    using emitsD [OF emits_RepairAddresses rep] be_Observe_reads obs by blast+
  then show "adds (\<lambda>ev. reading_event ev \<or> address_event ev) (sv_backend s) (sv_backend s')"
    unfolding b(1) by (blast intro: adds_trans adds_mono)
  show "elems (st_DegradedReasons st') = with_addresses (elems (st_DegradedReasons st)) pending"
    "st_LastError st' = firstReason (elems (st_DegradedReasons st'))"
    "st_ReconcileState st' = (if pending \<noteq> [] then ReconcileDegraded
         else if up \<and> elems (st_DegradedReasons st') = [] then ReconcileReady else st_ReconcileState st)"
    by (simp_all add: st'_def b(2) repair_status_def appendErrorReason_def replaced_reasons Let_def missing
        hasMissingManagedIPv6Addresses_def)
qed

lemma repair_succeeds:
  assumes "address_tool r" "reads_pure r" "en_backend e = SystemBackend r" "working_env e"
    "config_valid (sv_config s)" "tc_Enabled (cfg_Tunnel (sv_config s))"
    "RepairAddresses r (Some (Config_Clone (sv_config s))) (sv_backend s) = (Inr u, m)"
  shows "\<exists>s'. repairManagedAddresses e s = (None, s') \<and> m_world (sv_backend s') = m_world m"
proof -
  let ?c = "Config_Clone (sv_config s)"
  have c: "Config_Validate (Some (sv_config s)) = None" "tc_Enabled (cfg_Tunnel ?c)"
    using assms(5,6) by (simp_all add: Config_Validate_ok)
  have inp: "oi_Config (buildObserveInput ?c []) = Some ?c" using c by (simp add: buildObserveInput_def)
  obtain ob w where "repair_effects e ?c (sv_backend s) = ((None, ob, None), w)" "m_world w = m_world m"
    using Observe_after_repair [OF assms(1,2,7) inp]
    by (auto simp: repair_effects_def SystemBackend_def assms(3,7) error_of_def Let_def)
  moreover obtain err s1 where sv: "save_state e (on_status (repair_status None ob None) (s\<lparr>sv_backend := w\<rparr>)) = (err, s1)"
    by (rule prod.exhaust)
  moreover have "err = None" by (rule working_save_state [OF assms(4) sv])
  moreover have "sv_backend s1 = w" using save_state_status_only(2) [OF sv] by simp
  ultimately show ?thesis using c by (simp add: repairManagedAddresses_def Let_def first_error_def)
qed

section \<open>A service for the witnesses\<close>

definition service_on :: "'w \<Rightarrow> Config \<Rightarrow> 'w machine service" where
  "service_on w c =
     \<lparr>sv_configPath = ''/data/config.json'', sv_statePath = ''/data/state.json'', sv_document = sample_document,
      sv_config = c, sv_state = DefaultState, sv_advertiser = None, sv_backend = \<lparr>m_world = w, m_trace = []\<rparr>,
      sv_ndp = \<lparr>nd_next = 0, nd_open = []\<rparr>, sv_disks = [Map.empty], sv_calls = 0\<rparr>"

definition sample_service :: "unit machine service" where
  "sample_service = service_on () sample_config"

definition no_links :: ra_env where
  "no_links = \<lparr>re_InterfaceByName = (\<lambda>n. Inl (ErrorString ''no such network interface'')), re_Listen = (\<lambda>i. None)\<rparr>"

abbreviation sample_env :: "'w runner \<Rightarrow> 'w machine env" where
  "sample_env r \<equiv> system_env r (\<lambda>n. ''2024-05-01T10:00:00Z'') (\<lambda>n. working_OS) (\<lambda>n. no_links)"

lemma working_sample_env: "working_env (sample_env r)"
proof -
  have "works working_OS" unfolding works_def using working_write by (metis snd_conv)
  then show ?thesis by (simp add: working_env_def)
qed

lemma sim_reads_pure: "reads_pure sim_host"
proof -
  have short: "take 3 argv = [''ip'', ''-6'', ''addr'']" "take 1 argv = [''ip'']"
    if "take 4 argv = [''ip'', ''-6'', ''addr'', x]" for argv and x :: string
    using arg_cong [OF that, of "take 3"] arg_cong [OF that, of "take 1"] by simp_all
  have "take 4 argv \<noteq> [''ip'', ''-6'', ''addr'', ''add''] \<and> take 4 argv \<noteq> [''ip'', ''-6'', ''addr'', ''del'']"
    if "reading_event (Cmd argv)" for argv
    using that short [of argv] by fastforce
  then show ?thesis unfolding reads_pure_def sim_host_def by simp
qed

lemma lan_config_valid: "config_valid lan_config" "tc_Enabled (cfg_Tunnel lan_config)" "Config_Clone lan_config = lan_config"
proof -
  show "Config_Clone lan_config = lan_config"
    by (simp add: lan_config_def Config_Clone_def LAN_clone_def sample_lan_def copy_slice_def)
  show "tc_Enabled (cfg_Tunnel lan_config)" by (simp add: lan_config_def sample_config_def)
  have "profile_part lan_config = pr_Config sample_profile\<lparr>pc_Tunnel := (sample_tunnel\<lparr>tc_Enabled := True, tc_MTU := 0\<rparr>)\<rparr>"
    by (simp add: profile_part_def lan_config_def sample_config_def sample_profile_def)
  moreover have "profile_valid (pr_Config sample_profile\<lparr>pc_Tunnel := (sample_tunnel\<lparr>tc_Enabled := True, tc_MTU := 0\<rparr>)\<rparr>) True"
    using sample_profile_valid
    by (simp add: profile_valid_def sample_profile_def ProfileConfig_applyDefaults_def Let_def default_tunnel_def
        sample_tunnel_def endpoint_valid_def)
  moreover have "server_valid (cfg_Server lan_config)"
    by (simp add: server_valid_def lan_config_def sample_config_def Defaults_def go_const default_numbers trim_eval)
  ultimately show "config_valid lan_config"
    by (simp add: config_valid_def lan_config_def sample_config_def)
qed

section \<open>Properties\<close>

text \<open>
  C5: the outcome of a reconcile.  A disabled configuration ends down, with no applied state and no
  advertiser.  An enabled but invalid one ends degraded with its validation messages as the first
  reasons, no advertiser, and the applied state kept for the next teardown.  A valid one ends ready or
  degraded with exactly its networks recorded as applied, whatever failed; ready means that the tunnel is up,
  that nothing but the health probe is complained of, and that an advertiser runs if the LAN has networks; a tunnel that
  is up with no complaint is ready; and an advertiser that runs announces the prefixes and DNS servers of the LAN.
  The result is no error only if the advertiser is running where it is wanted and all that is complained of is addresses
  and the probe; where the state can be saved, an error is one of the reasons of a degraded, valid and enabled configuration.
  The last error is always the first reason, and the desired state does not change.
\<close>

theorem reconcile_outcome:
  assumes "reconcileLocked (system_env r now os ra) force s = (err, s')"
  shows "settled (sv_config s) (sd_Applied (sv_state s)) s' \<and> same_desired s s'
    \<and> (err = None \<or> working_env (system_env r now os ra) \<longrightarrow> answered (sv_config s) err s')"
  using reconcile_settled [OF assms, of r] by simp

theorem reconcile_outcome_witness:
  "\<exists>err s'. reconcileLocked (sample_env broken_host) False sample_service = (err, s')
     \<and> settled sample_config emptyAppliedState s' \<and> same_desired sample_service s' \<and> answered sample_config err s'"
proof -
  obtain err s' where run: "reconcileLocked (sample_env broken_host) False sample_service = (err, s')" by (rule prod.exhaust)
  from reconcile_outcome [OF run] run working_sample_env [of broken_host]
  show ?thesis by (simp add: sample_service_def service_on_def DefaultState_def)
qed

text \<open>
  C12: the health endpoint only looks: whatever the host answers, \<open>Health\<close> runs commands that read,
  and it changes neither the desired state, the applied state nor the advertiser.
\<close>

theorem health_reads_only:
  "(\<exists>es. m_trace (sv_backend (snd (Service_Health (system_env r now os ra) s))) = m_trace (sv_backend s) @ es
      \<and> list_all reading_event es)
   \<and> status_only s (snd (Service_Health (system_env r now os ra) s))
   \<and> (case fst (Service_Health (system_env r now os ra) s) of
        Inl err \<Rightarrow> True | Inr st \<Rightarrow> st = Service_Status (snd (Service_Health (system_env r now os ra) s)))"
proof -
  obtain res s' where run: "runHealthCheck (system_env r now os ra) False s = (res, s')" by (rule prod.exhaust)
  from runHealthCheck_observing [OF run, of r] show ?thesis
    by (auto simp: Service_Health_def run adds_def split: sum.split)
qed

text \<open>
  C13: the lightweight repair.  On a host whose address tool lists what it was asked to add and whose reading
  commands change nothing, a repair that reports success leaves every managed address on its interface.  Of the
  complaints about managed addresses exactly those remain whose address cannot be used yet, because duplicate address
  detection still runs on it: then the service is degraded.  If there is none, it is ready when nothing else is wrong
  and the tunnel device exists, and otherwise in the state it was in.  All other complaints stay, and nothing on the
  host is touched but addresses; neither the applied state nor the advertiser changes.
\<close>

theorem light_repair_recovers:
  assumes "address_tool r" "reads_pure r" "repairManagedAddresses (system_env r now os ra) s = (None, s')"
    "config_valid (sv_config s)" "tc_Enabled (cfg_Tunnel (sv_config s))"
  shows "let w = m_world (sv_backend s'); st = sd_Status (sv_state s); st' = sd_Status (sv_state s');
      pending = unusable_addresses r w (managed_addresses (sv_config s)) in
      (\<forall>a \<in> set (managed_addresses (sv_config s)). present r w a)
    \<and> elems (st_DegradedReasons st') = with_addresses (elems (st_DegradedReasons st)) pending
    \<and> st_LastError st' = firstReason (elems (st_DegradedReasons st'))
    \<and> st_ReconcileState st' =
        (if pending \<noteq> [] then ReconcileDegraded
         else if snd (fst (r [''ip'', ''link'', ''show'', InterfaceName] w)) = None \<and> elems (st_DegradedReasons st') = []
         then ReconcileReady else st_ReconcileState st)
    \<and> (\<exists>es. m_trace (sv_backend s') = m_trace (sv_backend s) @ es
          \<and> list_all (\<lambda>ev. reading_event ev \<or> address_event ev) es)
    \<and> status_only s s'"
  using repair_parts [OF assms(1,2) _ assms(3-5)] unfolding Let_def adds_def by simp

lemma sim_repaired:
  obtains s' where "repairManagedAddresses (sample_env sim_host) (service_on (dad, []) lan_config) = (None, s')"
    "fst (m_world (sv_backend s')) = dad"
proof -
  let ?s = "service_on (dad, []) lan_config :: sim_world machine service"
  have c: "config_valid (sv_config ?s)" "tc_Enabled (cfg_Tunnel (sv_config ?s))"
    using lan_config_valid by (simp_all add: service_on_def)
  obtain m where m: "RepairAddresses sim_host (Some (Config_Clone (sv_config ?s))) (sv_backend ?s) = (Inr (), m)"
    "fst (m_world m) = dad"
    using sim_repair [of "sv_backend ?s"] lan_config_valid(3) by (auto simp: service_on_def)
  have "en_backend (sample_env sim_host) = SystemBackend sim_host" by simp
  from repair_succeeds [OF sim_address_tool sim_reads_pure this working_sample_env c m(1)] m(2) that show thesis by auto
qed

text \<open>On a bridge where duplicate address detection runs: the service is degraded by the address that was just added.\<close>

theorem light_repair_recovers_witness:
  "\<exists>s'. repairManagedAddresses (sample_env sim_host) (service_on ([''br0''], []) lan_config) = (None, s')
     \<and> st_ReconcileState (sd_Status (sv_state s')) = ReconcileDegraded
     \<and> elems (st_DegradedReasons (sd_Status (sv_state s'))) = [''managed IPv6 address missing: br0 unhealthy '' @ lan_gw]"
proof -
  let ?s = "service_on ([''br0''], []) lan_config :: sim_world machine service"
  obtain s' where run: "repairManagedAddresses (sample_env sim_host) ?s = (None, s')"
    and dad: "fst (m_world (sv_backend s')) = [''br0'']" by (rule sim_repaired)
  have c: "config_valid (sv_config ?s)" "tc_Enabled (cfg_Tunnel (sv_config ?s))" "sv_config ?s = lan_config"
    "elems (st_DegradedReasons (sd_Status (sv_state ?s))) = []"
    using lan_config_valid by (simp_all add: service_on_def DefaultState_def zero_status_def)
  note here = light_repair_recovers [OF sim_address_tool sim_reads_pure run c(1,2), unfolded Let_def c(3,4)]
  let ?d = "Prefix (Addr6 0x200104701f0b00000000000000000001 []) 64"
  have "present sim_host (m_world (sv_backend s')) (''br0'', lan_gw)" using here by (simp add: lan_managed)
  then have "(''br0'', ?d) \<in> set (snd (m_world (sv_backend s')))"
    by (simp add: present_def lan_gateway_parses sim_listed)
  moreover obtain e where "ParsePrefix ''2001:470:1f0a::2/64'' = Inr e" by (simp add: parse_eval)
  ultimately have "unusable_addresses sim_host (m_world (sv_backend s')) (managed_addresses lan_config) = [''br0 unhealthy '' @ lan_gw]"
    using dad by (simp add: lan_managed unusable_addresses_def unusable_def lan_gateway_parses sim_shown sim_state_def InterfaceName_def)
  then show ?thesis
    using here run by (simp add: with_addresses_def managedIPv6AddressMissingReasonPrefix_def)
qed

end
