(* ===== verification/Stores.thy ===== *)
theory Stores
  imports StoreFacts State
begin

text \<open>
  The two files that the program keeps, as one interface: a store saves a value at a path so that
  every crash leaves the old file or the new one, touches no other path, and loads what it saved.
  The configuration document and the state document are its instances.
\<close>

section \<open>The interface\<close>

locale file_store =
  fixes save :: "OS \<Rightarrow> string \<Rightarrow> 'a \<Rightarrow> fs \<Rightarrow> fs list \<times> goerr option"
    and load :: "OS \<Rightarrow> fs \<Rightarrow> string \<Rightarrow> 'a res"
    and keepable :: "'a \<Rightarrow> bool"
    and kept :: "'a \<Rightarrow> 'a"
  assumes nonempty: "fst (save os path x s) \<noteq> []"
    and each: "temp_sane os \<Longrightarrow> plain_name path \<Longrightarrow> t \<in> set (fst (save os path x s)) \<Longrightarrow>
        t path = s path \<or> snd (save os path x s) = None \<and> t path = last (fst (save os path x s)) path"
    and elsewhere: "temp_sane os \<Longrightarrow> plain_name q \<Longrightarrow> q \<noteq> path \<Longrightarrow> t \<in> set (fst (save os path x s)) \<Longrightarrow> t q = s q"
    and local: "t path = s path \<Longrightarrow> load os t path = load os s path"
    and saved: "temp_sane os \<Longrightarrow> plain_name path \<Longrightarrow> keepable x \<Longrightarrow> save os path x s = (ss, None) \<Longrightarrow>
        sys_Open os' path = None \<Longrightarrow> load os' (last ss) path = Inr (kept x)"
begin

text \<open>A save that fails leaves the file as it was, in every state it went through.\<close>

lemma failed_keeps:
  assumes "temp_sane os" "plain_name path" "save os path x s = (ss, Some err)" "t \<in> set ss"
  shows "t path = s path"
  using each [OF assms(1,2), of t x s] assms(3,4) by simp

text \<open>After a crash the old value or the new one is loaded.\<close>

lemma crash_load:
  assumes "temp_sane os" "plain_name path" "keepable x" "sys_Open os' path = None"
    "t \<in> set (fst (save os path x s))"
  shows "load os' t path = load os' s path \<or> load os' t path = Inr (kept x)"
proof (cases "t path = s path")
  case True
  then show ?thesis by (intro disjI1 local)
next
  case False
  let ?r = "save os path x s"
  have new: "snd ?r = None" "t path = last (fst ?r) path" using each [OF assms(1,2,5)] False by auto
  then have "?r = (fst ?r, None)" by (metis prod.collapse)
  from saved [OF assms(1-3) this assms(4)] local [of t path "last (fst ?r)", OF new(2)] show ?thesis by simp
qed

text \<open>Another file loads the same after a save.\<close>

lemma frame:
  assumes "temp_sane os" "plain_name q" "q \<noteq> path" "t \<in> set (fst (save os path x s))"
  shows "load os' t q = load os' s q"
  by (rule local [of t q s, OF elsewhere [OF assms]])

end

section \<open>The configuration document\<close>

text \<open>Every save is a single atomic write, or fails before it.\<close>

definition one_write :: "OS \<Rightarrow> string \<Rightarrow> fs \<Rightarrow> fs list \<times> goerr option \<Rightarrow> bool" where
  "one_write os path s r \<longleftrightarrow>
     (\<exists>err. r = ([s], Some err)) \<or> (\<exists>msg data. r = written msg (WriteAtomically os path data s))"

lemma one_write_each:
  assumes "one_write os path s r" "temp_sane os" "plain_name path" "t \<in> set (fst r)"
  shows "t path = s path \<or> snd r = None \<and> t path = last (fst r) path"
proof (cases "\<exists>err. r = ([s], Some err)")
  case True
  then show ?thesis using assms(4) by auto
next
  case False
  then obtain msg data where r: "r = written msg (WriteAtomically os path data s)"
    using assms(1) by (auto simp: one_write_def)
  then have "t \<in> set (fst (WriteAtomically os path data s))" using assms(4) by (simp add: written_def)
  from WriteAtomically_path [OF assms(2,3) this] show ?thesis by (auto simp: r written_def)
qed

lemma one_write_elsewhere:
  assumes "one_write os path s r" "temp_sane os" "plain_name q" "q \<noteq> path" "t \<in> set (fst r)"
  shows "t q = s q"
  using assms WriteAtomically_other [OF assms(2-4)] by (auto simp: one_write_def written_def)

lemma one_write_nonempty: "one_write os path s r \<Longrightarrow> fst r \<noteq> []"
  by (auto simp: one_write_def written_def)

lemma one_write_failed: "one_write os path s ([s], Some err)"
  by (simp add: one_write_def)

lemma one_write_written: "one_write os path s (written msg (WriteAtomically os path data s))"
  by (auto simp: one_write_def)

lemma SaveDocument_one_write: "one_write os path s (SaveDocument os path (Some d) s)"
  by (auto simp: SaveDocument_def Save_def Let_def
      intro: one_write_failed one_write_written split: sum.split option.split)

interpretation documents: file_store "\<lambda>os path d. SaveDocument os path (Some d)" LoadDocument storable stored
proof
  fix os os' :: OS and path q :: string and d :: Document and s t :: fs and ss
  note w = SaveDocument_one_write [of os path s d]
  show "fst (SaveDocument os path (Some d) s) \<noteq> []" by (rule one_write_nonempty [OF w])
  show "t path = s path \<Longrightarrow> LoadDocument os t path = LoadDocument os s path"
    by (simp add: LoadDocument_def ReadFile_def)
  assume sane: "temp_sane os"
  show "plain_name path \<Longrightarrow> t \<in> set (fst (SaveDocument os path (Some d) s)) \<Longrightarrow>
     t path = s path \<or> snd (SaveDocument os path (Some d) s) = None
       \<and> t path = last (fst (SaveDocument os path (Some d) s)) path"
    by (rule one_write_each [OF w sane])
  show "plain_name q \<Longrightarrow> q \<noteq> path \<Longrightarrow> t \<in> set (fst (SaveDocument os path (Some d) s)) \<Longrightarrow> t q = s q"
    by (rule one_write_elsewhere [OF w sane])
  show "plain_name path \<Longrightarrow> storable d \<Longrightarrow> SaveDocument os path (Some d) s = (ss, None) \<Longrightarrow>
     sys_Open os' path = None \<Longrightarrow> LoadDocument os' (last ss) path = Inr (stored d)"
    using Save_written [of os path d s ss] WriteAtomically_target [OF sane]
    by (auto simp: LoadDocument_def ReadFile_def)
qed

section \<open>The state document\<close>

text \<open>Values that JSON keeps, with times that parse as RFC 3339.\<close>

definition storable_networks :: "NetworkStatus slice \<Rightarrow> bool" where
  "storable_networks ns \<longleftrightarrow> list_all (\<lambda>n. utf8_valid (ns_Interface n) \<and> utf8_valid (ns_Prefix n)) (elems ns)"

definition storable_status :: "Status \<Rightarrow> bool" where
  "storable_status st \<longleftrightarrow>
     list_all utf8_valid [st_Interface st, st_LocalIPv6 st, st_WANIPv4 st, st_ActiveProfileID st,
       st_ActiveProfileName st, st_ActiveBroker st, st_ReconcileState st, st_LastError st]
     \<and> list_all utf8_valid (elems (st_DegradedReasons st)) \<and> storable_networks (st_Networks st)
     \<and> in_int64 (st_EffectiveMTU st) \<and> in_int64 (st_PingMs st)
     \<and> valid_time (st_LastPingAt st) \<and> valid_time (st_LastReconcileAt st)
     \<and> utf8_valid (st_LastPingAt st) \<and> utf8_valid (st_LastReconcileAt st)"

definition storable_state :: "StateDocument \<Rightarrow> bool" where
  "storable_state s \<longleftrightarrow> storable_status (sd_Status s)
     \<and> list_all utf8_valid [ap_WANInterface (sd_Applied s), ap_RemoteEndpoint (sd_Applied s), ap_LocalIPv6 (sd_Applied s)]
     \<and> storable_networks (ap_Networks (sd_Applied s))"

text \<open>An empty list of applied networks is omitted, and loads as the default, which is not nil.\<close>

definition stored_state :: "StateDocument \<Rightarrow> StateDocument" where
  "stored_state s = s\<lparr>sd_Applied := (sd_Applied s)\<lparr>ap_Networks := non_nil (ap_Networks (sd_Applied s))\<rparr>\<rparr>"

lemma decode_network_status [simp]: "decode_struct network_status_fields (encode_network_status n) n0 = Some n"
  by (simp add: decode_simps network_status_fields_def encode_network_status_def)

lemma decode_networks_encode [simp]: "decode_networks (encode_slice encode_network_status ns) old = Some ns"
  by (simp add: decode_networks_def decode_slice_encode)

lemma json_ok_networks [simp]: "storable_networks ns \<Longrightarrow> json_ok (encode_slice encode_network_status ns)"
  by (rule json_ok_slice) (auto simp: storable_networks_def list_all_iff encode_network_status_def)

lemma decode_time_ok [simp]: "valid_time x \<Longrightarrow> decode_time (JStr x) y = Some x"
  by (simp add: decode_time_def)

lemma decode_applied:
  "decode_struct applied_fields (encode_applied a) emptyAppliedState =
     Some (a\<lparr>ap_Networks := non_nil (ap_Networks a)\<rparr>)"
  by (cases "elems (ap_Networks a) = []"; cases "ap_Networks a"; cases a)
    (simp_all add: decode_simps applied_fields_def encode_applied_def unless_empty_def emptyAppliedState_def)

lemma decode_strings [simp]: "decode_slice [] decode_string (encode_slice JStr ss) old = Some ss"
  by (simp add: decode_slice_encode)

lemma decode_state:
  assumes "storable_state s"
  shows "decode_struct state_fields (encode_state s) DefaultState = Some (stored_state s)"
proof -
  have st: "storable_status (sd_Status s)" using assms by (simp add: storable_state_def)
  then show ?thesis
    by (cases s) (simp add: decode_simps state_fields_def status_fields_def encode_state_def status_members_def
        storable_status_def decode_applied DefaultState_def stored_state_def)
qed

lemma json_ok_applied:
  assumes "list_all utf8_valid [ap_WANInterface a, ap_RemoteEndpoint a, ap_LocalIPv6 a]" "storable_networks (ap_Networks a)"
  shows "json_ok (encode_applied a)"
  using assms by (auto simp: encode_applied_def unless_empty_def)

lemma json_ok_strings: "list_all utf8_valid (elems ss) \<Longrightarrow> json_ok (encode_slice JStr ss)"
  by (rule json_ok_slice) (simp add: list_all_iff)

lemma json_ok_state: "storable_state s \<Longrightarrow> json_ok (encode_state s)"
  by (simp add: encode_state_def status_members_def storable_state_def storable_status_def json_ok_applied json_ok_strings)

interpretation states: file_store SaveState LoadState storable_state stored_state
proof
  fix os os' :: OS and path q :: string and x :: StateDocument and s t :: fs and ss
  have w: "one_write os path s (SaveState os path x s)" by (simp add: SaveState_def one_write_written)
  show "fst (SaveState os path x s) \<noteq> []" by (rule one_write_nonempty [OF w])
  show "t path = s path \<Longrightarrow> LoadState os t path = LoadState os s path"
    by (simp add: LoadState_def ReadFile_def)
  assume sane: "temp_sane os"
  show "plain_name path \<Longrightarrow> t \<in> set (fst (SaveState os path x s)) \<Longrightarrow>
     t path = s path \<or> snd (SaveState os path x s) = None \<and> t path = last (fst (SaveState os path x s)) path"
    by (rule one_write_each [OF w sane])
  show "plain_name q \<Longrightarrow> q \<noteq> path \<Longrightarrow> t \<in> set (fst (SaveState os path x s)) \<Longrightarrow> t q = s q"
    by (rule one_write_elsewhere [OF w sane])
  assume "plain_name path" "storable_state x" "SaveState os path x s = (ss, None)" "sys_Open os' path = None"
  then show "LoadState os' (last ss) path = Inr (stored_state x)"
    using WriteAtomically_target [OF sane, of path "MarshalIndent (encode_state x)" s ss]
      Unmarshal_Marshal [of "encode_state x" "decode_struct state_fields" DefaultState "stored_state x"] json_ok_state [of x] decode_state [of x]
    by (simp add: SaveState_def written_def LoadState_def ReadFile_def prod_eq_iff)
qed

section \<open>Properties\<close>

text \<open>
  C10: crash safety of the configuration: whatever state of the file system a crash of the process during
  \<open>SaveDocument\<close> leaves, \<open>LoadDocument\<close> reads from it what it read before the save or the new
  document, and a save that reports an error leaves every state with the old file; no other file
  is touched.
\<close>

theorem config_crash_safe:
  assumes "temp_sane os" "plain_name path" "storable d" "sys_Open os' path = None"
    "SaveDocument os path (Some d) s = (ss, err)" "t \<in> set ss"
  shows "(LoadDocument os' t path = LoadDocument os' s path \<or> LoadDocument os' t path = Inr (stored d))
    \<and> (err \<noteq> None \<longrightarrow> t path = s path)
    \<and> (\<forall>q. q \<noteq> path \<and> plain_name q \<longrightarrow> t q = s q)"
  using documents.crash_load [OF assms(1-4), of t s] documents.failed_keeps [OF assms(1,2), of d s ss]
    documents.elsewhere [OF assms(1), of _ path t d s] assms(5,6)
  by auto

lemma working_sane: "temp_sane working_OS"
  by (simp add: temp_sane_def working_OS_def)

theorem config_crash_safe_witness:
  "\<exists>ss. SaveDocument working_OS ''/data/config.json'' (Some sample_document) Map.empty = (ss, None)
    \<and> (\<forall>t \<in> set ss. LoadDocument working_OS t ''/data/config.json'' = LoadDocument working_OS Map.empty ''/data/config.json''
         \<or> LoadDocument working_OS t ''/data/config.json'' = Inr (stored sample_document))"
proof -
  obtain ss where ss: "SaveDocument working_OS ''/data/config.json'' (Some sample_document) Map.empty = (ss, None)"
    using sample_saved by blast
  have "sys_Open working_OS ''/data/config.json'' = None" by (simp add: working_OS_def)
  from config_crash_safe [OF working_sane config_path_plain sample_storable this ss] ss show ?thesis by blast
qed

text \<open>
  C11: the observed state survives a restart: a state that was saved without error loads again as it
  was, except that an empty list of applied networks comes back as the default one, which is not nil.
\<close>

theorem state_roundtrip:
  assumes "temp_sane os" "plain_name path" "storable_state x" "sys_Open os' path = None"
    "SaveState os path x s = (ss, None)"
  shows "LoadState os' (last ss) path = Inr (stored_state x)"
  by (rule states.saved [OF assms(1-3,5,4)])

lemma default_state_storable: "storable_state DefaultState"
  by (simp add: storable_state_def storable_status_def storable_networks_def DefaultState_def zero_status_def
      emptyAppliedState_def go_const)
    (simp add: zero_time_def in_int64_def int64_min_def int64_max_def valid_time_def two_digits_def is_digit_def
      dec_val_def digit_val_def days_in_def valid_fraction_zone_def valid_zone_def)

lemma working_SaveState: "\<exists>ss. SaveState working_OS p x s = (ss, None)"
proof -
  obtain ss where "WriteAtomically working_OS p (MarshalIndent (encode_state x)) s = (ss, None)"
    using working_write [of p "MarshalIndent (encode_state x)" s] by (elim exE)
  then show ?thesis by (simp add: SaveState_def written_def)
qed

theorem state_roundtrip_witness:
  "\<exists>ss. SaveState working_OS ''/data/state.json'' DefaultState Map.empty = (ss, None)
     \<and> LoadState working_OS (last ss) ''/data/state.json'' = Inr (stored_state DefaultState)"
proof -
  obtain ss where ss: "SaveState working_OS ''/data/state.json'' DefaultState Map.empty = (ss, None)"
    using working_SaveState by blast
  have "plain_name ''/data/state.json''" by (simp add: plain_name_def after_last_slash_def)
  from state_roundtrip [OF working_sane this default_state_storable _ ss] ss show ?thesis
    by (auto simp: working_OS_def)
qed

end
