(* ===== verification/ServiceUpdates.thy ===== *)
theory ServiceUpdates
  imports ServiceSpec Stores
begin

text \<open>
  Updates of the desired state: an update is accepted as a whole, in memory and on disk, or rejected
  as a whole.
\<close>

section \<open>The configuration file during an operation\<close>

definition sane_env :: "'w env \<Rightarrow> bool" where
  "sane_env e \<longleftrightarrow> (\<forall>n. temp_sane (en_os e n))"

definition paths_ok :: "'w service \<Rightarrow> bool" where
  "paths_ok s \<longleftrightarrow> plain_name (sv_configPath s) \<and> sv_configPath s \<noteq> sv_statePath s"

text \<open>The file has the same contents in every state of the file system since.\<close>

definition config_untouched :: "'w service \<Rightarrow> 'w service \<Rightarrow> bool" where
  "config_untouched s s' \<longleftrightarrow> sv_configPath s' = sv_configPath s \<and>
     (\<exists>ds. sv_disks s' = ds @ sv_disks s \<and> (\<forall>t \<in> set ds. t (sv_configPath s) = current_fs s (sv_configPath s)))"

lemma config_untouched_refl [simp]: "config_untouched s s"
  by (simp add: config_untouched_def)

lemma config_untouched_same:
  "sv_configPath t = sv_configPath s' \<Longrightarrow> sv_disks t = sv_disks s' \<Longrightarrow> config_untouched s t = config_untouched s s'"
  "sv_configPath t = sv_configPath s \<Longrightarrow> sv_disks t = sv_disks s \<Longrightarrow> config_untouched t s' = config_untouched s s'"
  by (simp_all add: config_untouched_def current_fs_def)

lemma config_untouched_current:
  "config_untouched s s' \<Longrightarrow> current_fs s' (sv_configPath s) = current_fs s (sv_configPath s)"
proof -
  assume "config_untouched s s'"
  then obtain ds where ds: "sv_disks s' = ds @ sv_disks s" "\<forall>t \<in> set ds. t (sv_configPath s) = current_fs s (sv_configPath s)"
    by (auto simp: config_untouched_def)
  then show ?thesis by (cases ds) (simp_all add: current_fs_def)
qed

lemma config_untouched_trans:
  assumes "config_untouched s t" "config_untouched t u" shows "config_untouched s u"
proof -
  obtain ds es where "sv_disks t = ds @ sv_disks s" "sv_disks u = es @ sv_disks t"
    "\<forall>x \<in> set ds. x (sv_configPath s) = current_fs s (sv_configPath s)"
    "\<forall>x \<in> set es. x (sv_configPath s) = current_fs t (sv_configPath s)"
    "sv_configPath t = sv_configPath s" "sv_configPath u = sv_configPath t"
    using assms by (auto simp: config_untouched_def)
  then show ?thesis
    unfolding config_untouched_def using config_untouched_current [OF assms(1)]
    by (intro conjI exI [of _ "es @ ds"]) auto
qed

lemma save_state_untouched:
  assumes "save_state e s = (err, s')" "sane_env e" "paths_ok s"
  shows "config_untouched s s'"
  using assms(1)
proof (cases rule: save_state_parts)
  case (1 ss)
  have "t (sv_configPath s) = current_fs s (sv_configPath s)" if "t \<in> set ss" for t
    by (rule states.elsewhere [of "en_os e (sv_calls s)" _ "sv_statePath s" t "sv_state s"])
      (use assms(2,3) 1(1) that in \<open>auto simp: sane_env_def paths_ok_def\<close>)
  then show ?thesis using 1(2) by (auto simp: config_untouched_def)
qed

lemma reconcile_disks:
  assumes "reconcileLocked e force s = (err, s')"
  obtains t where "save_state e t = (fst (save_state e t), s')" "sv_disks t = sv_disks s" "same_desired s t"
  using assms
proof (cases rule: reconcileLocked_parts)
  case (1 v t saveErr)
  show ?thesis
    by (rule that [of "tick (publish v (en_now e (sv_calls t)) t)"])
      (use 1(2) reconcile_effects_state [OF 1(1)] in \<open>simp_all, simp add: tick_def\<close>)
qed

lemma reconcile_untouched:
  assumes "reconcileLocked e force s = (err, s')" "sane_env e" "paths_ok s"
  shows "config_untouched s s' \<and> paths_ok s'"
  using assms(1)
proof (cases rule: reconcile_disks)
  case (1 t)
  have same: "sv_configPath t = sv_configPath s" "paths_ok t" using 1(3) assms(3) by (auto simp: same_desired_def paths_ok_def)
  have "config_untouched t s'" by (rule save_state_untouched [OF 1(1) assms(2) same(2)])
  moreover have "paths_ok s'" using 1(1) same(2) by (auto elim!: save_state_parts simp: paths_ok_def)
  ultimately show ?thesis using config_untouched_same(2) [OF same(1) 1(2)] by simp
qed

section \<open>Rollback\<close>

lemma Clone_of_saved [simp]:
  "Document_Clone (sv_document (with_saved d c st s)) = Document_Clone d"
  "Config_Clone (sv_config (with_saved d c st s)) = Config_Clone c"
  "sv_configPath (with_saved d c st s) = sv_configPath s" "sv_disks (with_saved d c st s) = sv_disks s"
  "paths_ok (with_saved d c st s) = paths_ok s"
  by (simp_all add: with_saved_def paths_ok_def)

lemma rollback_parts:
  assumes "rollbackConfigUpdateLocked e d c st updateErr s = (err, s')"
  shows "(\<exists>x. err = Some x) \<and> Document_Clone (sv_document s') = Document_Clone d \<and> Config_Clone (sv_config s') = Config_Clone c
    \<and> (sane_env e \<and> paths_ok s \<longrightarrow> config_untouched s s')"
proof -
  obtain rerr s1 where r: "reconcileLocked e True (with_saved d c st s) = (rerr, s1)" by (rule prod.exhaust)
  have u1: "config_untouched s s1 \<and> paths_ok s1" if "sane_env e" "paths_ok s"
    using reconcile_untouched [OF r that(1)] that config_untouched_same(2) [of "with_saved d c st s" s s1] by simp
  obtain t where t: "same_desired (with_saved d c st s) t" "save_state e t = (fst (save_state e t), s1)"
    using reconcile_disks [OF r] by metis
  then have same: "sv_document s1 = Document_Clone d" "sv_config s1 = Config_Clone c"
    by (auto elim!: save_state_parts simp: same_desired_def with_saved_def)
  show ?thesis
  proof (cases rerr)
    case None
    then show ?thesis using assms r same u1 by (auto simp: rollbackConfigUpdateLocked_def)
  next
    case (Some x)
    obtain serr s2 where s2: "save_state e (with_saved d c st s1) = (serr, s2)" by (rule prod.exhaust)
    have "s' = s2" "\<exists>x. err = Some x"
      using assms r Some s2 by (auto simp: rollbackConfigUpdateLocked_def split: option.splits)
    moreover have "config_untouched s s2" if "sane_env e" "paths_ok s"
    proof -
      have "config_untouched (with_saved d c st s1) s2" using save_state_untouched [OF s2 that(1)] u1 [OF that] by simp
      then have "config_untouched s1 s2" using config_untouched_same(2) [of "with_saved d c st s1" s1 s2] by simp
      then show ?thesis using u1 [OF that] by (blast intro: config_untouched_trans)
    qed
    moreover have "Document_Clone (sv_document s2) = Document_Clone d" "Config_Clone (sv_config s2) = Config_Clone c"
      using s2 by (auto elim!: save_state_parts simp: with_saved_def)
    ultimately show ?thesis by blast
  qed
qed

section \<open>Updates\<close>

text \<open>The document that an update asks for: the given one with the port it omits, validated.\<close>

definition requested :: "Document \<Rightarrow> 'w service \<Rightarrow> Document res" where
  "requested d s = validated (preserveDocumentStartupFields (Document_Clone d) (Document_Clone (sv_document s)))"

lemma update_steps:
  obtains (invalid) err where "UpdateConfigDocument e (Some d) s = (Some err, s)"
      "\<And>d'. requested d s = Inr d' \<Longrightarrow> ActiveConfig (Some d') = Inl err"
  | (unreconciled) d' c x s1 where "requested d s = Inr d'" "ActiveConfig (Some d') = Inr c"
      "reconcileLocked e False (s\<lparr>sv_document := d', sv_config := c\<rparr>) = (Some x, s1)"
      "UpdateConfigDocument e (Some d) s = rollbackConfigUpdateLocked e (Document_Clone (sv_document s))
         (Config_Clone (sv_config s)) (State_Clone (sv_state s)) x s1"
  | (unsaved) d' c x s1 s2 where "requested d s = Inr d'" "ActiveConfig (Some d') = Inr c"
      "reconcileLocked e False (s\<lparr>sv_document := d', sv_config := c\<rparr>) = (None, s1)"
      "save_document e d' s1 = (Some x, s2)"
      "UpdateConfigDocument e (Some d) s = rollbackConfigUpdateLocked e (Document_Clone (sv_document s))
         (Config_Clone (sv_config s)) (State_Clone (sv_state s)) x s2"
  | (accepted) d' c s1 s2 where "requested d s = Inr d'" "ActiveConfig (Some d') = Inr c"
      "reconcileLocked e False (s\<lparr>sv_document := d', sv_config := c\<rparr>) = (None, s1)"
      "save_document e d' s1 = (None, s2)" "UpdateConfigDocument e (Some d) s = (None, s2)"
proof (cases "requested d s")
  case (Inl err)
  show ?thesis by (rule invalid [of err]) (use Inl in \<open>simp_all add: UpdateConfigDocument_def requested_def\<close>)
next
  case d': (Inr d')
  show ?thesis
  proof (cases "ActiveConfig (Some d')")
    case (Inl err)
    show ?thesis by (rule invalid [of err]) (use d' Inl in \<open>simp_all add: UpdateConfigDocument_def requested_def\<close>)
  next
    case c: (Inr c)
    obtain err s1 where r: "reconcileLocked e False (s\<lparr>sv_document := d', sv_config := c\<rparr>) = (err, s1)"
      by (rule prod.exhaust)
    obtain err2 s2 where f: "save_document e d' s1 = (err2, s2)" by (rule prod.exhaust)
    note facts = d' c r f UpdateConfigDocument_def requested_def
    show ?thesis
    proof (cases err)
      case (Some x)
      show ?thesis by (rule unreconciled [of d' c x s1]) (use facts Some in \<open>simp_all add: UpdateConfigDocument_def requested_def\<close>)
    next
      case n: None
      show ?thesis
      proof (cases err2)
        case (Some x)
        show ?thesis by (rule unsaved [of d' c s1 x s2]) (use facts n Some in \<open>simp_all add: UpdateConfigDocument_def requested_def\<close>)
      next
        case None
        show ?thesis by (rule accepted [of d' c s1 s2]) (use facts n None in \<open>simp_all add: UpdateConfigDocument_def requested_def\<close>)
      qed
    qed
  qed
qed

lemma desired_set [simp]:
  "sv_configPath (s\<lparr>sv_document := d, sv_config := c\<rparr>) = sv_configPath s" "sv_disks (s\<lparr>sv_document := d, sv_config := c\<rparr>) = sv_disks s"
  "paths_ok (s\<lparr>sv_document := d, sv_config := c\<rparr>) = paths_ok s"
  by (simp_all add: paths_ok_def)

lemma update_rejected_parts:
  assumes "UpdateConfigDocument e (Some d) s = (Some err, s')"
  shows "Document_Clone (sv_document s') = Document_Clone (sv_document s)
    \<and> Config_Clone (sv_config s') = Config_Clone (sv_config s)
    \<and> (sane_env e \<and> paths_ok s \<longrightarrow> config_untouched s s')"
proof (cases rule: update_steps [of e d s])
  case (invalid x)
  then show ?thesis using assms by simp
next
  case (unreconciled d' c x s1)
  have "config_untouched s s1 \<and> paths_ok s1" if "sane_env e" "paths_ok s"
    using reconcile_untouched [OF unreconciled(3) that(1)] that
      config_untouched_same(2) [of "s\<lparr>sv_document := d', sv_config := c\<rparr>" s s1] by simp
  then show ?thesis
    using rollback_parts [OF unreconciled(4) [symmetric, unfolded assms]] config_untouched_trans by auto
next
  case (unsaved d' c x s1 s2)
  have "config_untouched s s2 \<and> paths_ok s2" if sane: "sane_env e" "paths_ok s"
  proof -
    have u1: "config_untouched s s1" "paths_ok s1"
      using reconcile_untouched [OF unsaved(3) sane(1)] sane
        config_untouched_same(2) [of "s\<lparr>sv_document := d', sv_config := c\<rparr>" s s1] by simp_all
    obtain ss where ss: "SaveDocument (en_os e (sv_calls s1)) (sv_configPath s1) (Some d') (current_fs s1) = (ss, Some x)"
      "s2 = s1\<lparr>sv_disks := rev ss @ sv_disks s1, sv_calls := Suc (sv_calls s1)\<rparr>"
      using unsaved(4) by (rule save_document_parts)
    have "\<forall>t \<in> set ss. t (sv_configPath s1) = current_fs s1 (sv_configPath s1)"
      using documents.failed_keeps [OF _ _ ss(1)] sane(1) u1(2) by (auto simp: sane_env_def paths_ok_def)
    then have "config_untouched s1 s2" "paths_ok s2"
      using ss(2) u1(2) by (auto simp: config_untouched_def paths_ok_def)
    then show ?thesis using u1(1) config_untouched_trans by blast
  qed
  then show ?thesis
    using rollback_parts [OF unsaved(5) [symmetric, unfolded assms]] config_untouched_trans by auto
next
  case (accepted d' c s1 s2)
  then show ?thesis using assms by simp
qed

text \<open>The states of the file system during an accepted update: first the old file, then the new one.\<close>

lemma update_accepted_parts:
  assumes "UpdateConfigDocument e (Some d) s = (None, s')"
  obtains d' s1 ss where "requested d s = Inr d'" "sv_document s' = d'" "ActiveConfig (Some d') = Inr (sv_config s')"
    "reconcileLocked e False (s\<lparr>sv_document := d', sv_config := sv_config s'\<rparr>) = (None, s1)"
    "SaveDocument (en_os e (sv_calls s1)) (sv_configPath s) (Some d') (current_fs s1) = (ss, None)"
    "s' = s1\<lparr>sv_disks := rev ss @ sv_disks s1, sv_calls := Suc (sv_calls s1)\<rparr>"
proof (cases rule: update_steps [of e d s])
  case (accepted d' c s1 s2)
  obtain t where t: "save_state e t = (fst (save_state e t), s1)" "same_desired (s\<lparr>sv_document := d', sv_config := c\<rparr>) t"
    using reconcile_disks [OF accepted(3)] by metis
  then have same: "sv_document s1 = d'" "sv_config s1 = c" "sv_configPath s1 = sv_configPath s"
    by (auto elim!: save_state_parts simp: same_desired_def)
  obtain ss where "SaveDocument (en_os e (sv_calls s1)) (sv_configPath s1) (Some d') (current_fs s1) = (ss, None)"
    "s2 = s1\<lparr>sv_disks := rev ss @ sv_disks s1, sv_calls := Suc (sv_calls s1)\<rparr>"
    using accepted(4) by (rule save_document_parts)
  then show ?thesis using that [of d' s1 ss] accepted same assms by simp
next
  case (invalid x)
  then show ?thesis using assms by simp
next
  case (unreconciled d' c x s1)
  show ?thesis using rollback_parts [OF unreconciled(4) [symmetric, unfolded assms]] by simp
next
  case (unsaved d' c x s1 s2)
  show ?thesis using rollback_parts [OF unsaved(5) [symmetric, unfolded assms]] by simp
qed

lemma requested_valid:
  assumes "requested d s = Inr d'"
  shows "document_valid d' \<and> (\<exists>c. ActiveConfig (Some d') = Inr c \<and> config_valid c
    \<and> tc_Enabled (cfg_Tunnel c) = doc_TunnelEnabled d' \<and> Config_applyDefaults c = c)
    \<and> doc_TunnelEnabled d' = doc_TunnelEnabled d"
proof -
  let ?p = "preserveDocumentStartupFields (Document_Clone d) (Document_Clone (sv_document s))"
  have d': "d' = normalize ?p" "document_valid (Document_applyDefaults ?p)"
    using validated_Inr [OF assms [unfolded requested_def]] by simp_all
  then have "document_valid d'" by simp
  moreover have "doc_TunnelEnabled d' = doc_TunnelEnabled d"
    by (simp add: d' normalize_simps preserveDocumentStartupFields_def Document_Clone_def)
  ultimately show ?thesis using valid_document_config by blast
qed

lemma accepted_disks:
  assumes "UpdateConfigDocument e (Some d) s = (None, s')" "sane_env e" "paths_ok s"
  obtains d' ds where "requested d s = Inr d'" "sv_disks s' = ds @ sv_disks s" "ds \<noteq> []"
    "\<forall>t \<in> set ds. t (sv_configPath s) = current_fs s (sv_configPath s)
        \<or> t (sv_configPath s) = current_fs s' (sv_configPath s)"
    "storable d' \<and> sys_Open os (sv_configPath s) = None \<longrightarrow>
       LoadDocument os (current_fs s') (sv_configPath s) = Inr (stored d')"
  using assms(1)
proof (cases rule: update_accepted_parts)
  case (1 d' s1 ss)
  let ?p = "sv_configPath s"
  have u: "config_untouched s s1"
    using reconcile_untouched [OF 1(4) assms(2)] assms(3)
      config_untouched_same(2) [of "s\<lparr>sv_document := d', sv_config := sv_config s'\<rparr>" s s1] by simp
  then obtain es where es: "sv_disks s1 = es @ sv_disks s" "\<forall>t \<in> set es. t ?p = current_fs s ?p"
    by (auto simp: config_untouched_def)
  have sane: "temp_sane (en_os e (sv_calls s1))" "plain_name ?p" using assms(2,3) by (simp_all add: sane_env_def paths_ok_def)
  have ne: "ss \<noteq> []" using documents.nonempty [of "en_os e (sv_calls s1)" ?p d' "current_fs s1"] 1(5) by simp
  then have cur: "current_fs s' = last ss" by (simp add: 1(6) current_fs_def hd_append hd_rev)
  have "t ?p = current_fs s ?p \<or> t ?p = last ss ?p" if "t \<in> set ss" for t
    using documents.each [OF sane, of t d' "current_fs s1"] that 1(5) config_untouched_current [OF u] by simp
  moreover have "LoadDocument os (last ss) ?p = Inr (stored d')" if "storable d'" "sys_Open os ?p = None"
    by (rule documents.saved [OF sane that(1) 1(5) that(2)])
  ultimately show ?thesis
    using that [of d' "rev ss @ es"] es 1(1,6) ne cur by auto
qed

section \<open>Switching off\<close>

lemma working_SaveDocument:
  assumes "works os" "document_valid (Document_applyDefaults d)"
  shows "snd (SaveDocument os path (Some d) s) = None"
proof -
  let ?n = "normalize d"
  have ok: "validated (Document_applyDefaults (Document_Clone d)) = Inr ?n"
    using assms(2) by (simp add: validated_eq)
  obtain c where c: "ActiveConfig (Some ?n) = Inr c" "config_valid c" "Config_applyDefaults c = c"
    using valid_document_config [of ?n] assms(2) by auto
  have "Config_applyDefaults (Config_Clone c) = c" "Config_Validate (Some c) = None"
    using c(2,3) by (simp_all add: Config_Validate_ok)
  then have "snd (Save os path (Some c) s) = None"
    using assms(1) by (simp add: Save_def Let_def written_def works_def)
  then show ?thesis
    using assms(1) ok c(1) by (simp add: SaveDocument_def written_def works_def)
qed

lemma idle_effects_trace:
  assumes "reconcile_effects e force s = (v, t)" "en_backend e = SystemBackend r"
    "rv_Reasons v \<noteq> [] \<or> \<not> tc_Enabled (cfg_Tunnel (sv_config s))"
  shows "\<exists>es. m_trace (sv_backend t) = m_trace (sv_backend s)
      @ map Cmd (teardown_commands (sd_Applied (sv_state s))) @ es \<and> list_all reading_event es"
  using assms(1)
proof (cases rule: reconcile_effects_cases)
  case (1 cfg' w1 s2 s3 ob w2 w3)
  let ?inp = "\<lparr>ri_Config = Some (Config_Clone (sv_config s)), ri_ConfigValid = (rv_Reasons v = []), ri_Force = force,
     ri_Applied = sd_Applied (sv_state s)\<rparr>"
  have "w1 = teardown r (sd_Applied (sv_state s)) (sv_backend s)"
    using 1(1) Reconcile_idle [of ?inp "Config_Clone (sv_config s)" r "sv_backend s"] assms(2,3)
    by (simp add: SystemBackend_def)
  moreover have "adds reading_event w1 w2" using 1(6) be_Observe_reads assms(2) by metis
  moreover have "adds reading_event w2 w3" by (rule probe_now_reads [OF 1(8) assms(2)])
  ultimately have "adds reading_event (teardown r (sd_Applied (sv_state s)) (sv_backend s)) w3"
    using adds_trans by metis
  then show ?thesis using 1(9) by (auto simp: adds_def teardown_trace tick_def)
qed

lemma idle_reconcile:
  assumes "en_backend e = SystemBackend r" "working_env e" "\<not> tc_Enabled (cfg_Tunnel (sv_config s))"
    "reconcileLocked e force s = (err, s')"
  shows "err = None \<and> (\<exists>es. m_trace (sv_backend s') = m_trace (sv_backend s)
      @ map Cmd (teardown_commands (sd_Applied (sv_state s))) @ es \<and> list_all reading_event es)"
  using assms(4)
proof (cases rule: reconcileLocked_parts)
  case (1 v t saveErr)
  have "saveErr = None" by (rule working_save_state [OF assms(2) 1(2)])
  moreover have "reconcile_error v = None"
    using system.effects_idle [OF 1(1) assms(1)] assms(3) by (simp add: reconcile_error_def first_error_def)
  moreover have "sv_backend s' = sv_backend t" using save_state_status_only [OF 1(2)] by (simp add: tick_def)
  ultimately show ?thesis using 1(3) idle_effects_trace [OF 1(1) assms(1)] assms(3) by simp
qed

lemma off_parts:
  assumes "requested d s = Inr d'" "\<not> doc_TunnelEnabled d" "working_env (system_env r now os ra)"
    "UpdateConfigDocument (system_env r now os ra) (Some d) s = (err, s')"
  shows "err = None \<and> sv_document s' = d' \<and> \<not> doc_TunnelEnabled d'
    \<and> st_ReconcileState (sd_Status (sv_state s')) = ReconcileDown
    \<and> sd_Applied (sv_state s') = emptyAppliedState \<and> sv_advertiser s' = None
    \<and> (\<exists>es. m_trace (sv_backend s') = m_trace (sv_backend s)
          @ map Cmd (teardown_commands (sd_Applied (sv_state s))) @ es \<and> list_all reading_event es)"
proof -
  let ?e = "system_env r now os ra"
  note off = requested_valid [OF assms(1)]
  obtain c where c: "ActiveConfig (Some d') = Inr c" "\<not> tc_Enabled (cfg_Tunnel c)" using off assms(2) by auto
  let ?s = "s\<lparr>sv_document := d', sv_config := c\<rparr>"
  obtain x s1 where r: "reconcileLocked ?e False ?s = (x, s1)" by (rule prod.exhaust)
  obtain y s2 where f: "save_document ?e d' s1 = (y, s2)" by (rule prod.exhaust)
  have idle: "x = None" "\<exists>es. m_trace (sv_backend s1) = m_trace (sv_backend s)
      @ map Cmd (teardown_commands (sd_Applied (sv_state s))) @ es \<and> list_all reading_event es"
    using idle_reconcile [OF _ assms(3) _ r] c(2) by simp_all
  have valid: "document_valid (Document_applyDefaults d')"
    using validated_Inr [OF assms(1) [unfolded requested_def]] by (metis document_valid_normalize normalize_idem)
  have "y = None"
    using working_SaveDocument [OF _ valid] assms(3) f
    by (auto simp: working_env_def elim!: save_document_parts) (metis snd_conv option.distinct(1))
  then have "UpdateConfigDocument ?e (Some d) s = (None, s2)"
    using assms(1) c(1) r f idle(1)
    by (simp add: UpdateConfigDocument_def requested_def)
  then have s': "err = None" "s' = s2" using assms(4) by simp_all
  have "settled c (sd_Applied (sv_state s)) s1" "same_desired ?s s1"
    using reconcile_settled [OF r, of r] by simp_all
  then show ?thesis
    using s' idle(2) off f c(2) assms(2) by (auto elim!: save_document_parts simp: settled_def Let_def same_desired_def)
qed

section \<open>The service of the witnesses\<close>

lemma sample_env_ok: "sane_env (sample_env r)" "working_env (sample_env r)" "paths_ok sample_service"
proof -
  show "sane_env (sample_env r)" "working_env (sample_env r)"
    by (simp_all add: sane_env_def working_sane working_sample_env)
  show "paths_ok sample_service" by (simp add: paths_ok_def sample_service_def service_on_def plain_name_def after_last_slash_def)
qed

lemma sample_enabled: "document_valid (set_enabled b sample_document)"
proof -
  have "profile_valid c True \<Longrightarrow> profile_valid c b" for c by (cases b) (auto simp: profile_valid_def Let_def)
  moreover have "doc_TunnelEnabled sample_document" by (simp add: sample_document_def)
  ultimately show ?thesis using sample_valid unfolding document_valid_def set_enabled_def Let_def by auto
qed

lemma set_enabled_defaults: "Document_applyDefaults (set_enabled b d) = set_enabled b (Document_applyDefaults d)"
  by (simp add: set_enabled_def Document_applyDefaults_def)

lemma sample_requested:
  "requested (set_enabled b sample_document) sample_service = Inr (normalize (set_enabled b sample_document))"
  "requested (set_enabled b (document_snapshot sample_service)) sample_service = Inr (normalize (set_enabled b sample_document))"
proof -
  have d: "Document_applyDefaults (set_enabled b sample_document) = set_enabled b sample_document"
    by (simp add: set_enabled_defaults sample_defaults)
  have p: "preserveDocumentStartupFields (Document_Clone (set_enabled b x)) y = Document_Clone (set_enabled b x)"
    if "doc_Server x = doc_Server sample_document" for x y
    using that by (simp add: preserveDocumentStartupFields_def Document_Clone_def set_enabled_def sample_document_def
        Defaults_def default_numbers)
  show r: "requested (set_enabled b sample_document) sample_service = Inr (normalize (set_enabled b sample_document))"
    by (simp add: requested_def p validated_eq d sample_enabled)
  have "Document_Clone (set_enabled b (Document_Clone sample_document)) = Document_Clone (set_enabled b sample_document)"
    by (simp add: set_enabled_def Document_Clone_def Profile_clone_def ProfileConfig_clone_def comp_def)
  then show "requested (set_enabled b (document_snapshot sample_service)) sample_service
      = Inr (normalize (set_enabled b sample_document))"
    using r by (simp add: requested_def document_snapshot_def sample_service_def service_on_def)
qed

section \<open>Properties\<close>

text \<open>
  C1: a rejected update changes nothing: whether it is invalid, cannot be reconciled or cannot be
  saved, and whether or not the rollback succeeds, the service keeps its previous document and
  configuration (up to the copying of nil and empty slices), and no state of the file system,
  which is what a crash would leave, has another configuration file.
\<close>

theorem rejected_update_changes_nothing:
  assumes "UpdateConfigDocument e (Some d) s = (Some err, s')" "sane_env e" "paths_ok s"
  shows "Document_Clone (sv_document s') = Document_Clone (sv_document s)
    \<and> Config_Clone (sv_config s') = Config_Clone (sv_config s) \<and> config_untouched s s'"
  using update_rejected_parts [OF assms(1)] assms(2,3) by simp

lemma broken_wan: "getWANIPv4 broken_host i m = (x, m') \<Longrightarrow> \<exists>err. x = Inl err"
  by (auto simp: getWANIPv4_def CombinedOutput_def broken_host_def)

lemma broken_reconcile:
  assumes "reconcileLocked e force s = (err, s')" "en_backend e = SystemBackend broken_host"
    "config_valid (sv_config s)" "tc_Enabled (cfg_Tunnel (sv_config s))"
  shows "err \<noteq> None"
  using assms(1)
proof (cases rule: reconcileLocked_parts)
  case (1 v t saveErr)
  have ok: "rv_Reasons v = []"
    using reconcile_effects_state [OF 1(1)] assms(3) by (simp add: validationReasons_Nil Config_Validate_ok)
  have "rv_BackendErr v \<noteq> None"
    using 1(1)
  proof (cases rule: reconcile_effects_cases)
    case (1 cfg' w1 s2 s3 ob w2 w3)
    let ?inp = "\<lparr>ri_Config = Some (Config_Clone (sv_config s)), ri_ConfigValid = (rv_Reasons v = []), ri_Force = force,
       ri_Applied = sd_Applied (sv_state s)\<rparr>"
    have p: "ri_Config ?inp = Some (Config_Clone (sv_config s))" "ri_ConfigValid ?inp"
      "tc_Enabled (cfg_Tunnel (Config_Clone (sv_config s)))" using ok assms(4) by simp_all
    have "fst (fst (Reconcile broken_host ?inp (sv_backend s))) \<noteq> None"
      by (cases rule: Reconcile_steps [OF p, of broken_host "sv_backend s"]) (auto dest: broken_wan)
    then show ?thesis using 1(1) assms(2) by (simp add: SystemBackend_def)
  qed
  then show ?thesis using 1(3) ok by (auto simp: reconcile_error_def first_error_def split: option.splits)
qed

text \<open>Switching on where the tools are missing.\<close>

theorem rejected_update_changes_nothing_witness:
  "\<exists>err s'. UpdateConfigDocument (sample_env broken_host) (Some (set_enabled True sample_document)) sample_service = (Some err, s')
     \<and> Document_Clone (sv_document s') = Document_Clone sample_document \<and> config_untouched sample_service s'"
proof -
  obtain res s' where run: "UpdateConfigDocument (sample_env broken_host) (Some (set_enabled True sample_document))
      sample_service = (res, s')" by (rule prod.exhaust)
  have "res \<noteq> None"
  proof
    assume "res = None"
    with run have "UpdateConfigDocument (sample_env broken_host) (Some (set_enabled True sample_document)) sample_service = (None, s')"
      by simp
    then obtain d' s1 where d': "requested (set_enabled True sample_document) sample_service = Inr d'"
      "ActiveConfig (Some d') = Inr (sv_config s')"
      "reconcileLocked (sample_env broken_host) False (sample_service\<lparr>sv_document := d', sv_config := sv_config s'\<rparr>) = (None, s1)"
      by (rule update_accepted_parts)
    have "config_valid (sv_config s')" "tc_Enabled (cfg_Tunnel (sv_config s'))"
      using requested_valid [OF d'(1)] d'(2) by (auto simp: set_enabled_def)
    then show False using broken_reconcile [OF d'(3)] by simp
  qed
  then obtain err where err: "res = Some err" by blast
  from rejected_update_changes_nothing [OF run [unfolded err] sample_env_ok(1,3)] run err
  show ?thesis by (auto simp: sample_service_def service_on_def)
qed

text \<open>
  C2: an accepted update is complete: the service holds the requested document, which is valid and
  has the active configuration it runs; every state of the file system since then has the old
  configuration file or the new one; and a restart loads the requested document.
\<close>

theorem accepted_update_is_complete:
  assumes "UpdateConfigDocument e (Some d) s = (None, s')" "sane_env e" "paths_ok s"
    "storable (sv_document s')" "sys_Open os (sv_configPath s) = None"
  shows "requested d s = Inr (sv_document s') \<and> document_valid (sv_document s')
    \<and> ActiveConfig (Some (sv_document s')) = Inr (sv_config s') \<and> config_valid (sv_config s')
    \<and> (\<exists>ds. sv_disks s' = ds @ sv_disks s
         \<and> (\<forall>t \<in> set ds. t (sv_configPath s) = current_fs s (sv_configPath s)
              \<or> t (sv_configPath s) = current_fs s' (sv_configPath s)))
    \<and> LoadDocument os (current_fs s') (sv_configPath s) = Inr (stored (sv_document s'))"
proof -
  obtain d' where d': "requested d s = Inr d'" "sv_document s' = d'" "ActiveConfig (Some d') = Inr (sv_config s')"
    using assms(1) by (rule update_accepted_parts)
  obtain d2 ds where ds: "requested d s = Inr d2" "sv_disks s' = ds @ sv_disks s" "ds \<noteq> []"
    "\<forall>t \<in> set ds. t (sv_configPath s) = current_fs s (sv_configPath s)
        \<or> t (sv_configPath s) = current_fs s' (sv_configPath s)"
    "storable d2 \<and> sys_Open os (sv_configPath s) = None \<longrightarrow>
       LoadDocument os (current_fs s') (sv_configPath s) = Inr (stored d2)"
    using assms(1-3) by (rule accepted_disks [where os = os])
  show ?thesis
    using d' ds assms(4,5) requested_valid [OF d'(1)] by auto
qed


text \<open>Switching off on a disk that works.\<close>

theorem accepted_update_is_complete_witness:
  "\<exists>s'. UpdateConfigDocument (sample_env broken_host) (Some (set_enabled False (document_snapshot sample_service))) sample_service
        = (None, s')
     \<and> config_valid (sv_config s')
     \<and> LoadDocument working_OS (current_fs s') ''/data/config.json'' = Inr (stored (sv_document s'))"
proof -
  let ?d = "set_enabled False (document_snapshot sample_service)"
  obtain err s' where run: "UpdateConfigDocument (sample_env broken_host) (Some ?d) sample_service = (err, s')"
    by (rule prod.exhaust)
  have n: "err = None" "sv_document s' = normalize (set_enabled False sample_document)"
    using off_parts [OF sample_requested(2) _ sample_env_ok(2) run] by (simp_all add: set_enabled_def)
  have up: "UpdateConfigDocument (sample_env broken_host) (Some ?d) sample_service = (None, s')" using run n by simp
  have "storable (set_enabled False sample_document)" using sample_storable by (simp add: storable_def set_enabled_def)
  then have st: "storable (sv_document s')" unfolding n by (rule storable_normalize)
  have o: "sys_Open working_OS (sv_configPath sample_service) = None" by (simp add: working_OS_def)
  from accepted_update_is_complete [OF up sample_env_ok(1,3) st o] up show ?thesis by (auto simp: sample_service_def service_on_def)
qed

text \<open>
  C9: switching off always works: if the document is valid with the tunnel disabled and the disk can
  be written, \<open>Down\<close> reports success whatever the host answers; the service is then down with no
  applied state and no advertiser, and the host saw exactly the teardown of what was applied,
  followed by commands that only read.
\<close>

theorem down_succeeds:
  assumes "requested (set_enabled False (document_snapshot s)) s = Inr d'" "working_env (system_env r now os ra)"
    "Down (system_env r now os ra) s = (err, s')"
  shows "err = None \<and> sv_document s' = d' \<and> \<not> doc_TunnelEnabled d'
    \<and> st_ReconcileState (sd_Status (sv_state s')) = ReconcileDown
    \<and> sd_Applied (sv_state s') = emptyAppliedState \<and> sv_advertiser s' = None
    \<and> (\<exists>es. m_trace (sv_backend s') = m_trace (sv_backend s)
          @ map Cmd (teardown_commands (sd_Applied (sv_state s))) @ es \<and> list_all reading_event es)"
  using off_parts [OF assms(1) _ assms(2), of err s'] assms(3)
  by (simp add: Down_def mutateDocument_def set_enabled_def)

theorem down_succeeds_witness:
  "\<exists>s'. Down (sample_env broken_host) sample_service = (None, s') \<and> \<not> doc_TunnelEnabled (sv_document s')
     \<and> st_ReconcileState (sd_Status (sv_state s')) = ReconcileDown"
proof -
  obtain err s' where run: "Down (sample_env broken_host) sample_service = (err, s')" by (rule prod.exhaust)
  from down_succeeds [OF sample_requested(2) sample_env_ok(2) run] run show ?thesis by auto
qed

end
