(* ===== verification/ServiceRuns.thy ===== *)
theory ServiceRuns
  imports ServiceUpdates "HOL-Library.Multiset"
begin

text \<open>
  The service under concurrency: every API call and the health loop take the mutex for one critical
  section at a time, so a run is an interleaving of critical sections, with the values that a call
  carries from one section to the next as its pending tasks.
\<close>

section \<open>The advertiser\<close>

text \<open>
  The open connections are those of the running advertiser and those of others; and an advertiser
  runs only for a valid, enabled configuration with LAN networks, whose prefixes it announces.
\<close>

definition connections_ok :: "nat list \<Rightarrow> 'w service \<Rightarrow> bool" where
  "connections_ok base s \<longleftrightarrow> ndp_ok (sv_ndp s) \<and>
     (case sv_advertiser s of
        None \<Rightarrow> nd_open (sv_ndp s) = base
      | Some a \<Rightarrow> nd_open (sv_ndp s) = rev (map ce_conn (adv_conns a)) @ base
          \<and> (\<forall>k \<in> set base. k \<notin> ce_conn ` set (adv_conns a)))"

definition advertises :: "'w service \<Rightarrow> bool" where
  "advertises s \<longleftrightarrow>
     (case sv_advertiser s of
        None \<Rightarrow> True
      | Some a \<Rightarrow> config_valid (sv_config s) \<and> tc_Enabled (cfg_Tunnel (sv_config s)) \<and> lan_Enabled (cfg_LAN (sv_config s))
          \<and> (\<exists>es. ra_networks (elems (lan_Networks (cfg_LAN (sv_config s)))) = Inr es
                \<and> map ce_prefix (adv_conns a) = map ne_Prefix es))"

lemma stopAdvertiser_connections:
  "connections_ok base s \<Longrightarrow> connections_ok base (stopAdvertiserLocked s)"
  using Stop_closes by (fastforce simp: connections_ok_def stopAdvertiserLocked_def split: option.splits)

lemma startAdvertiser_connections:
  assumes "startAdvertiserLocked e cfg s = (err, t)" "connections_ok base s" "sv_advertiser s = None"
  shows "connections_ok base t \<and> (\<forall>a. sv_advertiser t = Some a \<longrightarrow>
     (\<exists>es. ra_networks (elems (lan_Networks (cfg_LAN cfg))) = Inr es \<and> map ce_prefix (adv_conns a) = map ne_Prefix es))"
proof (cases "ra_networks (elems (lan_Networks (cfg_LAN cfg)))")
  case (Inl x)
  then show ?thesis using assms by (simp add: startAdvertiserLocked_def)
next
  case nets: (Inr networks)
  show ?thesis
  proof (cases "resolveRADNSServers cfg")
    case (Inl x)
    then show ?thesis using assms nets by (simp add: startAdvertiserLocked_def)
  next
    case dns: (Inr dns)
    obtain x w where n: "NewAdvertiser (en_ra e (sv_calls s)) \<lparr>ac_Networks = networks, ac_DNS = dns, ac_Interval = 10,
        ac_TunnelMTU = tc_MTU (cfg_Tunnel cfg)\<rparr> (sv_ndp s) = (x, w)" by (rule prod.exhaust)
    have ok: "ndp_ok (sv_ndp s)" "nd_open (sv_ndp s) = base" using assms(2,3) by (simp_all add: connections_ok_def)
    from NewAdvertiser_open [OF n ok(1)] ok(2) show ?thesis
      using assms(1,3) nets dns n by (auto simp: startAdvertiserLocked_def connections_ok_def tick_def split: sum.splits)
  qed
qed

lemma connections_ok_cong:
  "sv_ndp t = sv_ndp s \<Longrightarrow> sv_advertiser t = sv_advertiser s \<Longrightarrow> connections_ok base t = connections_ok base s"
  unfolding connections_ok_def by (simp only:)

lemma advertises_cong:
  "sv_config t = sv_config s \<Longrightarrow> sv_advertiser t = sv_advertiser s \<Longrightarrow> advertises t = advertises s"
  unfolding advertises_def by (simp only:)

lemma connections_ok_updates [simp]:
  "connections_ok base (on_status f s) = connections_ok base s" "connections_ok base (tick s) = connections_ok base s"
  "connections_ok base (s\<lparr>sv_backend := w\<rparr>) = connections_ok base s"
  "connections_ok base (publish v now s) = connections_ok base s"
  "connections_ok base (s\<lparr>sv_disks := ds, sv_calls := n\<rparr>) = connections_ok base s"
  "connections_ok base (s\<lparr>sv_document := d, sv_config := c\<rparr>) = connections_ok base s"
  "connections_ok base (with_saved d c st s) = connections_ok base s"
  by (rule connections_ok_cong; simp add: tick_def with_saved_def)+

text \<open>A reconcile stops the advertiser, and starts a new one only if it is wanted and nothing failed.\<close>

lemma reconcile_advertiser:
  assumes "reconcileLocked e force s = (err, s')" "en_backend e = SystemBackend r" "connections_ok base s"
  shows "connections_ok base s' \<and> advertises s'"
  using assms(1)
proof (cases rule: reconcileLocked_parts)
  case R: (1 v t saveErr)
  note eff = reconcile_effects_state [OF R(1)]
  obtain mtu where cfg: "rv_Config v = with_MTU mtu (Config_Clone (sv_config s))"
    using system.effects_config [OF R(1) assms(2)] by blast
  have t: "connections_ok base t \<and> (sv_advertiser t = None \<or> (\<exists>a es. sv_advertiser t = Some a
      \<and> rv_Reasons v = [] \<and> tc_Enabled (cfg_Tunnel (sv_config s)) \<and> lan_Enabled (cfg_LAN (sv_config s))
      \<and> ra_networks (elems (lan_Networks (cfg_LAN (sv_config s)))) = Inr es
      \<and> map ce_prefix (adv_conns a) = map ne_Prefix es))"
    using R(1)
  proof (cases rule: reconcile_effects_cases)
    case (1 cfg' w1 s2 s3 ob w2 w3)
    have s2: "connections_ok base s2" "sv_advertiser s2 = None"
      using stopAdvertiser_connections [of base "on_status f s" for f] assms(3) by (simp_all add: 1(4))
    have "connections_ok base s3 \<and> (sv_advertiser s3 = None \<or> (\<exists>a es. sv_advertiser s3 = Some a
      \<and> rv_Reasons v = [] \<and> tc_Enabled (cfg_Tunnel (sv_config s)) \<and> lan_Enabled (cfg_LAN (sv_config s))
      \<and> ra_networks (elems (lan_Networks (cfg_LAN (sv_config s)))) = Inr es
      \<and> map ce_prefix (adv_conns a) = map ne_Prefix es))"
      using 1(5) s2 startAdvertiser_connections [OF _ s2, of e "rv_Config v"] cfg
      by (cases "sv_advertiser s3") (auto simp: advertise_def split: if_splits)
    then show ?thesis by (simp add: 1(9)) (simp add: tick_def)
  qed
  have valid: "rv_Reasons v = [] \<longleftrightarrow> config_valid (sv_config s)"
    using eff by (simp add: validationReasons_Nil Config_Validate_ok)
  have same: "sv_config s' = sv_config s" "sv_advertiser s' = sv_advertiser t" "connections_ok base s' = connections_ok base t"
    using R(2) eff by (auto elim!: save_state_parts simp: same_desired_def tick_def)
  show ?thesis using t by (auto simp: same advertises_def valid)
qed

section \<open>The invariant\<close>

text \<open>What the service runs: its advertiser, and the error it reports.\<close>

definition reports_first :: "Status \<Rightarrow> bool" where
  "reports_first st \<longleftrightarrow> st_LastError st = firstReason (elems (st_DegradedReasons st))"

definition running_ok :: "nat list \<Rightarrow> 'w service \<Rightarrow> bool" where
  "running_ok base s \<longleftrightarrow> connections_ok base s \<and> advertises s \<and> reports_first (sd_Status (sv_state s))"

text \<open>What it wants: document, configuration and the configuration file agree.\<close>

definition desired_ok :: "OS \<Rightarrow> 'w service \<Rightarrow> bool" where
  "desired_ok os s \<longleftrightarrow> paths_ok s \<and> sv_disks s \<noteq> []
     \<and> (\<exists>c. ActiveConfig (Some (sv_document s)) = Inr c \<and> Config_Clone (sv_config s) = Config_Clone c)
     \<and> (storable (sv_document s) \<longrightarrow> LoadDocument os (current_fs s) (sv_configPath s) = Inr (stored (sv_document s)))"

text \<open>Each critical section keeps both.\<close>

lemma reconcile_running:
  assumes "reconcileLocked e force s = (err, s')" "en_backend e = SystemBackend r" "connections_ok base s"
  shows "running_ok base s'"
  using reconcile_advertiser [OF assms] reconcile_settled [OF assms(1,2)]
  by (simp add: running_ok_def settled_def reports_first_def Let_def)

lemma status_only_running:
  assumes "status_only s s'" "running_ok base s" "reports_first (sd_Status (sv_state s'))"
  shows "running_ok base s'"
proof -
  have "sv_config s' = sv_config s" "sv_advertiser s' = sv_advertiser s" "sv_ndp s' = sv_ndp s"
    using assms(1) by (simp_all add: status_only_def same_desired_def)
  then show ?thesis
    using assms(2,3) connections_ok_cong [of s' s base] advertises_cong [of s' s] by (simp add: running_ok_def)
qed

lemma rollback_running:
  assumes "rollbackConfigUpdateLocked e d c st updateErr s = (err, s')" "en_backend e = SystemBackend r"
    "connections_ok base s" "reports_first (sd_Status st)"
  shows "running_ok base s'"
proof -
  obtain rerr s1 where r: "reconcileLocked e True (with_saved d c st s) = (rerr, s1)" by (rule prod.exhaust)
  have run1: "running_ok base s1" by (rule reconcile_running [OF r assms(2)]) (simp add: assms(3))
  have "same_desired (with_saved d c st s) s1" using reconcile_settled [OF r assms(2)] by simp
  then have c1: "sv_config s1 = Config_Clone c" by (simp add: same_desired_def with_saved_def)
  show ?thesis
  proof (cases rerr)
    case None
    then show ?thesis using assms(1) r run1 by (simp add: rollbackConfigUpdateLocked_def)
  next
    case (Some x)
    obtain serr s2 where s2: "save_state e (with_saved d c st s1) = (serr, s2)" by (rule prod.exhaust)
    have "s' = s2" using assms(1) r Some s2 by (auto simp: rollbackConfigUpdateLocked_def split: option.splits)
    moreover have "status_only (with_saved d c st s1) s2" "sv_state s2 = State_Clone st"
      using save_state_status_only [OF s2] by (simp_all add: with_saved_def)
    moreover have "running_ok base (with_saved d c st s1)"
      using run1 assms(4) c1 advertises_cong [of "with_saved d c st s1" s1]
      by (simp add: running_ok_def) (simp add: with_saved_def reports_first_def State_Clone_def Status_Clone_def)
    ultimately show ?thesis
      using status_only_running [of "with_saved d c st s1" s2 base] assms(4)
      by (simp add: reports_first_def State_Clone_def Status_Clone_def)
  qed
qed

lemma update_running:
  assumes "UpdateConfigDocument e (Some d) s = (err, s')" "en_backend e = SystemBackend r" "running_ok base s"
  shows "running_ok base s'"
proof -
  have base: "connections_ok base s" "reports_first (sd_Status (State_Clone (sv_state s)))"
    using assms(3) by (simp_all add: running_ok_def reports_first_def State_Clone_def Status_Clone_def)
  have first: "running_ok base s1" if "reconcileLocked e False (s\<lparr>sv_document := d', sv_config := c\<rparr>) = (x, s1)" for d' c x s1
    by (rule reconcile_running [OF that assms(2)]) (simp add: base(1))
  have disk: "running_ok base t \<longleftrightarrow> running_ok base s1" if sd: "save_document e d' s1 = (x, t)" for d' x s1 t
  proof -
    obtain ss where "SaveDocument (en_os e (sv_calls s1)) (sv_configPath s1) (Some d') (current_fs s1) = (ss, x)"
      "t = s1\<lparr>sv_disks := rev ss @ sv_disks s1, sv_calls := Suc (sv_calls s1)\<rparr>"
      using sd by (rule save_document_parts)
    then show ?thesis
      using connections_ok_cong [of t s1 base] advertises_cong [of t s1] by (simp add: running_ok_def)
  qed
  show ?thesis
  proof (cases rule: update_steps [of e d s])
    case (invalid x)
    then show ?thesis using assms(1,3) by simp
  next
    case (unreconciled d' c x s1)
    show ?thesis
      by (rule rollback_running [OF unreconciled(4) [symmetric, unfolded assms(1)] assms(2) _ base(2)])
        (use first [OF unreconciled(3)] in \<open>simp add: running_ok_def\<close>)
  next
    case (unsaved d' c x s1 s2)
    show ?thesis
      by (rule rollback_running [OF unsaved(5) [symmetric, unfolded assms(1)] assms(2) _ base(2)])
        (use first [OF unsaved(3)] disk [OF unsaved(4)] in \<open>simp add: running_ok_def\<close>)
  next
    case (accepted d' c s1 s2)
    then show ?thesis using first [OF accepted(3)] disk [OF accepted(4)] assms(1) by simp
  qed
qed

lemma pr_ID_clone [simp]: "pr_ID (Profile_clone p) = pr_ID p"
  by (simp add: Profile_clone_def)

lemma ActiveConfig_Clone: "ActiveConfig (Some (Document_Clone d)) = ActiveConfig (Some d)"
  by (simp add: ActiveConfig_def ActiveProfile_def Document_Clone_def find_map comp_def option.map_comp split: option.split)

lemma storable_Clone: "storable (Document_Clone d) = storable d"
  by (simp add: storable_def Document_Clone_def list_all_iff storable_profile_def storable_profile_config_def
      Profile_clone_def ProfileConfig_clone_def LAN_clone_def storable_lan_def)

lemma stored_Clone: "stored (Document_Clone d) = stored d"
  by (simp add: stored_def)

lemma untouched_desired:
  assumes "config_untouched s s'" "desired_ok os s" "paths_ok s'"
    "Document_Clone (sv_document s') = Document_Clone (sv_document s)" "Config_Clone (sv_config s') = Config_Clone (sv_config s)"
  shows "desired_ok os s'"
proof -
  have same: "ActiveConfig (Some (sv_document s')) = ActiveConfig (Some (sv_document s))"
    "stored (sv_document s') = stored (sv_document s)" "storable (sv_document s') = storable (sv_document s)"
    using assms(4) ActiveConfig_Clone storable_Clone stored_Clone by metis+
  have "LoadDocument os (current_fs s') (sv_configPath s') = LoadDocument os (current_fs s) (sv_configPath s)"
    using config_untouched_current [OF assms(1)] assms(1)
      documents.local [of "current_fs s'" "sv_configPath s" "current_fs s" os] by (simp add: config_untouched_def)
  moreover have "sv_disks s' \<noteq> []" using assms(1,2) by (auto simp: config_untouched_def desired_ok_def)
  ultimately show ?thesis using assms(2,3,5) same by (simp add: desired_ok_def)
qed

lemma reconcile_desired:
  assumes "reconcileLocked e force s = (err, s')" "en_backend e = SystemBackend r" "sane_env e" "desired_ok os s"
  shows "desired_ok os s'"
proof -
  have p: "paths_ok s" using assms(4) by (simp add: desired_ok_def)
  have "same_desired s s'" using reconcile_settled [OF assms(1,2)] by simp
  then show ?thesis
    using untouched_desired [OF _ assms(4), of s'] reconcile_untouched [OF assms(1,3) p] by (simp add: same_desired_def)
qed

lemma same_desired_paths: "same_desired s t \<Longrightarrow> paths_ok t = paths_ok s"
  by (simp add: same_desired_def paths_ok_def)

lemma saved_desired:
  assumes "save_state e t = (err, s')" "sane_env e" "desired_ok os s" "same_desired s t" "sv_disks t = sv_disks s"
  shows "desired_ok os s'"
proof -
  have p: "paths_ok t" "sv_configPath t = sv_configPath s"
    using assms(3,4) by (simp_all add: desired_ok_def paths_ok_def same_desired_def)
  have "config_untouched s s'"
    using save_state_untouched [OF assms(1,2) p(1)] config_untouched_same(2) [OF p(2) assms(5)] by simp
  moreover have "same_desired s s'" using assms(4) save_state_status_only(1) [OF assms(1), of t]
    by (auto simp: status_only_def intro: same_desired_trans)
  moreover have "paths_ok s" using assms(3) by (simp add: desired_ok_def)
  ultimately show ?thesis
    using untouched_desired [OF _ assms(3), of s'] same_desired_paths [of s s'] by (simp add: same_desired_def)
qed

lemma accepted_desired:
  assumes "UpdateConfigDocument e (Some d) s = (None, s')" "sane_env e" "paths_ok s" "paths_ok s'"
    "sys_Open os (sv_configPath s) = None" "sv_configPath s' = sv_configPath s"
  shows "desired_ok os s'"
proof -
  obtain d' where d': "requested d s = Inr d'" "sv_document s' = d'" "ActiveConfig (Some d') = Inr (sv_config s')"
    using assms(1) by (rule update_accepted_parts)
  obtain d2 ds where "requested d s = Inr d2" "sv_disks s' = ds @ sv_disks s" "ds \<noteq> []"
    "\<forall>t \<in> set ds. t (sv_configPath s) = current_fs s (sv_configPath s)
        \<or> t (sv_configPath s) = current_fs s' (sv_configPath s)"
    "storable d2 \<and> sys_Open os (sv_configPath s) = None \<longrightarrow>
       LoadDocument os (current_fs s') (sv_configPath s) = Inr (stored d2)"
    using assms(1-3) by (rule accepted_disks [where os = os])
  then show ?thesis using d' assms(4-6) by (auto simp: desired_ok_def)
qed

lemma update_desired:
  assumes "UpdateConfigDocument e (Some d) s = (err, s')" "sane_env e" "desired_ok os s" "sys_Open os (sv_configPath s) = None"
    "sv_configPath s' = sv_configPath s" "sv_statePath s' = sv_statePath s"
  shows "desired_ok os s'"
proof -
  have p: "paths_ok s" "paths_ok s'" using assms(3,5,6) by (simp_all add: desired_ok_def paths_ok_def)
  show ?thesis
  proof (cases err)
    case (Some x)
    have "Document_Clone (sv_document s') = Document_Clone (sv_document s)
      \<and> Config_Clone (sv_config s') = Config_Clone (sv_config s) \<and> config_untouched s s'"
      using update_rejected_parts [OF assms(1) [unfolded Some]] assms(2) p(1) by simp
    then show ?thesis using untouched_desired [OF _ assms(3) p(2)] by simp
  next
    case None
    show ?thesis by (rule accepted_desired [OF assms(1) [unfolded None] assms(2) p assms(4,5)])
  qed
qed

section \<open>Runs\<close>

text \<open>
  What is pending between two critical sections of a call: a document to commit, a configuration to
  look at, what was seen, or a recovery to make.
\<close>

datatype task =
    Commit Document
  | Look bool Config
  | Seen bool health_view
  | Recovery recovery

record 'w system =
  sy_service :: "'w service"
  sy_tasks :: "task multiset"
  sy_stopped :: bool

definition follow_up :: "bool \<Rightarrow> health_view \<Rightarrow> Status res \<Rightarrow> task multiset" where
  "follow_up auto v res =
     (case res of
        Inl err \<Rightarrow> {#}
      | Inr st \<Rightarrow> if health_recovery auto v = NoRecovery then {#} else {#Recovery (health_recovery auto v)#})"

text \<open>What happens in a step: a call begins, or a critical section runs, with the answer it gives.\<close>

datatype activity =
    CallSwitch bool
  | CallUpdateConfig Config
  | CallUpdateDocument Document
  | Committed Document "goerr option"
  | Reconciled bool "goerr option"
  | CallHealth
  | LoopRetry
  | LoopHealth
  | Looked
  | Reported
  | Recovered "goerr option"
  | Repaired "goerr option"
  | Closed
  | Stopped

text \<open>
  One rule for each critical section, in the order of the source; \<open>Observe\<close> and \<open>Probe\<close> of a health check are one.
  \<open>Stop\<close> first closes the stop channel, and then takes the lock to stop the advertiser.
  The health loop may begin a retry or a check at any time here, also after \<open>Stop\<close> has closed its channel; when
  it does is the subject of \<open>HealthLoop\<close>.
\<close>

inductive act :: "'w env \<Rightarrow> 'w system \<Rightarrow> activity \<Rightarrow> 'w system \<Rightarrow> bool" for e :: "'w env" where
  call_Switch: "act e S (CallSwitch b)
    (S\<lparr>sy_tasks := add_mset (Commit (set_enabled b (document_snapshot (sy_service S)))) (sy_tasks S)\<rparr>)"
| call_UpdateConfig: "update_config_document cfg (document_snapshot (sy_service S)) = Inr d \<Longrightarrow>
    act e S (CallUpdateConfig cfg) (S\<lparr>sy_tasks := add_mset (Commit d) (sy_tasks S)\<rparr>)"
| call_UpdateConfigDocument: "act e S (CallUpdateDocument d) (S\<lparr>sy_tasks := add_mset (Commit d) (sy_tasks S)\<rparr>)"
| commit: "Commit d \<in># sy_tasks S \<Longrightarrow> UpdateConfigDocument e (Some d) (sy_service S) = (err, s) \<Longrightarrow>
    act e S (Committed d err) (S\<lparr>sy_service := s, sy_tasks := sy_tasks S - {#Commit d#}\<rparr>)"
| call_Reconcile: "reconcileLocked e force (sy_service S) = (err, s) \<Longrightarrow> act e S (Reconciled force err) (S\<lparr>sy_service := s\<rparr>)"
| call_Health: "act e S CallHealth (S\<lparr>sy_tasks := add_mset (Look False (Config_Clone (sv_config (sy_service S)))) (sy_tasks S)\<rparr>)"
| loop_Retry: "act e S LoopRetry (S\<lparr>sy_tasks := add_mset (Recovery FullReconcile) (sy_tasks S)\<rparr>)"
| loop_Health: "act e S LoopHealth (S\<lparr>sy_tasks := add_mset (Look True (Config_Clone (sv_config (sy_service S)))) (sy_tasks S)\<rparr>)"
| look: "Look auto cfg \<in># sy_tasks S \<Longrightarrow>
    health_observe e cfg (sv_backend (sy_service S)) (sv_calls (sy_service S)) = (v, w) \<Longrightarrow>
    act e S Looked (S\<lparr>sy_service := tick ((sy_service S)\<lparr>sv_backend := w\<rparr>),
                      sy_tasks := add_mset (Seen auto v) (sy_tasks S - {#Look auto cfg#})\<rparr>)"
| report: "Seen auto v \<in># sy_tasks S \<Longrightarrow> health_commit e v (sy_service S) = (res, s) \<Longrightarrow>
    act e S Reported (S\<lparr>sy_service := s, sy_tasks := follow_up auto v res + (sy_tasks S - {#Seen auto v#})\<rparr>)"
| recover_Full: "Recovery FullReconcile \<in># sy_tasks S \<Longrightarrow> reconcileLocked e True (sy_service S) = (err, s) \<Longrightarrow>
    act e S (Recovered err) (S\<lparr>sy_service := s, sy_tasks := sy_tasks S - {#Recovery FullReconcile#}\<rparr>)"
| recover_Light: "Recovery LightRepair \<in># sy_tasks S \<Longrightarrow> repairManagedAddresses e (sy_service S) = (err, s) \<Longrightarrow>
    act e S (Repaired err) (S\<lparr>sy_service := s,
      sy_tasks := (if err = None then {#} else {#Recovery FullReconcile#}) + (sy_tasks S - {#Recovery LightRepair#})\<rparr>)"
| close_stopCh: "act e S Closed (S\<lparr>sy_stopped := True\<rparr>)"
| stop: "sy_stopped S \<Longrightarrow> act e S Stopped (S\<lparr>sy_service := Stop (sy_service S)\<rparr>)"

text \<open>A run, with what happened in it; and runs of which only the ends matter.\<close>

inductive acts :: "'w env \<Rightarrow> 'w system \<Rightarrow> activity list \<Rightarrow> 'w system \<Rightarrow> bool" for e :: "'w env" where
  acts_Nil: "acts e S [] S"
| acts_Cons: "act e S a T \<Longrightarrow> acts e T as U \<Longrightarrow> acts e S (a # as) U"

inductive_simps acts_simps: "acts e S [] T" "acts e S (a # as) T"

definition step :: "'w env \<Rightarrow> 'w system \<Rightarrow> 'w system \<Rightarrow> bool" where
  "step e S T \<longleftrightarrow> (\<exists>a. act e S a T)"

abbreviation runs :: "'w env \<Rightarrow> 'w system \<Rightarrow> 'w system \<Rightarrow> bool" where
  "runs e \<equiv> (step e)\<^sup>*\<^sup>*"

lemma stepI: "act e S a T \<Longrightarrow> step e S T"
  by (auto simp: step_def)

lemma acts_run: "acts e S as T \<Longrightarrow> runs e S T"
  by (induction rule: acts.induct) (auto intro: converse_rtranclp_into_rtranclp stepI)

definition service_inv :: "OS \<Rightarrow> nat list \<Rightarrow> 'w service \<Rightarrow> bool" where
  "service_inv os base s \<longleftrightarrow> running_ok base s \<and> desired_ok os s \<and> sys_Open os (sv_configPath s) = None"


lemma reconcile_inv:
  assumes "reconcileLocked e force s = (err, s')" "en_backend e = SystemBackend r" "sane_env e" "service_inv os base s"
  shows "service_inv os base s'"
proof -
  have "connections_ok base s" "desired_ok os s" using assms(4) by (simp_all add: service_inv_def running_ok_def)
  moreover have "same_desired s s'" using reconcile_settled [OF assms(1,2)] by simp
  ultimately show ?thesis
    using reconcile_running [OF assms(1,2)] reconcile_desired [OF assms(1-3)] assms(4)
    by (auto simp: service_inv_def same_desired_def)
qed

lemma saved_inv:
  assumes "save_state e t = (err, s')" "sane_env e" "service_inv os base s" "status_only s t" "sv_disks t = sv_disks s"
    "reports_first (sd_Status (sv_state t))"
  shows "service_inv os base s'"
proof -
  have st: "status_only s s'" "sv_state s' = sv_state t" using save_state_status_only [OF assms(1)] assms(4) by simp_all
  have "same_desired s t" using assms(4) by (simp add: status_only_def)
  moreover have "running_ok base s'"
    using status_only_running [OF st(1)] assms(3,6) st(2) by (simp add: service_inv_def)
  moreover have "same_desired s s'" using st(1) by (simp add: status_only_def)
  ultimately show ?thesis
    using saved_desired [OF assms(1,2) _ _ assms(5), of os] assms(3) by (simp add: service_inv_def same_desired_def)
qed

lemma health_commit_inv:
  assumes "health_commit e v s = (res, s')" "sane_env e" "service_inv os base s"
  shows "service_inv os base s'"
proof -
  obtain err u where u: "save_state e (on_status (health_status v) s) = (err, u)" by (rule prod.exhaust)
  then have "s' = u" using assms(1) by (auto simp: health_commit_def split: option.splits)
  moreover have "reports_first (health_status v st)" for st
    by (simp add: reports_first_def health_status_def Let_def)
  ultimately show ?thesis using saved_inv [OF u assms(2,3)] by simp
qed

lemma repair_inv:
  assumes "repairManagedAddresses e s = (err, s')" "sane_env e" "service_inv os base s"
  shows "service_inv os base s'"
proof (cases "Config_Validate (Some (sv_config s)) \<noteq> None \<or> \<not> tc_Enabled (cfg_Tunnel (sv_config s))")
  case True
  then show ?thesis using assms(1,3) by (simp add: repairManagedAddresses_def Let_def)
next
  case False
  obtain rerr ob oerr w where eff: "repair_effects e (Config_Clone (sv_config s)) (sv_backend s) = ((rerr, ob, oerr), w)"
    by (metis prod.exhaust)
  obtain serr u where u: "save_state e (on_status (repair_status rerr ob oerr) (s\<lparr>sv_backend := w\<rparr>)) = (serr, u)"
    by (rule prod.exhaust)
  have "s' = u" using assms(1) False eff u by (simp add: repairManagedAddresses_def Let_def)
  moreover have "reports_first (repair_status rerr ob oerr st)" for st
    by (simp add: reports_first_def repair_status_def Let_def)
  ultimately show ?thesis using saved_inv [OF u assms(2,3)] by simp
qed

lemma update_paths:
  assumes "UpdateConfigDocument e (Some d) s = (err, s')" "en_backend e = SystemBackend r"
  shows "sv_configPath s' = sv_configPath s \<and> sv_statePath s' = sv_statePath s"
proof -
  have rec: "sv_configPath t = sv_configPath u \<and> sv_statePath t = sv_statePath u" if "reconcileLocked e f u = (x, t)" for f u x t
    using reconcile_settled [OF that assms(2)] by (simp add: same_desired_def)
  have roll: "sv_configPath t = sv_configPath u \<and> sv_statePath t = sv_statePath u"
    if roll: "rollbackConfigUpdateLocked e d1 c1 st x u = (y, t)" for d1 c1 st x u y t
  proof -
    obtain rerr s1 where r: "reconcileLocked e True (with_saved d1 c1 st u) = (rerr, s1)" by (rule prod.exhaust)
    obtain serr s2 where s2: "save_state e (with_saved d1 c1 st s1) = (serr, s2)" by (rule prod.exhaust)
    have "t = s1 \<or> t = s2" using roll r s2 by (auto simp: rollbackConfigUpdateLocked_def split: option.splits)
    moreover have "sv_configPath s2 = sv_configPath s1 \<and> sv_statePath s2 = sv_statePath s1"
      using s2 by (auto elim!: save_state_parts simp: with_saved_def)
    ultimately show ?thesis using rec [OF r] by (auto simp: with_saved_def)
  qed
  have doc: "sv_configPath t = sv_configPath u \<and> sv_statePath t = sv_statePath u" if "save_document e d1 u = (x, t)" for d1 u x t
    using that by (auto elim!: save_document_parts)
  show ?thesis
  proof (cases rule: update_steps [of e d s])
    case (invalid x)
    then show ?thesis using assms(1) by simp
  next
    case (unreconciled d' c x s1)
    then show ?thesis using rec [OF unreconciled(3)] roll [OF unreconciled(4) [symmetric, unfolded assms(1)]] by simp
  next
    case (unsaved d' c x s1 s2)
    then show ?thesis
      using rec [OF unsaved(3)] doc [OF unsaved(4)] roll [OF unsaved(5) [symmetric, unfolded assms(1)]] by simp
  next
    case (accepted d' c s1 s2)
    then show ?thesis using rec [OF accepted(3)] doc [OF accepted(4)] assms(1) by simp
  qed
qed

lemma update_inv:
  assumes "UpdateConfigDocument e (Some d) s = (err, s')" "en_backend e = SystemBackend r" "sane_env e" "service_inv os base s"
  shows "service_inv os base s'"
  using update_running [OF assms(1,2)] update_desired [OF assms(1,3)] update_paths [OF assms(1,2)] assms(4)
  by (simp add: service_inv_def)

lemma inv_cong:
  assumes "service_inv os base s" "sv_document t = sv_document s" "sv_config t = sv_config s" "sv_disks t = sv_disks s"
    "sv_configPath t = sv_configPath s" "sv_statePath t = sv_statePath s" "sv_state t = sv_state s"
    "connections_ok base t" "sv_advertiser t = sv_advertiser s \<or> sv_advertiser t = None"
  shows "service_inv os base t"
proof -
  have "advertises t"
  proof (cases "sv_advertiser t")
    case None
    then show ?thesis by (simp add: advertises_def)
  next
    case (Some a)
    then show ?thesis
      using assms(1,9) advertises_cong [OF assms(3)] by (simp add: service_inv_def running_ok_def)
  qed
  then show ?thesis
    using assms by (simp add: service_inv_def running_ok_def desired_ok_def paths_ok_def current_fs_def)
qed

lemma act_inv:
  assumes "act e S a T" "en_backend e = SystemBackend r" "sane_env e" "service_inv os base (sy_service S)"
  shows "service_inv os base (sy_service T)"
  using assms(1)
proof cases
  case (commit d err s)
  then show ?thesis using update_inv [OF commit(4) assms(2-4)] by simp
next
  case (call_Reconcile force err s)
  then show ?thesis using reconcile_inv [OF call_Reconcile(3) assms(2-4)] by simp
next
  case (look auto cfg v w)
  have "service_inv os base (tick ((sy_service S)\<lparr>sv_backend := w\<rparr>))"
    by (rule inv_cong [OF assms(4)])
      (use assms(4) in \<open>simp_all add: service_inv_def running_ok_def\<close>, simp_all add: tick_def)
  then show ?thesis using look by simp
next
  case (report auto v res s)
  then show ?thesis using health_commit_inv [OF report(4) assms(3,4)] by simp
next
  case (recover_Full err s)
  then show ?thesis using reconcile_inv [OF recover_Full(4) assms(2-4)] by simp
next
  case (recover_Light err s)
  then show ?thesis using repair_inv [OF recover_Light(4) assms(3,4)] by simp
next
  case stop
  have "service_inv os base (Stop (sy_service S))"
    by (rule inv_cong [OF assms(4)])
      (use assms(4) stopAdvertiser_connections in \<open>auto simp: Stop_def service_inv_def running_ok_def\<close>)
  then show ?thesis using stop by simp
qed (use assms(4) in simp_all)

lemma runs_inv:
  assumes "runs e S T" "en_backend e = SystemBackend r" "sane_env e" "service_inv os base (sy_service S)"
  shows "service_inv os base (sy_service T)"
  using assms(1) by (induction rule: rtranclp_induct) (use assms(4) act_inv [OF _ assms(2,3)] in \<open>auto simp: step_def\<close>)

text \<open>The first accepted update establishes the invariant.\<close>

lemma first_update_inv:
  assumes "UpdateConfigDocument e (Some d) s = (None, s')" "en_backend e = SystemBackend r" "sane_env e"
    "running_ok base s" "paths_ok s" "sys_Open os (sv_configPath s) = None"
  shows "service_inv os base s'"
proof -
  have paths: "sv_configPath s' = sv_configPath s" "paths_ok s'"
    using update_paths [OF assms(1,2)] assms(5) by (simp_all add: paths_ok_def)
  show ?thesis
    using update_running [OF assms(1,2,4)] accepted_desired [OF assms(1,3,5) paths(2) assms(6) paths(1)] assms(6) paths
    by (simp add: service_inv_def)
qed

lemma step_task: "runs e S T \<Longrightarrow> step e T U \<Longrightarrow> runs e S U"
  by (rule rtranclp.rtrancl_into_rtrancl)

section \<open>An abstract specification\<close>

text \<open>
  What a client may rely on: a register that holds a document, and the requests that were made and not
  yet answered.  A call of \<open>Up\<close>, \<open>Down\<close> or \<open>UpdateConfig\<close> makes its request from the document of that moment.  An answer
  belongs to a request: after a refusal the document is the same, and only a request that is valid can be accepted, and
  then becomes the document as a whole.  Nothing else touches the register, so it is a function of the calls and their
  answers; \<^term>\<open>None\<close> is an answer that must not be given.
\<close>

record spec =
  sp_document :: Document
  sp_requests :: "Document multiset"

definition issue :: "Document \<Rightarrow> spec \<Rightarrow> spec" where
  "issue d P = P\<lparr>sp_requests := add_mset d (sp_requests P)\<rparr>"

definition answer :: "Document \<Rightarrow> goerr option \<Rightarrow> spec \<Rightarrow> spec option" where
  "answer d err P =
     (if d \<notin># sp_requests P then None
      else (let Q = P\<lparr>sp_requests := sp_requests P - {#d#}\<rparr>
            in case err of
                 Some x \<Rightarrow> Some Q
               | None \<Rightarrow> (case validated (preserveDocumentStartupFields (Document_Clone d) (sp_document P)) of
                           Inl x \<Rightarrow> None | Inr d' \<Rightarrow> Some (Q\<lparr>sp_document := Document_Clone d'\<rparr>))))"

fun spec_act :: "activity \<Rightarrow> spec \<Rightarrow> spec option" where
  "spec_act (CallSwitch b) P = Some (issue (set_enabled b (sp_document P)) P)"
| "spec_act (CallUpdateConfig cfg) P =
     (case update_config_document cfg (sp_document P) of Inl err \<Rightarrow> None | Inr d \<Rightarrow> Some (issue d P))"
| "spec_act (CallUpdateDocument d) P = Some (issue d P)"
| "spec_act (Committed d err) P = answer d err P"
| "spec_act a P = Some P"

fun spec_run :: "activity list \<Rightarrow> spec \<Rightarrow> spec option" where
  "spec_run [] P = Some P"
| "spec_run (a # as) P = (case spec_act a P of None \<Rightarrow> None | Some Q \<Rightarrow> spec_run as Q)"

fun request_of :: "task \<Rightarrow> Document multiset" where
  "request_of (Commit d) = {#d#}"
| "request_of t = {#}"

definition abs_system :: "'w system \<Rightarrow> spec" where
  "abs_system S = \<lparr>sp_document = Document_Clone (sv_document (sy_service S)),
                   sp_requests = \<Sum>\<^sub># (image_mset request_of (sy_tasks S))\<rparr>"

lemma requests_remove:
  "t \<in># M \<Longrightarrow> \<Sum>\<^sub># (image_mset request_of (M - {#t#})) = \<Sum>\<^sub># (image_mset request_of M) - request_of t"
  by (auto dest!: multi_member_split)

lemma requests_replace:
  "t \<in># M \<Longrightarrow> \<Sum>\<^sub># (image_mset request_of (A + M - {#t#}))
     = \<Sum>\<^sub># (image_mset request_of A) + (\<Sum>\<^sub># (image_mset request_of M) - request_of t)"
  by (auto dest!: multi_member_split)

lemma requests_member: "Commit d \<in># M \<Longrightarrow> d \<in># \<Sum>\<^sub># (image_mset request_of M)"
  by (auto dest!: multi_member_split)

lemma requests_follow_up [simp]: "\<Sum>\<^sub># (image_mset request_of (follow_up auto v res)) = {#}"
  by (auto simp: follow_up_def split: sum.splits)

lemma status_only_document: "status_only s t \<Longrightarrow> sv_document t = sv_document s"
  by (simp add: status_only_def same_desired_def)

lemma act_refines:
  assumes "act e S a T" "en_backend e = SystemBackend r"
  shows "spec_act a (abs_system S) = Some (abs_system T)"
proof -
  have rec: "sv_document t = sv_document s" if "reconcileLocked e f s = (x, t)" for f s x t
    using reconcile_settled(1) [OF that assms(2)] by (simp add: same_desired_def)
  show ?thesis
    using assms(1)
  proof cases
    case (commit d err s)
    have d: "d \<in># sp_requests (abs_system S)" using requests_member [OF commit(3)] by (simp add: abs_system_def)
    show ?thesis
    proof (cases err)
      case (Some x)
      have "Document_Clone (sv_document s) = Document_Clone (sv_document (sy_service S))"
        using update_rejected_parts [OF commit(4) [unfolded Some]] by simp
      then show ?thesis
        using commit(1,2) d requests_remove [OF commit(3)] Some by (simp add: answer_def abs_system_def Let_def)
    next
      case None
      obtain d' where "requested d (sy_service S) = Inr d'" "sv_document s = d'"
        using commit(4) [unfolded None] by (rule update_accepted_parts)
      then show ?thesis
        using commit(1,2) d requests_remove [OF commit(3)] None by (simp add: answer_def abs_system_def requested_def Let_def)
    qed
  next
    case (look auto cfg v w)
    then show ?thesis using requests_remove [OF look(3)] by (simp add: abs_system_def) (simp add: tick_def)
  next
    case (report auto v res s)
    then show ?thesis
      using status_only_document [of "sy_service S" s] health_commit_parts [OF report(4)]
        requests_replace [OF report(3), of "follow_up auto v res"]
      by (simp add: abs_system_def)
  next
    case (recover_Light err s)
    have "sv_document s = sv_document (sy_service S)"
      using recover_Light(4)
      by (auto simp: repairManagedAddresses_def Let_def split: if_splits prod.splits dest!: save_state_status_only(1)
          dest: status_only_document)
    then show ?thesis
      using recover_Light(1,2) requests_replace [OF recover_Light(3), of "{#Recovery FullReconcile#}"]
        requests_remove [OF recover_Light(3)] by (simp add: abs_system_def)
  next
    case stop
    have "sv_document (Stop (sy_service S)) = sv_document (sy_service S)"
      by (simp add: Stop_def stopAdvertiserLocked_def split: option.split)
    then show ?thesis using stop by (simp add: abs_system_def)
  next
    case (call_Reconcile force err s)
    then show ?thesis using rec [OF call_Reconcile(3)] by (simp add: abs_system_def)
  next
    case (recover_Full err s)
    then show ?thesis using rec [OF recover_Full(4)] requests_remove [OF recover_Full(3)] by (simp add: abs_system_def)
  qed (simp_all add: abs_system_def issue_def document_snapshot_def)
qed

lemma acts_refine:
  assumes "acts e S as T" "en_backend e = SystemBackend r"
  shows "spec_run as (abs_system S) = Some (abs_system T)"
  using assms(1) by (induction rule: acts.induct) (simp_all add: act_refines [OF _ assms(2)])

section \<open>Stopping\<close>

lemma stopAdvertiser_idem [simp]: "stopAdvertiserLocked (stopAdvertiserLocked s) = stopAdvertiserLocked s"
  by (simp add: stopAdvertiserLocked_def split: option.split)

lemma stopAdvertiser_commute [simp]:
  "stopAdvertiserLocked (s\<lparr>sv_backend := w\<rparr>) = (stopAdvertiserLocked s)\<lparr>sv_backend := w\<rparr>"
  "stopAdvertiserLocked (on_status f s) = on_status f (stopAdvertiserLocked s)"
  by (simp_all add: stopAdvertiserLocked_def on_status_def split: option.split)

section \<open>Properties\<close>

text \<open>
  C16: the health interval is never below five seconds; it is the configured number of seconds
  from five up to 9223372036, and thirty seconds for a smaller one. Beyond that the 64-bit product
  wraps.
\<close>

theorem health_interval_bounds:
  "5000000000 \<le> sint (currentHealthInterval s)
   \<and> (5 \<le> hc_IntervalSec (cfg_Health (sv_config s)) \<and> hc_IntervalSec (cfg_Health (sv_config s)) \<le> 9223372036 \<longrightarrow>
        sint (currentHealthInterval s) = hc_IntervalSec (cfg_Health (sv_config s)) * 1000000000)
   \<and> (-9223372036 \<le> hc_IntervalSec (cfg_Health (sv_config s)) \<and> hc_IntervalSec (cfg_Health (sv_config s)) < 5 \<longrightarrow>
        currentHealthInterval s = 30000000000)
   \<and> (hc_IntervalSec (cfg_Health (sv_config s)) = 9223372037 \<longrightarrow> currentHealthInterval s = 30000000000)"
proof -
  let ?n = "hc_IntervalSec (cfg_Health (sv_config s))"
  let ?w = "word_of_int ?n * (1000000000 :: 64 word)"
  have p: "?w = word_of_int (?n * 1000000000)" by simp
  have exact: "sint ?w = ?n * 1000000000" if "-9223372036 \<le> ?n" "?n \<le> 9223372036"
    unfolding p sint_sbintrunc' using that by (intro signed_take_bit_int_eq_self) simp_all
  have wrapped: "sint ?w = -9223372036709551616" if "?n = 9223372037"
    unfolding that by simp
  have small: "sint (30000000000 :: 64 word) = 30000000000" by simp
  have "5000000000 \<le> sint (currentHealthInterval s)"
    by (simp add: currentHealthInterval_def Let_def small)
  moreover have "currentHealthInterval s = ?w" if "5 \<le> ?n" "?n \<le> 9223372036"
    using exact that by (simp add: currentHealthInterval_def Let_def)
  moreover have "currentHealthInterval s = 30000000000" if "-9223372036 \<le> ?n" "?n < 5"
    using exact that by (simp add: currentHealthInterval_def Let_def)
  moreover have "currentHealthInterval s = 30000000000" if "?n = 9223372037"
    using wrapped that by (simp add: currentHealthInterval_def Let_def)
  ultimately show ?thesis using exact by simp
qed

text \<open>At an interval within the bounds.\<close>

theorem health_interval_bounds_witness:
  "sint (currentHealthInterval sample_service) = 30000000000"
proof -
  have "hc_IntervalSec (cfg_Health (sv_config sample_service)) = 30"
    by (simp add: sample_service_def service_on_def sample_config_def Defaults_def defaultHealthInterval_def)
  then show ?thesis using health_interval_bounds [of sample_service] by simp
qed

text \<open>
  C15: \<open>Stop\<close> does not disarm a reconcile that is already pending: it takes the lock afterwards and
  does the same as without \<open>Stop\<close>, restarting the advertiser included.
\<close>

theorem stop_keeps_pending_reconcile:
  "reconcileLocked e force (Stop s) = reconcileLocked e force s"
proof -
  have "sv_document (Stop s) = sv_document s" "sv_config (Stop s) = sv_config s" "sv_state (Stop s) = sv_state s"
    by (simp_all add: Stop_def stopAdvertiserLocked_def split: option.split)
  then have "reconcile_effects e force (Stop s) = reconcile_effects e force s"
    by (simp add: reconcile_effects_def) (simp add: Stop_def)
  then show ?thesis by (simp add: reconcileLocked_def)
qed

end
