(* ===== verification/Interleaving.thy ===== *)
theory Interleaving
  imports ServiceRuns
begin

text \<open>
  What holds of every run of the service: the invariant, the refinement of the register, and what a
  call that commits an old snapshot does to the updates in between.
\<close>

section \<open>Old snapshots\<close>

lemma stale_request:
  assumes "requested (set_enabled b (document_snapshot s0)) s = Inr d" "sc_Port (doc_Server (sv_document s0)) \<noteq> 0"
  shows "d = normalize (set_enabled b (sv_document s0))"
proof -
  let ?d = "set_enabled b (document_snapshot s0)"
  have "Document_Clone ?d = Document_Clone (set_enabled b (sv_document s0))"
    by (simp add: document_snapshot_def set_enabled_def Document_Clone_def Profile_clone_def ProfileConfig_clone_def comp_def)
  moreover have "preserveDocumentStartupFields (Document_Clone ?d) x = Document_Clone ?d" for x
    using assms(2) by (simp add: preserveDocumentStartupFields_def Document_Clone_def set_enabled_def document_snapshot_def)
  ultimately show ?thesis using assms(1) by (auto simp: requested_def dest: validated_Inr)
qed

lemma stale_document:
  assumes "UpdateConfigDocument e (Some (set_enabled b (document_snapshot s0))) s1 = (None, s2)"
    "sc_Port (doc_Server (sv_document s0)) \<noteq> 0"
  shows "sv_document s2 = normalize (set_enabled b (sv_document s0))"
proof -
  obtain d where "requested (set_enabled b (document_snapshot s0)) s1 = Inr d" "sv_document s2 = d"
    using assms(1) by (rule update_accepted_parts)
  then show ?thesis using stale_request assms(2) by auto
qed

definition with_token :: "string \<Rightarrow> Document \<Rightarrow> Document" where
  "with_token t d = d\<lparr>doc_Server := (doc_Server d)\<lparr>sc_AuthToken := t\<rparr>\<rparr>"

lemma with_token_defaults: "Document_applyDefaults (with_token t d) = with_token t (Document_applyDefaults d)"
  by (simp add: Document_applyDefaults_def with_token_def default_server_def)

lemma with_token_normalize: "sc_AuthToken (doc_Server (normalize (with_token t d))) = t"
  by (simp add: normalize_def with_token_defaults) (simp add: refreshProfileValidation_def with_token_def)

lemma token_of_switched: "sc_AuthToken (doc_Server (normalize (set_enabled b d))) = sc_AuthToken (doc_Server d)"
proof -
  have "with_token (sc_AuthToken (doc_Server d)) (set_enabled b d) = set_enabled b d"
    by (simp add: with_token_def set_enabled_def)
  then show ?thesis by (metis with_token_normalize)
qed

lemma accepted_port:
  assumes "UpdateConfigDocument e (Some d) s = (None, s')" shows "sc_Port (doc_Server (sv_document s')) \<noteq> 0"
proof -
  obtain d' where d': "requested d s = Inr d'" "sv_document s' = d'" using assms by (rule update_accepted_parts)
  have "document_valid d'" using validated_Inr [OF d'(1) [unfolded requested_def]] by simp
  then show ?thesis using d'(2) by (auto simp: document_valid_def server_valid_def Let_def)
qed

section \<open>The run that loses an update\<close>

text \<open>A service whose calls have all returned and that was not stopped.\<close>

abbreviation quiet :: "'w service \<Rightarrow> 'w system" where
  "quiet s \<equiv> \<lparr>sy_service = s, sy_tasks = {#}, sy_stopped = False\<rparr>"

text \<open>
  A switch and an update that overlap: the switch reads the document, the update begins, is committed and answered,
  and then the switch is.
\<close>

definition lost_update :: "bool \<Rightarrow> Document \<Rightarrow> 'w service \<Rightarrow> activity list" where
  "lost_update b d s =
     [CallSwitch b, CallUpdateDocument d, Committed d None, Committed (set_enabled b (document_snapshot s)) None]"

lemma lost_update_run:
  assumes "UpdateConfigDocument e (Some d) s = (None, s1)"
    "UpdateConfigDocument e (Some (set_enabled b (document_snapshot s))) s1 = (None, s2)"
  shows "acts e (quiet s) (lost_update b d s) (quiet s2)"
proof -
  let ?old = "set_enabled b (document_snapshot s)"
  let ?S = "\<lambda>s M. \<lparr>sy_service = s, sy_tasks = M, sy_stopped = False\<rparr>"
  have "act e (quiet s) (CallSwitch b) (?S s {#Commit ?old#})"
    using act.call_Switch [of e "quiet s" b] by simp
  moreover have "act e (?S s {#Commit ?old#}) (CallUpdateDocument d) (?S s {#Commit d, Commit ?old#})"
    using act.call_UpdateConfigDocument [of e "?S s {#Commit ?old#}" d] by simp
  moreover have "act e (?S s {#Commit d, Commit ?old#}) (Committed d None) (?S s1 {#Commit ?old#})"
    using act.commit [of d "?S s {#Commit d, Commit ?old#}" e None s1] assms(1) by simp
  moreover have "act e (?S s1 {#Commit ?old#}) (Committed ?old None) (quiet s2)"
    using act.commit [of ?old "?S s1 {#Commit ?old#}" e None s2] assms(2) by simp
  ultimately show ?thesis unfolding lost_update_def by (meson acts_Cons acts_Nil)
qed

section \<open>The services of the witnesses\<close>

abbreviation sample_off :: Document where
  "sample_off \<equiv> set_enabled False (document_snapshot sample_service)"

abbreviation sample_tokened :: Document where
  "sample_tokened \<equiv> with_token ''secret'' (set_enabled False sample_document)"

lemma applyDefaults_normalize: "Document_applyDefaults (normalize d) = normalize d"
  by (simp add: normalize_def refreshProfileValidation_def Document_applyDefaults_def refresh_profile_def Let_def comp_def)

text \<open>A valid document can be switched off.\<close>

lemma switched_off_valid: "document_valid d \<Longrightarrow> document_valid (set_enabled False d)"
  by (auto simp: document_valid_def set_enabled_def profile_valid_def Let_def split: if_splits)

lemma switch_off_requested:
  assumes "document_valid (sv_document s)" "Document_applyDefaults (sv_document s) = sv_document s"
  shows "requested (set_enabled False (document_snapshot s)) s = Inr (normalize (set_enabled False (sv_document s)))"
proof -
  let ?d = "set_enabled False (document_snapshot s)"
  have c: "Document_Clone ?d = Document_Clone (set_enabled False (sv_document s))"
    by (simp add: document_snapshot_def set_enabled_def Document_Clone_def Profile_clone_def ProfileConfig_clone_def comp_def)
  have "sc_Port (doc_Server (sv_document s)) \<noteq> 0"
    using assms(1) by (auto simp: document_valid_def server_valid_def Let_def)
  then have "preserveDocumentStartupFields (Document_Clone ?d) x = Document_Clone (set_enabled False (sv_document s))" for x
    unfolding c by (simp add: preserveDocumentStartupFields_def Document_Clone_def set_enabled_def)
  moreover have "document_valid (normalize (Document_Clone (set_enabled False (sv_document s))))"
    using switched_off_valid [OF assms(1)] assms(2) by (simp add: set_enabled_defaults del: document_valid_normalize) (simp add: set_enabled_defaults)
  ultimately show ?thesis by (simp add: requested_def validated_eq)
qed

lemma sample_tokened_valid: "document_valid (Document_applyDefaults sample_tokened)"
proof -
  have "Document_applyDefaults sample_tokened = sample_tokened"
    by (simp add: with_token_defaults set_enabled_defaults sample_defaults)
  then show ?thesis
    using sample_enabled [of False] by (simp add: document_valid_def with_token_def server_valid_def Let_def)
qed

lemma sample_tokened_requested:
  "requested sample_tokened sample_service = Inr (normalize sample_tokened)"
proof -
  have "preserveDocumentStartupFields (Document_Clone sample_tokened) y = Document_Clone sample_tokened" for y
    by (simp add: preserveDocumentStartupFields_def Document_Clone_def set_enabled_def with_token_def sample_document_def
        Defaults_def default_numbers)
  then show ?thesis using sample_tokened_valid by (simp add: requested_def validated_eq)
qed

lemma sample_race:
  obtains s1 s2 s3 :: "unit machine service" where
    "UpdateConfigDocument (sample_env broken_host) (Some sample_tokened) sample_service = (None, s1)"
    "UpdateConfigDocument (sample_env broken_host) (Some sample_off) s1 = (None, s2)"
    "Down (sample_env broken_host) s1 = (None, s3)"
    "CurrentToken s1 = ''secret''"
proof -
  let ?e = "sample_env broken_host"
  obtain err1 s1 where u1: "UpdateConfigDocument ?e (Some sample_tokened) sample_service = (err1, s1)"
    by (rule prod.exhaust)
  have off1: "\<not> doc_TunnelEnabled sample_tokened" by (simp add: with_token_def set_enabled_def)
  note p1 = off_parts [OF sample_tokened_requested off1 sample_env_ok(2) u1]
  obtain err2 s2 where u2: "UpdateConfigDocument ?e (Some sample_off) s1 = (err2, s2)" by (rule prod.exhaust)
  have off2: "\<not> doc_TunnelEnabled sample_off" by (simp add: set_enabled_def)
  have "sc_Port (doc_Server sample_off) \<noteq> 0"
    by (simp add: set_enabled_def document_snapshot_def Document_Clone_def sample_service_def service_on_def
        sample_document_def Defaults_def default_numbers)
  then have "requested sample_off s1 = requested sample_off sample_service"
    by (simp add: requested_def preserveDocumentStartupFields_def Document_Clone_def)
  then have req2: "requested sample_off s1 = Inr (normalize (set_enabled False sample_document))"
    using sample_requested(2) by simp
  note p2 = off_parts [OF req2 off2 sample_env_ok(2) u2]
  have t: "CurrentToken s1 = ''secret''" using p1 with_token_normalize by (simp add: CurrentToken_def)
  have u: "UpdateConfigDocument ?e (Some sample_tokened) sample_service = (None, s1)"
    "UpdateConfigDocument ?e (Some sample_off) s1 = (None, s2)" using u1 u2 p1 p2 by blast+
  obtain err3 s3 where u3: "UpdateConfigDocument ?e (Some (set_enabled False (document_snapshot s1))) s1 = (err3, s3)"
    by (rule prod.exhaust)
  have d1: "sv_document s1 = normalize sample_tokened" using p1 by blast
  have off3: "\<not> doc_TunnelEnabled (set_enabled False (document_snapshot s1))" by (simp add: set_enabled_def)
  have "document_valid (sv_document s1)" unfolding d1 using sample_tokened_valid by simp
  then have "requested (set_enabled False (document_snapshot s1)) s1 = Inr (normalize (set_enabled False (sv_document s1)))"
    by (rule switch_off_requested) (simp add: d1 applyDefaults_normalize)
  note p3 = off_parts [OF this off3 sample_env_ok(2) u3]
  then have "Down ?e s1 = (None, s3)" using u3 by (simp add: Down_def mutateDocument_def)
  then show thesis using that u t by blast
qed

section \<open>Properties\<close>

text \<open>
  C14: \<open>Up\<close> and \<open>Down\<close> release the lock between reading the document and committing it, so an update that another
  call gets accepted in between is lost: the two calls have a run in which both are answered with success and
  the document is the one before the update, with the switch set; nothing of the update survives, not even the token.
  A switch that kept the lock would have switched the updated document and kept its token.
\<close>

theorem stale_snapshot_wins:
  assumes "UpdateConfigDocument e (Some d) s = (None, s1)"
    "UpdateConfigDocument e (Some (set_enabled b (document_snapshot s))) s1 = (None, s2)"
    "mutateDocument e (set_enabled b) s1 = (None, s3)"
    "sc_Port (doc_Server (sv_document s)) \<noteq> 0"
  shows "acts e (quiet s) (lost_update b d s) (quiet s2)
    \<and> sv_document s2 = normalize (set_enabled b (sv_document s)) \<and> CurrentToken s2 = CurrentToken s
    \<and> sv_document s3 = normalize (set_enabled b (sv_document s1)) \<and> CurrentToken s3 = CurrentToken s1"
proof -
  have docs: "sv_document s2 = normalize (set_enabled b (sv_document s))"
    "sv_document s3 = normalize (set_enabled b (sv_document s1))"
    using stale_document [OF assms(2,4)] stale_document [OF assms(3) [unfolded mutateDocument_def] accepted_port [OF assms(1)]]
    by blast+
  show ?thesis
    using lost_update_run [OF assms(1,2)] by (simp add: docs CurrentToken_def token_of_switched)
qed

text \<open>A run in which the accepted update of the token is lost.\<close>

theorem stale_snapshot_wins_witness:
  "\<exists>s2. acts (sample_env broken_host) (quiet sample_service) (lost_update False sample_tokened sample_service) (quiet s2)
     \<and> CurrentToken s2 = []"
proof -
  obtain s1 s2 s3 where u: "UpdateConfigDocument (sample_env broken_host) (Some sample_tokened) sample_service = (None, s1)"
    "UpdateConfigDocument (sample_env broken_host) (Some sample_off) s1 = (None, s2)"
    "Down (sample_env broken_host) s1 = (None, s3)"
    by (rule sample_race)
  have "sc_Port (doc_Server (sv_document sample_service)) \<noteq> 0" "CurrentToken sample_service = []"
    by (simp_all add: CurrentToken_def sample_service_def service_on_def sample_document_def Defaults_def default_numbers)
  then show ?thesis using stale_snapshot_wins [OF u(1,2) u(3) [unfolded Down_def]] by auto
qed

text \<open>
  C3: every interleaving of the calls and the health loop keeps the service consistent: the open
  router-advertisement connections are those of its advertiser, which runs only for a valid,
  enabled configuration and announces its prefixes; the reported error is the first reason; the
  configuration is the active one of the document; and the configuration file loads as it.
\<close>

theorem interleaving_keeps_invariant:
  assumes "runs e S T" "en_backend e = SystemBackend r" "sane_env e" "service_inv os base (sy_service S)"
  shows "service_inv os base (sy_service T)"
  by (rule runs_inv [OF assms])

text \<open>After a first update, across a second one.\<close>

theorem interleaving_keeps_invariant_witness:
  "\<exists>s1 s2. runs (sample_env broken_host) \<lparr>sy_service = s1, sy_tasks = {#Commit sample_off#}, sy_stopped = False\<rparr> (quiet s2)
     \<and> CurrentToken s1 = ''secret'' \<and> service_inv working_OS [] s2"
proof -
  let ?e = "sample_env broken_host"
  obtain s1 s2 s3 where u: "UpdateConfigDocument ?e (Some sample_tokened) sample_service = (None, s1)"
    "UpdateConfigDocument ?e (Some sample_off) s1 = (None, s2)" "Down ?e s1 = (None, s3)" "CurrentToken s1 = ''secret''"
    by (rule sample_race)
  have "running_ok [] sample_service"
    by (simp add: running_ok_def connections_ok_def advertises_def reports_first_def ndp_ok_def sample_service_def
        service_on_def DefaultState_def zero_status_def firstReason_def)
  then have inv: "service_inv working_OS [] s1"
    by (intro first_update_inv [OF u(1), where r = broken_host] sample_env_ok) (simp_all add: working_OS_def)
  let ?S = "\<lparr>sy_service = s1, sy_tasks = {#Commit sample_off#}, sy_stopped = False\<rparr>"
  have run: "runs ?e ?S (quiet s2)"
    using stepI [OF act.commit [of sample_off ?S ?e None s2]] u(2) by (intro r_into_rtranclp) simp
  have "service_inv working_OS [] s2"
    using interleaving_keeps_invariant [OF run _ sample_env_ok(1), of broken_host working_OS "[]"] inv by simp
  then show ?thesis using run u(4) by blast
qed

text \<open>
  C4: for the document, every run of the service behaves as a register: it is the document that the calls and the
  answers of the run determine.  A switch requests the document of the moment it is called with the switch set,
  an update of the configuration the one with that configuration; a request is answered once; one that is refused changes
  nothing; one that is accepted is valid and becomes the document as a whole; and nothing else changes it.
\<close>

theorem runs_refine_register:
  assumes "acts e S as T" "en_backend e = SystemBackend r"
  shows "spec_run as (abs_system S) = Some (abs_system T)"
  using acts_refine [OF assms] .

text \<open>For the run that loses an update: the register of its calls and answers is the document before, switched off.\<close>

theorem runs_refine_register_witness:
  "spec_run (lost_update False sample_tokened sample_service) \<lparr>sp_document = Document_Clone sample_document, sp_requests = {#}\<rparr>
     = Some \<lparr>sp_document = Document_Clone (normalize (set_enabled False sample_document)), sp_requests = {#}\<rparr>"
proof -
  obtain s1 s2 s3 where u: "UpdateConfigDocument (sample_env broken_host) (Some sample_tokened) sample_service = (None, s1)"
    "UpdateConfigDocument (sample_env broken_host) (Some sample_off) s1 = (None, s2)"
    "Down (sample_env broken_host) s1 = (None, s3)"
    by (rule sample_race)
  have doc: "sv_document sample_service = sample_document" by (simp add: sample_service_def service_on_def)
  have "sc_Port (doc_Server sample_document) \<noteq> 0" by (simp add: sample_document_def Defaults_def default_numbers)
  then have "sv_document s2 = normalize (set_enabled False sample_document)"
    using stale_document [OF u(2)] doc by simp
  then show ?thesis
    using runs_refine_register [OF lost_update_run [OF u(1,2)], of broken_host] doc by (simp add: abs_system_def)
qed

end
