(* ===== verification/HealthLoop.thy ===== *)
theory HealthLoop
  imports ServiceRuns
begin

text \<open>
  The health loop that \<open>Start\<close> launches and \<open>Stop\<close> ends, with its timer, among the other calls: the loop is
  a thread with a program counter; between two of its steps the other calls take theirs, and time passes.
\<close>

section \<open>The loop\<close>

text \<open>
  Where the loop is: at its top; in the \<open>select\<close>, with the time its timer fires at; before it decides, before a
  reconcile, before a health check, with the configuration to look at, with what it saw, before a repair; or returned.
\<close>

datatype loop_pc =
    Top
  | Waiting nat
  | Deciding
  | Reconciling
  | Checking
  | Looking Config
  | Reporting health_view
  | Repairing
  | Returned

text \<open>The service and its other calls, where the loop is, and the time, in nanoseconds.\<close>

record 'w looped =
  lo_system :: "'w system"
  lo_pc :: loop_pc
  lo_now :: nat

abbreviation lo_service :: "'w looped \<Rightarrow> 'w service" where
  "lo_service L \<equiv> sy_service (lo_system L)"

abbreviation goto :: "loop_pc \<Rightarrow> 'w looped \<Rightarrow> 'w looped" where
  "goto pc L \<equiv> L\<lparr>lo_pc := pc\<rparr>"

abbreviation leave :: "loop_pc \<Rightarrow> 'w service \<Rightarrow> 'w looped \<Rightarrow> 'w looped" where
  "leave pc s L \<equiv> L\<lparr>lo_system := (lo_system L)\<lparr>sy_service := s\<rparr>, lo_pc := pc\<rparr>"

definition after_report :: "health_view \<Rightarrow> Status res \<Rightarrow> loop_pc" where
  "after_report v res =
     (case res of
        Inl err \<Rightarrow> Top
      | Inr st \<Rightarrow> (case health_recovery True v of
                     NoRecovery \<Rightarrow> Top | FullReconcile \<Rightarrow> Reconciling | LightRepair \<Rightarrow> Repairing))"

text \<open>
  One rule for each part of the loop that runs without releasing the lock. When the timer has fired and the channel is closed,
  \<open>select\<close> takes either branch.
\<close>

inductive loop_act :: "'w env \<Rightarrow> 'w looped \<Rightarrow> 'w looped \<Rightarrow> bool" for e :: "'w env" where
  timer: "lo_pc L = Top \<Longrightarrow>
    loop_act e L (goto (Waiting (lo_now L + nat (sint (currentHealthInterval (lo_service L))))) L)"
| fire: "lo_pc L = Waiting t \<Longrightarrow> t \<le> lo_now L \<Longrightarrow> loop_act e L (goto Deciding L)"
| closed: "lo_pc L = Waiting t \<Longrightarrow> sy_stopped (lo_system L) \<Longrightarrow> loop_act e L (goto Returned L)"
| retry: "lo_pc L = Deciding \<Longrightarrow> shouldRetryReconcile (lo_service L) \<Longrightarrow> loop_act e L (goto Reconciling L)"
| check: "lo_pc L = Deciding \<Longrightarrow> \<not> shouldRetryReconcile (lo_service L) \<Longrightarrow> loop_act e L (goto Checking L)"
| reconciled: "lo_pc L = Reconciling \<Longrightarrow> reconcileLocked e True (lo_service L) = (err, s) \<Longrightarrow> loop_act e L (leave Top s L)"
| copied: "lo_pc L = Checking \<Longrightarrow> loop_act e L (goto (Looking (Config_Clone (sv_config (lo_service L)))) L)"
| looked: "lo_pc L = Looking cfg \<Longrightarrow>
    health_observe e cfg (sv_backend (lo_service L)) (sv_calls (lo_service L)) = (v, w) \<Longrightarrow>
    loop_act e L (leave (Reporting v) (tick ((lo_service L)\<lparr>sv_backend := w\<rparr>)) L)"
| reported: "lo_pc L = Reporting v \<Longrightarrow> health_commit e v (lo_service L) = (res, s) \<Longrightarrow>
    loop_act e L (leave (after_report v res) s L)"
| repaired: "lo_pc L = Repairing \<Longrightarrow> repairManagedAddresses e (lo_service L) = (err, s) \<Longrightarrow>
    loop_act e L (leave (if err = None then Top else Reconciling) s L)"

text \<open>
  A run of it all, with the steps and the turns of the loop counted: the loop, the critical sections of the
  other calls, and time. A \<open>select\<close> with a branch that is ready is not kept waiting: time does not pass the
  moment the timer fires, or when the channel is closed.
\<close>

inductive loop_run :: "'w env \<Rightarrow> 'w looped \<Rightarrow> nat \<Rightarrow> nat \<Rightarrow> 'w looped \<Rightarrow> bool" for e :: "'w env" and L :: "'w looped" where
  none: "loop_run e L 0 0 L"
| loop: "loop_run e L n k M \<Longrightarrow> loop_act e M N \<Longrightarrow> loop_run e L (Suc n) (if lo_pc N = Deciding then Suc k else k) N"
| others: "loop_run e L n k M \<Longrightarrow> act e (lo_system M) a S \<Longrightarrow> a \<noteq> LoopRetry \<Longrightarrow> a \<noteq> LoopHealth \<Longrightarrow>
    loop_run e L n k (M\<lparr>lo_system := S\<rparr>)"
| time: "loop_run e L n k M \<Longrightarrow> (\<And>t. lo_pc M = Waiting t \<Longrightarrow> \<not> sy_stopped (lo_system M) \<and> lo_now M + d \<le> t) \<Longrightarrow>
    loop_run e L n k (M\<lparr>lo_now := lo_now M + d\<rparr>)"

inductive_cases loop_act_elim: "loop_act e L M"

section \<open>What it can do\<close>

text \<open>The loop within a run of the service: its place is one more pending task.\<close>

fun loop_task :: "loop_pc \<Rightarrow> task multiset" where
  "loop_task Reconciling = {#Recovery FullReconcile#}"
| "loop_task Repairing = {#Recovery LightRepair#}"
| "loop_task (Looking cfg) = {#Look True cfg#}"
| "loop_task (Reporting v) = {#Seen True v#}"
| "loop_task pc = {#}"

definition with_loop :: "'w looped \<Rightarrow> 'w system" where
  "with_loop L = (lo_system L)\<lparr>sy_tasks := loop_task (lo_pc L) + sy_tasks (lo_system L)\<rparr>"


lemma act_frame:
  assumes "act e S a T" shows "act e (S\<lparr>sy_tasks := X + sy_tasks S\<rparr>) a (T\<lparr>sy_tasks := X + sy_tasks T\<rparr>)"
  using assms
proof cases
  case (commit d err s)
  then obtain M where "sy_tasks S = add_mset (Commit d) M" by (metis multi_member_split)
  with commit show ?thesis using act.commit [of d "S\<lparr>sy_tasks := X + sy_tasks S\<rparr>" e err s] by (simp)
next
  case (look auto cfg v w)
  then obtain M where "sy_tasks S = add_mset (Look auto cfg) M" by (metis multi_member_split)
  with look show ?thesis using act.look [of auto cfg "S\<lparr>sy_tasks := X + sy_tasks S\<rparr>" e v w] by (simp)
next
  case (report auto v res s)
  then obtain M where "sy_tasks S = add_mset (Seen auto v) M" by (metis multi_member_split)
  with report show ?thesis using act.report [of auto v "S\<lparr>sy_tasks := X + sy_tasks S\<rparr>" e res s] by (simp add: ac_simps)
next
  case (recover_Full err s)
  then obtain M where "sy_tasks S = add_mset (Recovery FullReconcile) M" by (metis multi_member_split)
  with recover_Full show ?thesis using act.recover_Full [of "S\<lparr>sy_tasks := X + sy_tasks S\<rparr>" e err s] by (simp)
next
  case (recover_Light err s)
  then obtain M where "sy_tasks S = add_mset (Recovery LightRepair) M" by (metis multi_member_split)
  with recover_Light show ?thesis using act.recover_Light [of "S\<lparr>sy_tasks := X + sy_tasks S\<rparr>" e err s] by (cases err) simp_all
next
  case (call_Reconcile force err s)
  let ?S = "S\<lparr>sy_tasks := X + sy_tasks S\<rparr>"
  have T: "?S\<lparr>sy_service := s\<rparr> = T\<lparr>sy_tasks := X + sy_tasks T\<rparr>" using call_Reconcile by simp
  have "act e ?S (Reconciled force err) (?S\<lparr>sy_service := s\<rparr>)" by (rule act.call_Reconcile) (use call_Reconcile in simp)
  then show ?thesis unfolding T call_Reconcile(1) .
next
  case stop
  let ?S = "S\<lparr>sy_tasks := X + sy_tasks S\<rparr>"
  have T: "?S\<lparr>sy_service := Stop (sy_service ?S)\<rparr> = T\<lparr>sy_tasks := X + sy_tasks T\<rparr>" using stop by simp
  have "act e ?S Stopped (?S\<lparr>sy_service := Stop (sy_service ?S)\<rparr>)" by (rule act.stop) (use stop in simp)
  then show ?thesis unfolding T stop(1) .
next
  case (call_Switch b)
  then show ?thesis using act.call_Switch [of e "S\<lparr>sy_tasks := X + sy_tasks S\<rparr>" b] by simp
next
  case (call_UpdateConfig cfg d)
  then show ?thesis using act.call_UpdateConfig [of cfg "S\<lparr>sy_tasks := X + sy_tasks S\<rparr>" d e] by simp
next
  case (call_UpdateConfigDocument d)
  then show ?thesis using act.call_UpdateConfigDocument [of e "S\<lparr>sy_tasks := X + sy_tasks S\<rparr>" d] by simp
next
  case call_Health
  then show ?thesis using act.call_Health [of e "S\<lparr>sy_tasks := X + sy_tasks S\<rparr>"] by simp
next
  case loop_Retry
  then show ?thesis using act.loop_Retry [of e "S\<lparr>sy_tasks := X + sy_tasks S\<rparr>"] by simp
next
  case loop_Health
  then show ?thesis using act.loop_Health [of e "S\<lparr>sy_tasks := X + sy_tasks S\<rparr>"] by simp
next
  case close_stopCh
  let ?S = "S\<lparr>sy_tasks := X + sy_tasks S\<rparr>"
  have T: "?S\<lparr>sy_stopped := True\<rparr> = T\<lparr>sy_tasks := X + sy_tasks T\<rparr>" using close_stopCh by simp
  have "act e ?S Closed (?S\<lparr>sy_stopped := True\<rparr>)" by (rule act.close_stopCh)
  then show ?thesis unfolding T close_stopCh(1) .
qed

text \<open>Each step of the loop is at most one of the service, and those of the others are steps of the whole.\<close>

lemma loop_act_run:
  assumes "loop_act e L M" shows "runs e (with_loop L) (with_loop M)"
  using assms
proof cases
  case retry
  then show ?thesis
    using stepI [OF act.loop_Retry [of e "with_loop L"]] by (simp add: with_loop_def r_into_rtranclp)
next
  case (reconciled err s)
  then show ?thesis
    using stepI [OF act.recover_Full [of "with_loop L" e err s]] by (simp add: with_loop_def r_into_rtranclp)
next
  case copied
  then show ?thesis
    using stepI [OF act.loop_Health [of e "with_loop L"]] by (simp add: with_loop_def r_into_rtranclp)
next
  case (looked cfg v w)
  then show ?thesis
    using stepI [OF act.look [of True cfg "with_loop L" e v w]] by (simp add: with_loop_def r_into_rtranclp)
next
  case (reported v res s)
  have "loop_task (after_report v res) = follow_up True v res"
    by (auto simp: after_report_def follow_up_def split: sum.split recovery.split)
  then show ?thesis
    using stepI [OF act.report [of True v "with_loop L" e res s]] reported by (simp add: with_loop_def r_into_rtranclp)
next
  case (repaired err s)
  have "loop_task (if err = None then Top else Reconciling) = (if err = None then {#} else {#Recovery FullReconcile#})"
    by simp
  then show ?thesis
    using stepI [OF act.recover_Light [of "with_loop L" e err s]] repaired
    by (simp add: with_loop_def r_into_rtranclp split del: if_split)
qed (simp_all add: with_loop_def)

lemma loop_run_run: "loop_run e L n k M \<Longrightarrow> runs e (with_loop L) (with_loop M)"
proof (induction rule: loop_run.induct)
  case none
  show ?case by simp
next
  case (loop n k M N)
  then show ?case using loop_act_run rtranclp_trans by metis
next
  case (others n k M a S)
  have "act e (with_loop M) a (with_loop (M\<lparr>lo_system := S\<rparr>))"
    using act_frame [OF others(2), of "loop_task (lo_pc M)"] by (simp add: with_loop_def)
  then show ?case using others(5) step_task [OF _ stepI] by metis
next
  case (time n k M d)
  then show ?case by (simp add: with_loop_def)
qed

section \<open>Ending\<close>

lemma act_stopped: "act e S a T \<Longrightarrow> sy_stopped S \<Longrightarrow> sy_stopped T"
  by (auto elim!: act.cases)

lemma loop_act_stopped: "loop_act e L M \<Longrightarrow> sy_stopped (lo_system M) = sy_stopped (lo_system L)"
  by (auto elim!: loop_act.cases)

lemma interval_at_least: "5000000000 \<le> nat (sint (currentHealthInterval s))"
proof -
  have "sint (30000000000 :: 64 word) = 30000000000" by simp
  then have "5000000000 \<le> sint (currentHealthInterval s)" by (simp add: currentHealthInterval_def Let_def)
  then show ?thesis by linarith
qed

text \<open>How many steps the loop has left once the channel is closed; a timer that has not fired does not any more.\<close>

fun steps_left :: "nat \<Rightarrow> loop_pc \<Rightarrow> nat" where
  "steps_left now (Waiting t) = (if t \<le> now then 9 else 1)"
| "steps_left now Deciding = 8"
| "steps_left now Checking = 7"
| "steps_left now (Looking cfg) = 6"
| "steps_left now (Reporting v) = 5"
| "steps_left now Repairing = 4"
| "steps_left now Reconciling = 3"
| "steps_left now Top = 2"
| "steps_left now Returned = 0"

lemma steps_left_bound: "steps_left now pc \<le> 9"
  by (cases pc) simp_all

lemma loop_act_descends:
  assumes "loop_act e L M" shows "steps_left (lo_now M) (lo_pc M) < steps_left (lo_now L) (lo_pc L)"
  using assms
proof cases
  case timer
  then show ?thesis using interval_at_least [of "lo_service L"] by simp
next
  case (reported v res s)
  then show ?thesis by (simp add: after_report_def split: sum.split recovery.split)
qed (auto split: if_splits)

lemma loop_run_descends:
  "loop_run e L n k M \<Longrightarrow> sy_stopped (lo_system L) \<Longrightarrow>
     sy_stopped (lo_system M) \<and> n + steps_left (lo_now M) (lo_pc M) \<le> steps_left (lo_now L) (lo_pc L)"
proof (induction rule: loop_run.induct)
  case none
  then show ?case by simp
next
  case (loop n k M N)
  then show ?case using loop_act_descends [OF loop(2)] loop_act_stopped [OF loop(2)] by simp
next
  case (others n k M a S)
  then show ?case using act_stopped [OF others(2)] by simp
next
  case (time n k M d)
  then show ?case by (cases "lo_pc M") simp_all
qed

lemma loop_run_stopped: "loop_run e L n k M \<Longrightarrow> sy_stopped (lo_system L) \<Longrightarrow> n \<le> 9"
  using loop_run_descends steps_left_bound by (metis add_leD1 le_trans)

lemma loop_act_progress:
  "lo_pc L \<noteq> Returned \<Longrightarrow> (\<exists>M. loop_act e L M) \<or> (\<exists>t. lo_pc L = Waiting t \<and> lo_now L < t \<and> \<not> sy_stopped (lo_system L))"
proof (cases "lo_pc L")
  case (Waiting t)
  then show ?thesis using loop_act.fire [of L t e] loop_act.closed [of L t e] by (meson not_less)
next
  case Reconciling
  then show ?thesis using loop_act.reconciled [of L e] by (metis prod.exhaust)
next
  case (Looking cfg)
  then show ?thesis using loop_act.looked [of L cfg e] by (metis prod.exhaust)
next
  case (Reporting v)
  then show ?thesis using loop_act.reported [of L v e] by (metis prod.exhaust)
next
  case Repairing
  then show ?thesis using loop_act.repaired [of L e] by (metis prod.exhaust)
qed (blast intro: loop_act.intros)+

lemma loop_run_returned:
  "loop_run e L n k M \<Longrightarrow> lo_pc M = Returned \<Longrightarrow> lo_pc L = Returned \<or> sy_stopped (lo_system M)"
proof (induction rule: loop_run.induct)
  case (loop n k M N)
  from loop(2) have "lo_pc N = Returned \<Longrightarrow> lo_pc M \<noteq> Returned \<and> sy_stopped (lo_system N)"
    by (cases; simp add: after_report_def split: if_splits sum.splits recovery.splits)
  then show ?case using loop by simp
qed (auto dest: act_stopped)

section \<open>Its turns\<close>

lemma loop_run_paced:
  "loop_run e L n k M \<Longrightarrow> lo_pc L = Top \<Longrightarrow> lo_now L + k * 5000000000 \<le> lo_now M
     \<and> (\<forall>t. lo_pc M = Waiting t \<longrightarrow> lo_now L + Suc k * 5000000000 \<le> t)"
proof (induction rule: loop_run.induct)
  case none
  then show ?case by simp
next
  case (loop n k M N)
  from loop(2) have "lo_now N = lo_now M \<and> (lo_pc N = Deciding \<longrightarrow> (\<exists>t \<le> lo_now M. lo_pc M = Waiting t))
      \<and> (\<forall>t. lo_pc N = Waiting t \<longrightarrow> lo_now M + 5000000000 \<le> t)"
    using interval_at_least [of "lo_service M"]
    by (cases; simp add: after_report_def split: if_splits sum.splits recovery.splits)
  then show ?case using loop(3) [OF loop(4)] by auto
next
  case (others n k M a S)
  then show ?case by simp
next
  case (time n k M d)
  then show ?case by (simp add: add.assoc trans_le_add1)
qed

lemma loop_step: "loop_run e L n k M \<Longrightarrow> loop_act e M N \<Longrightarrow> lo_pc N \<noteq> Deciding \<Longrightarrow> loop_run e L (Suc n) k N"
  using loop_run.loop by fastforce

lemma loop_run_trans:
  "loop_run e M n' k' N \<Longrightarrow> loop_run e L n k M \<Longrightarrow> loop_run e L (n + n') (k + k') N"
proof (induction rule: loop_run.induct)
  case none
  then show ?case by simp
next
  case (loop n' k' N N')
  then show ?case using loop_run.loop [OF loop(3) [OF loop(4)] loop(2)] by (cases "lo_pc N' = Deciding") simp_all
next
  case (others n' k' N a S)
  then show ?case by (intro loop_run.others) simp_all
next
  case (time n' k' N d)
  then show ?case by (intro loop_run.time) simp_all
qed

text \<open>Left alone, the loop does from its decision on what \<open>health_turn\<close> does.\<close>

lemma recover_run:
  assumes "loop_run e L n 0 (leave (after_report v (Inr st)) s L)"
  shows "\<exists>n. loop_run e L n 0 (leave Top (snd (recover e (health_recovery True v) st s)) L)"
proof (cases "health_recovery True v")
  case NoRecovery
  then show ?thesis using assms by (auto simp: after_report_def recover_def)
next
  case FullReconcile
  obtain err t where t: "reconcileLocked e True s = (err, t)" by (rule prod.exhaust)
  have "loop_run e L n 0 (leave Reconciling s L)" using assms FullReconcile by (simp add: after_report_def)
  from loop_step [OF this loop_act.reconciled [of _ e err t]] have "loop_run e L (Suc n) 0 (leave Top t L)"
    using t by simp
  then show ?thesis using FullReconcile t by (auto simp: recover_def split: option.split)
next
  case LightRepair
  obtain err t where t: "repairManagedAddresses e s = (err, t)" by (rule prod.exhaust)
  have "loop_run e L n 0 (leave Repairing s L)" using assms LightRepair by (simp add: after_report_def)
  from loop_step [OF this loop_act.repaired [of _ e err t]]
  have r: "loop_run e L (Suc n) 0 (leave (if err = None then Top else Reconciling) t L)" using t by simp
  show ?thesis
  proof (cases err)
    case None
    then show ?thesis using LightRepair t r by (auto simp: recover_def)
  next
    case (Some x)
    obtain err' u where u: "reconcileLocked e True t = (err', u)" by (rule prod.exhaust)
    have "loop_run e L (Suc n) 0 (leave Reconciling t L)" using r Some by simp
    from loop_step [OF this loop_act.reconciled [of _ e err' u]] have "loop_run e L (Suc (Suc n)) 0 (leave Top u L)"
      using u by simp
    then show ?thesis using LightRepair Some t u by (auto simp: recover_def split: option.split)
  qed
qed

lemma turn_run:
  assumes "lo_pc L = Deciding"
  shows "\<exists>n. loop_run e L n 0 (leave Top (health_turn e (lo_service L)) L)"
proof (cases "shouldRetryReconcile (lo_service L)")
  case True
  obtain err s where s: "reconcileLocked e True (lo_service L) = (err, s)" by (rule prod.exhaust)
  have "loop_run e L (Suc 0) 0 (goto Reconciling L)"
    by (rule loop_step [OF loop_run.none loop_act.retry [OF assms True]]) simp
  from loop_step [OF this loop_act.reconciled [of _ e err s]]
  have "loop_run e L (Suc (Suc 0)) 0 (leave Top s L)" using s by simp
  then show ?thesis using True s by (auto simp: health_turn_def)
next
  case False
  let ?s = "lo_service L"
  let ?cfg = "Config_Clone (sv_config ?s)"
  obtain v w where v: "health_observe e ?cfg (sv_backend ?s) (sv_calls ?s) = (v, w)" by (rule prod.exhaust)
  let ?t = "tick (?s\<lparr>sv_backend := w\<rparr>)"
  obtain res u where u: "health_commit e v ?t = (res, u)" by (rule prod.exhaust)
  have "loop_run e L (Suc 0) 0 (goto Checking L)"
    by (rule loop_step [OF loop_run.none loop_act.check [OF assms False]]) simp
  from loop_step [OF this loop_act.copied] have "loop_run e L (Suc (Suc 0)) 0 (goto (Looking ?cfg) L)" by simp
  from loop_step [OF this loop_act.looked [of _ ?cfg e v w]]
  have "loop_run e L (Suc (Suc (Suc 0))) 0 (leave (Reporting v) ?t L)" using v by simp
  from loop_step [OF this loop_act.reported [of _ v e res u]]
  have r: "loop_run e L (Suc (Suc (Suc (Suc 0)))) 0 (leave (after_report v res) u L)"
    using u by (simp add: after_report_def split: sum.splits recovery.splits)
  have turn: "health_turn e ?s = (case res of Inl err \<Rightarrow> u | Inr st \<Rightarrow> snd (recover e (health_recovery True v) st u))"
    using False v u by (simp add: health_turn_def runHealthCheck_def split: sum.split)
  show ?thesis
  proof (cases res)
    case (Inl err)
    then show ?thesis using r turn by (auto simp: after_report_def)
  next
    case (Inr st)
    then show ?thesis using recover_run [OF r [unfolded Inr]] turn by simp
  qed
qed

lemma loop_run_turn:
  assumes "lo_pc L = Top" "\<not> sy_stopped (lo_system L)"
  shows "\<exists>n. loop_run e L n 1 (leave Top (health_turn e (lo_service L)) L
     \<lparr>lo_now := lo_now L + nat (sint (currentHealthInterval (lo_service L)))\<rparr>)"
proof -
  let ?d = "nat (sint (currentHealthInterval (lo_service L)))"
  let ?M = "L\<lparr>lo_pc := Deciding, lo_now := lo_now L + ?d\<rparr>"
  have "loop_run e L (Suc 0) 0 (goto (Waiting (lo_now L + ?d)) L)"
    by (rule loop_step [OF loop_run.none loop_act.timer [OF assms(1)]]) simp
  from loop_run.time [OF this, of ?d] have "loop_run e L (Suc 0) 0 (L\<lparr>lo_pc := Waiting (lo_now L + ?d), lo_now := lo_now L + ?d\<rparr>)"
    using assms(2) by simp
  from loop_run.loop [OF this loop_act.fire]
  have "loop_run e L (Suc (Suc 0)) 1 (goto Deciding (L\<lparr>lo_now := lo_now L + ?d\<rparr>))" by simp
  moreover have "goto Deciding (L\<lparr>lo_now := lo_now L + ?d\<rparr>) = ?M" by simp
  ultimately have fired: "loop_run e L (Suc (Suc 0)) 1 ?M" by (simp only:)
  obtain n where "loop_run e ?M n 0 (leave Top (health_turn e (lo_service ?M)) ?M)" using turn_run [of ?M] by auto
  from loop_run_trans [OF this fired]
  have "loop_run e L (Suc (Suc 0) + n) 1 (leave Top (health_turn e (lo_service L)) ?M)" by simp
  moreover have "leave Top (health_turn e (lo_service L)) ?M
      = (leave Top (health_turn e (lo_service L)) L)\<lparr>lo_now := lo_now L + ?d\<rparr>" by simp
  ultimately show ?thesis by (metis (no_types))
qed

section \<open>Properties\<close>

text \<open>
  C17: the health loop, with its timer, among any interleaving of the other calls. Once the stop channel is closed
  the loop takes at most nine more steps; and as long as it has not returned it has a step to take, unless it waits for
  a timer with the channel open, so that it then returns and \<open>Stop\<close> can. It returns for no other reason. It makes no
  more than one turn in five seconds; whatever it does is a run of the service. Left alone, its turn is the retry or the
  health check with recovery, at the configured interval.
\<close>

theorem health_loop_terminates:
  assumes "loop_run e L n k M"
  shows "(sy_stopped (lo_system L) \<longrightarrow> n \<le> 9)
   \<and> (lo_pc M \<noteq> Returned \<longrightarrow>
        (\<exists>N. loop_act e M N) \<or> (\<exists>t. lo_pc M = Waiting t \<and> lo_now M < t \<and> \<not> sy_stopped (lo_system M)))
   \<and> (lo_pc M = Returned \<longrightarrow> lo_pc L = Returned \<or> sy_stopped (lo_system M))
   \<and> (lo_pc L = Top \<longrightarrow> lo_now L + k * 5000000000 \<le> lo_now M)
   \<and> runs e (with_loop L) (with_loop M)
   \<and> (lo_pc M = Top \<and> \<not> sy_stopped (lo_system M) \<longrightarrow>
        (\<exists>m. loop_run e M m 1 (leave Top (health_turn e (lo_service M)) M
           \<lparr>lo_now := lo_now M + nat (sint (currentHealthInterval (lo_service M)))\<rparr>)))"
  using loop_run_stopped [OF assms] loop_act_progress [of M e] loop_run_returned [OF assms] loop_run_paced [OF assms]
    loop_run_run [OF assms] loop_run_turn [of M e] by blast

text \<open>Two runs: a turn with the channel open, and the end of the loop once it is closed.\<close>

abbreviation sample_loop :: "bool \<Rightarrow> unit machine looped" where
  "sample_loop b \<equiv> \<lparr>lo_system = \<lparr>sy_service = sample_service, sy_tasks = {#}, sy_stopped = b\<rparr>, lo_pc = Top, lo_now = 0\<rparr>"

theorem health_loop_terminates_witness:
  "(\<exists>n M. loop_run (sample_env broken_host) (sample_loop False) n 1 M \<and> lo_pc M = Top \<and> 5000000000 \<le> lo_now M
       \<and> runs (sample_env broken_host) (with_loop (sample_loop False)) (with_loop M))
   \<and> (\<exists>n \<le> 9. \<exists>M. loop_run (sample_env broken_host) (sample_loop True) n 0 M \<and> lo_pc M = Returned)"
proof -
  let ?e = "sample_env broken_host"
  obtain m M where m: "loop_run ?e (sample_loop False) m 1 M" "lo_pc M = Top"
    using health_loop_terminates [OF loop_run.none [of ?e "sample_loop False"]] by auto
  let ?W = "goto (Waiting (nat (sint (currentHealthInterval sample_service)))) (sample_loop True)"
  have "loop_act ?e (sample_loop True) ?W" using loop_act.timer [of "sample_loop True" ?e] by simp
  from loop_step [OF loop_run.none this] have "loop_run ?e (sample_loop True) 1 0 ?W" by simp
  from loop_step [OF this loop_act.closed] have ended: "loop_run ?e (sample_loop True) (Suc 1) 0 (goto Returned ?W)" by simp
  have "\<exists>n \<le> 9. \<exists>M. loop_run ?e (sample_loop True) n 0 M \<and> lo_pc M = Returned"
    using health_loop_terminates [OF ended] ended by (intro exI [of _ "Suc 1"] conjI exI [of _ "goto Returned ?W"]) simp_all
  then show ?thesis using health_loop_terminates [OF m(1)] m by auto
qed

end
