(* ===== verification/Logging.thy ===== *)
theory Logging
  imports ConfigStore
begin

text \<open>
  \<open>internal/logging/logging.go\<close>: the log file of the daemon, its rotation, and the reading of its
  last lines from the end in chunks. What \<open>slog\<close> writes into the file is not modelled.
\<close>

section \<open>State\<close>

definition MaxLogFileBytes :: nat where "MaxLogFileBytes = 10 * 1024 * 1024"

definition LogFileName :: string where [go_const]: "LogFileName = ''daemon.log''"

text \<open>
  The package variables: the current path and the open file, named by its path; and the file the
  default logger writes to besides standard error.
\<close>

record log_state =
  lg_currentPath :: string
  lg_currentFile :: "string option"
  lg_default :: "string option"

definition Path :: "log_state \<Rightarrow> string" where
  "Path l = lg_currentPath l"

text \<open>\<open>filepath.Join\<close>: the elements that are not empty, joined and cleaned.\<close>

definition JoinPath :: "string list \<Rightarrow> string" where
  "JoinPath es =
     (let ks = dropWhile (\<lambda>e. e = []) es
      in if ks = [] then [] else Clean (Join ks ''/''))"

section \<open>Opening and rotating\<close>

text \<open>Every state of the files, as for \<open>WriteAtomically\<close>.\<close>

definition rotateIfLarge :: "OS \<Rightarrow> string \<Rightarrow> fs \<Rightarrow> fs list \<times> goerr option" where
  "rotateIfLarge os path s =
     (case s path of
        None \<Rightarrow> ([s], None)
      | Some f \<Rightarrow>
          (case sys_Stat os path of
             Some err \<Rightarrow> if is_not_exist err then ([s], None) else ([s], Some err)
           | None \<Rightarrow>
               (if length (f_data f) < MaxLogFileBytes then ([s], None)
                else (let backup = path @ ''.1''; s1 = remove_file os backup s
                      in case sys_Rename os path backup of
                           Some err \<Rightarrow> ([s, s1], Some err)
                         | None \<Rightarrow> ([s, s1, rename_file path backup s1], None)))))"

text \<open>\<open>os.OpenFile\<close> with \<open>O_APPEND|O_CREATE|O_WRONLY\<close> and mode 0644.\<close>

definition open_append :: "OS \<Rightarrow> string \<Rightarrow> fs \<Rightarrow> fs \<times> goerr option" where
  "open_append os path s =
     (case sys_Open os path of
        Some err \<Rightarrow> (s, Some err)
      | None \<Rightarrow> (case s path of None \<Rightarrow> (s(path \<mapsto> \<lparr>f_data = [], f_mode = 0x1A4\<rparr>), None) | Some f \<Rightarrow> (s, None)))"

definition Init :: "OS \<Rightarrow> string \<Rightarrow> log_state \<Rightarrow> fs \<Rightarrow> goerr option \<times> log_state \<times> fs list" where
  "Init os baseDir l s =
     (case sys_MkdirAll os baseDir of
        Some err \<Rightarrow> (Some (wrap ''create log dir: '' err), l, [s])
      | None \<Rightarrow>
          (let path = JoinPath [baseDir, LogFileName]
           in case rotateIfLarge os path s of
                (ss, Some err) \<Rightarrow> (Some (wrap ''rotate log: '' err), l, ss)
              | (ss, None) \<Rightarrow>
                  (case open_append os path (last ss) of
                     (s1, Some err) \<Rightarrow> (Some (wrap ''open log file: '' err), l, ss @ [s1])
                   | (s1, None) \<Rightarrow>
                       (None, \<lparr>lg_currentPath = path, lg_currentFile = Some path, lg_default = Some path\<rparr>, ss @ [s1]))))"

definition Close :: "OS \<Rightarrow> log_state \<Rightarrow> goerr option \<times> log_state" where
  "Close os l =
     (case lg_currentFile l of
        None \<Rightarrow> (None, l)
      | Some f \<Rightarrow> (sys_Close os f, l\<lparr>lg_currentFile := None, lg_currentPath := []\<rparr>))"

section \<open>The last lines\<close>

abbreviation nl :: char where "nl \<equiv> CHR 0x0A"

fun countNewlines :: "string \<Rightarrow> nat" where
  "countNewlines [] = 0"
| "countNewlines (b # data) = (if b = nl then Suc (countNewlines data) else countNewlines data)"

text \<open>\<open>strings.TrimRight(s, "\n")\<close>.\<close>

definition trim_newlines :: "string \<Rightarrow> string" where
  "trim_newlines s = rev (dropWhile (\<lambda>c. c = nl) (rev s))"

definition splitLines :: "string \<Rightarrow> string slice" where
  "splitLines data =
     (let trimmed = trim_newlines data in if trimmed = [] then None else Some (SplitChar nl trimmed))"

definition chunkSize :: nat where "chunkSize = 8192"

text \<open>
  The loop of \<open>tailFile\<close>: \<open>readAt\<close> says whether reading a number of bytes at an offset fails. The
  file only grows while it is read, so its bytes below the size that was asked for do not change.
\<close>

function read_back :: "(nat \<Rightarrow> nat \<Rightarrow> goerr option) \<Rightarrow> string \<Rightarrow> int \<Rightarrow> nat \<Rightarrow> string \<Rightarrow> string res" where
  "read_back readAt data n offset buffer =
     (if offset = 0 then Inr buffer
      else (let readSize = min chunkSize offset; offset' = offset - readSize
            in case readAt offset' readSize of
                 Some err \<Rightarrow> Inl err
               | None \<Rightarrow>
                   (let buffer' = take readSize (drop offset' data) @ buffer
                    in if n < int (countNewlines buffer') then Inr buffer'
                       else read_back readAt data n offset' buffer')))"
  by pat_completeness auto
termination
  by (relation "measure (\<lambda>(readAt, data, n, offset, buffer). offset)") (auto simp: chunkSize_def)

declare read_back.simps [simp del]

text \<open>
  \<open>lines[len(lines)-n:]\<close>; the caller has checked that \<open>n\<close> is positive. What \<open>Stat\<close> on the open file
  answers is \<open>statErr\<close>.
\<close>

definition last_lines :: "int \<Rightarrow> string slice \<Rightarrow> string slice" where
  "last_lines n lines =
     (if n < int (length (elems lines)) then Some (drop (nat (int (length (elems lines)) - n)) (elems lines)) else lines)"

record read_env =
  rd_stat :: "goerr option"
  rd_readAt :: "nat \<Rightarrow> nat \<Rightarrow> goerr option"

definition tailFile :: "OS \<Rightarrow> read_env \<Rightarrow> fs \<Rightarrow> string \<Rightarrow> int \<Rightarrow> string slice res" where
  "tailFile os rd s path n =
     (case s path of
        None \<Rightarrow> Inr None
      | Some f \<Rightarrow>
          (case sys_Open os path of
             Some err \<Rightarrow> if is_not_exist err then Inr None else Inl err
           | None \<Rightarrow>
               (case rd_stat rd of
                  Some err \<Rightarrow> Inl err
                | None \<Rightarrow>
                    (if f_data f = [] then Inr None
                     else (case read_back (rd_readAt rd) (f_data f) n (length (f_data f)) [] of
                             Inl err \<Rightarrow> Inl err
                           | Inr buffer \<Rightarrow> Inr (last_lines n (splitLines buffer)))))))"

definition Tail :: "OS \<Rightarrow> read_env \<Rightarrow> fs \<Rightarrow> log_state \<Rightarrow> int \<Rightarrow> string slice res" where
  "Tail os rd s l n =
     (if lg_currentPath l = [] \<or> n \<le> 0 then Inr None else tailFile os rd s (lg_currentPath l) n)"

section \<open>Facts\<close>

lemma countNewlines_append [simp]: "countNewlines (s @ t) = countNewlines s + countNewlines t"
  by (induction s) auto

lemma countNewlines_replicate [simp]: "countNewlines (replicate n c) = (if c = nl then n else 0)"
  by (induction n) auto

lemma length_SplitChar [simp]: "length (SplitChar nl s) = Suc (countNewlines s)"
  by (induction s) (auto split: list.splits)

lemma suffix_SplitChar_tl: "suffix (tl (SplitChar sep t)) (tl (SplitChar sep (s @ t)))"
proof (induction s)
  case Nil
  show ?case by simp
next
  case (Cons c s)
  have "tl (SplitChar sep (c # s @ t)) = (if c = sep then SplitChar sep (s @ t) else tl (SplitChar sep (s @ t)))"
    by (auto split: list.split)
  then show ?case using Cons by (auto intro: suffix_order.trans [OF _ suffix_tl])
qed

lemma suffix_SplitChar: "suffix (tl (SplitChar sep t)) (SplitChar sep (s @ t))"
  using suffix_SplitChar_tl suffix_tl suffix_order.trans by blast

lemma last_lines_Some [simp]: "0 < n \<Longrightarrow> last_lines n (Some xs) = Some (drop (length xs - nat n) xs)"
  by (auto simp: last_lines_def nat_diff_distrib)

lemma drop_suffix: "suffix zs xs \<Longrightarrow> m \<le> length zs \<Longrightarrow> drop (length xs - m) xs = drop (length zs - m) zs"
  by (auto simp: suffix_def)

lemma trim_newlines_alt: "trim_newlines (s @ t) = (if trim_newlines t = [] then trim_newlines s else s @ trim_newlines t)"
proof -
  have "dropWhile P (xs @ ys) = (if dropWhile P xs = [] then dropWhile P ys else dropWhile P xs @ ys)" for P and xs ys :: string
    by (induction xs) auto
  then show ?thesis by (simp add: trim_newlines_def)
qed

lemma trim_newlines_simps [simp]: "trim_newlines [] = []" "trim_newlines (s @ [nl]) = trim_newlines s"
  "trim_newlines (s @ [nl, nl]) = trim_newlines s" "c \<noteq> nl \<Longrightarrow> trim_newlines (s @ [c]) = s @ [c]"
  by (simp_all add: trim_newlines_def)

lemma trim_newlines_replicate: "c \<noteq> nl \<Longrightarrow> trim_newlines (replicate k c) = replicate k c"
  by (cases k) (simp_all add: trim_newlines_def del: replicate_Suc)

lemma trim_keeps_newlines:
  assumes "\<not> suffix [nl, nl] s"
  shows "countNewlines s \<le> Suc (countNewlines (trim_newlines s))"
proof (cases s rule: rev_cases)
  case Nil
  then show ?thesis by simp
next
  case (snoc t c)
  show ?thesis
  proof (cases "c = nl")
    case False
    then show ?thesis using snoc by simp
  next
    case True
    have "trim_newlines t = t"
    proof (cases t rule: rev_cases)
      case Nil
      then show ?thesis by simp
    next
      case (snoc u d)
      then have "d \<noteq> nl" using assms True \<open>s = t @ [c]\<close> by (auto simp: suffix_def)
      then show ?thesis using snoc by simp
    qed
    then show ?thesis using snoc True by simp
  qed
qed

text \<open>What the loop returns is an end of the file: all of it, or one with more than \<open>n\<close> new lines.\<close>

lemma read_back_end:
  "read_back readAt data n offset buffer = Inr b \<Longrightarrow> data = take offset data @ buffer \<Longrightarrow> offset \<le> length data \<Longrightarrow>
     \<exists>a. data = a @ b \<and> (a = [] \<or> n < int (countNewlines b))"
proof (induction readAt data n offset buffer rule: read_back.induct)
  case (1 readAt data n offset buffer)
  show ?case
  proof (cases "offset = 0")
    case True
    then show ?thesis using 1(2,3) by (simp add: read_back.simps)
  next
    case False
    let ?o = "offset - min chunkSize offset" and ?k = "min chunkSize offset"
    let ?b = "take ?k (drop ?o data) @ buffer"
    have "take offset data = take ?o data @ take ?k (drop ?o data)" by (simp add: take_add [symmetric])
    then have data: "data = take ?o data @ ?b" using 1(3) by simp
    have read: "readAt ?o ?k = None" using 1(2) False by (auto simp: read_back.simps [of readAt data n offset] Let_def split: option.splits)
    show ?thesis
    proof (cases "n < int (countNewlines ?b)")
      case True
      then have "b = ?b" using 1(2) False read by (simp add: read_back.simps [of readAt data n offset] Let_def)
      then show ?thesis using data True by blast
    next
      case more: False
      then have "read_back readAt data n ?o ?b = Inr b"
        using 1(2) False read by (simp add: read_back.simps [of readAt data n offset] Let_def)
      then show ?thesis using 1(1) [OF False refl refl read refl more _ data] 1(4) by simp
    qed
  qed
qed

text \<open>It reads inside the file, a chunk at a time.\<close>

lemma read_back_inside:
  assumes "\<And>at k. 0 < k \<Longrightarrow> k \<le> chunkSize \<Longrightarrow> at + k \<le> length data \<Longrightarrow> readAt at k = None"
  shows "offset \<le> length data \<Longrightarrow> \<exists>b. read_back readAt data n offset buffer = Inr b"
proof (induction offset arbitrary: buffer rule: less_induct)
  case (less offset)
  show ?case
  proof (cases "offset = 0")
    case True
    then show ?thesis by (simp add: read_back.simps)
  next
    case False
    let ?k = "min chunkSize offset"
    have "0 < chunkSize" by (simp add: chunkSize_def)
    then have read: "readAt (offset - ?k) ?k = None" using False less(2) by (intro assms) auto
    have "offset - ?k < offset" using False \<open>0 < chunkSize\<close> by simp
    then show ?thesis
      using less read by (subst read_back.simps) (auto simp: Let_def)
  qed
qed

lemma end_has_last_lines:
  assumes "data = a @ b" "a = [] \<or> n < int (countNewlines b)" "0 < n" "\<not> suffix [nl, nl] data"
  shows "last_lines n (splitLines b) = last_lines n (splitLines data)"
proof (cases "a = []")
  case True
  then show ?thesis using assms(1) by simp
next
  case False
  then have n: "nat n < countNewlines b" using assms(2,3) by linarith
  have "\<not> suffix [nl, nl] b" using assms(1,4) by (auto simp: suffix_def)
  then have c: "nat n \<le> countNewlines (trim_newlines b)" using trim_keeps_newlines [of b] n by simp
  then have t: "trim_newlines b \<noteq> []" using assms(3) by auto
  then have data: "trim_newlines data = a @ trim_newlines b" using trim_newlines_alt [of a b] assms(1) by simp
  let ?zs = "tl (SplitChar nl (trim_newlines b))"
  have m: "nat n \<le> length ?zs" using c by simp
  have "drop (length (SplitChar nl (trim_newlines b)) - nat n) (SplitChar nl (trim_newlines b))
      = drop (length ?zs - nat n) ?zs"
    using suffix_SplitChar [of nl "trim_newlines b" "[]"] by (intro drop_suffix m) simp
  moreover have "drop (length (SplitChar nl (trim_newlines data)) - nat n) (SplitChar nl (trim_newlines data))
      = drop (length ?zs - nat n) ?zs"
    unfolding data by (intro drop_suffix m suffix_SplitChar)
  moreover have "trim_newlines data \<noteq> []" using t data by simp
  ultimately show ?thesis using t assms(3) by (simp only: splitLines_def Let_def if_False last_lines_Some)
qed

section \<open>Properties\<close>

text \<open>
  C20: \<open>Tail\<close> is the last \<open>n\<close> lines of the file: unless the file ends in an empty line, reading
  backwards in chunks gives what splitting the whole file and keeping the last \<open>n\<close> lines gives; it only
  reads inside the file, and at most 8192 bytes at a time.
\<close>

theorem tail_is_last_lines:
  assumes "s (Path l) = Some f" "Path l \<noteq> []" "0 < n" "sys_Open os (Path l) = None" "rd_stat rd = None"
    "\<And>at k. 0 < k \<Longrightarrow> k \<le> chunkSize \<Longrightarrow> at + k \<le> length (f_data f) \<Longrightarrow> rd_readAt rd at k = None"
    "\<not> suffix [nl, nl] (f_data f)"
  shows "Tail os rd s l n = Inr (last_lines n (splitLines (f_data f)))"
proof -
  obtain b where b: "read_back (rd_readAt rd) (f_data f) n (length (f_data f)) [] = Inr b"
    using read_back_inside [of "f_data f" "rd_readAt rd" "length (f_data f)" n "[]"] assms(6) by auto
  then obtain a where "f_data f = a @ b" "a = [] \<or> n < int (countNewlines b)"
    using read_back_end [OF b] by auto
  then have "last_lines n (splitLines b) = last_lines n (splitLines (f_data f))"
    by (rule end_has_last_lines [OF _ _ assms(3,7)])
  moreover have "last_lines n (splitLines []) = None" using assms(3) by (simp add: splitLines_def last_lines_def)
  ultimately show ?thesis using assms(1-5) b by (simp add: Tail_def tailFile_def Path_def)
qed

text \<open>
  Empty lines at the end of the file are counted but then trimmed, so fewer lines than asked for
  come back, and the first of them can be cut at the start of the chunk that was read.
\<close>

theorem trailing_blank_line_cuts:
  assumes "s (Path l) = Some f" "f_data f = replicate 8192 c @ [nl, nl]" "c \<noteq> nl" "Path l \<noteq> []"
    "sys_Open os (Path l) = None" "rd_stat rd = None" "rd_readAt rd 2 8192 = None"
  shows "Tail os rd s l 1 = Inr (Some [replicate 8190 c])
    \<and> last_lines 1 (splitLines (f_data f)) = Some [replicate 8192 c]"
proof -
  have split: "splitLines (replicate (Suc k) c @ [nl, nl]) = Some [replicate (Suc k) c]" for k
    using assms(3) by (simp add: splitLines_def trim_newlines_replicate SplitChar_no_sep del: replicate_Suc)
  have data: "length (f_data f) = 8194" "take 8192 (drop 2 (f_data f)) = replicate 8190 c @ [nl, nl]"
    unfolding assms(2) by (simp_all del: replicate_numeral)
  have "read_back (rd_readAt rd) (f_data f) 1 (length (f_data f)) [] = Inr (replicate 8190 c @ [nl, nl])"
    by (subst read_back.simps) (simp add: data assms(3,7) chunkSize_def Let_def del: replicate_numeral)
  moreover have "f_data f \<noteq> []" using data(1) by auto
  moreover have "splitLines (replicate 8190 c @ [nl, nl]) = Some [replicate 8190 c]"
    "splitLines (f_data f) = Some [replicate 8192 c]"
    unfolding assms(2) using split [of 8189] split [of 8191] by (simp_all del: replicate_numeral)
  ultimately show ?thesis
    using assms(1,4-6) by (simp add: Tail_def tailFile_def Path_def del: replicate_numeral)
qed

text \<open>A file of that form, and one whose lines are all read.\<close>

definition log_at :: "string \<Rightarrow> log_state" where
  "log_at path = \<lparr>lg_currentPath = path, lg_currentFile = Some path, lg_default = Some path\<rparr>"

abbreviation reading :: read_env where
  "reading \<equiv> \<lparr>rd_stat = None, rd_readAt = \<lambda>at k. None\<rparr>"

theorem tail_is_last_lines_witness:
  "Tail working_OS reading [''/data/daemon.log'' \<mapsto> \<lparr>f_data = ''a'' @ [nl] @ ''b'' @ [nl] @ ''c'' @ [nl], f_mode = 0x1A4\<rparr>]
     (log_at ''/data/daemon.log'') 2 = Inr (Some [''b'', ''c''])"
proof -
  let ?data = "''a'' @ [nl] @ ''b'' @ [nl] @ ''c'' @ [nl]"
  have "last_lines 2 (splitLines ?data) = Some [''b'', ''c'']" by (simp add: splitLines_def trim_newlines_def)
  moreover have "\<not> suffix [nl, nl] ?data" by (simp add: suffix_def append_eq_Cons_conv Cons_eq_append_conv)
  ultimately show ?thesis
    using tail_is_last_lines [of "[''/data/daemon.log'' \<mapsto> \<lparr>f_data = ?data, f_mode = 0x1A4\<rparr>]" "log_at ''/data/daemon.log''"
        "\<lparr>f_data = ?data, f_mode = 0x1A4\<rparr>" 2 working_OS reading]
    by (simp add: log_at_def Path_def working_OS_def)
qed

theorem trailing_blank_line_cuts_witness:
  "Tail working_OS reading [''/data/daemon.log'' \<mapsto> \<lparr>f_data = replicate 8192 (CHR ''x'') @ [nl, nl], f_mode = 0x1A4\<rparr>]
     (log_at ''/data/daemon.log'') 1 = Inr (Some [replicate 8190 (CHR ''x'')])"
  using trailing_blank_line_cuts [of "[''/data/daemon.log'' \<mapsto> \<lparr>f_data = replicate 8192 (CHR ''x'') @ [nl, nl], f_mode = 0x1A4\<rparr>]"
      "log_at ''/data/daemon.log''" "\<lparr>f_data = replicate 8192 (CHR ''x'') @ [nl, nl], f_mode = 0x1A4\<rparr>" "CHR ''x''" working_OS reading]
  by (simp add: log_at_def Path_def working_OS_def del: replicate_numeral)

text \<open>A log file that is to be rotated.\<close>

definition log_full :: "OS \<Rightarrow> string \<Rightarrow> fs \<Rightarrow> bool" where
  "log_full os path s \<longleftrightarrow>
     sys_Stat os path = None \<and> (case s path of None \<Rightarrow> False | Some f \<Rightarrow> MaxLogFileBytes \<le> length (f_data f))"

text \<open>
  C21: what starting the log does to its records. The log of the previous run is never lost: in every state of the
  files that the program goes through it is complete under its name or under the name of the backup. Below ten megabytes only the log itself
  is opened, with its records, and the backup stays. At ten megabytes or more it becomes the backup, a new log is begun, and the
  backup before it is deleted: only one generation is kept, and in between, or if the renaming fails, there may be no
  backup. If \<open>Init\<close> succeeds, the log exists with less than ten megabytes (when its size can be read) and is the one
  \<open>Path\<close> names; if it fails, the log that was open stays open.
\<close>

theorem init_keeps_records:
  assumes "Init os baseDir l s = (err, l', ss)" "path = JoinPath [baseDir, LogFileName]"
  shows "(\<forall>f. s path = Some f \<longrightarrow> (\<forall>t \<in> set ss. t path = Some f \<or> t (path @ ''.1'') = Some f))
    \<and> (\<forall>t \<in> set ss. \<forall>q. q \<noteq> path \<and> (q = path @ ''.1'' \<longrightarrow> \<not> log_full os path s) \<longrightarrow> t q = s q)
    \<and> (log_full os path s \<longrightarrow> (\<forall>t \<in> set ss. t (path @ ''.1'') \<in> {s (path @ ''.1''), None, s path}))
    \<and> (log_full os path s \<and> err = None \<longrightarrow> last ss (path @ ''.1'') = s path
         \<and> last ss path = Some \<lparr>f_data = [], f_mode = 0x1A4\<rparr>)
    \<and> (err = None \<longrightarrow> Path l' = path \<and> (\<exists>f. last ss path = Some f
         \<and> (length (f_data f) < MaxLogFileBytes \<or> sys_Stat os path \<noteq> None)))
    \<and> (err \<noteq> None \<longrightarrow> l' = l)"
proof -
  let ?old = "path @ ''.1''"
  have ne: "?old \<noteq> path" by simp
  obtain rs rerr where r: "rotateIfLarge os path s = (rs, rerr)" by (rule prod.exhaust)
  have rs: "rs \<noteq> [] \<and> (\<forall>f. s path = Some f \<longrightarrow> (\<forall>t \<in> set rs. t path = Some f \<or> t ?old = Some f))
    \<and> (\<forall>t \<in> set rs. \<forall>q. q \<noteq> path \<and> (q = ?old \<longrightarrow> \<not> log_full os path s) \<longrightarrow> t q = s q)
    \<and> (\<forall>t \<in> set rs. t ?old \<in> {s ?old, None, s path})
    \<and> (log_full os path s \<and> rerr = None \<longrightarrow> last rs ?old = s path \<and> last rs path = None)
    \<and> (rerr = None \<longrightarrow> (case last rs path of None \<Rightarrow> True
         | Some f \<Rightarrow> length (f_data f) < MaxLogFileBytes \<or> sys_Stat os path \<noteq> None))"
    using r ne by (auto simp: rotateIfLarge_def log_full_def remove_file_def rename_file_def Let_def
        split: option.splits if_splits dest: sym [of "Some _"])
  obtain t oerr where o: "open_append os path (last rs) = (t, oerr)" by (rule prod.exhaust)
  have t: "t q = last rs q" if "q \<noteq> path \<or> last rs path \<noteq> None" for q
    using o that by (auto simp: open_append_def split: option.splits)
  have created: "t path = Some \<lparr>f_data = [], f_mode = 0x1A4\<rparr>" if "oerr = None" "last rs path = None"
    using o that by (auto simp: open_append_def split: option.splits)
  have opened: "\<exists>f. t path = Some f \<and> (last rs path = Some f \<or> f_data f = [])" if "oerr = None"
    using created that t [of path] by (cases "last rs path") auto
  have last: "last rs \<in> set rs" using rs by simp
  have small: "\<exists>f. t path = Some f \<and> (length (f_data f) < MaxLogFileBytes \<or> sys_Stat os path \<noteq> None)"
    if "oerr = None" "rerr = None"
    using opened [OF that(1)] rs that(2) by (auto simp: MaxLogFileBytes_def)
  have keeps: "t path = Some f \<or> t ?old = Some f" if "s path = Some f" for f
    using rs last that t [of path] t [OF disjI1 [OF ne]] by (metis option.distinct(1))
  have other: "t q = s q" if "q \<noteq> path" "q = ?old \<longrightarrow> \<not> log_full os path s" for q
    using rs last that t [of q] by auto
  have old: "t ?old = last rs ?old" using t [OF disjI1 [OF ne]] .
  show ?thesis
  proof (cases "sys_MkdirAll os baseDir")
    case (Some x)
    then show ?thesis using assms(1) by (auto simp: Init_def)
  next
    case mk: None
    show ?thesis
    proof (cases rerr)
      case (Some x)
      then show ?thesis using assms mk r rs by (auto simp: Init_def Let_def)
    next
      case None
      then have i: "ss = rs @ [t]" "err = map_option (wrap ''open log file: '') oerr"
        "l' = (if oerr = None then log_at path else l)"
        using assms mk r o by (auto simp: Init_def Let_def log_at_def split: option.splits)
      have rotated: "last ss ?old = s path \<and> last ss path = Some \<lparr>f_data = [], f_mode = 0x1A4\<rparr>"
        if "log_full os path s" "err = None"
        using rs None that old created by (simp add: i)
      have "\<forall>u \<in> set ss. u ?old \<in> {s ?old, None, s path}" using rs last old by (simp add: i)
      then show ?thesis using rs keeps other small None rotated by (simp add: i Path_def log_at_def)
    qed
  qed
qed

text \<open>A full log and an older backup: the older backup is deleted.\<close>

abbreviation full_disk :: "string \<Rightarrow> fs" where
  "full_disk data \<equiv> [''/data/unifi/daemon.log'' \<mapsto> \<lparr>f_data = data, f_mode = 0x1A4\<rparr>,
                     ''/data/unifi/daemon.log.1'' \<mapsto> \<lparr>f_data = ''old'', f_mode = 0x1A4\<rparr>]"

theorem init_keeps_records_witness:
  "\<exists>data l' ss. length data = MaxLogFileBytes
     \<and> Init working_OS ''/data/unifi'' \<lparr>lg_currentPath = [], lg_currentFile = None, lg_default = None\<rparr> (full_disk data) = (None, l', ss)
     \<and> Path l' = ''/data/unifi/daemon.log'' \<and> last ss ''/data/unifi/daemon.log.1'' = Some \<lparr>f_data = data, f_mode = 0x1A4\<rparr>"
proof -
  let ?l = "\<lparr>lg_currentPath = [], lg_currentFile = None, lg_default = None\<rparr>"
  have p: "JoinPath [''/data/unifi'', LogFileName] = ''/data/unifi/daemon.log''"
    by (simp add: JoinPath_def Clean_def go_const Let_def)
  obtain data :: string where data: "length data = MaxLogFileBytes"
    by (rule that [of "replicate MaxLogFileBytes (CHR ''x'')"]) (rule length_replicate)
  obtain err l' ss where i: "Init working_OS ''/data/unifi'' ?l (full_disk data) = (err, l', ss)" by (metis prod.exhaust)
  have "sys_Open working_OS x = None" "sys_MkdirAll working_OS x = None" "sys_Stat working_OS x = None"
    "sys_Rename working_OS x y = None" for x y by (simp_all add: working_OS_def)
  with i have "err = None"
    by (auto simp: Init_def rotateIfLarge_def open_append_def Let_def split: if_splits option.splits)
  moreover have "log_full working_OS ''/data/unifi/daemon.log'' (full_disk data)"
    by (simp add: log_full_def working_OS_def data)
  ultimately have "Path l' = ''/data/unifi/daemon.log''"
    "last ss ''/data/unifi/daemon.log.1'' = Some \<lparr>f_data = data, f_mode = 0x1A4\<rparr>"
    using init_keeps_records [OF i refl] by (simp_all add: p)
  then show ?thesis using i data \<open>err = None\<close> by blast
qed

end
