(* ===== verification/Api.thy ===== *)
theory Api
  imports Service Logging
begin

text \<open>
  \<open>internal/api/handler.go\<close> and \<open>internal/api/server.go\<close>: the HTTP handlers over a controller, and the
  two servers built from them. A request is one step of the controller's state; the interleaving of
  the critical sections inside one request is the subject of \<open>ServiceRuns\<close>.
\<close>

section \<open>Requests and responses\<close>

text \<open>What the handlers read of a request: the parsed query, the header and the body.\<close>

record http_request =
  hr_Method :: string
  hr_Path :: string
  hr_Query :: "(string \<times> string) list"
  hr_Authorization :: string
  hr_Body :: "string res"

record http_response =
  hp_Status :: int
  hp_Headers :: "(string \<times> string) list"
  hp_Body :: string

definition with_headers :: "(string \<times> string) list \<Rightarrow> http_response \<Rightarrow> http_response" where
  "with_headers hs rsp = rsp\<lparr>hp_Headers := hs @ hp_Headers rsp\<rparr>"

text \<open>\<open>http.Error\<close>.\<close>

definition http_error :: "string \<Rightarrow> int \<Rightarrow> http_response" where
  "http_error msg code =
     \<lparr>hp_Status = code,
      hp_Headers = [(''Content-Type'', ''text/plain; charset=utf-8''), (''X-Content-Type-Options'', ''nosniff'')],
      hp_Body = msg @ [CHR 0x0A]\<rparr>"

definition writeJSON :: "int \<Rightarrow> json \<Rightarrow> http_response" where
  "writeJSON status v =
     \<lparr>hp_Status = status, hp_Headers = [(''Content-Type'', ''application/json'')], hp_Body = Encode v\<rparr>"

definition writeControlError :: "goerr \<Rightarrow> http_response" where
  "writeControlError err =
     (case as_validation_error err of
        Some reasons \<Rightarrow> http_error (Error (ValidationError reasons)) 400
      | None \<Rightarrow> http_error (Error err) 500)"

section \<open>The documents of the API\<close>

definition encode_pconfig :: "ProfileConfig \<Rightarrow> json" where
  "encode_pconfig c = JObj
     [(''tunnel'', encode_tunnel (pc_Tunnel c)), (''lan'', encode_lan (pc_LAN c)), (''health'', encode_health (pc_Health c))]"

text \<open>The last two members, and the first one of a document, have \<open>omitempty\<close>.\<close>

definition encode_profile :: "Profile \<Rightarrow> json" where
  "encode_profile p = JObj
     ([(''id'', JStr (pr_ID p)), (''name'', JStr (pr_Name p)), (''config'', encode_pconfig (pr_Config p))]
      @ (if pr_IsValid p then [(''is_valid'', JBool True)] else [])
      @ (if elems (pr_ValidationErrors p) = [] then []
         else [(''validation_errors'', encode_slice JStr (pr_ValidationErrors p))]))"

definition encode_document :: "Document \<Rightarrow> json" where
  "encode_document d = JObj
     (unless_empty ''storage_format'' (doc_StorageFormat d)
      @ [(''tunnel_enabled'', JBool (doc_TunnelEnabled d)), (''active_profile_id'', JStr (doc_ActiveProfileID d)),
         (''profiles'', JArr (map encode_profile (doc_Profiles d))), (''server'', encode_server (doc_Server d))])"

section \<open>Handlers\<close>

record 'c Controller =
  ct_Status :: "'c \<Rightarrow> Status res \<times> 'c"
  ct_Health :: "'c \<Rightarrow> Status res \<times> 'c"
  ct_Up :: "'c \<Rightarrow> goerr option \<times> 'c"
  ct_Down :: "'c \<Rightarrow> goerr option \<times> 'c"
  ct_Restart :: "'c \<Rightarrow> goerr option \<times> 'c"
  ct_GetConfigDocument :: "'c \<Rightarrow> Document"
  ct_UpdateConfigDocument :: "Document \<Rightarrow> 'c \<Rightarrow> goerr option \<times> 'c"

text \<open>What the logging package answers while a request is served.\<close>

record logs =
  lo_Tail :: "int \<Rightarrow> string slice res"
  lo_Path :: string

definition HandleGetStatus :: "'c Controller \<Rightarrow> 'c \<Rightarrow> http_response \<times> 'c" where
  "HandleGetStatus h c =
     (case ct_Status h c of
        (Inl err, c1) \<Rightarrow> (http_error (Error err) 500, c1)
      | (Inr status, c1) \<Rightarrow> (writeJSON 200 (encode_status status), c1))"

definition HandleGetHealth :: "'c Controller \<Rightarrow> 'c \<Rightarrow> http_response \<times> 'c" where
  "HandleGetHealth h c =
     (case ct_Health h c of
        (Inl err, c1) \<Rightarrow> (http_error (Error err) 500, c1)
      | (Inr status, c1) \<Rightarrow> (writeJSON 200 (encode_status status), c1))"

definition status_ok :: http_response where
  "status_ok = writeJSON 200 (JObj [(''status'', JStr ''ok'')])"

definition handleTunnelCommand :: "('c \<Rightarrow> goerr option \<times> 'c) \<Rightarrow> 'c \<Rightarrow> http_response \<times> 'c" where
  "handleTunnelCommand fn c =
     (case fn c of (Some err, c1) \<Rightarrow> (writeControlError err, c1) | (None, c1) \<Rightarrow> (status_ok, c1))"

definition HandleTunnelUp :: "'c Controller \<Rightarrow> 'c \<Rightarrow> http_response \<times> 'c" where
  "HandleTunnelUp h c = handleTunnelCommand (ct_Up h) c"

definition HandleTunnelDown :: "'c Controller \<Rightarrow> 'c \<Rightarrow> http_response \<times> 'c" where
  "HandleTunnelDown h c = handleTunnelCommand (ct_Down h) c"

definition HandleTunnelRestart :: "'c Controller \<Rightarrow> 'c \<Rightarrow> http_response \<times> 'c" where
  "HandleTunnelRestart h c = handleTunnelCommand (ct_Restart h) c"

definition HandleGetConfig :: "'c Controller \<Rightarrow> 'c \<Rightarrow> http_response \<times> 'c" where
  "HandleGetConfig h c = (writeJSON 200 (encode_document (ct_GetConfigDocument h c)), c)"

definition defaultLogTailLines :: int where "defaultLogTailLines = 200"
definition maxLogTailLines :: int where "maxLogTailLines = 2000"

text \<open>The number of lines; \<^term>\<open>None\<close> is the rejection of the parameter.\<close>

definition log_limit :: "http_request \<Rightarrow> int option" where
  "log_limit r =
     (case map_of (hr_Query r) ''tail'' of
        None \<Rightarrow> Some defaultLogTailLines
      | Some raw \<Rightarrow>
          (if raw = [] then Some defaultLogTailLines
           else case Atoi raw of
                  None \<Rightarrow> None
                | Some parsed \<Rightarrow>
                    (if parsed \<le> 0 then None
                     else if maxLogTailLines < parsed then Some maxLogTailLines else Some parsed)))"

text \<open>A map is encoded in the order of its keys.\<close>

definition HandleGetLogs :: "logs \<Rightarrow> http_request \<Rightarrow> http_response" where
  "HandleGetLogs lo r =
     (case log_limit r of
        None \<Rightarrow> http_error ''invalid tail parameter'' 400
      | Some limit \<Rightarrow>
          (case lo_Tail lo limit of
             Inl err \<Rightarrow> http_error (Error err) 500
           | Inr lines \<Rightarrow>
               writeJSON 200 (JObj [(''lines'', encode_slice JStr (non_nil lines)), (''path'', JStr (lo_Path lo))])))"

definition HandleUpdateConfig :: "'c Controller \<Rightarrow> http_request \<Rightarrow> 'c \<Rightarrow> http_response \<times> 'c" where
  "HandleUpdateConfig h r c =
     (case hr_Body r of
        Inl err \<Rightarrow> (http_error (''read request body: '' @ Error err) 400, c)
      | Inr body \<Rightarrow>
          (case ParseUpdateDocument body (Some (ct_GetConfigDocument h c)) of
             Inl err \<Rightarrow> (http_error (''invalid JSON: '' @ Error err) 400, c)
           | Inr document \<Rightarrow>
               (case ct_UpdateConfigDocument h document c of
                  (Some err, c1) \<Rightarrow> (writeControlError err, c1)
                | (None, c1) \<Rightarrow> (status_ok, c1))))"

section \<open>Routes\<close>

datatype route =
  GetStatus | GetConfigR | PutConfig | GetHealth | GetLogs | TunnelUp | TunnelDown | TunnelRestart

fun serve_route :: "'c Controller \<Rightarrow> logs \<Rightarrow> route \<Rightarrow> http_request \<Rightarrow> 'c \<Rightarrow> http_response \<times> 'c" where
  "serve_route h lo GetStatus r c = HandleGetStatus h c"
| "serve_route h lo GetConfigR r c = HandleGetConfig h c"
| "serve_route h lo PutConfig r c = HandleUpdateConfig h r c"
| "serve_route h lo GetHealth r c = HandleGetHealth h c"
| "serve_route h lo GetLogs r c = (HandleGetLogs lo r, c)"
| "serve_route h lo TunnelUp r c = HandleTunnelUp h c"
| "serve_route h lo TunnelDown r c = HandleTunnelDown h c"
| "serve_route h lo TunnelRestart r c = HandleTunnelRestart h c"

definition api_routes :: "(string \<times> string \<times> route) list" where
  "api_routes =
     [(''GET'', ''/api/status'', GetStatus), (''GET'', ''/api/config'', GetConfigR), (''PUT'', ''/api/config'', PutConfig),
      (''GET'', ''/api/health'', GetHealth), (''GET'', ''/api/logs'', GetLogs), (''POST'', ''/api/tunnel/up'', TunnelUp),
      (''POST'', ''/api/tunnel/down'', TunnelDown), (''POST'', ''/api/tunnel/restart'', TunnelRestart)]"

section \<open>\<open>http.ServeMux\<close>\<close>

text \<open>
  A request whose path is not clean is redirected to the clean one; a pattern for \<open>GET\<close> also serves
  \<open>HEAD\<close>; a path that is known for other methods gives 405. The body of a redirect is not modelled.
\<close>

definition cleanPath :: "string \<Rightarrow> string" where
  "cleanPath p =
     (if p = [] then ''/''
      else (let p' = (if hd p = CHR ''/'' then p else CHR ''/'' # p); np = Clean p'
            in if last p' = CHR ''/'' \<and> np \<noteq> ''/'' then np @ ''/'' else np))"

definition redirect :: "string \<Rightarrow> http_response" where
  "redirect url = \<lparr>hp_Status = 301, hp_Headers = [(''Location'', url)], hp_Body = []\<rparr>"

definition must_redirect :: "http_request \<Rightarrow> bool" where
  "must_redirect r \<longleftrightarrow> hr_Method r \<noteq> ''CONNECT'' \<and> cleanPath (hr_Path r) \<noteq> hr_Path r"

definition serves_method :: "string \<Rightarrow> string \<Rightarrow> bool" where
  "serves_method pattern m \<longleftrightarrow> m = pattern \<or> pattern = ''GET'' \<and> m = ''HEAD''"

definition not_found :: http_response where
  "not_found = http_error ''404 page not found'' 404"

definition method_not_allowed :: "string list \<Rightarrow> http_response" where
  "method_not_allowed allowed = with_headers [(''Allow'', Join allowed '', '')] (http_error ''Method Not Allowed'' 405)"

definition allowed_methods :: "string \<Rightarrow> string list" where
  "allowed_methods path =
     concat (map (\<lambda>(m, p, rt). if p \<noteq> path then [] else if m = ''GET'' then [m, ''HEAD''] else [m]) api_routes)"

definition newAPIMux :: "'c Controller \<Rightarrow> logs \<Rightarrow> http_request \<Rightarrow> 'c \<Rightarrow> http_response \<times> 'c" where
  "newAPIMux h lo r c =
     (if must_redirect r then (redirect (cleanPath (hr_Path r)), c)
      else case find (\<lambda>(m, p, rt). p = hr_Path r \<and> serves_method m (hr_Method r)) api_routes of
             Some (m, p, rt) \<Rightarrow> serve_route h lo rt r c
           | None \<Rightarrow>
               (if allowed_methods (hr_Path r) = [] then not_found else method_not_allowed (allowed_methods (hr_Path r)), c))"

section \<open>Servers\<close>

type_synonym 'c http_handler = "http_request \<Rightarrow> 'c \<Rightarrow> http_response \<times> 'c"

definition authMiddleware :: "('c \<Rightarrow> string) \<Rightarrow> 'c http_handler \<Rightarrow> 'c http_handler" where
  "authMiddleware getToken nxt r c =
     (let token = getToken c
      in if token = [] then nxt r c
         else if hr_Authorization r \<noteq> ''Bearer '' @ token then (http_error ''unauthorized'' 401, c)
         else nxt r c)"

definition cors_headers :: "(string \<times> string) list" where
  "cors_headers =
     [(''Access-Control-Allow-Origin'', ''*''), (''Access-Control-Allow-Methods'', ''GET, PUT, POST, OPTIONS''),
      (''Access-Control-Allow-Headers'', ''Authorization, Content-Type'')]"

definition corsMiddleware :: "'c http_handler \<Rightarrow> 'c http_handler" where
  "corsMiddleware nxt r c =
     (if prefix ''/api/'' (hr_Path r) then
        (if hr_Method r = ''OPTIONS'' then (\<lparr>hp_Status = 204, hp_Headers = cors_headers, hp_Body = []\<rparr>, c)
         else (let (rsp, c1) = nxt r c in (with_headers cors_headers rsp, c1)))
      else nxt r c)"

text \<open>The mux of the server; the static files are a parameter, as \<open>http.FileServer\<close> is library code.\<close>

definition server_mux ::
  "'c Controller \<Rightarrow> logs \<Rightarrow> ('c \<Rightarrow> string) \<Rightarrow> (http_request \<Rightarrow> http_response) option \<Rightarrow> 'c http_handler" where
  "server_mux h lo getToken webFS r c =
     (if must_redirect r then (redirect (cleanPath (hr_Path r)), c)
      else if prefix ''/api/'' (hr_Path r) then authMiddleware getToken (newAPIMux h lo) r c
      else if hr_Path r = ''/api'' then (redirect ''/api/'', c)
      else case webFS of None \<Rightarrow> (not_found, c) | Some serve \<Rightarrow> (serve r, c))"

definition NewServer ::
  "'c Controller \<Rightarrow> logs \<Rightarrow> ('c \<Rightarrow> string) \<Rightarrow> (http_request \<Rightarrow> http_response) option \<Rightarrow> 'c http_handler" where
  "NewServer h lo getToken webFS = corsMiddleware (server_mux h lo getToken webFS)"

definition NewControlServer :: "'c Controller \<Rightarrow> logs \<Rightarrow> 'c http_handler" where
  "NewControlServer h lo = newAPIMux h lo"

section \<open>The controller of the daemon\<close>

definition service_controller :: "'w env \<Rightarrow> 'w service Controller" where
  "service_controller e =
     \<lparr>ct_Status = \<lambda>s. (Inr (Service_Status s), s), ct_Health = Service_Health e, ct_Up = Up e, ct_Down = Down e,
      ct_Restart = Restart e, ct_GetConfigDocument = GetConfigDocument,
      ct_UpdateConfigDocument = \<lambda>d. UpdateConfigDocument e (Some d)\<rparr>"

definition log_access :: "OS \<Rightarrow> read_env \<Rightarrow> fs \<Rightarrow> log_state \<Rightarrow> logs" where
  "log_access os rd s l = \<lparr>lo_Tail = Tail os rd s l, lo_Path = Path l\<rparr>"

end
