(* ===== verification/ApiFacts.thy ===== *)
theory ApiFacts
  imports Api ServiceUpdates
begin

text \<open>
  What the HTTP interface guarantees: an interface of controllers, the lemmas that hold over every
  controller that has it, and its interpretation on the service.
\<close>

section \<open>Responses\<close>

lemma hp_Status_simps [simp]:
  "hp_Status (with_headers hs rsp) = hp_Status rsp" "hp_Status (http_error msg code) = code"
  "hp_Status (writeJSON code v) = code" "hp_Status status_ok = 200" "hp_Status (redirect url) = 301"
  "hp_Status not_found = 404" "hp_Status (method_not_allowed ms) = 405"
  by (simp_all add: with_headers_def http_error_def writeJSON_def status_ok_def redirect_def not_found_def
      method_not_allowed_def)

lemma hp_Status_writeControlError: "hp_Status (writeControlError err) = (if as_validation_error err = None then 500 else 400)"
  by (simp add: writeControlError_def split: option.split)

lemma find_route:
  assumes "find (\<lambda>(m, p, rt). p = path \<and> serves_method m meth) api_routes = Some (m, p, rt)"
  shows "(m, path, rt) \<in> set api_routes \<and> serves_method m meth"
  using find_SomeD [OF assms] by auto

text \<open>Every request to the control server is answered by the mux or by one handler.\<close>

lemma newAPIMux_cases:
  obtains (mux) rsp where "newAPIMux h lo r c = (rsp, c)"
  | (handler) m rt where "newAPIMux h lo r c = serve_route h lo rt r c" "(m, hr_Path r, rt) \<in> set api_routes"
      "serves_method m (hr_Method r)"
proof (cases "must_redirect r")
  case True
  then show thesis using mux by (simp add: newAPIMux_def)
next
  case False
  show thesis
  proof (cases "find (\<lambda>(m, p, rt). p = hr_Path r \<and> serves_method m (hr_Method r)) api_routes")
    case None
    then show thesis using mux False by (simp add: newAPIMux_def)
  next
    case (Some route)
    obtain m p rt where "route = (m, p, rt)" by (rule prod_cases3)
    then show thesis using handler [of rt m] find_route [of "hr_Path r" "hr_Method r" m p rt] False Some
      by (simp add: newAPIMux_def)
  qed
qed

text \<open>The server answers by itself, leaving the state, or passes an authorized request to the mux.\<close>

lemma NewServer_cases:
  obtains (itself) rsp where "NewServer h lo getToken webFS r c = (rsp, c)"
  | (passed) "NewServer h lo getToken webFS r c =
       (with_headers cors_headers (fst (newAPIMux h lo r c)), snd (newAPIMux h lo r c))"
      "prefix ''/api/'' (hr_Path r)" "getToken c = [] \<or> hr_Authorization r = ''Bearer '' @ getToken c"
proof (cases "prefix ''/api/'' (hr_Path r)")
  case False
  then have "\<exists>rsp. NewServer h lo getToken webFS r c = (rsp, c)"
    by (auto simp: NewServer_def corsMiddleware_def server_mux_def split: option.split)
  then show thesis using itself by blast
next
  case True
  show thesis
  proof (cases "hr_Method r = ''OPTIONS'' \<or> must_redirect r \<or> getToken c \<noteq> [] \<and> hr_Authorization r \<noteq> ''Bearer '' @ getToken c")
    case own: True
    then have "\<exists>rsp. NewServer h lo getToken webFS r c = (rsp, c)"
      using True by (auto simp: NewServer_def corsMiddleware_def server_mux_def authMiddleware_def Let_def)
    then show thesis using itself by blast
  next
    case False
    then show thesis using passed True
      by (auto simp: NewServer_def corsMiddleware_def server_mux_def authMiddleware_def Let_def split: prod.splits)
  qed
qed

section \<open>Controllers\<close>

text \<open>
  The contract of a controller over what a client can observe of its configuration: reading and
  reconciling keep it, and so does a command that reports an error.
\<close>

locale controller =
  fixes h :: "'c Controller" and desired :: "'c \<Rightarrow> 'd"
  assumes Status_reads: "snd (ct_Status h c) = c"
    and Health_keeps: "desired (snd (ct_Health h c)) = desired c"
    and Restart_keeps: "desired (snd (ct_Restart h c)) = desired c"
    and Up_rejected: "fst (ct_Up h c) \<noteq> None \<Longrightarrow> desired (snd (ct_Up h c)) = desired c"
    and Down_rejected: "fst (ct_Down h c) \<noteq> None \<Longrightarrow> desired (snd (ct_Down h c)) = desired c"
    and Update_rejected:
      "fst (ct_UpdateConfigDocument h d c) \<noteq> None \<Longrightarrow> desired (snd (ct_UpdateConfigDocument h d c)) = desired c"
begin

lemma command_failed:
  assumes "\<And>c. fst (fn c) \<noteq> None \<Longrightarrow> desired (snd (fn c)) = desired c" "400 \<le> hp_Status (fst (handleTunnelCommand fn c))"
  shows "desired (snd (handleTunnelCommand fn c)) = desired c"
proof (cases "fn c")
  case (Pair err c1)
  then show ?thesis using assms(1) [of c] assms(2) by (cases err) (simp_all add: handleTunnelCommand_def)
qed

lemma reading_keeps:
  "desired (snd (HandleGetStatus h c)) = desired c" "desired (snd (HandleGetHealth h c)) = desired c"
  "desired (snd (HandleGetConfig h c)) = desired c" "desired (snd (HandleTunnelRestart h c)) = desired c"
  using Status_reads [of c] Health_keeps [of c] Restart_keeps [of c]
  by (auto simp: HandleGetStatus_def HandleGetHealth_def HandleGetConfig_def HandleTunnelRestart_def handleTunnelCommand_def
      split: prod.splits sum.splits option.splits)

lemma update_failed:
  assumes "400 \<le> hp_Status (fst (HandleUpdateConfig h r c))"
  shows "desired (snd (HandleUpdateConfig h r c)) = desired c"
proof (cases "hr_Body r")
  case (Inl x)
  then show ?thesis by (simp add: HandleUpdateConfig_def)
next
  case body: (Inr body)
  show ?thesis
  proof (cases "ParseUpdateDocument body (Some (ct_GetConfigDocument h c))")
    case (Inl x)
    then show ?thesis using body by (simp add: HandleUpdateConfig_def)
  next
    case (Inr d)
    obtain err c1 where u: "ct_UpdateConfigDocument h d c = (err, c1)" by (rule prod.exhaust)
    then show ?thesis using Update_rejected [of d c] assms body Inr
      by (cases err) (simp_all add: HandleUpdateConfig_def)
  qed
qed

text \<open>A response that reports an error leaves the configuration; so does a request that is neither a PUT nor a POST.\<close>

lemma route_failed:
  assumes "400 \<le> hp_Status (fst (serve_route h lo rt r c))"
  shows "desired (snd (serve_route h lo rt r c)) = desired c"
  using assms reading_keeps update_failed [of r c] command_failed [OF Up_rejected] command_failed [OF Down_rejected]
  by (cases rt) (simp_all add: HandleTunnelUp_def HandleTunnelDown_def)

lemma mux_failed:
  assumes "400 \<le> hp_Status (fst (newAPIMux h lo r c))"
  shows "desired (snd (newAPIMux h lo r c)) = desired c"
proof (cases rule: newAPIMux_cases [of h lo r c])
  case (mux rsp)
  then show ?thesis by simp
next
  case (handler m rt)
  then show ?thesis using assms route_failed [of lo rt r c] by simp
qed

lemma mux_reading:
  assumes "hr_Method r \<noteq> ''PUT''" "hr_Method r \<noteq> ''POST''"
  shows "desired (snd (newAPIMux h lo r c)) = desired c"
proof (cases rule: newAPIMux_cases [of h lo r c])
  case (mux rsp)
  then show ?thesis by simp
next
  case (handler m rt)
  then show ?thesis using assms reading_keeps
    by (auto simp: api_routes_def serves_method_def)
qed

lemma server_failed:
  assumes "400 \<le> hp_Status (fst (NewServer h lo getToken webFS r c))"
  shows "desired (snd (NewServer h lo getToken webFS r c)) = desired c"
  by (cases rule: NewServer_cases [of h lo getToken webFS r c]) (use assms mux_failed [of lo r c] in simp_all)

lemma server_reading:
  assumes "hr_Method r \<noteq> ''PUT''" "hr_Method r \<noteq> ''POST''"
  shows "desired (snd (NewServer h lo getToken webFS r c)) = desired c"
  by (cases rule: NewServer_cases [of h lo getToken webFS r c]) (use mux_reading [OF assms] in simp_all)

end

text \<open>The service is such a controller, for its document and its configuration up to the copying of slices.\<close>

definition desired_view :: "'w service \<Rightarrow> Document \<times> Config" where
  "desired_view s = (Document_Clone (sv_document s), Config_Clone (sv_config s))"

lemma desired_view_same: "same_desired s t \<Longrightarrow> desired_view t = desired_view s"
  by (simp add: same_desired_def desired_view_def)

lemma update_rejected_view: "fst (UpdateConfigDocument e (Some d) s) \<noteq> None \<Longrightarrow>
    desired_view (snd (UpdateConfigDocument e (Some d) s)) = desired_view s"
  using update_rejected_parts [of e d s "the (fst (UpdateConfigDocument e (Some d) s))" "snd (UpdateConfigDocument e (Some d) s)"]
  by (cases "UpdateConfigDocument e (Some d) s") (auto simp: desired_view_def)

interpretation daemon: controller "service_controller (system_env r now os ra)" desired_view for r now os ra
proof
  fix s :: "'a machine service" and d
  let ?e = "system_env r now os ra" and ?h = "service_controller (system_env r now os ra)"
  show "snd (ct_Status ?h s) = s" by (simp add: service_controller_def)
  obtain res t where run: "runHealthCheck ?e False s = (res, t)" by (rule prod.exhaust)
  then show "desired_view (snd (ct_Health ?h s)) = desired_view s"
    using runHealthCheck_observing [OF run, of r]
    by (auto simp: service_controller_def Service_Health_def status_only_def intro: desired_view_same)
  obtain err u where rec: "reconcileLocked ?e True s = (err, u)" by (rule prod.exhaust)
  then show "desired_view (snd (ct_Restart ?h s)) = desired_view s"
    using reconcile_settled [OF rec, of r] by (auto simp: service_controller_def Restart_def intro: desired_view_same)
  show "fst (ct_Up ?h s) \<noteq> None \<Longrightarrow> desired_view (snd (ct_Up ?h s)) = desired_view s"
    "fst (ct_Down ?h s) \<noteq> None \<Longrightarrow> desired_view (snd (ct_Down ?h s)) = desired_view s"
    "fst (ct_UpdateConfigDocument ?h d s) \<noteq> None \<Longrightarrow> desired_view (snd (ct_UpdateConfigDocument ?h d s)) = desired_view s"
    by (simp_all add: service_controller_def Up_def Down_def mutateDocument_def update_rejected_view)
qed

section \<open>Updates\<close>

text \<open>A body that parses is a document that the service finds valid.\<close>

lemma parsed_update:
  assumes "ParseUpdateDocument body (Some current) = Inr d"
  shows "normalize d = d \<and> document_valid d"
proof (cases "isProfilesFormat body")
  case True
  then have "parseProfilesDocument body = Inr d" using assms by (simp add: ParseUpdateDocument_def)
  from parsed_profiles [OF this] show ?thesis using document_valid_normalize [of d] by simp
next
  case False
  then have "parseLegacyUpdateDocument body (Some current) = Inr d" using assms by (simp add: ParseUpdateDocument_def)
  from legacy_update_parts(5,6) [OF this] show ?thesis by simp
qed

lemma parsed_requested:
  assumes "normalize d = d" "document_valid d"
  shows "requested d s = Inr d"
proof -
  have "sc_Port (doc_Server d) \<noteq> 0" using assms(2) by (simp add: document_valid_def server_valid_def Let_def)
  then have "preserveDocumentStartupFields (Document_Clone d) x = Document_Clone d" for x
    by (simp add: preserveDocumentStartupFields_def Document_Clone_def)
  moreover have "document_valid (Document_applyDefaults d)" using assms document_valid_normalize [of d] by simp
  ultimately show ?thesis using assms(1) by (simp add: requested_def validated_eq)
qed

lemma put_config:
  assumes "hr_Method req = ''PUT''" "hr_Path req = ''/api/config''"
  shows "newAPIMux h lo req c = HandleUpdateConfig h req c"
proof -
  have "\<not> must_redirect req"
    using assms by (simp add: must_redirect_def cleanPath_def Clean_def Let_def)
  then show ?thesis using assms by (simp add: newAPIMux_def api_routes_def serves_method_def)
qed

section \<open>The log\<close>

lemma Tail_bounded:
  assumes "Tail os rd s l n = Inr lines" "0 < n" shows "int (length (elems lines)) \<le> n"
proof -
  have last: "int (length (elems (last_lines n xs))) \<le> n" for xs
    using assms(2) by (cases xs) (auto simp: last_lines_def)
  show ?thesis
    using assms last by (auto simp: Tail_def tailFile_def split: if_splits option.splits sum.splits)
qed

section \<open>Properties\<close>

text \<open>
  C8: authentication: while a token is set, a request that does not carry it changes nothing,
  whatever its method and path, and if its path is one of the API it is answered with 401 (or, for the
  preflight request of a browser, with 204, or redirected to its clean path).
\<close>

theorem unauthorized_changes_nothing:
  assumes "CurrentToken s \<noteq> []" "hr_Authorization r \<noteq> ''Bearer '' @ CurrentToken s"
  shows "snd (NewServer (service_controller e) lo CurrentToken webFS r s) = s
    \<and> (prefix ''/api/'' (hr_Path r) \<longrightarrow>
         hp_Status (fst (NewServer (service_controller e) lo CurrentToken webFS r s)) =
           (if hr_Method r = ''OPTIONS'' then 204 else if must_redirect r then 301 else 401))"
proof -
  have "snd (NewServer (service_controller e) lo CurrentToken webFS r s) = s"
    by (cases rule: NewServer_cases [of "service_controller e" lo CurrentToken webFS r s]) (use assms in simp_all)
  then show ?thesis
    using assms by (simp add: NewServer_def corsMiddleware_def server_mux_def authMiddleware_def Let_def)
qed

text \<open>
  C7: an error response leaves the configuration: if the server answers with a status of 400 or more, to
  any request, then the document and the configuration of the service are what they were.
\<close>

theorem error_response_keeps_configuration:
  assumes "400 \<le> hp_Status (fst (NewServer (service_controller (system_env r now os ra)) lo getToken webFS req s))"
  shows "desired_view (snd (NewServer (service_controller (system_env r now os ra)) lo getToken webFS req s)) = desired_view s"
  by (rule daemon.server_failed [OF assms])

text \<open>
  Only PUT and POST change the configuration.
\<close>

theorem reading_requests_keep_configuration:
  assumes "hr_Method req \<noteq> ''PUT''" "hr_Method req \<noteq> ''POST''"
  shows "desired_view (snd (NewServer (service_controller (system_env r now os ra)) lo getToken webFS req s)) = desired_view s"
  by (rule daemon.server_reading [OF assms])

text \<open>
  C19: every body that parses is valid: the service accepts the document of a PUT without a change, so
  the response is 200 if the update is applied and saved, and otherwise the error of the dataplane or the
  disk; a body that does not parse, or holds an invalid document, never reaches the service and is answered
  with 400.
\<close>

theorem put_is_validated_first:
  assumes "hr_Method req = ''PUT''" "hr_Path req = ''/api/config''" "hr_Body req = Inr body"
  shows "(case ParseUpdateDocument body (Some (GetConfigDocument s)) of
       Inl err \<Rightarrow> newAPIMux (service_controller e) lo req s = (http_error (''invalid JSON: '' @ Error err) 400, s)
     | Inr d \<Rightarrow> requested d s = Inr d
         \<and> newAPIMux (service_controller e) lo req s =
             (case UpdateConfigDocument e (Some d) s of
                (None, s') \<Rightarrow> (status_ok, s') | (Some err, s') \<Rightarrow> (writeControlError err, s')))"
  using assms parsed_update [of body "GetConfigDocument s"] parsed_requested [of _ s]
  by (auto simp: put_config HandleUpdateConfig_def service_controller_def split: sum.split prod.split option.split)

text \<open>
  C38: the number of log lines is bounded: the handler asks for 200 lines unless the query has a number,
  for at most 2000, and never for none; it answers with no more lines than it asked for, and rejects
  a parameter that is not a positive number.
\<close>

theorem log_request_bounded:
  "case log_limit req of
     None \<Rightarrow> (\<exists>raw. map_of (hr_Query req) ''tail'' = Some raw \<and> raw \<noteq> [] \<and> (\<forall>n. Atoi raw = Some n \<longrightarrow> n \<le> 0))
       \<and> HandleGetLogs lo req = http_error ''invalid tail parameter'' 400
   | Some n \<Rightarrow> 1 \<le> n \<and> n \<le> 2000
       \<and> (case Tail os rd s l n of
            Inl err \<Rightarrow> HandleGetLogs (log_access os rd s l) req = http_error (Error err) 500
          | Inr lines \<Rightarrow> int (length (elems lines)) \<le> n
              \<and> HandleGetLogs (log_access os rd s l) req =
                  writeJSON 200 (JObj [(''lines'', encode_slice JStr (non_nil lines)), (''path'', JStr (Path l))]))"
proof (cases "log_limit req")
  case None
  then show ?thesis by (auto simp: HandleGetLogs_def log_limit_def split: option.splits if_splits)
next
  case (Some n)
  then have n: "1 \<le> n \<and> n \<le> 2000"
    by (auto simp: log_limit_def defaultLogTailLines_def maxLogTailLines_def split: option.splits if_splits)
  then show ?thesis using Some Tail_bounded [of os rd s l n]
    by (auto simp: HandleGetLogs_def log_access_def split: sum.split)
qed

section \<open>Witnesses\<close>

text \<open>Requests to the service of the witnesses, on a host without tools.\<close>

abbreviation request :: "string \<Rightarrow> string \<Rightarrow> string \<Rightarrow> http_request" where
  "request method path auth \<equiv>
     \<lparr>hr_Method = method, hr_Path = path, hr_Query = [], hr_Authorization = auth, hr_Body = Inr []\<rparr>"

abbreviation no_logs :: logs where
  "no_logs \<equiv> \<lparr>lo_Tail = (\<lambda>n. Inr None), lo_Path = []\<rparr>"

abbreviation guarded_service :: "unit machine service" where
  "guarded_service \<equiv> sample_service\<lparr>sv_document := (sv_document sample_service)
     \<lparr>doc_Server := (doc_Server (sv_document sample_service))\<lparr>sc_AuthToken := ''secret''\<rparr>\<rparr>\<rparr>"

theorem unauthorized_changes_nothing_witness:
  "snd (NewServer (service_controller (sample_env broken_host)) no_logs CurrentToken None
         (request ''POST'' ''/api/tunnel/up'' ''Bearer wrong'') guarded_service) = guarded_service"
  using unauthorized_changes_nothing [of guarded_service "request ''POST'' ''/api/tunnel/up'' ''Bearer wrong''"
      "sample_env broken_host" no_logs None]
  by (simp add: CurrentToken_def)

text \<open>An error without a change, and a path that only answers to POST.\<close>

theorem error_response_keeps_configuration_witness:
  "desired_view (snd (NewServer (service_controller (sample_env broken_host)) no_logs CurrentToken None
     (request ''DELETE'' ''/api/config'' []) sample_service)) = desired_view sample_service"
proof -
  have "400 \<le> hp_Status (fst (NewServer (service_controller (sample_env broken_host)) no_logs CurrentToken None
     (request ''DELETE'' ''/api/config'' []) sample_service))"
    by (simp add: NewServer_def corsMiddleware_def server_mux_def authMiddleware_def newAPIMux_def must_redirect_def
        cleanPath_def Clean_def api_routes_def serves_method_def allowed_methods_def Let_def split: prod.split)
  from error_response_keeps_configuration [OF this] show ?thesis .
qed

theorem reading_requests_keep_configuration_witness:
  "desired_view (snd (NewServer (service_controller (sample_env broken_host)) no_logs CurrentToken None
     (request ''GET'' ''/api/health'' []) sample_service)) = desired_view sample_service"
  by (rule reading_requests_keep_configuration) simp_all

theorem put_is_validated_first_witness:
  "newAPIMux (service_controller (sample_env broken_host)) no_logs (request ''PUT'' ''/api/config'' []) sample_service
     = (http_error (''invalid JSON: '' @ Error (wrap ''parse config: '' json_syntax_error)) 400, sample_service)"
proof -
  have "ParseUpdateDocument [] (Some (GetConfigDocument sample_service)) = Inl (wrap ''parse config: '' json_syntax_error)"
    by (simp add: ParseUpdateDocument_def isProfilesFormat_def Unmarshal_def parse_json_def parseLegacyUpdateDocument_def
        parseLegacyConfig_def)
  then show ?thesis
    using put_is_validated_first [where req = "request ''PUT'' ''/api/config'' []"
        and body = "[]" and s = sample_service and e = "sample_env broken_host" and lo = no_logs]
    by simp
qed

text \<open>No log file yet: an empty list, not null.\<close>

theorem log_request_bounded_witness:
  "HandleGetLogs (log_access working_OS reading Map.empty (log_at ''/data/daemon.log'')) (request ''GET'' ''/api/logs'' [])
     = writeJSON 200 (JObj [(''lines'', JArr []), (''path'', JStr ''/data/daemon.log'')])"
proof -
  have "log_limit (request ''GET'' ''/api/logs'' []) = Some 200" by (simp add: log_limit_def defaultLogTailLines_def)
  moreover have "Tail working_OS reading Map.empty (log_at ''/data/daemon.log'') 200 = Inr None"
    by (simp add: Tail_def tailFile_def log_at_def)
  ultimately show ?thesis
    using log_request_bounded [where req = "request ''GET'' ''/api/logs'' []" and os = working_OS and rd = reading
        and s = Map.empty and l = "log_at ''/data/daemon.log''"]
    by (simp add: Path_def log_at_def encode_slice_def)
qed

end
