(* ===== verification/Wire.thy ===== *)
theory Wire
  imports ApiFacts Stores
begin

text \<open>
  Across the wire: what the HTTP interface prints can be parsed again, so a configuration that is read can be
  put back, and the control client sees the status of the service and the errors of its commands.
\<close>

section \<open>Printed responses\<close>

lemma read_Encode:
  assumes "json_ok v" shows "read_value (2 * length (Encode v) + 2) (Encode v) = Some (v, [CHR 0x0A])"
proof -
  have "fuel_value v \<le> 2 * length (Encode v) + 2"
    using fuel_bound(1) [OF assms, of Compact] by (simp add: Encode_def)
  from read_print_json(1) [OF assms this, of "[CHR 0x0A]" Compact] show ?thesis
    by (simp only: Encode_def delimited_simps)
qed

lemma parse_Encode: "json_ok v \<Longrightarrow> parse_json (Encode v) = Inr v"
  using read_Encode [of v] by (simp add: parse_json_def skip_ws_def is_ws_def)

lemma Unmarshal_Encode: "json_ok v \<Longrightarrow> dec v x = Some y \<Longrightarrow> Unmarshal dec (Encode v) x = Inr y"
  by (simp add: Unmarshal_def parse_Encode)

lemma decode_stream_Encode: "json_ok v \<Longrightarrow> dec v x = Some y \<Longrightarrow> decode_stream dec (Encode v) x = Inr y"
  using read_Encode [of v] by (simp add: decode_stream_def)

section \<open>The status\<close>

lemma decode_status:
  "storable_status st \<Longrightarrow> decode_struct status_fields (encode_status st) st0 = Some st"
  by (cases st) (simp add: decode_simps status_fields_def encode_status_def status_members_def storable_status_def)

lemma json_ok_status: "storable_status st \<Longrightarrow> json_ok (encode_status st)"
  by (simp add: encode_status_def status_members_def storable_status_def json_ok_strings)

section \<open>The configuration\<close>

text \<open>A document that prints without loss, its validation errors included.\<close>

definition printable :: "Document \<Rightarrow> bool" where
  "printable d \<longleftrightarrow> storable d \<and> utf8_valid (doc_StorageFormat d)
     \<and> list_all (\<lambda>p. list_all utf8_valid (elems (pr_ValidationErrors p))) (doc_Profiles d)"

lemma decode_pconfig:
  "storable_profile_config c \<Longrightarrow>
     decode_struct profile_config_fields (encode_pconfig c) c0 = Some (rp_Config (raw_of_profile (p\<lparr>pr_Config := c\<rparr>)))"
  by (cases c) (simp add: decode_simps profile_config_fields_def encode_pconfig_def profile_tunnel_fields_def encode_tunnel_def
      raw_of_profile_def Let_def storable_profile_config_def storable_tunnel_def)

lemma decode_profile:
  "storable_profile p \<Longrightarrow> decode_struct profile_fields (encode_profile p) r0 = Some (raw_of_profile p)"
  using decode_pconfig [of "pr_Config p" _ p]
  by (simp add: decode_simps profile_fields_def encode_profile_def storable_profile_def)
    (simp add: raw_of_profile_def Let_def)

lemma decode_list_map:
  assumes "\<And>x old. x \<in> set xs \<Longrightarrow> dec (enc x) old = Some (g x)"
  shows "decode_list zero dec (map enc xs) olds = Some (map g xs)"
  using assms by (induction xs arbitrary: olds) auto

lemma decode_document:
  assumes "storable d"
  shows "decode_struct document_fields (encode_document d) zero_raw_document = Some (buildRawProfileDocument d)"
proof -
  have ps: "decode_slice zero_raw_profile (decode_struct profile_fields) (JArr (map encode_profile (doc_Profiles d))) x
      = Some (Some (map raw_of_profile (doc_Profiles d)))" for x
    using assms by (simp add: decode_slice_def decode_list_map storable_def list_all_iff decode_profile)
  have server: "decode_struct raw_server_fields (encode_server (doc_Server d)) x =
      Some \<lparr>rs_Port = Some (sc_Port (doc_Server d)), rs_WANInterface = sc_WANInterface (doc_Server d),
            rs_AuthToken = sc_AuthToken (doc_Server d)\<rparr>" for x
    using assms by (cases "doc_Server d")
      (simp add: decode_simps raw_server_fields_def encode_server_def storable_def storable_server_def)
  show ?thesis
    by (simp add: decode_simps document_fields_def encode_document_def unless_empty_def ps server)
      (simp add: buildRawProfileDocument_def zero_raw_document_def)
qed

lemma json_ok_profile:
  "storable_profile p \<Longrightarrow> list_all utf8_valid (elems (pr_ValidationErrors p)) \<Longrightarrow> json_ok (encode_profile p)"
  by (auto simp: encode_profile_def encode_pconfig_def storable_profile_def storable_profile_config_def json_ok_strings)

lemma json_ok_api_document: "printable d \<Longrightarrow> json_ok (encode_document d)"
  by (auto simp: encode_document_def unless_empty_def printable_def storable_def list_all_iff json_ok_profile)

lemma decode_probe_api:
  "\<exists>ps. decode_struct probe_fields (encode_document d) zero_probe
     = Some \<lparr>fp_TunnelEnabled = Some (doc_TunnelEnabled d), fp_ActiveProfileID = doc_ActiveProfileID d, fp_Profiles = ps\<rparr>"
  by (simp add: decode_simps probe_fields_def encode_document_def unless_empty_def decode_slice_def zero_probe_def)

text \<open>What is read back from a normalized document: the same one in the profiles format.\<close>

definition put_back :: "Document \<Rightarrow> Document" where
  "put_back n = n\<lparr>doc_StorageFormat := StorageFormatProfiles, doc_Profiles := map drop_flag (doc_Profiles n)\<rparr>"

lemma ParseUpdateDocument_Encode:
  assumes "printable (normalize d)" "document_valid (Document_applyDefaults d)"
  shows "ParseUpdateDocument (Encode (encode_document (normalize d))) current = Inr (put_back (normalize d))"
proof -
  let ?n = "normalize d"
  note ok = json_ok_api_document [OF assms(1)]
  obtain ps where "decode_struct probe_fields (encode_document ?n) zero_probe
     = Some \<lparr>fp_TunnelEnabled = Some (doc_TunnelEnabled ?n), fp_ActiveProfileID = doc_ActiveProfileID ?n, fp_Profiles = ps\<rparr>"
    using decode_probe_api by blast
  then have "isProfilesFormat (Encode (encode_document ?n))"
    by (simp add: isProfilesFormat_def Unmarshal_Encode [OF ok])
  moreover have "Unmarshal (decode_struct document_fields) (Encode (encode_document ?n)) zero_raw_document
      = Inr (buildRawProfileDocument ?n)"
    using assms(1) by (intro Unmarshal_Encode ok decode_document) (simp add: printable_def)
  ultimately show ?thesis
    using parse_built [OF _ assms(2)] by (simp add: ParseUpdateDocument_def put_back_def)
qed

lemma put_back_config: "ActiveConfig (Some (put_back n)) = ActiveConfig (Some n)"
  by (simp add: ActiveConfig_def ActiveProfile_def put_back_def find_map comp_def option.map_comp drop_flag_def
      Profile_clone_def ProfileConfig_clone_def split: option.split)

lemma GetConfigDocument_normalize: "GetConfigDocument s = normalize (sv_document s)"
  by (simp add: GetConfigDocument_def Document_Validate_def)

section \<open>The control socket\<close>

text \<open>What the control server of a service answers a request, and what it does.\<close>

definition over_socket :: "'c Controller \<Rightarrow> logs \<Rightarrow> Request \<Rightarrow> 'c \<Rightarrow> Response res \<times> 'c" where
  "over_socket h lo req c =
     (let (rsp, c1) = NewControlServer h lo
            \<lparr>hr_Method = rq_Method req, hr_Path = drop (length unixBaseURL) (rq_URL req), hr_Query = [],
             hr_Authorization = rq_Authorization req, hr_Body = Inr (rq_Body req)\<rparr> c
      in (Inr \<lparr>rsp_StatusCode = hp_Status rsp, rsp_Body = Inr (hp_Body rsp)\<rparr>, c1))"

text \<open>
  \<open>Do\<close> of an \<open>http.Client\<close> when the only server is the control server at a socket, and it takes \<open>took\<close>
  nanoseconds to answer: an answer that is not complete in the time the client allows is the error \<open>late\<close>, but the
  server handles the request all the same, since its handlers do not look at the connection.
\<close>

definition socket_do :: "'c Controller \<Rightarrow> logs \<Rightarrow> string \<Rightarrow> nat \<Rightarrow> goerr \<Rightarrow> 'c http_do" where
  "socket_do h lo path took late client req c =
     (case client of
        NewHTTPClient (UnixSocket p dial) timeout \<Rightarrow>
          (if p = path
           then (let (answer, c1) = over_socket h lo req c
                 in (if timeout = 0 \<or> took < timeout then answer else Inl late, c1))
           else (Inl (ErrorString ''connect: no such file or directory''), c))
      | _ \<Rightarrow> (Inl (ErrorString ''connect: connection refused''), c))"

definition socket_client :: "string \<Rightarrow> Client" where
  "socket_client path = NewClient \<lparr>cc_BaseURL = [], cc_SocketPath = path, cc_Token = [], cc_HTTPClient = False\<rparr>"

abbreviation any_url :: "string \<Rightarrow> goerr option" where "any_url \<equiv> (\<lambda>url. None)"

lemma socket_client_simps:
  assumes "path \<noteq> []"
  shows "cl_baseURL (socket_client path) = unixBaseURL" "cl_token (socket_client path) = []"
    "cl_httpClient (socket_client path) = NewHTTPClient (UnixSocket path clientTimeout) clientTimeout"
  using assms by (simp_all add: socket_client_def NewClient_def trim_slashes_def)

lemma socket_do_request:
  assumes "path \<noteq> []"
    "newAPIMux h lo \<lparr>hr_Method = method, hr_Path = p, hr_Query = [], hr_Authorization = [], hr_Body = Inr []\<rparr> c = (rsp, c1)"
  shows "socket_do h lo path took late (cl_httpClient (socket_client path)) (request_for (socket_client path) method p) c =
    (if took < clientTimeout then Inr \<lparr>rsp_StatusCode = hp_Status rsp, rsp_Body = Inr (hp_Body rsp)\<rparr> else Inl late, c1)"
  using socket_client_simps [OF assms(1)] assms(2)
  by (simp add: socket_do_def over_socket_def request_for_def NewControlServer_def clientTimeout_def)

lemma clean_routes: "(m, p, rt) \<in> set api_routes \<Longrightarrow> cleanPath p = p"
  unfolding api_routes_def list.set insert_iff empty_iff prod.inject
  by (elim disjE conjE; simp add: cleanPath_def Clean_def)

lemma find_routes:
  "(m, p, rt) \<in> set api_routes \<Longrightarrow>
     find (\<lambda>(m', p', rt'). p' = p \<and> serves_method m' m) api_routes = Some (m, p, rt)"
  unfolding api_routes_def list.set insert_iff empty_iff prod.inject
  by (elim disjE conjE; simp add: serves_method_def)

lemma api_route:
  assumes "(m, p, rt) \<in> set api_routes" "hr_Method r = m" "hr_Path r = p"
  shows "newAPIMux h lo r c = serve_route h lo rt r c"
  using clean_routes [OF assms(1)] find_routes [OF assms(1)] assms(2,3)
  by (simp add: newAPIMux_def must_redirect_def)

lemma api_request:
  assumes "(m, p, rt) \<in> set api_routes"
  shows "newAPIMux h lo \<lparr>hr_Method = m, hr_Path = p, hr_Query = q, hr_Authorization = a, hr_Body = b\<rparr> c
    = serve_route h lo rt \<lparr>hr_Method = m, hr_Path = p, hr_Query = q, hr_Authorization = a, hr_Body = b\<rparr> c"
  by (rule api_route [OF assms]) simp_all

text \<open>The error a client reports for the error of a command.\<close>

definition client_error :: "goerr \<Rightarrow> goerr" where
  "client_error err =
     ErrorString (''request failed with status '' @
       (case as_validation_error err of
          Some reasons \<Rightarrow> ''400: '' @ TrimSpace (Join reasons ''; '' @ [nl])
        | None \<Rightarrow> ''500: '' @ TrimSpace (Error err @ [nl])))"

lemma Itoa_codes: "Itoa 400 = ''400''" "Itoa 500 = ''500''"
  by (simp_all add: Itoa_def nat_dec.simps digit_char_def char_of_eq_iff)

text \<open>What the client makes of an answer: only one in time counts.\<close>

definition in_time :: "nat \<Rightarrow> goerr \<Rightarrow> 'a option res \<Rightarrow> 'a option res" where
  "in_time took late answer = (if took < clientTimeout then answer else Inl (wrap ''perform request: '' late))"

lemma command_over_socket:
  assumes "path \<noteq> []" "(''POST'', p, rt) \<in> set api_routes"
    "serve_route h lo rt \<lparr>hr_Method = ''POST'', hr_Path = p, hr_Query = [], hr_Authorization = [], hr_Body = Inr []\<rparr> c
      = handleTunnelCommand fn c"
  shows "requestJSON any_url (socket_do h lo path took late) (socket_client path) ''POST'' p
      (None :: (Status decoder \<times> Status) option) c
    = (in_time took late (case fst (fn c) of None \<Rightarrow> Inr None | Some err \<Rightarrow> Inl (client_error err)), snd (fn c))"
proof -
  obtain r c1 where fn: "fn c = (r, c1)" by (rule prod.exhaust)
  obtain rsp c2 where rsp: "handleTunnelCommand fn c = (rsp, c2)" by (rule prod.exhaust)
  have c2: "c2 = c1" using rsp fn by (cases r) (auto simp: handleTunnelCommand_def)
  have mux: "newAPIMux h lo \<lparr>hr_Method = ''POST'', hr_Path = p, hr_Query = [], hr_Authorization = [], hr_Body = Inr []\<rparr> c = (rsp, c2)"
    using api_request [OF assms(2), of h lo "[]" "[]" "Inr []" c] assms(3) rsp by (simp only:)
  show ?thesis
    unfolding requestJSON_def Let_def socket_do_request [OF assms(1) mux] using rsp c2
    by (cases r) (auto simp: in_time_def fn handleTunnelCommand_def client_error_def writeControlError_def http_error_def
        status_ok_def writeJSON_def Itoa_codes split: option.splits)
qed

lemma status_over_socket:
  assumes "path \<noteq> []" "(''GET'', p, rt) \<in> set api_routes"
    "serve_route h lo rt \<lparr>hr_Method = ''GET'', hr_Path = p, hr_Query = [], hr_Authorization = [], hr_Body = Inr []\<rparr> c
      = (writeJSON 200 (encode_status st), c1)" "storable_status st"
  shows "requestJSON any_url (socket_do h lo path took late) (socket_client path) ''GET'' p status_target c
    = (in_time took late (Inr (Some st)), c1)"
proof -
  have mux: "newAPIMux h lo \<lparr>hr_Method = ''GET'', hr_Path = p, hr_Query = [], hr_Authorization = [], hr_Body = Inr []\<rparr> c
      = (writeJSON 200 (encode_status st), c1)"
    using api_request [OF assms(2), of h lo "[]" "[]" "Inr []" c] assms(3) by (simp only:)
  show ?thesis
    unfolding requestJSON_def Let_def socket_do_request [OF assms(1) mux]
    using decode_stream_Encode [OF json_ok_status [OF assms(4)], of "decode_struct status_fields"] decode_status [OF assms(4)]
    by (simp add: writeJSON_def status_target_def in_time_def)
qed

text \<open>The calls of the client over the control socket: each answers what the operation of the service answers.\<close>

lemma client_over_socket:
  assumes "path \<noteq> []"
  shows "storable_status (Service_Status s) \<Longrightarrow>
      Client_Status any_url (socket_do (service_controller e) lo path took late) (socket_client path) s
        = (in_time took late (Inr (Some (Service_Status s))), s)"
    "Service_Health e s = (Inr st, s') \<Longrightarrow> storable_status st \<Longrightarrow>
      Client_Health any_url (socket_do (service_controller e) lo path took late) (socket_client path) s
        = (in_time took late (Inr (Some st)), s')"
  unfolding Client_Status_def Client_Health_def
  using status_over_socket [OF assms, of "''/api/status''" GetStatus "service_controller e" lo s "Service_Status s" s]
    status_over_socket [OF assms, of "''/api/health''" GetHealth "service_controller e" lo s st s']
  by (simp_all add: api_routes_def HandleGetStatus_def HandleGetHealth_def service_controller_def)

lemma commands_over_socket:
  assumes "path \<noteq> []"
  shows "Client_Up any_url (socket_do (service_controller e) lo path took late) (socket_client path) s =
        (in_time took late (case fst (Up e s) of None \<Rightarrow> Inr None | Some err \<Rightarrow> Inl (client_error err)), snd (Up e s))"
    "Client_Down any_url (socket_do (service_controller e) lo path took late) (socket_client path) s =
        (in_time took late (case fst (Down e s) of None \<Rightarrow> Inr None | Some err \<Rightarrow> Inl (client_error err)), snd (Down e s))"
    "Client_Restart any_url (socket_do (service_controller e) lo path took late) (socket_client path) s =
        (in_time took late (case fst (Restart e s) of None \<Rightarrow> Inr None | Some err \<Rightarrow> Inl (client_error err)), snd (Restart e s))"
  using command_over_socket [OF assms, of "''/api/tunnel/up''" TunnelUp "service_controller e" lo s "Up e"]
    command_over_socket [OF assms, of "''/api/tunnel/down''" TunnelDown "service_controller e" lo s "Down e"]
    command_over_socket [OF assms, of "''/api/tunnel/restart''" TunnelRestart "service_controller e" lo s "Restart e"]
  by (simp_all add: Client_Up_def Client_Down_def Client_Restart_def api_routes_def HandleTunnelUp_def HandleTunnelDown_def
      HandleTunnelRestart_def service_controller_def)

section \<open>Properties\<close>

text \<open>
  C18: a configuration that is read can be put back: the body that \<open>GET /api/config\<close> returns is accepted
  by \<open>PUT /api/config\<close>, and gives the document of the service with the same active configuration,
  whatever the document of the service is by then.
\<close>

theorem get_then_put:
  assumes "printable (GetConfigDocument s)" "document_valid (GetConfigDocument s)"
  shows "hp_Body (fst (HandleGetConfig (service_controller e) s)) = Encode (encode_document (GetConfigDocument s))
    \<and> ParseUpdateDocument (hp_Body (fst (HandleGetConfig (service_controller e) s))) current = Inr (put_back (GetConfigDocument s))
    \<and> ActiveConfig (Some (put_back (GetConfigDocument s))) = ActiveConfig (Some (GetConfigDocument s))"
proof -
  have "document_valid (Document_applyDefaults (sv_document s))" "printable (normalize (sv_document s))"
    using assms by (simp_all add: GetConfigDocument_normalize)
  then show ?thesis
    using ParseUpdateDocument_Encode put_back_config
    by (simp add: GetConfigDocument_normalize HandleGetConfig_def service_controller_def writeJSON_def)
qed

lemma sample_errors:
  "list_all utf8_valid (validateProfileConfig (pr_Config sample_profile) True)"
  "list_all utf8_valid (validateProfileConfig (pr_Config draft_profile) True)"
proof -
  have "validateProfileConfig (pr_Config sample_profile) True = []"
    using sample_profile_valid by (simp add: profile_reasons_Nil)
  then show "list_all utf8_valid (validateProfileConfig (pr_Config sample_profile) True)" by simp
  show "list_all utf8_valid (validateProfileConfig (pr_Config draft_profile) True)"
    by (simp add: validateProfileConfig_def draft_profile_def DefaultProfileConfig_def Defaults_def Let_def
        ProfileConfig_applyDefaults_def default_tunnel_def default_lan_def default_health_def normalizeBroker_def
        isSupportedBroker_iff supportedBrokers_def health_reasons_def lan_reasons_def endpoint_reasons_def go_const trim_eval)
qed

text \<open>For the document of the witnesses.\<close>

theorem get_then_put_witness:
  "ParseUpdateDocument (hp_Body (fst (HandleGetConfig (service_controller (sample_env broken_host)) sample_service))) None
     = Inr (put_back (GetConfigDocument sample_service))"
proof -
  have doc: "GetConfigDocument sample_service = normalize sample_document"
    by (simp add: GetConfigDocument_normalize sample_service_def service_on_def)
  have "storable (normalize sample_document)" by (rule storable_normalize [OF sample_storable])
  moreover have "document_valid (normalize sample_document)" using sample_valid by (simp add: sample_defaults)
  moreover have "utf8_valid (doc_StorageFormat (normalize sample_document))"
    by (simp add: normalize_def sample_defaults refreshProfileValidation_def) (simp add: sample_document_def go_const)
  moreover have "list_all (\<lambda>p. list_all utf8_valid (elems (pr_ValidationErrors p))) (doc_Profiles (normalize sample_document))"
  proof -
    have "doc_Profiles (normalize sample_document) = map (refresh_profile sample_document) [draft_profile, sample_profile]"
      by (simp add: normalize_def sample_defaults refreshProfileValidation_def) (simp add: sample_document_def)
    moreover have "doc_TunnelEnabled sample_document" by (simp add: sample_document_def)
    ultimately show ?thesis using sample_errors by (simp add: refresh_profile_def Let_def)
  qed
  ultimately have "printable (GetConfigDocument sample_service)" "document_valid (GetConfigDocument sample_service)"
    by (simp_all add: doc printable_def)
  from get_then_put [OF this, of "sample_env broken_host" None] show ?thesis by (elim conjE)
qed

end
