(* ===== verification/Daemon.thy ===== *)
theory Daemon
  imports Wire
begin

text \<open>
  \<open>cmd/server/main.go\<close>: the command line, the start of the daemon and the control command. The functions say
  how the process ends and what it has set up; serving the two listeners is library code over the handlers of \<open>Api\<close>.
\<close>

section \<open>The command line\<close>

text \<open>\<open>flagSet.Parse\<close> for the one flag \<open>-config\<close>: its value and the arguments that remain.\<close>

datatype flags = Parsed string "string list" | BadFlags | HelpFlag

definition split_flag :: "string \<Rightarrow> string \<times> string option" where
  "split_flag name =
     (let key = hd name # takeWhile (\<lambda>c. c \<noteq> CHR ''='') (tl name); rest = dropWhile (\<lambda>c. c \<noteq> CHR ''='') (tl name)
      in (key, if rest = [] then None else Some (tl rest)))"

fun parse_flags :: "string \<Rightarrow> string list \<Rightarrow> flags" where
  "parse_flags config [] = Parsed config []"
| "parse_flags config (s # args) =
     (if length s < 2 \<or> hd s \<noteq> CHR ''-'' then Parsed config (s # args)
      else if s = ''--'' then Parsed config args
      else (let name = (if s ! 1 = CHR ''-'' then drop 2 s else drop 1 s)
            in if name = [] \<or> hd name = CHR ''-'' \<or> hd name = CHR ''='' then BadFlags
               else (case split_flag name of (key, value) \<Rightarrow>
                  (if key \<noteq> ''config'' then (if key = ''help'' \<or> key = ''h'' then HelpFlag else BadFlags)
                   else (case value of
                           Some v \<Rightarrow> parse_flags v args
                         | None \<Rightarrow> (case args of [] \<Rightarrow> BadFlags | v # rest \<Rightarrow> parse_flags v rest))))))"

text \<open>\<open>os.Args\<close> has the name of the program as its first element.\<close>

definition executableDir :: "string list \<Rightarrow> string" where
  "executableDir osArgs = Dir (hd osArgs)"

definition firstArgument :: "string list \<Rightarrow> string" where
  "firstArgument osArgs = (if length osArgs < 2 then [] else osArgs ! 1)"

definition config_path :: "string list \<Rightarrow> string \<Rightarrow> string" where
  "config_path osArgs flag = (if flag = [] then JoinPath [executableDir osArgs, ''config.json''] else flag)"

definition socket_path :: "string \<Rightarrow> string" where
  "socket_path configPath = JoinPath [Dir configPath, ''daemon.sock'']"

text \<open>\<open>filepath.Base\<close>.\<close>

definition Base :: "string \<Rightarrow> string" where
  "Base p =
     (if p = [] then ''.''
      else (let q = rev (dropWhile (\<lambda>c. c = CHR ''/'') (rev p)) in if q = [] then ''/'' else after_last_slash q))"

section \<open>The control command\<close>

text \<open>How a process ends: its exit status, and what it printed or the message it died with.\<close>

datatype exit = Exit nat string

definition log_Fatal :: "string \<Rightarrow> exit" where
  "log_Fatal msg = Exit 1 msg"

definition printJSON :: "json \<Rightarrow> string" where
  "printJSON v = EncodeIndent v"

definition status_exit :: "Status option res \<Rightarrow> exit" where
  "status_exit res =
     (case res of
        Inl err \<Rightarrow> log_Fatal (Error err)
      | Inr st \<Rightarrow> Exit 0 (case st of None \<Rightarrow> [] | Some x \<Rightarrow> printJSON (encode_status x)))"

definition command_exit :: "Status option res \<Rightarrow> exit" where
  "command_exit res = (case res of Inl err \<Rightarrow> log_Fatal (Error err) | Inr x \<Rightarrow> Exit 0 [])"

definition runCtl ::
  "(string \<Rightarrow> goerr option) \<Rightarrow> 's http_do \<Rightarrow> string list \<Rightarrow> string list \<Rightarrow> 's \<Rightarrow> exit \<times> 's" where
  "runCtl nr dr osArgs args s =
     (case parse_flags [] args of
        HelpFlag \<Rightarrow> (Exit 0 [], s)
      | BadFlags \<Rightarrow> (Exit 2 [], s)
      | Parsed flag [] \<Rightarrow> (log_Fatal (''usage: '' @ Base (hd osArgs) @ '' ctl {status|up|down|restart|health}''), s)
      | Parsed flag (command # rest) \<Rightarrow>
          (let client = NewClient \<lparr>cc_BaseURL = [], cc_SocketPath = socket_path (config_path osArgs flag),
                                   cc_Token = [], cc_HTTPClient = False\<rparr>
           in if command = ''status'' then apfst status_exit (Client_Status nr dr client s)
              else if command = ''health'' then apfst status_exit (Client_Health nr dr client s)
              else if command = ''up'' then apfst command_exit (Client_Up nr dr client s)
              else if command = ''down'' then apfst command_exit (Client_Down nr dr client s)
              else if command = ''restart'' then apfst command_exit (Client_Restart nr dr client s)
              else (log_Fatal (''unknown ctl command '' @ Quote command), s)))"

section \<open>The control socket\<close>

text \<open>
  \<open>net.Listen\<close> creates the socket with the mode the umask leaves; \<open>listener.Close\<close> removes it again. As for
  \<open>WriteAtomically\<close>, the result has every state of the files.
\<close>

definition listen_at :: "OS \<Rightarrow> (string \<Rightarrow> goerr option) \<Rightarrow> int \<Rightarrow> string \<Rightarrow> fs \<Rightarrow> goerr option \<times> fs list" where
  "listen_at os listen mode path s =
     (case listen path of
        Some err \<Rightarrow> (Some err, [s])
      | None \<Rightarrow>
          (let s1 = s(path \<mapsto> \<lparr>f_data = [], f_mode = mode\<rparr>)
           in case sys_Chmod os path of
                Some err \<Rightarrow> (Some err, [s1, s1(path := None)])
              | None \<Rightarrow> (None, [s1, s(path \<mapsto> \<lparr>f_data = [], f_mode = 0x180\<rparr>)])))"

definition listenUnixSocket ::
  "OS \<Rightarrow> (string \<Rightarrow> goerr option) \<Rightarrow> int \<Rightarrow> string \<Rightarrow> fs \<Rightarrow> goerr option \<times> fs list" where
  "listenUnixSocket os listen mode path s =
     (case sys_MkdirAll os (Dir path) of
        Some err \<Rightarrow> (Some err, [s])
      | None \<Rightarrow>
          (case (if s path = None then Some (not_exist ''remove'' path) else sys_Remove os path) of
             Some err \<Rightarrow>
               (if is_not_exist err then (let (res, ss) = listen_at os listen mode path s in (res, s # ss))
                else (Some err, [s]))
           | None \<Rightarrow> (let (res, ss) = listen_at os listen mode path (s(path := None)) in (res, s # s(path := None) # ss))))"

section \<open>The daemon\<close>

text \<open>What is set up when both servers listen.\<close>

record 'w daemon =
  dm_service :: "'w service"
  dm_log :: log_state
  dm_socket :: string
  dm_addr :: string
  dm_files :: fs

text \<open>
  \<open>os.Exit\<close> and \<open>log.Fatalf\<close> end the process without the deferred calls, with the service as it is then.
  An environment \<open>e\<close> serves the calls of the service, and \<open>os\<close> those before and after its start.
\<close>

datatype 'w start =
    Died nat "'w service option" fs
  | Serving "'w daemon"

definition runServe ::
  "OS \<Rightarrow> (string \<Rightarrow> goerr option) \<Rightarrow> int \<Rightarrow> 'w env \<Rightarrow> 'w \<Rightarrow> ndp \<Rightarrow> string list \<Rightarrow> string list \<Rightarrow> fs \<Rightarrow> 'w start" where
  "runServe os listen mode e backend w osArgs args s0 =
     (case parse_flags [] args of
        HelpFlag \<Rightarrow> Died 0 None s0
      | BadFlags \<Rightarrow> Died 2 None s0
      | Parsed flag rest \<Rightarrow>
          (let configPath = config_path osArgs flag;
               statePath = JoinPath [executableDir osArgs, ''state.json'']
           in case Init os (Dir configPath) \<lparr>lg_currentPath = [], lg_currentFile = None, lg_default = None\<rparr> s0 of
                (Some err, l, ss) \<Rightarrow> Died 1 None (last ss)
              | (None, l, ss) \<Rightarrow>
                  (case NewService os configPath statePath backend w (last ss) of
                     (Inl err, ss1) \<Rightarrow> Died 1 None (last ss1)
                   | (Inr service, ss1) \<Rightarrow>
                       (let started = snd (Start e service)
                        in case listenUnixSocket os listen mode (socket_path configPath) (current_fs started) of
                             (Some err, ss2) \<Rightarrow> Died 1 (Some started) (last ss2)
                           | (None, ss2) \<Rightarrow>
                               Serving \<lparr>dm_service = started, dm_log = l, dm_socket = socket_path configPath,
                                        dm_addr = ''0.0.0.0:'' @ Itoa (sc_Port (cfg_Server (GetConfig started))),
                                        dm_files = last ss2\<rparr>))))"

text \<open>\<open>main\<close>: the process is the control command or the daemon.\<close>

definition main_command :: "string list \<Rightarrow> bool \<times> string list" where
  "main_command osArgs =
     (if firstArgument osArgs = ''ctl'' then (True, drop 2 osArgs)
      else if firstArgument osArgs = ''serve'' then (False, drop 2 osArgs)
      else (False, drop 1 osArgs))"

end
