(* ===== verification/DaemonFacts.thy ===== *)
theory DaemonFacts
  imports Daemon
begin

text \<open>
  What holds of the whole program: the control socket is private, the control command and the daemon meet at it, and
  the daemon starts on an empty disk.
\<close>

section \<open>Paths\<close>

lemma Clean_not_empty [simp]: "Clean p \<noteq> []"
  by (simp add: Clean_def Let_def)

lemma socket_path_not_empty [simp]: "socket_path c \<noteq> []"
proof (cases "Dir c = []")
  case True
  then show ?thesis by (simp add: socket_path_def JoinPath_def)
next
  case False
  then show ?thesis by (simp add: socket_path_def JoinPath_def Let_def)
qed

section \<open>The control socket\<close>

lemma listen_at_parts:
  assumes "listen_at os listen mode path s = (err, ss)" "s path = None"
  shows "ss \<noteq> [] \<and> (\<forall>t \<in> set ss. \<forall>q. q \<noteq> path \<longrightarrow> t q = s q)
    \<and> last ss path = (if err = None then Some \<lparr>f_data = [], f_mode = 0x180\<rparr> else None)"
  using assms by (auto simp: listen_at_def Let_def split: option.splits)

section \<open>The control command\<close>

lemma runCtl_command:
  assumes "parse_flags [] args = Parsed flag (command # rest)" "path = socket_path (config_path osArgs flag)"
  shows "command = ''up'' \<Longrightarrow> runCtl nr dr osArgs args s = apfst command_exit (Client_Up nr dr (socket_client path) s)"
    "command = ''down'' \<Longrightarrow> runCtl nr dr osArgs args s = apfst command_exit (Client_Down nr dr (socket_client path) s)"
    "command = ''restart'' \<Longrightarrow> runCtl nr dr osArgs args s = apfst command_exit (Client_Restart nr dr (socket_client path) s)"
    "command = ''status'' \<Longrightarrow> runCtl nr dr osArgs args s = apfst status_exit (Client_Status nr dr (socket_client path) s)"
    "command = ''health'' \<Longrightarrow> runCtl nr dr osArgs args s = apfst status_exit (Client_Health nr dr (socket_client path) s)"
  using assms by (simp_all add: runCtl_def socket_client_def Let_def)

text \<open>How a command ends, by the answer of the daemon and the time it took.\<close>

lemma exit_in_time:
  "command_exit (in_time took late (case err of None \<Rightarrow> Inr None | Some x \<Rightarrow> Inl (client_error x))) =
     (if took < clientTimeout then (case err of None \<Rightarrow> Exit 0 [] | Some x \<Rightarrow> Exit 1 (Error (client_error x)))
      else Exit 1 (Error (wrap ''perform request: '' late)))"
  "status_exit (in_time took late (Inr (Some st))) =
     (if took < clientTimeout then Exit 0 (EncodeIndent (encode_status st))
      else Exit 1 (Error (wrap ''perform request: '' late)))"
  by (simp_all add: in_time_def command_exit_def status_exit_def log_Fatal_def printJSON_def split: option.split)

lemma serving_socket:
  assumes "runServe os listen mode e backend w osArgs args s0 = Serving d" "parse_flags [] args = Parsed flag rest"
  shows "dm_socket d = socket_path (config_path osArgs flag)"
  using assms by (auto simp: runServe_def Let_def split: prod.splits option.splits sum.splits)

section \<open>The first start\<close>

lemma Itoa_9086: "Itoa 9086 = ''9086''"
  by (simp add: Itoa_def nat_dec.simps digit_char_def char_of_eq_iff)

text \<open>An operating system on which nothing fails.\<close>

definition healthy_OS :: "OS \<Rightarrow> bool" where
  "healthy_OS os \<longleftrightarrow> temp_sane os \<and> works os
     \<and> (\<forall>p. sys_MkdirAll os p = None \<and> sys_Open os p = None \<and> sys_Chmod os p = None \<and> sys_Remove os p = None)"

lemma Defaults_valid: "Config_Validate (Some Defaults) = None"
proof -
  have "config_valid Defaults"
    by (simp add: config_valid_def profile_valid_def Defaults_def profile_part_def server_valid_def lan_valid_def health_valid_def
        endpoint_valid_def Let_def go_const normalizeBroker_def supportedBrokers_def ProfileConfig_applyDefaults_def
        default_tunnel_def default_lan_def default_health_def trim_eval parse_eval)
  then show ?thesis by (simp add: Config_Validate_ok)
qed

lemma fresh_NewService:
  assumes "healthy_OS os" "plain_name statePath" "c \<noteq> []" "statePath \<noteq> []" "c \<noteq> statePath" "s c = None" "s statePath = None"
  obtains ss where "NewService os c statePath backend w s =
    (Inr \<lparr>sv_configPath = c, sv_statePath = statePath, sv_document = DocumentFromConfig (Some Defaults) StorageFormatLegacy,
          sv_config = Defaults, sv_state = DefaultState, sv_advertiser = None, sv_backend = backend, sv_ndp = w,
          sv_disks = rev ss, sv_calls = 0\<rparr>, ss)" "ss \<noteq> []"
proof -
  obtain ss err where sv: "Save os c (Some Defaults) s = (ss, err)" by (rule prod.exhaust)
  have w: "one_write os c s (Save os c (Some Defaults) s)"
    by (auto simp: Save_def Let_def intro: one_write_failed one_write_written split: option.split)
  have "err = None"
    using sv assms(1) Defaults_valid by (auto simp: Save_def Let_def written_def healthy_OS_def works_def)
  have ne: "ss \<noteq> []" using one_write_nonempty [OF w] sv by simp
  have "last ss statePath = None"
    using one_write_elsewhere [OF w _ assms(2), of "last ss"] assms(1,5,7) sv ne by (auto simp: healthy_OS_def)
  then have st: "LoadState os (last ss) statePath = Inr DefaultState"
    by (simp add: LoadState_def ReadFile_def not_exist_def)
  have "LoadDocument os s c = Inl (wrap ''read config: '' (not_exist ''open'' c))"
    using assms(6) by (simp add: LoadDocument_def ReadFile_def)
  then have "loadOrCreateConfigDocument os c s = (Inr (DocumentFromConfig (Some Defaults) StorageFormatLegacy, Defaults), ss)"
    using sv \<open>err = None\<close> by (simp add: loadOrCreateConfigDocument_def wrap_def not_exist_def)
  then show thesis using that [of ss] st ne assms(3,4) by (simp add: NewService_def)
qed

lemma healthy_listen:
  assumes "listenUnixSocket os listen mode path s = (res, ss)" "healthy_OS os" "\<And>p. listen p = None"
  shows "res = None"
  using assms by (auto simp: listenUnixSocket_def listen_at_def healthy_OS_def not_exist_def Let_def split: prod.splits if_splits)

text \<open>The paths of a data directory: configuration, state and log.\<close>

definition fresh_paths :: "string list \<Rightarrow> string \<Rightarrow> fs \<Rightarrow> bool" where
  "fresh_paths osArgs flag s \<longleftrightarrow>
     (let c = config_path osArgs flag; st = JoinPath [executableDir osArgs, ''state.json''];
          l = JoinPath [Dir c, LogFileName]
      in c \<noteq> [] \<and> st \<noteq> [] \<and> plain_name st \<and> distinct [c, st, l] \<and> s c = None \<and> s st = None \<and> s l = None)"

lemma last_two: "last [a, b] = b"
  by simp

lemma runServe_serving:
  assumes "parse_flags [] args = Parsed flag rest"
    "Init os (Dir (config_path osArgs flag)) \<lparr>lg_currentPath = [], lg_currentFile = None, lg_default = None\<rparr> s0 = (None, l, ss)"
    "NewService os (config_path osArgs flag) (JoinPath [executableDir osArgs, ''state.json'']) backend w (last ss) = (Inr service, ss1)"
    "snd (Start e service) = t"
    "listenUnixSocket os listen mode (socket_path (config_path osArgs flag)) (current_fs t) = (None, ss2)"
  shows "runServe os listen mode e backend w osArgs args s0 = Serving
      \<lparr>dm_service = t, dm_log = l, dm_socket = socket_path (config_path osArgs flag),
       dm_addr = ''0.0.0.0:'' @ Itoa (sc_Port (cfg_Server (GetConfig t))), dm_files = last ss2\<rparr>"
  using assms by (simp add: runServe_def Let_def)

lemma first_start:
  assumes "parse_flags [] args = Parsed flag rest" "healthy_OS os" "\<And>p. listen p = None" "fresh_paths osArgs flag s0"
    "working_env (system_env r now oss ra)"
  obtains d where "runServe os listen mode (system_env r now oss ra) \<lparr>m_world = w, m_trace = []\<rparr> ndp osArgs args s0 = Serving d"
    "sv_document (dm_service d) = DocumentFromConfig (Some Defaults) StorageFormatLegacy"
    "sv_config (dm_service d) = Defaults" "settled Defaults emptyAppliedState (dm_service d)"
    "\<exists>es. m_trace (sv_backend (dm_service d)) = map Cmd (teardown_commands emptyAppliedState) @ es \<and> list_all reading_event es"
    "dm_addr d = ''0.0.0.0:'' @ Itoa (sc_Port (cfg_Server Defaults))"
proof -
  let ?e = "system_env r now oss ra" and ?c = "config_path osArgs flag"
  let ?st = "JoinPath [executableDir osArgs, ''state.json'']" and ?l = "JoinPath [Dir (config_path osArgs flag), LogFileName]"
  let ?s1 = "s0(?l \<mapsto> \<lparr>f_data = [], f_mode = 0x1A4\<rparr>)"
  have p: "?c \<noteq> []" "?st \<noteq> []" "plain_name ?st" "?c \<noteq> ?st" "?s1 ?c = None" "?s1 ?st = None" "s0 ?l = None"
    using assms(4) by (auto simp: fresh_paths_def Let_def)
  have init: "Init os (Dir ?c) l0 s0 = (None, log_at ?l, [s0, ?s1])" for l0
    using assms(2) p(7) by (simp add: Init_def rotateIfLarge_def open_append_def healthy_OS_def log_at_def Let_def)
  obtain ss where new: "NewService os ?c ?st \<lparr>m_world = w, m_trace = []\<rparr> ndp ?s1 =
    (Inr \<lparr>sv_configPath = ?c, sv_statePath = ?st, sv_document = DocumentFromConfig (Some Defaults) StorageFormatLegacy,
          sv_config = Defaults, sv_state = DefaultState, sv_advertiser = None, sv_backend = \<lparr>m_world = w, m_trace = []\<rparr>, sv_ndp = ndp,
          sv_disks = rev ss, sv_calls = 0\<rparr>, ss)" (is "_ = (Inr ?sv, ss)")
    using assms(2) p(3,1,2,4-6) by (rule fresh_NewService)
  obtain err t where start: "reconcileLocked ?e False ?sv = (err, t)" by (rule prod.exhaust)
  have off: "\<not> tc_Enabled (cfg_Tunnel (sv_config ?sv))" by (simp add: Defaults_def)
  have trace: "\<exists>es. m_trace (sv_backend t) = map Cmd (teardown_commands emptyAppliedState) @ es \<and> list_all reading_event es"
    using idle_reconcile [OF _ assms(5) off start, of r] by (simp add: DefaultState_def)
  have set: "settled Defaults emptyAppliedState t" "same_desired ?sv t"
    using reconcile_settled [OF start, of r] by (simp_all add: DefaultState_def)
  obtain res ss2 where l: "listenUnixSocket os listen mode (socket_path ?c) (current_fs t) = (res, ss2)" by (rule prod.exhaust)
  with healthy_listen [OF l assms(2,3)] have listening: "listenUnixSocket os listen mode (socket_path ?c) (current_fs t) = (None, ss2)" by simp
  have "NewService os ?c ?st \<lparr>m_world = w, m_trace = []\<rparr> ndp (last [s0, ?s1]) = (Inr ?sv, ss)"
    unfolding last_two by (rule new)
  note n = this
  have "snd (Start ?e ?sv) = t" by (simp only: Start_def start snd_conv)
  note serving = runServe_serving [OF assms(1) init n this listening]
  have "sv_document t = DocumentFromConfig (Some Defaults) StorageFormatLegacy" "sv_config t = Defaults"
    using set(2) by (simp_all add: same_desired_def)
  then show thesis using that [OF serving] trace set(1) by (simp add: GetConfig_def)
qed

section \<open>Properties\<close>

text \<open>
  C23: the control socket is private: if listening succeeds, the socket is there with mode 0600, whatever file was
  there before; if it fails, either nothing has changed or no socket is left; and no other file is touched.
\<close>

theorem control_socket_private:
  assumes "listenUnixSocket os listen mode path s = (err, ss)" "\<And>x. sys_Remove os path = Some x \<Longrightarrow> \<not> is_not_exist x"
  shows "(err = None \<longrightarrow> last ss path = Some \<lparr>f_data = [], f_mode = 0x180\<rparr>)
    \<and> (err \<noteq> None \<longrightarrow> last ss = s \<or> last ss path = None)
    \<and> (\<forall>t \<in> set ss. \<forall>q. q \<noteq> path \<longrightarrow> t q = s q)"
proof (cases "sys_MkdirAll os (Dir path)")
  case (Some x)
  then show ?thesis using assms(1) by (auto simp: listenUnixSocket_def)
next
  case mk: None
  show ?thesis
  proof (cases "s path \<noteq> None \<and> sys_Remove os path \<noteq> None")
    case True
    then show ?thesis using assms mk by (auto simp: listenUnixSocket_def)
  next
    case False
    let ?s = "s(path := None)"
    obtain res ts where l: "listen_at os listen mode path ?s = (res, ts)" by (rule prod.exhaust)
    note parts = listen_at_parts [OF l]
    have "?s = s" if "s path = None" using that by auto
    then have "err = res \<and> (ss = s # ts \<or> ss = s # ?s # ts)"
      using assms(1) mk False l by (auto simp: listenUnixSocket_def not_exist_def Let_def split: option.splits if_splits)
    then show ?thesis using parts by auto
  qed
qed

theorem control_socket_private_witness:
  "\<exists>ss. listenUnixSocket working_OS (\<lambda>p. None) 0x1ED ''/data/daemon.sock'' [''/data/daemon.sock'' \<mapsto> \<lparr>f_data = ''x'', f_mode = 0x1A4\<rparr>] = (None, ss)
     \<and> last ss ''/data/daemon.sock'' = Some \<lparr>f_data = [], f_mode = 0x180\<rparr>"
proof -
  let ?s = "[''/data/daemon.sock'' \<mapsto> \<lparr>f_data = ''x'', f_mode = 0x1A4\<rparr>]"
  obtain err ss where l: "listenUnixSocket working_OS (\<lambda>p. None) 0x1ED ''/data/daemon.sock'' ?s = (err, ss)" by (rule prod.exhaust)
  then have "err = None" by (auto simp: listenUnixSocket_def listen_at_def working_OS_def)
  with l control_socket_private [OF l] show ?thesis by (auto simp: working_OS_def)
qed


text \<open>
  C22: the first start: on a data directory without configuration and state, on a disk that works, the daemon comes up
  and serves, with the default configuration written and the tunnel down, whatever the host answers: it has run the
  commands that clear what an earlier daemon could have left, and otherwise commands that only read.
\<close>

theorem first_start_serves:
  assumes "parse_flags [] args = Parsed flag rest" "healthy_OS os" "\<And>p. listen p = None" "fresh_paths osArgs flag s0"
    "working_env (system_env r now oss ra)"
  shows "\<exists>d. runServe os listen mode (system_env r now oss ra) \<lparr>m_world = w, m_trace = []\<rparr> ndp osArgs args s0 = Serving d
    \<and> sv_config (dm_service d) = Defaults \<and> st_ReconcileState (sd_Status (sv_state (dm_service d))) = ReconcileDown
    \<and> sv_advertiser (dm_service d) = None \<and> dm_addr d = ''0.0.0.0:9086''
    \<and> (\<exists>es. m_trace (sv_backend (dm_service d)) = map Cmd (teardown_commands emptyAppliedState) @ es \<and> list_all reading_event es)"
proof -
  obtain d where d: "runServe os listen mode (system_env r now oss ra) \<lparr>m_world = w, m_trace = []\<rparr> ndp osArgs args s0 = Serving d"
    "sv_config (dm_service d) = Defaults" "settled Defaults emptyAppliedState (dm_service d)"
    "\<exists>es. m_trace (sv_backend (dm_service d)) = map Cmd (teardown_commands emptyAppliedState) @ es \<and> list_all reading_event es"
    "dm_addr d = ''0.0.0.0:'' @ Itoa (sc_Port (cfg_Server Defaults))"
    using assms by (rule first_start)
  have "Itoa (sc_Port (cfg_Server Defaults)) = ''9086''"
    by (simp add: Defaults_def defaultPort_def Itoa_9086)
  moreover have "\<not> tc_Enabled (cfg_Tunnel Defaults)" by (simp add: Defaults_def)
  ultimately show ?thesis using d by (auto simp: settled_def Let_def)
qed

section \<open>Witnesses\<close>

text \<open>A daemon in \<open>/data/unifi\<close> on a host without tools, and its control command.\<close>

lemma working_healthy: "healthy_OS working_OS"
proof -
  have "works working_OS" unfolding works_def using working_write by (metis snd_conv)
  then show ?thesis using working_sane by (simp add: healthy_OS_def working_OS_def)
qed

lemma fresh_sample: "fresh_paths [''/data/unifi/daemon'', ''serve''] [] Map.empty"
  by (simp add: fresh_paths_def config_path_def executableDir_def JoinPath_def Dir_def Clean_def upto_last_slash_def
      plain_name_def after_last_slash_def go_const Let_def)

theorem first_start_serves_witness:
  "\<exists>d. runServe working_OS (\<lambda>p. None) 493 (sample_env broken_host) \<lparr>m_world = (), m_trace = []\<rparr> \<lparr>nd_next = 0, nd_open = []\<rparr>
      [''/data/unifi/daemon'', ''serve''] [] Map.empty = Serving d
    \<and> st_ReconcileState (sd_Status (sv_state (dm_service d))) = ReconcileDown"
proof -
  have "parse_flags [] [] = Parsed [] []" by simp
  from first_start_serves [OF this working_healthy _ fresh_sample working_sample_env, where listen = "\<lambda>p. None"
      and mode = 493 and r = broken_host and w = "()" and ndp = "\<lparr>nd_next = 0, nd_open = []\<rparr>"]
  show ?thesis by blast
qed

lemma default_document:
  "doc_TunnelEnabled (DocumentFromConfig (Some Defaults) StorageFormatLegacy) = False"
  "doc_Server (DocumentFromConfig (Some Defaults) StorageFormatLegacy) = cfg_Server Defaults"
  "document_valid (Document_applyDefaults (DocumentFromConfig (Some Defaults) StorageFormatLegacy))"
proof -
  let ?X = "\<lparr>doc_StorageFormat = StorageFormatLegacy, doc_TunnelEnabled = False, doc_ActiveProfileID = defaultProfileID,
    doc_Profiles = [single_profile (stored_config Defaults)], doc_Server = cfg_Server Defaults\<rparr>"
  have off: "tc_Enabled (cfg_Tunnel Defaults) = False" by (simp add: Defaults_def)
  then have D: "DocumentFromConfig (Some Defaults) StorageFormatLegacy = refreshProfileValidation ?X" by simp
  have c: "config_valid Defaults" using Defaults_valid by (simp add: Config_Validate_ok)
  have s: "server_valid (cfg_Server Defaults)" using c by (simp add: config_valid_def)
  have v: "profile_valid (stored_config Defaults) False"
    using c off by (auto simp: config_valid_def profile_valid_def stored_config_def profile_part_def Let_def
        ProfileConfig_applyDefaults_def default_tunnel_def)
  show "doc_TunnelEnabled (DocumentFromConfig (Some Defaults) StorageFormatLegacy) = False"
    "doc_Server (DocumentFromConfig (Some Defaults) StorageFormatLegacy) = cfg_Server Defaults"
    unfolding D by (simp_all add: refreshProfileValidation_def)
  show "document_valid (Document_applyDefaults (DocumentFromConfig (Some Defaults) StorageFormatLegacy))"
    unfolding D using s v default_server_valid [OF s]
    by (simp add: document_valid_def Document_applyDefaults_def refreshProfileValidation_def single_profile_def Let_def
        defaultProfileID_def defaultProfileName_def trim_eval)
qed

lemma default_document_requested:
  assumes "sv_document s = DocumentFromConfig (Some Defaults) StorageFormatLegacy"
  shows "\<exists>d. requested (set_enabled False (document_snapshot s)) s = Inr d"
proof -
  note off = default_document [folded assms]
  have same: "Document_Clone (set_enabled False (document_snapshot s)) = Document_Clone (sv_document s)"
    using off(1) by (cases "sv_document s")
      (simp add: document_snapshot_def set_enabled_def Document_Clone_def Profile_clone_def ProfileConfig_clone_def comp_def)
  have "sc_Port (doc_Server (sv_document s)) \<noteq> 0" using off(2) by (simp add: Defaults_def default_numbers)
  then have "preserveDocumentStartupFields (Document_Clone (sv_document s)) x = Document_Clone (sv_document s)" for x
    by (simp add: preserveDocumentStartupFields_def Document_Clone_def)
  then show ?thesis using off(3) by (simp add: requested_def same validated_eq)
qed


end
