(* ===== verification/Spec2Isabelle.thy ===== *)
theory Spec2Isabelle
  imports Interleaving HealthLoop DaemonFacts
begin

text \<open>
  A verification development of the tunnel controller: a daemon that keeps an IPv6 6in4 tunnel up on
  a router, serves an HTTP API for its configuration and status, and a control command that talks to
  the daemon over a Unix socket. It models the Go program of \<open>src/cmd\<close> and \<open>src/internal\<close>.

  The program and its theories.

  \<^item> \<open>internal/config/config.go\<close> is the configuration: profiles of which one is active, in one JSON file
    with a current and a legacy format. \<open>Config\<close> holds its structs as records, the defaults, deep
    copies, validation with every message, and the operations on documents; \<open>ConfigStore\<close> holds
    parsing, migration, updates and saving. Both formats are decoded from the bytes: \<open>Json\<close> is the
    part of \<open>encoding/json\<close> the code uses (decoding into structs by their field tables, indented and
    compact encoding with HTML escapes), and \<open>Netip\<close> the part of \<open>net/netip\<close> (parsing, printing and
    masking of addresses, on words of 32 and 128 bits).
  \<^item> \<open>internal/fileutil/atomic.go\<close> is \<open>FileUtil\<close>: a file system is a map from paths to files, and a
    write returns the list of the states between its system calls, each of which a crash of the process can
    leave (the code does not sync, so a power failure is not covered). Which
    system call fails, and after how many bytes, is the parameter \<open>OS\<close>.
  \<^item> \<open>internal/tunnel/manager.go\<close> is \<open>Tunnel\<close>: the published status, with its JSON, and the client of the
    API with its timeouts. \<open>internal/control/state.go\<close> is \<open>State\<close>: the observed state kept beside the configuration.
  \<^item> \<open>internal/control/backend.go\<close> is \<open>Backend\<close>: bringing the tunnel up and down, observing and repairing it
    with \<open>ip\<close>, \<open>iptables\<close>, \<open>sysctl\<close> and \<open>ping\<close>. An operation acts on a machine that records every command and
    every sleep; the command runner, a function over a world of any type, is a parameter.
  \<^item> \<open>internal/ra/advertiser.go\<close> is \<open>Advertiser\<close>: the router advertisements and the connections opened for
    them; the loops that send and listen run over the sequence of outcomes of their calls.
  \<^item> \<open>internal/control/service.go\<close> is \<open>Service\<close>, \<open>ServiceRuns\<close> and \<open>HealthLoop\<close>. The record \<open>service\<close> has the fields
    of the struct \<open>Service\<close> and the part of the host it acts on: the backend's world, the open
    connections, and every state of the file system so far. Each definition of \<open>Service\<close> is one
    critical section, from locking to unlocking the mutex, or their composition when nothing
    comes between; \<open>ServiceRuns\<close> has one rule of the relation \<open>act\<close> for each of them, labelled with the call that is made or
    the answer that is given, so that its runs are the
    interleavings of any number of calls with the health loop, and what a call carries
    from one section to its next is a pending task. \<open>HealthLoop\<close> adds the loop itself, a thread with a
    program counter and a timer, and the time.
  \<^item> \<open>internal/logging/logging.go\<close> is \<open>Logging\<close>: opening and rotating the log file, and reading its last lines
    backwards in chunks of 8192 bytes.
  \<^item> \<open>internal/api/handler.go\<close> and \<open>internal/api/server.go\<close> are \<open>Api\<close>: the handlers over any controller, the token
    check, and the routes of the two servers. \<open>Wire\<close> composes the server with the client.
  \<^item> \<open>cmd/server/main.go\<close> is \<open>Daemon\<close>: the command line, the start of the daemon with each of its exits,
    the control socket, and the control command.
  \<^item> \<open>GoStrings\<close> and \<open>Prelude\<close> hold what all of them use: slices and pointers that may be nil, errors with
    the wrapping that \<open>errors.Is\<close> and \<open>errors.As\<close> look through, and the functions of \<open>strings\<close>, \<open>strconv\<close> and
    \<open>path/filepath\<close>. A fallible function returns \<open>'a res\<close>, the error on the left.

  What is shown.

  \<^item> Configuration. Validation decides a declarative specification of documents and profiles
    (\<open>ConfigFacts\<close>); a saved document loads as the same normalized document, a legacy update touches the
    active profile only (\<open>StoreFacts\<close>). \<open>JsonFacts\<close> proves that what is printed is parsed as the same value,
    and \<open>NetipFacts\<close> the round trip of addresses and the equivalence of the prefix operations with masks.
  \<^item> Files. A write leaves the old file or the new one in every crash state (\<open>FileUtil\<close>). The locale
    \<open>file_store\<close> of \<open>Stores\<close> states it for a typed store with its load, and is interpreted on the
    configuration file and on the state file. Starting the log keeps the records of the last run, in the
    log or as its one backup; the backup before that is deleted when the log is rotated (\<open>Logging\<close>).
  \<^item> The host. \<open>BackendFacts\<close> shows which commands each operation can run and \<open>AddressFacts\<close> that repair and
    observation agree; \<open>BackendSpec\<close> states the properties: a reconcile begins with the complete teardown; one that
    succeeds then brings the tunnel up and installs exactly the firewall rules of \<open>firewall_commands\<close>, and one that fails
    runs no firewall command after the teardown; a repair only touches addresses and leaves every managed
    one on its interface, some of them perhaps not usable until duplicate address detection is over.
  \<^item> The service. The locale \<open>dataplane\<close> of \<open>ServiceFacts\<close> is the interface of a backend, interpreted on the
    system backend for every runner. \<open>ServiceSpec\<close> states the outcomes of a reconcile, its advertiser and its
    result included, of a repair and of a health
    check, \<open>ServiceUpdates\<close> that an update is accepted or rejected as a whole, in memory and on disk,
    and \<open>Interleaving\<close> that every run keeps the invariant, that its document is that of a register which the calls
    and answers determine, and which run loses an update.
    \<open>HealthLoop\<close> shows that the loop returns soon after the stop channel is closed and not before, and how often it turns.
  \<^item> The interface. The locale \<open>controller\<close> of \<open>ApiFacts\<close> is what the handlers rely on, interpreted on the
    service; its lemmas carry the properties of requests. \<open>Wire\<close> and \<open>DaemonFacts\<close> close the circle: a configuration that
    is read can be put back, and the control command runs the daemon's operation and reports what it answers in time.

  Bounds and recursion. Integers of Go are kept where they can overflow: the health interval is a word
    of 64 bits, the fields of a router advertisement words of 8 and 32. The reader of
    JSON values takes fuel, and \<open>2 * length s + 2\<close> reads whatever any fuel reads (\<open>json_fuel_enough\<close>);
    the loops over strings and over chunks of the log are proved to end by measures. The health
    loop may run forever and is a step relation, with its end after a stop as a theorem. Times of timers and of
    requests are natural numbers of nanoseconds.

  What is a parameter. Each of these stands for code that is not in the repository: the command runner; the
    faults of the file system (\<open>OS\<close>) with the name of its temporary files; the clock; the network
    interfaces and sockets of \<open>ndp\<close> (\<open>ra_env\<close>); \<open>Do\<close> of the HTTP client, with the time an answer takes; the static file handler;
    what listening and serving return. Hypotheses about them are the named predicates \<open>temp_sane\<close> and \<open>sane_env\<close>
    (a temporary file is a new one), \<open>address_tool\<close> (showing addresses changes nothing, an address that was added is
    listed, perhaps still tentative, and no other address is lost), \<open>reads_pure\<close> (commands that read change
    nothing) and \<open>working_env\<close> (files can be written), and they
    are shown to hold of concrete functions by the witnesses.

  Not modelled.

  \<^item> \<open>web/fs.go\<close>, the page it embeds and the shell scripts: assets, outside the program logic.
  \<^item> \<open>ExecRunner\<close> and the HTTP client and server of the library, which the code only calls.
  \<^item> The records that \<open>slog\<close> prints, which do not change the state; the bodies of redirects;
    the text of the decoding errors of \<open>encoding/json\<close>, of which only the kind is kept, and
    its limit on nesting.
  \<^item> The scheduler: a \<open>select\<close> of the health loop that has a branch ready is taken before time passes, and reading the
    interval and setting the timer is one step.
  \<^item> \<open>Observe\<close> and \<open>Probe\<close> of a health check, which run without the mutex, are one step of a run; and in \<open>Api\<close> a
    request is one step of the controller, so that interleavings are studied in \<open>ServiceRuns\<close> only.
\<close>

end
